(* ===== verification/Prelude.thy ===== *)
theory Prelude
  imports Main "HOL-Library.Word" "HOL-Library.AList"
    "HOL-Library.Multiset"
begin

text \<open>
  What every component of the development shares: the Go integer types, Go maps as association
  lists with pairwise distinct keys, the parts of the Go standard library the program calls on
  strings (package \<open>strings\<close>, \<open>strconv.Atoi\<close>, \<open>strconv.Itoa\<close>), and the lemma collections that
  carry the component proofs.
\<close>

section \<open>Machine integers\<close>

text \<open>Go's sized signed integers; \<open>int\<close> has 64 bits on every platform the program is built for.\<close>

type_synonym int32 = "32 word"
type_synonym int64 = "64 word"

text \<open>The conversion \<open>int64(x)\<close> of an \<open>int32\<close> keeps the signed value.\<close>

definition int64_of_int32 :: "int32 \<Rightarrow> int64" where
  "int64_of_int32 x = scast x"

lemma sint_int64_of_int32 [simp]: "sint (int64_of_int32 x) = sint x"
  unfolding int64_of_int32_def
  by (rule bit_eqI) (auto simp: bit_simps min_def)

text \<open>Signed subtraction is exact when the mathematical difference fits in 64 bits.\<close>

definition fits64 :: "int \<Rightarrow> bool" where
  "fits64 n \<longleftrightarrow> - (2 ^ 63) \<le> n \<and> n < 2 ^ 63"

lemma sint_fits64 [simp]: "fits64 (sint (x :: int64))"
  using sint_range_size [of x] by (simp add: fits64_def word_size)

lemma sint_of_int_fits64: "fits64 n \<Longrightarrow> sint (word_of_int n :: int64) = n"
  unfolding fits64_def by (simp add: int_word_sint)

lemma sint_minus_fits64:
  assumes "fits64 (sint x - sint y)"
  shows "sint (x - y :: int64) = sint x - sint y"
proof -
  have "x - y = word_of_int (sint x - sint y)" by simp
  then show ?thesis using sint_of_int_fits64 [OF assms] by simp
qed

lemma sint_plus_fits64:
  assumes "fits64 (sint x + sint y)"
  shows "sint (x + y :: int64) = sint x + sint y"
proof -
  have "x + y = word_of_int (sint x + sint y)" by simp
  then show ?thesis using sint_of_int_fits64 [OF assms] by simp
qed

section \<open>Go maps\<close>

text \<open>
  A Go map is an association list; inserting replaces the entry of a key that is present, so the
  keys stay pairwise distinct. A range loop visits the entries in an unspecified order: where the
  program ranges over a map, the theorems quantify over the order of the list. A map variable that
  may be nil is an \<open>option\<close> of a map.
\<close>

type_synonym ('k, 'v) gomap = "('k \<times> 'v) list"

abbreviation go_get :: "('k, 'v) gomap \<Rightarrow> 'k \<Rightarrow> 'v option" where
  "go_get m k \<equiv> map_of m k"

abbreviation go_put :: "'k \<Rightarrow> 'v \<Rightarrow> ('k, 'v) gomap \<Rightarrow> ('k, 'v) gomap" where
  "go_put k v m \<equiv> AList.update k v m"

definition go_keys_distinct :: "('k, 'v) gomap \<Rightarrow> bool" where
  "go_keys_distinct m \<longleftrightarrow> distinct (map fst m)"

lemma go_get_put [simp]: "go_get (go_put k v m) k' = (if k' = k then Some v else go_get m k')"
  by (simp add: update_conv')

lemma go_keys_distinct_put [simp]: "go_keys_distinct m \<Longrightarrow> go_keys_distinct (go_put k v m)"
  by (simp add: go_keys_distinct_def distinct_update)

lemma go_keys_distinct_Nil [simp]: "go_keys_distinct []"
  by (simp add: go_keys_distinct_def)

lemma go_get_iff_mem:
  "go_keys_distinct m \<Longrightarrow> go_get m k = Some v \<longleftrightarrow> (k, v) \<in> set m"
  by (simp add: go_keys_distinct_def)

lemma go_get_perm:
  assumes "go_keys_distinct m" and "mset m' = mset m"
  shows "go_get m' = go_get m"
proof -
  from assms(2) have "set m' = set m" by (rule mset_eq_setD)
  moreover have "distinct (map fst m')"
    using assms unfolding go_keys_distinct_def by (metis mset_eq_imp_distinct_iff mset_map)
  ultimately show ?thesis
    using assms(1) map_of_inject_set unfolding go_keys_distinct_def by blast
qed

section \<open>Strings\<close>

text \<open>A Go string is a sequence of bytes.\<close>

definition HasPrefix :: "string \<Rightarrow> string \<Rightarrow> bool" where
  "HasPrefix s prefix \<longleftrightarrow> take (length prefix) s = prefix"

fun Contains :: "string \<Rightarrow> string \<Rightarrow> bool" where
  "Contains [] sub \<longleftrightarrow> sub = []"
| "Contains (c # cs) sub \<longleftrightarrow> HasPrefix (c # cs) sub \<or> Contains cs sub"

fun Join :: "string list \<Rightarrow> string \<Rightarrow> string" where
  "Join [] sep = []"
| "Join [x] sep = x"
| "Join (x # y # xs) sep = x @ sep @ Join (y # xs) sep"

lemma HasPrefix_append [simp]: "HasPrefix (p @ s) p"
  by (simp add: HasPrefix_def)

lemma HasPrefix_extend: "HasPrefix s p \<Longrightarrow> HasPrefix (s @ t) p"
  by (auto simp: HasPrefix_def) (metis length_take min.absorb_iff2 take_append append_Nil2 diff_is_0_eq take_0 min_def)

lemma Contains_Nil [simp]: "Contains s []"
  by (cases s) (simp_all add: HasPrefix_def)

lemma HasPrefix_iff: "HasPrefix s p \<longleftrightarrow> (\<exists>v. s = p @ v)"
  unfolding HasPrefix_def by (metis append_eq_conv_conj append_take_drop_id)

lemma Contains_iff: "Contains s sub \<longleftrightarrow> (\<exists>u v. s = u @ sub @ v)"
proof (induction s)
  case (Cons c cs)
  have "(\<exists>u v. c # cs = u @ sub @ v) \<longleftrightarrow> (\<exists>v. c # cs = sub @ v) \<or> (\<exists>u v. cs = u @ sub @ v)"
    by (metis append_Cons append_Nil list.exhaust list.inject)
  then show ?case using Cons by (simp add: HasPrefix_iff)
qed simp

lemma Contains_Join: "x \<in> set xs \<Longrightarrow> Contains x sub \<Longrightarrow> Contains (Join xs sep) sub"
proof (induction xs sep rule: Join.induct)
  case (3 y z xs sep)
  then show ?case
    by (auto simp: Contains_iff) (metis append.assoc)+
qed simp_all

section \<open>Decimal numbers: strconv.Itoa and strconv.Atoi\<close>

definition digit_char :: "nat \<Rightarrow> char" where
  "digit_char n = char_of (48 + n)"

definition char_digit :: "char \<Rightarrow> nat option" where
  "char_digit c = (let n = of_char c in if 48 \<le> n \<and> n \<le> 57 then Some (n - 48) else None)"

fun show_nat :: "nat \<Rightarrow> string" where
  "show_nat n = (if n < 10 then [digit_char n] else show_nat (n div 10) @ [digit_char (n mod 10)])"

declare show_nat.simps [simp del]

text \<open>\<open>strconv.Itoa(n)\<close>, which is also what \<open>fmt.Sprint(n)\<close> prints for an integer.\<close>

definition Itoa :: "int64 \<Rightarrow> string" where
  "Itoa w = (if sint w < 0 then CHR ''-'' # show_nat (nat (- sint w)) else show_nat (nat (sint w)))"

fun read_digits :: "nat \<Rightarrow> string \<Rightarrow> nat option" where
  "read_digits acc [] = Some acc"
| "read_digits acc (c # cs) =
     (case char_digit c of None \<Rightarrow> None | Some d \<Rightarrow> read_digits (10 * acc + d) cs)"

definition strip_sign :: "string \<Rightarrow> bool \<times> string" where
  "strip_sign s = (case s of [] \<Rightarrow> (False, [])
     | c # cs \<Rightarrow> if c = CHR ''-'' then (True, cs)
                else if c = CHR ''+'' then (False, cs) else (False, s))"

text \<open>
  \<open>strconv.Atoi(s)\<close>: an optional sign, at least one digit and nothing else, within the range of
  \<open>int\<close>. The error value is never inspected by the program beyond \<open>err != nil\<close>, so it is \<open>None\<close>.
\<close>

definition Atoi :: "string \<Rightarrow> int64 option" where
  "Atoi s = (case strip_sign s of (neg, ds) \<Rightarrow>
     if ds = [] then None
     else case read_digits 0 ds of None \<Rightarrow> None
     | Some n \<Rightarrow> let v = (if neg then - int n else int n)
               in if fits64 v then Some (word_of_int v) else None)"

lemma char_digit_digit_char [simp]: "n < 10 \<Longrightarrow> char_digit (digit_char n) = Some n"
  by (simp add: char_digit_def digit_char_def)

lemma char_digit_sign [simp]: "char_digit CHR ''-'' = None" "char_digit CHR ''+'' = None"
  by (simp_all add: char_digit_def)

lemma digit_char_not_sign:
  "n < 10 \<Longrightarrow> digit_char n \<noteq> CHR ''-''" "n < 10 \<Longrightarrow> digit_char n \<noteq> CHR ''+''"
  by (metis char_digit_digit_char char_digit_sign option.distinct(1))+

lemma show_nat_nonempty [simp]: "show_nat n \<noteq> []"
  by (subst show_nat.simps) simp

lemma show_nat_hd: "\<exists>d < 10. hd (show_nat n) = digit_char d"
proof (induction n rule: show_nat.induct)
  case (1 n)
  show ?case by (subst show_nat.simps) (use 1 in auto)
qed

lemma read_digits_append:
  "read_digits acc (xs @ ys) = (case read_digits acc xs of None \<Rightarrow> None | Some a \<Rightarrow> read_digits a ys)"
  by (induction acc xs rule: read_digits.induct) (auto split: option.splits)

lemma read_digits_show_nat: "read_digits 0 (show_nat n) = Some n"
proof (induction n rule: show_nat.induct)
  case (1 n)
  show ?case by (subst show_nat.simps) (use 1 in \<open>auto simp: read_digits_append\<close>)
qed

lemma strip_sign_show_nat: "strip_sign (show_nat n) = (False, show_nat n)"
proof -
  obtain d ds where "show_nat n = digit_char d # ds" "d < 10"
    using show_nat_hd [of n] show_nat_nonempty [of n] by (metis list.collapse)
  then show ?thesis by (simp add: strip_sign_def digit_char_not_sign)
qed

lemma Atoi_Itoa [simp]: "Atoi (Itoa w) = Some w"
proof (cases "sint w < 0")
  case True
  then have "strip_sign (Itoa w) = (True, show_nat (nat (- sint w)))"
    by (simp add: Itoa_def strip_sign_def)
  then show ?thesis using True sint_fits64 [of w]
    by (simp add: Atoi_def read_digits_show_nat Let_def)
next
  case False
  then have "strip_sign (Itoa w) = (False, show_nat (nat (sint w)))"
    by (simp add: Itoa_def strip_sign_show_nat)
  then show ?thesis using False sint_fits64 [of w]
    by (simp add: Atoi_def read_digits_show_nat Let_def)
qed

lemma Atoi_Nil [simp]: "Atoi [] = None"
  by (simp add: Atoi_def strip_sign_def)

text \<open>
  The interface between the writer of a numeric label and its reader: what is written as text is
  read back as the same value, also through a label map.
\<close>

locale text_codec =
  fixes enc :: "'a \<Rightarrow> string" and dec :: "string \<Rightarrow> 'a option"
  assumes dec_enc: "dec (enc v) = Some v"
begin

lemma enc_inject: "enc v = enc w \<longleftrightarrow> v = w"
  by (metis dec_enc option.inject)

lemma read_label: "go_get (go_put k (enc v) m) k = Some t \<Longrightarrow> dec t = Some v"
  by (auto simp: dec_enc)

lemma read_other_label: "k' \<noteq> k \<Longrightarrow> go_get (go_put k (enc v) m) k' = go_get m k'"
  by simp

end

interpretation decimal: text_codec Itoa Atoi
  by unfold_locales simp

section \<open>The order of a range over a map\<close>

text \<open>
  The order in which a range loop visits a map: any order. The numbers say which of the entries that
  are left comes next, so every permutation is the arrangement by some numbers.
\<close>

fun arrange :: "nat list \<Rightarrow> 'a list \<Rightarrow> 'a list" where
  "arrange is [] = []"
| "arrange [] (x # xs) = x # xs"
| "arrange (i # is) (x # xs) =
     (let j = i mod Suc (length xs)
      in (x # xs) ! j # arrange is (take j (x # xs) @ drop (Suc j) (x # xs)))"

lemma mset_arrange [simp]: "mset (arrange is xs) = mset xs"
proof (induction "is" xs rule: arrange.induct)
  case (3 i "is" x xs)
  let ?j = "i mod Suc (length xs)"
  have "?j < length (x # xs)" by simp
  then have "mset (take ?j (x # xs) @ (x # xs) ! ?j # drop (Suc ?j) (x # xs)) = mset (x # xs)"
    by (simp only: id_take_nth_drop [symmetric])
  then show ?case using 3 by (simp add: Let_def)
qed simp_all

lemma set_arrange [simp]: "set (arrange is xs) = set xs"
  by (rule mset_eq_setD) simp

end
