(* ===== verification/Api_Types.thy ===== *)
theory Api_Types
  imports Prelude
begin

text \<open>
  The data the program reads and writes. First the custom resource of
  \<open>api/v1alpha1/hpcjob_types.go\<close>, then the objects of the Kubernetes API, with the fields the
  program uses: a \<open>resource.Quantity\<close> is the number its \<open>Value()\<close> reads, a time is its seconds since
  Go's zero time, and a nil pointer, slice or map is \<open>None\<close> where the program can tell it apart.
\<close>

section \<open>The HPCJob resource (api/v1alpha1/hpcjob_types.go)\<close>

definition NVLINK :: string where "NVLINK = ''nvlink''"
definition SupportedTopologies :: "string list" where "SupportedTopologies = [NVLINK]"

definition Pending :: string where [simp]: "Pending = ''Pending''"
definition Running :: string where [simp]: "Running = ''Running''"
definition Complete :: string where [simp]: "Complete = ''Complete''"
definition Failed :: string where [simp]: "Failed = ''Failed''"
definition SupportedPhases :: "string list" where
  "SupportedPhases = [Pending, Running, Complete, Failed]"

definition Available :: string where "Available = ''Available''"
definition Progressing :: string where "Progressing = ''Progressing''"
definition Degraded :: string where "Degraded = ''Degraded''"
definition SupportedConditions :: "string list" where
  "SupportedConditions = [Available, Progressing, Degraded]"

definition DefaultTopology :: string where "DefaultTopology = ''''"
definition DefaultPhase :: string where "DefaultPhase = Pending"

record SchedulingConstraints =
  Topology :: string

record HPCJobSpec =
  Image :: string
  GPUCount :: int32
  Constraints :: SchedulingConstraints

record Condition =
  condType :: string
  condStatus :: string

record HPCJobStatus =
  Phase :: string
  Conditions :: "Condition list"

record HPCJob =
  jobName :: string
  jobNamespace :: string
  jobResourceVersion :: string
  jobFinalizers :: "string list"
  jobDeletionTimestamp :: "int option"
  jobSpec :: HPCJobSpec
  jobStatus :: HPCJobStatus

text \<open>\<open>GetDeletionTimestamp().IsZero()\<close>: a nil pointer or the zero time.\<close>

definition IsZero :: "int option \<Rightarrow> bool" where
  "IsZero t = (case t of None \<Rightarrow> True | Some s \<Rightarrow> s = 0)"

definition set_phase :: "string \<Rightarrow> HPCJob \<Rightarrow> HPCJob" where
  "set_phase p job = job\<lparr>jobStatus := (jobStatus job)\<lparr>Phase := p\<rparr>\<rparr>"

abbreviation phase_of :: "HPCJob \<Rightarrow> string" where
  "phase_of job \<equiv> Phase (jobStatus job)"

lemma set_phase_simps [simp]:
  "phase_of (set_phase p job) = p"
  "jobName (set_phase p job) = jobName job"
  "jobNamespace (set_phase p job) = jobNamespace job"
  "jobFinalizers (set_phase p job) = jobFinalizers job"
  "jobDeletionTimestamp (set_phase p job) = jobDeletionTimestamp job"
  "jobSpec (set_phase p job) = jobSpec job"
  "jobResourceVersion (set_phase p job) = jobResourceVersion job"
  "Conditions (jobStatus (set_phase p job)) = Conditions (jobStatus job)"
  by (simp_all add: set_phase_def)

lemma set_phase_id: "phase_of job = p \<Longrightarrow> set_phase p job = job"
  by (auto simp: set_phase_def)

text \<open>The group and version the resource is registered under (\<open>groupversion_info.go\<close>).\<close>

record GroupVersionKey =
  apiGroup :: string
  apiVersion :: string

definition GroupVersion :: GroupVersionKey where
  "GroupVersion = \<lparr>apiGroup = ''hpc.nvidia.com'', apiVersion = ''v1alpha1''\<rparr>"

section \<open>Objects of the Kubernetes API\<close>

type_synonym quantity = int64
type_synonym labels = "(string, string) gomap"

text \<open>The values of the API's enumerated strings the program compares with or writes.\<close>

definition PodPending :: string where [simp]: "PodPending = ''Pending''"
definition PodRunning :: string where [simp]: "PodRunning = ''Running''"
definition PodSucceeded :: string where [simp]: "PodSucceeded = ''Succeeded''"
definition PodFailed :: string where [simp]: "PodFailed = ''Failed''"
definition TaintEffectNoSchedule :: string where "TaintEffectNoSchedule = ''NoSchedule''"
definition TolerationOpExists :: string where "TolerationOpExists = ''Exists''"
definition NodeSelectorOpGt :: string where "NodeSelectorOpGt = ''Gt''"
definition RestartPolicyOnFailure :: string where "RestartPolicyOnFailure = ''OnFailure''"
definition PullIfNotPresent :: string where "PullIfNotPresent = ''IfNotPresent''"

record Taint =
  taintKey :: string
  taintValue :: string
  taintEffect :: string

record Toleration =
  tolerationKey :: string
  tolerationOperator :: string
  tolerationEffect :: string

record NodeSelectorRequirement =
  exprKey :: string
  exprOperator :: string
  exprValues :: "string list"

record PreferredSchedulingTerm =
  termWeight :: int32
  termMatchExpressions :: "NodeSelectorRequirement list"

record Container =
  containerName :: string
  containerImage :: string
  containerImagePullPolicy :: string
  containerLimits :: "(string, quantity) gomap"
  containerRequests :: "(string, quantity) gomap"

record Pod =
  podName :: string
  podNamespace :: string
  podRestartPolicy :: string
  podTolerations :: "Toleration list"
  podPreferred :: "PreferredSchedulingTerm list"
  podContainers :: "Container list"
  podPhase :: string

record Node =
  nodeName :: string
  nodeLabels :: "labels option"
  nodeTaints :: "Taint list"
  nodeAllocatable :: "(string, quantity) gomap"
  nodeCapacity :: "(string, quantity) gomap"
  nodeConditions :: "Condition list"

text \<open>\<open>node.Labels[key]\<close>: reading a nil map finds nothing.\<close>

definition node_label :: "Node \<Rightarrow> string \<Rightarrow> string option" where
  "node_label n k = (case nodeLabels n of None \<Rightarrow> None | Some m \<Rightarrow> go_get m k)"

text \<open>The zero value \<open>m[key]\<close> yields for a missing key: an empty string, a zero quantity.\<close>

definition or_empty :: "string option \<Rightarrow> string" where
  "or_empty x = (case x of None \<Rightarrow> '''' | Some s \<Rightarrow> s)"

definition quantity_at :: "(string, quantity) gomap \<Rightarrow> string \<Rightarrow> int64" where
  "quantity_at m k = (case go_get m k of None \<Rightarrow> 0 | Some q \<Rightarrow> q)"

text \<open>
  The strategic merge patch of a node: new labels, and the taints field (\<open>None\<close> is JSON null, what
  a nil slice marshals to).
\<close>

record NodePatch =
  patchLabels :: labels
  patchTaints :: "Taint list option"

text \<open>What a reconcile returns to the work queue: \<open>RequeueAfter\<close>, in nanoseconds.\<close>

record Result =
  RequeueAfter :: int64

end
