(* ===== verification/Env_Config.thy ===== *)
theory Env_Config
  imports Api_Types
begin

text \<open>
  The configuration, \<open>pkg/config/config.go\<close>: four settings, each read from an environment variable
  with a default. The environment is the lookup function \<open>os.LookupEnv\<close>, the home directory (found
  by client-go) is a parameter. \<open>filepath.Join\<close> is modelled with its cleaning of the path.
\<close>

section \<open>path/filepath\<close>

fun Split :: "char \<Rightarrow> string \<Rightarrow> string list" where
  "Split sep [] = [[]]"
| "Split sep (c # cs) =
     (if c = sep then [] # Split sep cs
      else case Split sep cs of [] \<Rightarrow> [[c]] | x # xs \<Rightarrow> (c # x) # xs)"

text \<open>
  The stack of path elements \<open>Clean\<close> keeps, last element first: an empty element and a dot vanish,
  a dot-dot removes the element before it, or stays when there is none and the path is relative.
\<close>

fun clean_step :: "bool \<Rightarrow> string list \<Rightarrow> string \<Rightarrow> string list" where
  "clean_step rooted st el =
     (if el = [] \<or> el = ''.'' then st
      else if el = ''..'' then
        (case st of [] \<Rightarrow> if rooted then [] else [el]
         | x # xs \<Rightarrow> if x = ''..'' then el # st else xs)
      else el # st)"

definition filepath_Clean :: "string \<Rightarrow> string" where
  "filepath_Clean p =
     (let rooted = HasPrefix p ''/'';
          els = rev (foldl (clean_step rooted) [] (Split (CHR ''/'') p))
      in if rooted then CHR ''/'' # Join els ''/''
         else if els = [] then ''.'' else Join els ''/'')"

definition filepath_Join :: "string list \<Rightarrow> string" where
  "filepath_Join els = (case dropWhile (\<lambda>e. e = []) els of [] \<Rightarrow> [] | xs \<Rightarrow> filepath_Clean (Join xs ''/''))"

section \<open>The settings\<close>

definition ENV_PORT :: string where "ENV_PORT = ''PORT''"
definition ENV_LOG_LEVEL :: string where "ENV_LOG_LEVEL = ''LOG_LEVEL''"
definition ENV_KUBECONFIG :: string where "ENV_KUBECONFIG = ''KUBECONFIG''"
definition ENV_PROMETHEUS_ADDRESS :: string where
  "ENV_PROMETHEUS_ADDRESS = ''PROMETHEUS_ADDRESS''"

definition INFO :: string where "INFO = ''info''"
definition DEFAULT_PORT :: string where "DEFAULT_PORT = ''8080''"
definition DEFAULT_LOG_LEVEL :: string where "DEFAULT_LOG_LEVEL = INFO"
definition DEFAULT_PROMETHEUS_ADDRESS :: string where
  "DEFAULT_PROMETHEUS_ADDRESS = ''http://localhost:9090''"

lemmas env_names = ENV_PORT_def ENV_LOG_LEVEL_def ENV_KUBECONFIG_def ENV_PROMETHEUS_ADDRESS_def

record Config =
  Port :: string
  LogLevel :: string
  KubeConfig :: string
  PrometheusAddress :: string

type_synonym environ = "string \<Rightarrow> string option"

definition getEnv :: "environ \<Rightarrow> string \<Rightarrow> string \<Rightarrow> string" where
  "getEnv LookupEnv key fallback = (case LookupEnv key of Some value \<Rightarrow> value | None \<Rightarrow> fallback)"

definition Load :: "environ \<Rightarrow> string \<Rightarrow> Config" where
  "Load LookupEnv HomeDir =
     \<lparr>Port = getEnv LookupEnv ENV_PORT DEFAULT_PORT,
      LogLevel = getEnv LookupEnv ENV_LOG_LEVEL DEFAULT_LOG_LEVEL,
      KubeConfig = getEnv LookupEnv ENV_KUBECONFIG (filepath_Join [HomeDir, ''.kube'', ''config'']),
      PrometheusAddress = getEnv LookupEnv ENV_PROMETHEUS_ADDRESS DEFAULT_PROMETHEUS_ADDRESS\<rparr>"

lemma getEnv_set [simp]: "LookupEnv key = Some v \<Longrightarrow> getEnv LookupEnv key fallback = v"
  and getEnv_unset [simp]: "LookupEnv key = None \<Longrightarrow> getEnv LookupEnv key fallback = fallback"
  by (simp_all add: getEnv_def)

end
