(* ===== verification/Effects.thy ===== *)
theory Effects
  imports Prelude "HOL-Library.State_Monad"
begin

text \<open>
  The program's effects. A Go function that talks to another system (the Kubernetes API server,
  Prometheus) is a state-monad program over the state of the outside world, of an arbitrary type
  \<open>'w\<close>, and a log of the calls made so far, each with the answer it got. The outside world may
  change in any way at each call, which covers the other actors of the cluster.

  \<open>satisfies m Q\<close> says that every run of \<open>m\<close>, in every world, returns a value \<open>r\<close> and appends
  events \<open>es\<close> with \<open>Q r es\<close>; its rules follow the structure of a program, so a property of the
  calls of a handler is proved by introducing the rules of \<open>sat\<close>.
\<close>

record ('w, 'ev) sys =
  world :: 'w
  log :: "'ev list"

type_synonym ('w, 'ev, 'a) prog = "(('w, 'ev) sys, 'a) state"

abbreviation ret :: "'a \<Rightarrow> ('s, 'a) state" where
  "ret \<equiv> State_Monad.return"

text \<open>One call: the world answers and moves on, and the call is logged with its answer.\<close>

definition invoke :: "('w \<Rightarrow> 'r \<times> 'w) \<Rightarrow> ('r \<Rightarrow> 'ev) \<Rightarrow> ('w, 'ev, 'r) prog" where
  "invoke f ev = State (\<lambda>s. case f (world s) of (r, w') \<Rightarrow> (r, \<lparr>world = w', log = log s @ [ev r]\<rparr>))"

definition result :: "('s, 'a) state \<Rightarrow> 's \<Rightarrow> 'a" where
  "result m s = fst (run_state m s)"

definition final :: "('s, 'a) state \<Rightarrow> 's \<Rightarrow> 's" where
  "final m s = snd (run_state m s)"

text \<open>The events a run adds to the log.\<close>

definition emitted :: "('w, 'ev, 'a) prog \<Rightarrow> ('w, 'ev) sys \<Rightarrow> 'ev list" where
  "emitted m s = drop (length (log s)) (log (final m s))"

lemma run_state_invoke [simp]:
  "run_state (invoke f ev) s =
     (fst (f (world s)), \<lparr>world = snd (f (world s)), log = log s @ [ev (fst (f (world s)))]\<rparr>)"
  by (simp add: invoke_def split: prod.splits)

lemma result_return [simp]: "result (ret x) s = x"
  and final_return [simp]: "final (ret x) s = s"
  by (simp_all add: result_def final_def)

lemma result_bind [simp]: "result (State_Monad.bind m f) s = result (f (result m s)) (final m s)"
  and final_bind [simp]: "final (State_Monad.bind m f) s = final (f (result m s)) (final m s)"
  by (simp_all add: result_def final_def split: prod.splits)

lemma result_invoke [simp]: "result (invoke f ev) s = fst (f (world s))"
  and final_invoke [simp]: "final (invoke f ev) s =
    \<lparr>world = snd (f (world s)), log = log s @ [ev (fst (f (world s)))]\<rparr>"
  by (simp_all add: result_def final_def)

section \<open>Reasoning about all runs\<close>

named_theorems sat "rules that split a program into its calls"

definition satisfies :: "('w, 'ev, 'a) prog \<Rightarrow> ('a \<Rightarrow> 'ev list \<Rightarrow> bool) \<Rightarrow> bool" where
  "satisfies m Q \<longleftrightarrow> (\<forall>s. \<exists>es. log (final m s) = log s @ es \<and> Q (result m s) es)"

lemma satisfiesI:
  "(\<And>s. \<exists>es. log (final m s) = log s @ es \<and> Q (result m s) es) \<Longrightarrow> satisfies m Q"
  by (simp add: satisfies_def)

lemma satisfiesD: "satisfies m Q \<Longrightarrow> Q (result m s) (emitted m s)"
  by (auto simp: satisfies_def emitted_def dest!: spec [where x = s])

lemma satisfies_log: "satisfies m Q \<Longrightarrow> log (final m s) = log s @ emitted m s"
  by (auto simp: satisfies_def emitted_def dest!: spec [where x = s])

lemma satisfies_mono: "satisfies m P \<Longrightarrow> (\<And>r es. P r es \<Longrightarrow> Q r es) \<Longrightarrow> satisfies m Q"
  unfolding satisfies_def by blast

lemma satisfies_conj: "satisfies m P \<Longrightarrow> satisfies m Q \<Longrightarrow> satisfies m (\<lambda>r es. P r es \<and> Q r es)"
  unfolding satisfies_def by (metis same_append_eq)

lemma sat_return [sat]: "Q x [] \<Longrightarrow> satisfies (ret x) Q"
  by (simp add: satisfies_def)

lemma sat_bind:
  assumes "satisfies m (\<lambda>x es. satisfies (f x) (\<lambda>y es'. Q y (es @ es')))"
  shows "satisfies (State_Monad.bind m f) Q"
proof (rule satisfiesI)
  fix s
  from assms obtain es where es: "log (final m s) = log s @ es"
    and f: "satisfies (f (result m s)) (\<lambda>y es'. Q y (es @ es'))"
    unfolding satisfies_def by blast
  from f obtain es' where "log (final (f (result m s)) (final m s)) = log (final m s) @ es'"
    and "Q (result (f (result m s)) (final m s)) (es @ es')"
    unfolding satisfies_def by blast
  with es show "\<exists>es. log (final (State_Monad.bind m f) s) = log s @ es \<and> Q (result (State_Monad.bind m f) s) es"
    by auto
qed

text \<open>The rule used most: a fact \<open>P\<close> about the first part, then the rest under that fact.\<close>

lemma sat_seq:
  assumes "satisfies m P"
    and "\<And>x es. P x es \<Longrightarrow> satisfies (f x) (\<lambda>y es'. Q y (es @ es'))"
  shows "satisfies (State_Monad.bind m f) Q"
  by (rule sat_bind) (rule satisfies_mono [OF assms(1)], rule assms(2))

lemma sat_invoke [sat]: "(\<And>r. Q r [ev r]) \<Longrightarrow> satisfies (invoke f ev) Q"
  by (auto simp: satisfies_def)

lemma sat_if [sat]:
  "(b \<Longrightarrow> satisfies m Q) \<Longrightarrow> (\<not> b \<Longrightarrow> satisfies n Q) \<Longrightarrow> satisfies (if b then m else n) Q"
  by simp

lemma sat_sum [sat]:
  "(\<And>e. x = Inl e \<Longrightarrow> satisfies (f e) Q) \<Longrightarrow> (\<And>r. x = Inr r \<Longrightarrow> satisfies (g r) Q) \<Longrightarrow>
   satisfies (case x of Inl e \<Rightarrow> f e | Inr r \<Rightarrow> g r) Q"
  by (cases x) simp_all

lemma sat_option [sat]:
  "(x = None \<Longrightarrow> satisfies m Q) \<Longrightarrow> (\<And>y. x = Some y \<Longrightarrow> satisfies (f y) Q) \<Longrightarrow>
   satisfies (case x of None \<Rightarrow> m | Some y \<Rightarrow> f y) Q"
  by (cases x) simp_all

lemma sat_prod [sat]:
  "(\<And>a b. x = (a, b) \<Longrightarrow> satisfies (f a b) Q) \<Longrightarrow> satisfies (case x of (a, b) \<Rightarrow> f a b) Q"
  by (cases x) simp

lemma sat_let [sat]: "(\<And>y. y = x \<Longrightarrow> satisfies (f y) Q) \<Longrightarrow> satisfies (let y = x in f y) Q"
  by simp

lemma emitted_bind_invoke:
  assumes "satisfies (g (fst (f (world s)))) P"
  shows "emitted (State_Monad.bind (invoke f ev) g) s =
    ev (fst (f (world s))) # emitted (g (fst (f (world s)))) (final (invoke f ev) s)"
proof -
  obtain es where "log (final (g (fst (f (world s)))) (final (invoke f ev) s)) = log (final (invoke f ev) s) @ es"
    using assms unfolding satisfies_def by blast
  then show ?thesis by (simp add: emitted_def)
qed

text \<open>All the calls of a program satisfy a predicate.\<close>

definition emits :: "('ev \<Rightarrow> bool) \<Rightarrow> ('w, 'ev, 'a) prog \<Rightarrow> bool" where
  "emits P m \<longleftrightarrow> satisfies m (\<lambda>_ es. \<forall>e \<in> set es. P e)"

lemma emitsD: "emits P m \<Longrightarrow> e \<in> set (emitted m s) \<Longrightarrow> P e"
  unfolding emits_def by (drule satisfiesD [where s = s]) blast

named_theorems emit "rules that split a program for a property of its calls"

lemma emits_mono: "emits P m \<Longrightarrow> (\<And>e. P e \<Longrightarrow> Q e) \<Longrightarrow> emits Q m"
  unfolding emits_def by (erule satisfies_mono) blast

lemma emits_return [emit]: "emits P (ret x)"
  by (simp add: emits_def satisfies_def)

lemma emits_bind [emit]:
  assumes "emits P m" and "\<And>x. emits P (f x)"
  shows "emits P (State_Monad.bind m f)"
  unfolding emits_def
proof (rule sat_seq)
  show "satisfies m (\<lambda>_ es. \<forall>e \<in> set es. P e)" using assms(1) by (simp add: emits_def)
  fix x es
  assume "\<forall>e \<in> set es. P e"
  then show "satisfies (f x) (\<lambda>_ es'. \<forall>e \<in> set (es @ es'). P e)"
    by (intro satisfies_mono [OF assms(2) [unfolded emits_def]]) auto
qed

lemma emits_invoke [emit]: "(\<And>r. P (ev r)) \<Longrightarrow> emits P (invoke f ev)"
  by (simp add: emits_def sat_invoke)

lemma emits_if [emit]: "(b \<Longrightarrow> emits P m) \<Longrightarrow> (\<not> b \<Longrightarrow> emits P n) \<Longrightarrow> emits P (if b then m else n)"
  by simp

lemma emits_sum [emit]:
  "(\<And>e. x = Inl e \<Longrightarrow> emits P (f e)) \<Longrightarrow> (\<And>r. x = Inr r \<Longrightarrow> emits P (g r)) \<Longrightarrow>
   emits P (case x of Inl e \<Rightarrow> f e | Inr r \<Rightarrow> g r)"
  by (cases x) simp_all

lemma emits_option [emit]:
  "(x = None \<Longrightarrow> emits P m) \<Longrightarrow> (\<And>y. x = Some y \<Longrightarrow> emits P (f y)) \<Longrightarrow>
   emits P (case x of None \<Rightarrow> m | Some y \<Rightarrow> f y)"
  by (cases x) simp_all

lemma emits_prod [emit]:
  "(\<And>a b. x = (a, b) \<Longrightarrow> emits P (f a b)) \<Longrightarrow> emits P (case x of (a, b) \<Rightarrow> f a b)"
  by (cases x) simp

lemma emits_let [emit]: "(\<And>y. y = x \<Longrightarrow> emits P (f y)) \<Longrightarrow> emits P (let y = x in f y)"
  by simp

end
