(* ===== verification/Go_Float.thy ===== *)
theory Go_Float
  imports Complex_Main "HOL-Library.Log_Nat" "HOL-Library.Word"
begin

text \<open>
  Go's floating-point numbers. A finite value is the rational it stands for; the sign of a zero,
  which no comparison sees, is left out. The comparisons are those of IEEE 754: every one of them is
  false as soon as a NaN is involved. The conversion to \<open>float32\<close> rounds to the nearest value with a
  24-bit significand, ties to even, with gradual underflow below \<open>2^-126\<close> and overflow to an infinity.
\<close>

datatype go_float = NaN | NegInf | PosInf | Fin rat

instantiation go_float :: ord
begin

fun less_go_float :: "go_float \<Rightarrow> go_float \<Rightarrow> bool" where
  "less_go_float (Fin x) (Fin y) \<longleftrightarrow> x < y"
| "less_go_float NegInf (Fin y) \<longleftrightarrow> True"
| "less_go_float (Fin x) PosInf \<longleftrightarrow> True"
| "less_go_float NegInf PosInf \<longleftrightarrow> True"
| "less_go_float _ _ \<longleftrightarrow> False"

definition less_eq_go_float :: "go_float \<Rightarrow> go_float \<Rightarrow> bool" where
  "less_eq_go_float x y \<longleftrightarrow> x < y \<or> (x = y \<and> x \<noteq> NaN)"

instance ..

end

lemma not_less_NaN [simp]: "\<not> NaN < x" "\<not> x < NaN"
  by (cases x; simp)+

section \<open>Rounding\<close>

text \<open>Round to the nearest integer, ties to the even one.\<close>

definition rne :: "rat \<Rightarrow> int" where
  "rne x = (let f = \<lfloor>x\<rfloor>; d = x - of_int f
     in if d < 1 / 2 then f else if 1 / 2 < d then f + 1 else if even f then f else f + 1)"

text \<open>The exponent of the leading bit: \<open>2^k \<le> q < 2^(k+1)\<close> for positive \<open>q\<close>.\<close>

definition ilog2 :: "rat \<Rightarrow> int" where
  "ilog2 q = (case quotient_of q of (a, b) \<Rightarrow>
     let k = bitlen a - bitlen b in if 2 powi k \<le> q then k else k - 1)"

text \<open>The spacing of the format's values around \<open>q\<close>, and the nearest multiple of it.\<close>

definition ulp_exp :: "int \<Rightarrow> int \<Rightarrow> rat \<Rightarrow> int" where
  "ulp_exp prec emin q = max (ilog2 \<bar>q\<bar> - (prec - 1)) emin"

definition round_to :: "int \<Rightarrow> int \<Rightarrow> rat \<Rightarrow> rat" where
  "round_to prec emin q =
     (let u = 2 powi ulp_exp prec emin q in of_int (rne (q / u)) * u)"

definition round_float :: "int \<Rightarrow> int \<Rightarrow> int \<Rightarrow> rat \<Rightarrow> go_float" where
  "round_float prec emin emax q =
     (let r = round_to prec emin q
      in if 2 powi emax \<le> r then PosInf else if r \<le> - (2 powi emax) then NegInf else Fin r)"

text \<open>The conversion \<open>float32(x)\<close> of a \<open>float64\<close>, also how a constant becomes a \<open>float32\<close>.\<close>

fun float32_of :: "go_float \<Rightarrow> go_float" where
  "float32_of (Fin q) = round_float 24 (-149) 128 q"
| "float32_of x = x"

section \<open>Rounding is monotone\<close>

lemma rne_bounds: "\<lfloor>x\<rfloor> \<le> rne x" "rne x \<le> \<lfloor>x\<rfloor> + 1"
  by (simp_all add: rne_def Let_def)

lemma rne_of_int [simp]: "rne (of_int n) = n"
  by (simp add: rne_def)

lemma rne_mono:
  assumes "x \<le> y"
  shows "rne x \<le> rne y"
proof (cases "\<lfloor>x\<rfloor> = \<lfloor>y\<rfloor>")
  case True
  then show ?thesis using assms by (auto simp: rne_def Let_def)
next
  case False
  then have "\<lfloor>x\<rfloor> + 1 \<le> \<lfloor>y\<rfloor>" using floor_mono [OF assms] by linarith
  then show ?thesis using rne_bounds [of x] rne_bounds [of y] by linarith
qed

lemma rne_minus: "rne (- x) = - rne x"
proof (cases "x \<in> \<int>")
  case True
  then obtain n where "x = of_int n" by (auto elim: Ints_cases)
  then have "- x = of_int (- n)" by simp
  then show ?thesis using \<open>x = of_int n\<close> rne_of_int by metis
next
  case False
  then have "of_int \<lfloor>x\<rfloor> \<noteq> x" by (metis Ints_of_int)
  then have lt: "of_int \<lfloor>x\<rfloor> < x" using of_int_floor_le [of x] by linarith
  have "\<lfloor>- x\<rfloor> = - \<lfloor>x\<rfloor> - 1"
  proof (rule floor_unique)
    show "of_int (- \<lfloor>x\<rfloor> - 1) \<le> - x" using floor_correct [of x] by simp
    show "- x < of_int (- \<lfloor>x\<rfloor> - 1) + 1" using lt by simp
  qed
  then show ?thesis by (auto simp: rne_def Let_def)
qed

lemma powi_two_mono: "a \<le> b \<Longrightarrow> (2 :: rat) powi a \<le> 2 powi b"
  by (rule power_int_increasing) simp_all

lemma powi_two_pos [simp]: "0 < (2 :: rat) powi a"
  by simp

lemma ilog2_bounds:
  assumes "0 < q"
  shows "2 powi ilog2 q \<le> q" and "q < 2 powi (ilog2 q + 1)"
proof -
  obtain a b where ab: "quotient_of q = (a, b)" by (cases "quotient_of q")
  then have b: "0 < b" and q: "q = of_int a / of_int b"
    using quotient_of_denom_pos quotient_of_div by blast+
  with assms have a: "0 < a" by (simp add: zero_less_divide_iff)
  let ?k = "bitlen a - bitlen b"
  have bit: "2 powi (bitlen n - 1) \<le> (of_int n :: rat) \<and> (of_int n :: rat) < 2 powi (bitlen n)" if "0 < n" for n
  proof -
    have "2 ^ nat (bitlen n - 1) \<le> n \<and> n < 2 ^ nat (bitlen n)" using bitlen_bounds [OF that] by blast
    then have "(of_int (2 ^ nat (bitlen n - 1)) :: rat) \<le> of_int n \<and> (of_int n :: rat) < of_int (2 ^ nat (bitlen n))"
      using of_int_le_iff of_int_less_iff by blast
    moreover have "0 \<le> bitlen n - 1" using that bitlen_eq_zero_iff bitlen_nonneg
      by (metis add_le_same_cancel1 diff_add_cancel diff_ge_0_iff_ge int_one_le_iff_zero_less leD linorder_not_less order_le_less)
    ultimately show ?thesis by (simp add: power_int_def)
  qed
  have "2 powi (bitlen a - 1) / 2 powi bitlen b \<le> q"
    unfolding q by (rule frac_le) (use bit [OF a] bit [OF b] a b in auto)
  moreover have "2 powi (bitlen a - 1) / 2 powi bitlen b = (2 :: rat) powi (?k - 1)"
    by (subst power_int_diff [symmetric]) (simp_all add: algebra_simps)
  ultimately have lo: "2 powi (?k - 1) \<le> q" by simp
  have "q < 2 powi bitlen a / 2 powi (bitlen b - 1)"
    unfolding q by (rule frac_less) (use bit [OF a] bit [OF b] a b in auto)
  moreover have "2 powi bitlen a / 2 powi (bitlen b - 1) = (2 :: rat) powi (?k + 1)"
    by (subst power_int_diff [symmetric]) (simp_all add: algebra_simps)
  ultimately have hi: "q < 2 powi (?k + 1)" by simp
  show "2 powi ilog2 q \<le> q" and "q < 2 powi (ilog2 q + 1)"
    using lo hi by (auto simp: ilog2_def ab Let_def)
qed

lemma ilog2_mono:
  assumes "0 < x" and "x \<le> y"
  shows "ilog2 x \<le> ilog2 y"
proof (rule ccontr)
  assume "\<not> ilog2 x \<le> ilog2 y"
  then have "(2 :: rat) powi (ilog2 y + 1) \<le> 2 powi ilog2 x" by (intro powi_two_mono) simp
  then show False
    using ilog2_bounds [of x] ilog2_bounds [of y] assms by linarith
qed

lemma powi_two_int:
  assumes "0 \<le> k"
  shows "\<exists>n. (2 :: rat) powi k = of_int n"
  using assms by (intro exI [of _ "2 ^ nat k"]) (simp add: power_int_def)

text \<open>A power of two on the grid of \<open>q\<close> bounds its rounding from either side.\<close>

lemma round_to_le_powi:
  assumes "q \<le> 2 powi k" and "ulp_exp prec emin q \<le> k"
  shows "round_to prec emin q \<le> 2 powi k"
proof -
  let ?u = "2 powi ulp_exp prec emin q :: rat"
  obtain n where n: "(2 :: rat) powi (k - ulp_exp prec emin q) = of_int n"
    using powi_two_int assms(2) by (metis diff_ge_0_iff_ge)
  then have k: "2 powi k / ?u = of_int n" by (simp add: power_int_diff)
  have "q / ?u \<le> 2 powi k / ?u" using assms(1) by (intro divide_right_mono) simp_all
  then have "rne (q / ?u) \<le> n" using rne_mono rne_of_int k by metis
  then have "of_int (rne (q / ?u)) * ?u \<le> of_int n * ?u" by (intro mult_right_mono) simp_all
  also have "of_int n * ?u = 2 powi k" using k by (simp add: field_simps)
  finally show ?thesis by (simp add: round_to_def Let_def)
qed

lemma round_to_ge_powi:
  assumes "2 powi k \<le> q" and "ulp_exp prec emin q \<le> k"
  shows "2 powi k \<le> round_to prec emin q"
proof -
  let ?u = "2 powi ulp_exp prec emin q :: rat"
  obtain n where n: "(2 :: rat) powi (k - ulp_exp prec emin q) = of_int n"
    using powi_two_int assms(2) by (metis diff_ge_0_iff_ge)
  then have k: "2 powi k / ?u = of_int n" by (simp add: power_int_diff)
  have "2 powi k / ?u \<le> q / ?u" using assms(1) by (intro divide_right_mono) simp_all
  then have "n \<le> rne (q / ?u)" using rne_mono rne_of_int k by metis
  then have "of_int n * ?u \<le> of_int (rne (q / ?u)) * ?u" by (intro mult_right_mono) simp_all
  moreover have "of_int n * ?u = 2 powi k" using k by (simp add: field_simps)
  ultimately show ?thesis by (simp add: round_to_def Let_def)
qed

lemma round_to_nonneg: "0 \<le> q \<Longrightarrow> 0 \<le> round_to prec emin q"
  using rne_mono [of 0 "q / 2 powi ulp_exp prec emin q"] rne_of_int [of 0]
  by (simp add: round_to_def Let_def)

lemma round_to_minus: "round_to prec emin (- q) = - round_to prec emin q"
  by (simp add: round_to_def Let_def ulp_exp_def rne_minus)

lemma round_to_mono_pos:
  assumes x: "0 < x" and xy: "x \<le> y" and prec: "0 < prec"
  shows "round_to prec emin x \<le> round_to prec emin y"
proof (cases "ulp_exp prec emin x = ulp_exp prec emin y")
  case True
  have "rne (x / 2 powi ulp_exp prec emin y) \<le> rne (y / 2 powi ulp_exp prec emin y)"
    using xy by (intro rne_mono divide_right_mono) simp_all
  then show ?thesis using True by (simp add: round_to_def Let_def mult_right_mono)
next
  case False
  have log: "ilog2 x \<le> ilog2 y" using x xy by (rule ilog2_mono)
  let ?k = "ilog2 y"
  have e: "ulp_exp prec emin x < ulp_exp prec emin y" "ulp_exp prec emin y \<le> ?k" "ilog2 x < ?k"
    using False log x xy prec by (auto simp: ulp_exp_def max_def split: if_splits)
  have "x \<le> 2 powi ?k"
    using ilog2_bounds(2) [OF x] powi_two_mono [of "ilog2 x + 1" ?k] e(3) by linarith
  then have "round_to prec emin x \<le> 2 powi ?k" using e by (intro round_to_le_powi) simp_all
  moreover have "2 powi ?k \<le> round_to prec emin y"
    using ilog2_bounds(1) [of y] x xy e by (intro round_to_ge_powi) simp_all
  ultimately show ?thesis by simp
qed

theorem round_to_mono:
  assumes "x \<le> y" and "0 < prec"
  shows "round_to prec emin x \<le> round_to prec emin y"
proof -
  consider "0 < x" | "x \<le> 0" "0 \<le> y" | "y < 0" by linarith
  then show ?thesis
  proof cases
    case 1
    then show ?thesis using assms by (intro round_to_mono_pos)
  next
    case 2
    then have "round_to prec emin x \<le> 0"
      using round_to_nonneg [of "- x"] round_to_minus [of prec emin x] by (metis neg_0_le_iff_le neg_le_0_iff_le)
    then show ?thesis using round_to_nonneg [of y] 2 by (meson order_trans)
  next
    case 3
    then have "round_to prec emin (- y) \<le> round_to prec emin (- x)"
      using assms by (intro round_to_mono_pos) simp_all
    then show ?thesis by (simp add: round_to_minus)
  qed
qed

text \<open>A value between two that stay finite stays finite, and keeps its place between them.\<close>

theorem float32_of_between:
  assumes "float32_of (Fin lo) = Fin a" and "float32_of (Fin hi) = Fin b"
    and "lo \<le> q" and "q \<le> hi"
  shows "\<exists>r. float32_of (Fin q) = Fin r \<and> a \<le> r \<and> r \<le> b"
proof -
  have ab: "round_to 24 (-149) lo = a" "round_to 24 (-149) hi = b" "- (2 powi 128) < a" "b < 2 powi 128"
    using assms(1,2) by (auto simp: round_float_def Let_def split: if_splits)
  have "a \<le> round_to 24 (-149) q" "round_to 24 (-149) q \<le> b"
    using round_to_mono [OF assms(3), of 24 "-149"] round_to_mono [OF assms(4), of 24 "-149"] ab by simp_all
  with ab show ?thesis by (auto simp: round_float_def Let_def)
qed

end
