(* ===== verification/Kube_Env.thy ===== *)
theory Kube_Env
  imports Api_Types Effects Go_Float
begin

text \<open>
  What the program relies on and does not define: the Kubernetes API server as the client libraries
  show it, and the Prometheus query API. They are the fields of a record that every operation takes:
  a call maps the state \<open>'w\<close> of the outside world to an answer and the state after it. Errors of these
  systems are values of a type \<open>'e\<close> which the program only classifies with \<open>errors.IsNotFound\<close> and
  \<open>errors.IsConflict\<close>; its own errors are the other constructors of \<open>go_err\<close>.
\<close>

text \<open>The values of \<open>github.com/prometheus/common/model\<close> the program distinguishes.\<close>

record Sample =
  sampleMetric :: labels
  sampleValue :: go_float

datatype prom_value = Vector "Sample list" | Scalar go_float | OtherValue string

datatype 'e go_err =
    Ext 'e
  | PodIsFailing string
  | ExpectedVector prom_value
  | NoMetricsFound
  | UnexpectedResultType prom_value
  | QueryingPrometheus 'e
  | NodeGpuErr string string "'e go_err"

record ('w, 'e) kube_env =
  IsNotFound :: "'e \<Rightarrow> bool"
  IsConflict :: "'e \<Rightarrow> bool"
  MustParse :: "string \<Rightarrow> quantity"
  ExistsSelector :: "string \<Rightarrow> 'e + string"
  srvGetJob :: "string \<Rightarrow> string \<Rightarrow> 'w \<Rightarrow> ('e + HPCJob) \<times> 'w"
  srvUpdateStatus :: "HPCJob \<Rightarrow> 'w \<Rightarrow> ('e + HPCJob) \<times> 'w"
  srvPut :: "GroupVersionKey \<Rightarrow> string \<Rightarrow> string \<Rightarrow> string \<Rightarrow> HPCJob \<Rightarrow> 'w \<Rightarrow> 'e option \<times> 'w"
  srvGetPod :: "string \<Rightarrow> string \<Rightarrow> 'w \<Rightarrow> ('e + Pod) \<times> 'w"
  srvListPods :: "string \<Rightarrow> string \<Rightarrow> 'w \<Rightarrow> ('e + Pod list) \<times> 'w"
  srvCreatePod :: "string \<Rightarrow> Pod \<Rightarrow> 'w \<Rightarrow> 'e option \<times> 'w"
  srvDeletePod :: "string \<Rightarrow> string \<Rightarrow> 'w \<Rightarrow> 'e option \<times> 'w"
  srvListNodes :: "string \<Rightarrow> 'w \<Rightarrow> ('e + Node list) \<times> 'w"
  srvPatchNode :: "string \<Rightarrow> NodePatch \<Rightarrow> 'w \<Rightarrow> 'e option \<times> 'w"
  srvQuery :: "bool \<Rightarrow> string \<Rightarrow> 'w \<Rightarrow> ('e + prom_value) \<times> 'w"

text \<open>The log entry of each call: its arguments, then its answer.\<close>

datatype 'e event =
    GetJob string string "'e + HPCJob"
  | UpdateStatus HPCJob "'e + HPCJob"
  | Put GroupVersionKey string string string HPCJob "'e option"
  | GetPodEv string string "'e + Pod"
  | ListPods string string "'e + Pod list"
  | CreatePodEv string Pod "'e option"
  | DeletePodEv string string "'e option"
  | ListNodes string "'e + Node list"
  | PatchNode string NodePatch "'e option"
  | Query string "'e + prom_value"

type_synonym ('w, 'e, 'a) kprog = "('w, 'e event, 'a) prog"

text \<open>
  The calls. Namespace first where the client library has it first
  (\<open>CoreV1().Pods(namespace).Get(ctx, name)\<close>); a listing takes its label or field selector.
\<close>

definition callGetJob :: "('w, 'e) kube_env \<Rightarrow> string \<Rightarrow> string \<Rightarrow> ('w, 'e, 'e + HPCJob) kprog" where
  "callGetJob E ns name = invoke (srvGetJob E ns name) (GetJob ns name)"

definition callUpdateStatus :: "('w, 'e) kube_env \<Rightarrow> HPCJob \<Rightarrow> ('w, 'e, 'e + HPCJob) kprog" where
  "callUpdateStatus E job = invoke (srvUpdateStatus E job) (UpdateStatus job)"

definition callPut :: "('w, 'e) kube_env \<Rightarrow> GroupVersionKey \<Rightarrow> string \<Rightarrow> string \<Rightarrow> string \<Rightarrow> HPCJob \<Rightarrow>
    ('w, 'e, 'e option) kprog" where
  "callPut E gv ns resource name body =
     invoke (srvPut E gv ns resource name body) (Put gv ns resource name body)"

definition callGetPod :: "('w, 'e) kube_env \<Rightarrow> string \<Rightarrow> string \<Rightarrow> ('w, 'e, 'e + Pod) kprog" where
  "callGetPod E ns name = invoke (srvGetPod E ns name) (GetPodEv ns name)"

definition callListPods :: "('w, 'e) kube_env \<Rightarrow> string \<Rightarrow> string \<Rightarrow> ('w, 'e, 'e + Pod list) kprog" where
  "callListPods E ns sel = invoke (srvListPods E ns sel) (ListPods ns sel)"

definition callCreatePod :: "('w, 'e) kube_env \<Rightarrow> string \<Rightarrow> Pod \<Rightarrow> ('w, 'e, 'e option) kprog" where
  "callCreatePod E ns pod = invoke (srvCreatePod E ns pod) (CreatePodEv ns pod)"

definition callDeletePod :: "('w, 'e) kube_env \<Rightarrow> string \<Rightarrow> string \<Rightarrow> ('w, 'e, 'e option) kprog" where
  "callDeletePod E ns name = invoke (srvDeletePod E ns name) (DeletePodEv ns name)"

definition callListNodes :: "('w, 'e) kube_env \<Rightarrow> string \<Rightarrow> ('w, 'e, 'e + Node list) kprog" where
  "callListNodes E sel = invoke (srvListNodes E sel) (ListNodes sel)"

definition callPatchNode :: "('w, 'e) kube_env \<Rightarrow> string \<Rightarrow> NodePatch \<Rightarrow> ('w, 'e, 'e option) kprog" where
  "callPatchNode E name patch = invoke (srvPatchNode E name patch) (PatchNode name patch)"

text \<open>
  A query runs under a context that may be cancelled before it returns (\<open>cancelled\<close>); what it answers then
  is up to the client library.
\<close>

definition callQuery :: "('w, 'e) kube_env \<Rightarrow> bool \<Rightarrow> string \<Rightarrow> ('w, 'e, 'e + prom_value) kprog" where
  "callQuery E cancelled q = invoke (srvQuery E cancelled q) (Query q)"

lemmas call_defs = callGetJob_def callUpdateStatus_def callPut_def callGetPod_def callListPods_def
  callCreatePod_def callDeletePod_def callListNodes_def callPatchNode_def callQuery_def

end
