(* ===== verification/Kube_Client.thy ===== *)
theory Kube_Client
  imports Kube_Env Env_Config
begin

text \<open>
  The Kubernetes client, \<open>pkg/kube/client.go\<close>: how it is configured, how it selects GPU nodes, how
  it counts the GPUs requested on a node, the patches that isolate and restore nodes, and the calls on
  pods and finalizers. Log output is left out; \<open>json.Marshal\<close> of the two patch maps cannot fail, so
  its error branch is not a branch of the model.
\<close>

section \<open>Names\<close>

definition GPU_NODE_LABEL_INDICATOR :: string where
  "GPU_NODE_LABEL_INDICATOR = ''nvidia.com/gpu.count''"
definition GPU_CORES_CAPACITY :: string where "GPU_CORES_CAPACITY = ''nvidia.com/gpu''"
definition GPU_NODE_TAINT_KEY :: string where "GPU_NODE_TAINT_KEY = ''nvidia.com/gpu''"
definition HIGH_DENSITY_AFFINITY_LABEL :: string where
  "HIGH_DENSITY_AFFINITY_LABEL = ''hpc-sentinel/density''"
definition UNHEALTHY_TAINT_KEY :: string where "UNHEALTHY_TAINT_KEY = ''hpc-sentinel/unhealthy''"
definition HPC_FINALIZER :: string where "HPC_FINALIZER = ''hpc-sentinel/finalizer''"

section \<open>Configuration of the client\<close>

text \<open>
  The functions of client-go and of the operating system the configuration rests on; \<open>'c\<close> is a REST
  configuration, \<open>'k\<close> a clientset, \<open>StatIsNotExist\<close> is \<open>os.IsNotExist\<close> of the error of \<open>os.Stat\<close>.
\<close>

record ('c, 'k, 'e) client_lib =
  InClusterConfig :: "'e + 'c"
  BuildConfigFromFlags :: "string \<Rightarrow> string \<Rightarrow> 'e + 'c"
  NewForConfig :: "'c \<Rightarrow> 'e + 'k"
  RESTConfigFromKubeConfig :: "string \<Rightarrow> 'e + 'c"
  StatIsNotExist :: "string \<Rightarrow> bool"
  HomeDir :: string

datatype 'e client_err = LibErr 'e | KubeconfigNotFound string | CreateClientset 'e

record ('k, 'c) KubeClient =
  Kube :: 'k
  RestConfig :: 'c

text \<open>The caller's configuration is a pointer: the path found is stored in it.\<close>

definition GetClientConfig ::
    "('c, 'k, 'e) client_lib \<Rightarrow> Config \<Rightarrow> ('e client_err + 'c) \<times> Config" where
  "GetClientConfig L cfg =
     (case InClusterConfig L of
        Inr config \<Rightarrow> (Inr config, cfg)
      | Inl _ \<Rightarrow>
          let cfg = (if KubeConfig cfg = '''' \<and> HomeDir L \<noteq> ''''
                     then cfg\<lparr>KubeConfig := filepath_Join [HomeDir L, ''.kube'', ''config'']\<rparr> else cfg)
          in if StatIsNotExist L (KubeConfig cfg)
             then (Inl (KubeconfigNotFound (KubeConfig cfg)), cfg)
             else (case BuildConfigFromFlags L '''' (KubeConfig cfg) of
                     Inl e \<Rightarrow> (Inl (LibErr e), cfg) | Inr config \<Rightarrow> (Inr config, cfg)))"

definition NewKubeClient ::
    "('c, 'k, 'e) client_lib \<Rightarrow> Config \<Rightarrow> ('e client_err + ('k, 'c) KubeClient) \<times> Config" where
  "NewKubeClient L cfg =
     (case GetClientConfig L cfg of
        (Inl e, cfg) \<Rightarrow> (Inl e, cfg)
      | (Inr config, cfg) \<Rightarrow>
          (case NewForConfig L config of
             Inl e \<Rightarrow> (Inl (CreateClientset e), cfg)
           | Inr clientset \<Rightarrow> (Inr \<lparr>Kube = clientset, RestConfig = config\<rparr>, cfg)))"

definition NewClientFromRawConfig ::
    "('c, 'k, 'e) client_lib \<Rightarrow> string \<Rightarrow> 'e client_err + ('k, 'c) KubeClient" where
  "NewClientFromRawConfig L raw =
     (case RESTConfigFromKubeConfig L raw of
        Inl e \<Rightarrow> Inl (LibErr e)
      | Inr config \<Rightarrow>
          (case NewForConfig L config of
             Inl e \<Rightarrow> Inl (LibErr e)
           | Inr clientset \<Rightarrow> Inr \<lparr>Kube = clientset, RestConfig = config\<rparr>))"

section \<open>GPU nodes\<close>

fun valid_nodes :: "Node list \<Rightarrow> Node list" where
  "valid_nodes [] = []"
| "valid_nodes (node # nodes) =
     (let countStr = or_empty (node_label node GPU_NODE_LABEL_INDICATOR)
      in case Atoi countStr of
           None \<Rightarrow> valid_nodes nodes
         | Some cnt \<Rightarrow> if sint cnt \<le> 0 then valid_nodes nodes else node # valid_nodes nodes)"

definition GetClusterGPUNodes :: "('w, 'e) kube_env \<Rightarrow> ('w, 'e, 'e go_err + Node list) kprog" where
  "GetClusterGPUNodes E =
     (case ExistsSelector E GPU_NODE_LABEL_INDICATOR of
        Inl err \<Rightarrow> ret (Inl (Ext err))
      | Inr selector \<Rightarrow> do {
          nodes \<leftarrow> callListNodes E selector;
          case nodes of
            Inl err \<Rightarrow> ret (Inl (Ext err))
          | Inr items \<Rightarrow> ret (Inr (valid_nodes items))
        })"

definition GetNodeAllocatableGPUs :: "Node \<Rightarrow> int64" where
  "GetNodeAllocatableGPUs gpuNode = quantity_at (nodeAllocatable gpuNode) GPU_CORES_CAPACITY"

record GpuResourceStatus =
  Allocated :: int64
  Allocatable :: int64

fun add_container_requests :: "int64 \<Rightarrow> Container list \<Rightarrow> int64" where
  "add_container_requests allocatedCount [] = allocatedCount"
| "add_container_requests allocatedCount (container # containers) =
     add_container_requests
       (case go_get (containerRequests container) GPU_CORES_CAPACITY of
          Some req \<Rightarrow> allocatedCount + req | None \<Rightarrow> allocatedCount)
       containers"

fun count_allocated :: "int64 \<Rightarrow> Pod list \<Rightarrow> int64" where
  "count_allocated allocatedCount [] = allocatedCount"
| "count_allocated allocatedCount (pod # pods) =
     (if podPhase pod \<noteq> PodRunning \<and> podPhase pod \<noteq> PodPending \<and> podPhase pod \<noteq> PodFailed
      then count_allocated allocatedCount pods
      else count_allocated (add_container_requests allocatedCount (podContainers pod)) pods)"

definition GetGpuNodeAllocations ::
    "('w, 'e) kube_env \<Rightarrow> Node \<Rightarrow> ('w, 'e, 'e go_err + GpuResourceStatus) kprog" where
  "GetGpuNodeAllocations E gpuNode = do {
     let allocatableCount = GetNodeAllocatableGPUs gpuNode;
     podList \<leftarrow> callListPods E '''' (''spec.nodeName='' @ nodeName gpuNode);
     case podList of
       Inl err \<Rightarrow> ret (Inl (Ext err))
     | Inr items \<Rightarrow> ret (Inr \<lparr>Allocated = count_allocated 0 items, Allocatable = allocatableCount\<rparr>)
   }"

section \<open>Isolation and restoration\<close>

definition unhealthyTaint :: Taint where
  "unhealthyTaint =
     \<lparr>taintKey = UNHEALTHY_TAINT_KEY, taintValue = ''true'', taintEffect = TaintEffectNoSchedule\<rparr>"

definition isolation_patch :: NodePatch where
  "isolation_patch =
     \<lparr>patchLabels = [(HIGH_DENSITY_AFFINITY_LABEL, ''0'')], patchTaints = Some [unhealthyTaint]\<rparr>"

fun IsolateUnhealthyNodes :: "('w, 'e) kube_env \<Rightarrow> Node list \<Rightarrow> ('w, 'e, 'e go_err option) kprog" where
  "IsolateUnhealthyNodes E [] = ret None"
| "IsolateUnhealthyNodes E (node # unhealthyNodes) = do {
     _ \<leftarrow> callPatchNode E (nodeName node) isolation_patch;
     IsolateUnhealthyNodes E unhealthyNodes
   }"

fun drop_unhealthy_taint :: "Taint list \<Rightarrow> Taint list" where
  "drop_unhealthy_taint [] = []"
| "drop_unhealthy_taint (t # ts) =
     (if taintKey t \<noteq> UNHEALTHY_TAINT_KEY then t # drop_unhealthy_taint ts else drop_unhealthy_taint ts)"

text \<open>\<open>newTaints\<close> stays a nil slice, JSON null, when no taint is kept.\<close>

definition restoration_patch :: "Node \<Rightarrow> GpuResourceStatus \<Rightarrow> NodePatch" where
  "restoration_patch node status =
     (let newTaints = drop_unhealthy_taint (nodeTaints node)
      in \<lparr>patchLabels = [(HIGH_DENSITY_AFFINITY_LABEL, Itoa (Allocated status))],
          patchTaints = (if newTaints = [] then None else Some newTaints)\<rparr>)"

fun RestoreHealthyNodes :: "('w, 'e) kube_env \<Rightarrow> Node list \<Rightarrow> ('w, 'e, 'e go_err option) kprog" where
  "RestoreHealthyNodes E [] = ret None"
| "RestoreHealthyNodes E (node # healthyNodes) = do {
     status \<leftarrow> GetGpuNodeAllocations E node;
     case status of
       Inl err \<Rightarrow> RestoreHealthyNodes E healthyNodes
     | Inr status \<Rightarrow> do {
         _ \<leftarrow> callPatchNode E (nodeName node) (restoration_patch node status);
         RestoreHealthyNodes E healthyNodes
       }
   }"

section \<open>Pods\<close>

definition CreatePod :: "('w, 'e) kube_env \<Rightarrow> Pod \<Rightarrow> ('w, 'e, 'e option) kprog" where
  "CreatePod E pod = callCreatePod E (podNamespace pod) pod"

definition GetPod :: "('w, 'e) kube_env \<Rightarrow> string \<Rightarrow> string \<Rightarrow> ('w, 'e, 'e + Pod) kprog" where
  "GetPod E name namespace = callGetPod E namespace name"

definition DeletePod :: "('w, 'e) kube_env \<Rightarrow> string \<Rightarrow> string \<Rightarrow> ('w, 'e, 'e option) kprog" where
  "DeletePod E name namespace = callDeletePod E namespace name"

definition ListPodsByName :: "('w, 'e) kube_env \<Rightarrow> string \<Rightarrow> string \<Rightarrow> ('w, 'e, 'e + Pod list) kprog" where
  "ListPodsByName E namespace name = callListPods E namespace (''metadata.name='' @ name)"

section \<open>Finalizers\<close>

text \<open>
  Both operations go through \<open>CoreV1().RESTClient()\<close>, the client of the core group, version v1.
  They change the finalizers of the caller's object before the request, so the object is returned.
\<close>

definition CoreV1 :: GroupVersionKey where
  "CoreV1 = \<lparr>apiGroup = '''', apiVersion = ''v1''\<rparr>"

definition AddResourceFinalizer ::
    "('w, 'e) kube_env \<Rightarrow> HPCJob \<Rightarrow> ('w, 'e, 'e option \<times> HPCJob) kprog" where
  "AddResourceFinalizer E hpcJob =
     (if Contains (Join (jobFinalizers hpcJob) '','') HPC_FINALIZER then ret (None, hpcJob)
      else do {
        let hpcJob = hpcJob\<lparr>jobFinalizers := jobFinalizers hpcJob @ [HPC_FINALIZER]\<rparr>;
        err \<leftarrow> callPut E CoreV1 (jobNamespace hpcJob) ''hpcjobs'' (jobName hpcJob) hpcJob;
        ret (err, hpcJob)
      })"

fun drop_finalizer :: "string list \<Rightarrow> string list" where
  "drop_finalizer [] = []"
| "drop_finalizer (f # fs) = (if f \<noteq> HPC_FINALIZER then f # drop_finalizer fs else drop_finalizer fs)"

definition RemoveResourceFinalizer ::
    "('w, 'e) kube_env \<Rightarrow> HPCJob \<Rightarrow> ('w, 'e, 'e option \<times> HPCJob) kprog" where
  "RemoveResourceFinalizer E hpcJob = do {
     let hpcJob = hpcJob\<lparr>jobFinalizers := drop_finalizer (jobFinalizers hpcJob)\<rparr>;
     err \<leftarrow> callPut E CoreV1 (jobNamespace hpcJob) ''hpcjobs'' (jobName hpcJob) hpcJob;
     ret (err, hpcJob)
   }"

section \<open>Selection and counting\<close>

definition is_gpu_node :: "Node \<Rightarrow> bool" where
  "is_gpu_node node \<longleftrightarrow>
     (case Atoi (or_empty (node_label node GPU_NODE_LABEL_INDICATOR)) of
        None \<Rightarrow> False | Some cnt \<Rightarrow> 0 < sint cnt)"

lemma valid_nodes_filter: "valid_nodes nodes = filter is_gpu_node nodes"
  by (induction nodes) (auto simp: is_gpu_node_def Let_def split: option.splits)

lemma is_gpu_node_labelled:
  assumes "is_gpu_node node"
  shows "\<exists>labels v. nodeLabels node = Some labels \<and> go_get labels GPU_NODE_LABEL_INDICATOR = Some v"
  using assms by (auto simp: is_gpu_node_def node_label_def or_empty_def split: option.splits)

lemma GetClusterGPUNodes_runs:
  "satisfies (GetClusterGPUNodes E) (\<lambda>r es.
     (case ExistsSelector E GPU_NODE_LABEL_INDICATOR of
        Inl err \<Rightarrow> r = Inl (Ext err) \<and> es = []
      | Inr sel \<Rightarrow> (\<exists>err. r = Inl (Ext err) \<and> es = [ListNodes sel (Inl err)]) \<or>
                   (\<exists>items. r = Inr (filter is_gpu_node items) \<and> es = [ListNodes sel (Inr items)])))"
  unfolding GetClusterGPUNodes_def callListNodes_def
  by (cases "ExistsSelector E GPU_NODE_LABEL_INDICATOR")
    (auto intro!: sat sat_bind simp: valid_nodes_filter)

text \<open>The request of one container, and the requests of the pods that count as placed on a node.\<close>

definition container_request :: "Container \<Rightarrow> int64 list" where
  "container_request c =
     (case go_get (containerRequests c) GPU_CORES_CAPACITY of None \<Rightarrow> [] | Some q \<Rightarrow> [q])"

definition occupies :: "Pod \<Rightarrow> bool" where
  "occupies pod \<longleftrightarrow> podPhase pod \<in> {PodRunning, PodPending, PodFailed}"

definition gpu_requests :: "Pod list \<Rightarrow> int64 list" where
  "gpu_requests pods = concat (map container_request (concat (map podContainers (filter occupies pods))))"

lemma add_container_requests_sum:
  "add_container_requests n cs = n + sum_list (concat (map container_request cs))"
  by (induction n cs rule: add_container_requests.induct)
    (auto simp: container_request_def split: option.splits)

lemma count_allocated_sum: "count_allocated n pods = n + sum_list (gpu_requests pods)"
  by (induction n pods rule: count_allocated.induct)
    (auto simp: gpu_requests_def occupies_def add_container_requests_sum)

lemma sint_sum_list:
  assumes "\<forall>q \<in> set qs. 0 \<le> sint q" and "sum_list (map sint qs) < 2 ^ 63"
  shows "sint (sum_list qs :: int64) = sum_list (map sint qs)"
  using assms
proof (induction qs)
  case (Cons q qs)
  have "0 \<le> sum_list (map sint qs)" using Cons.prems(1) by (intro sum_list_nonneg) auto
  then have "sint (sum_list qs) = sum_list (map sint qs)" using Cons by simp
  moreover from this have "sint (q + sum_list qs) = sint q + sint (sum_list qs)"
    using Cons.prems \<open>0 \<le> sum_list (map sint qs)\<close>
    by (intro sint_plus_fits64) (simp add: fits64_def)
  ultimately show ?case by simp
qed simp

section \<open>Calls of the node operations\<close>

lemma GetGpuNodeAllocations_runs:
  "satisfies (GetGpuNodeAllocations E node) (\<lambda>r es.
     (\<exists>err. r = Inl (Ext err) \<and> es = [ListPods '''' (''spec.nodeName='' @ nodeName node) (Inl err)]) \<or>
     (\<exists>pods. r = Inr \<lparr>Allocated = count_allocated 0 pods, Allocatable = GetNodeAllocatableGPUs node\<rparr> \<and>
             es = [ListPods '''' (''spec.nodeName='' @ nodeName node) (Inr pods)]))"
  unfolding GetGpuNodeAllocations_def callListPods_def
  by (auto intro!: sat sat_bind)

text \<open>The event sequences of the two loops, each one call after the other.\<close>

fun isolation_log :: "Node list \<Rightarrow> 'e event list \<Rightarrow> bool" where
  "isolation_log [] es \<longleftrightarrow> es = []"
| "isolation_log (node # nodes) (PatchNode name patch r # es) \<longleftrightarrow>
     name = nodeName node \<and> patch = isolation_patch \<and> isolation_log nodes es"
| "isolation_log (node # nodes) _ \<longleftrightarrow> False"

fun restoration_log :: "Node list \<Rightarrow> 'e event list \<Rightarrow> bool" where
  "restoration_log [] es \<longleftrightarrow> es = []"
| "restoration_log (node # nodes) (ListPods ns sel (Inl err) # es) \<longleftrightarrow>
     ns = '''' \<and> sel = ''spec.nodeName='' @ nodeName node \<and> restoration_log nodes es"
| "restoration_log (node # nodes) (ListPods ns sel (Inr pods) # PatchNode name patch r # es) \<longleftrightarrow>
     ns = '''' \<and> sel = ''spec.nodeName='' @ nodeName node \<and> name = nodeName node \<and>
     patch = restoration_patch node
       \<lparr>Allocated = count_allocated 0 pods, Allocatable = GetNodeAllocatableGPUs node\<rparr> \<and>
     restoration_log nodes es"
| "restoration_log (node # nodes) _ \<longleftrightarrow> False"

lemma IsolateUnhealthyNodes_runs:
  "satisfies (IsolateUnhealthyNodes E nodes) (\<lambda>r es. r = None \<and> isolation_log nodes es)"
proof (induction nodes)
  case (Cons node nodes)
  have "satisfies (callPatchNode E (nodeName node) isolation_patch)
      (\<lambda>_ es. \<exists>r. es = [PatchNode (nodeName node) isolation_patch r])"
    unfolding callPatchNode_def by (auto intro!: sat)
  then show ?case
    by (simp, rule sat_seq) (auto intro: satisfies_mono [OF Cons])
qed (auto intro!: sat)

lemma RestoreHealthyNodes_runs:
  "satisfies (RestoreHealthyNodes E nodes) (\<lambda>r es. r = None \<and> restoration_log nodes es)"
proof (induction nodes)
  case (Cons node nodes)
  show ?case
    unfolding RestoreHealthyNodes.simps callPatchNode_def
    by (rule sat_seq [OF GetGpuNodeAllocations_runs])
      (auto intro!: sat_bind sat_invoke satisfies_mono [OF Cons])
qed (auto intro!: sat)

section \<open>Taints and finalizers\<close>

lemma drop_unhealthy_taint_filter [simp]:
  "drop_unhealthy_taint ts = filter (\<lambda>t. taintKey t \<noteq> UNHEALTHY_TAINT_KEY) ts"
  by (induction ts) auto

lemma drop_finalizer_removeAll [simp]: "drop_finalizer fs = removeAll HPC_FINALIZER fs"
  by (induction fs) auto

lemma HPC_FINALIZER_found: "HPC_FINALIZER \<in> set fs \<Longrightarrow> Contains (Join fs '','') HPC_FINALIZER"
  by (rule Contains_Join) (auto simp: Contains_iff intro: exI [of _ "[]"])

end
