(* ===== verification/Prom_Client.thy ===== *)
theory Prom_Client
  imports Kube_Env
begin

text \<open>
  The Prometheus client, \<open>pkg/prometheus/client.go\<close>: the table of healthy ranges, the scan of the
  whole cluster from one query, and the per-GPU report gathered by one goroutine per metric.
\<close>

section \<open>Metrics and their healthy ranges\<close>

definition GpuTemp :: string where "GpuTemp = ''dcgm_gpu_temp''"
definition MemCopyUtil :: string where "MemCopyUtil = ''dcgm_mem_copy_util''"
definition FBUsage :: string where "FBUsage = ''dcgm_fb_usage_gpu''"
definition ECC_SBE_Errs :: string where "ECC_SBE_Errs = ''dcgm_ecc_sbe_aggregate_total''"
definition PowerUsage :: string where "PowerUsage = ''dcgm_power_usage''"
definition GpuUtil :: string where "GpuUtil = ''dcgm_gpu_util''"
definition NvlinkBandwidth :: string where "NvlinkBandwidth = ''dcgm_nvlink_bandwidth_total''"

lemmas metric_names = GpuTemp_def MemCopyUtil_def FBUsage_def ECC_SBE_Errs_def PowerUsage_def
  GpuUtil_def NvlinkBandwidth_def

record HealthRange =
  rangeMin :: go_float
  rangeMax :: go_float

text \<open>The bounds are \<open>float32\<close> constants: the decimal in the source, rounded.\<close>

definition health_range :: "rat \<Rightarrow> rat \<Rightarrow> HealthRange" where
  "health_range lo hi = \<lparr>rangeMin = float32_of (Fin lo), rangeMax = float32_of (Fin hi)\<rparr>"

definition HealthMetrics :: "(string, HealthRange) gomap" where
  "HealthMetrics =
     [(GpuTemp, health_range 35 85),
      (MemCopyUtil, health_range (1/10) (6/10)),
      (FBUsage, health_range (2/10) (7/10)),
      (ECC_SBE_Errs, health_range 0 0),
      (PowerUsage, health_range 100 250),
      (GpuUtil, health_range (3/10) (8/10)),
      (NvlinkBandwidth, health_range 250 400)]"

text \<open>The table with the bounds as the \<open>float32\<close> values they are; also how it is evaluated.\<close>

lemma HealthMetrics_float32 [code]:
  "HealthMetrics =
     [(''dcgm_gpu_temp'', \<lparr>rangeMin = Fin 35, rangeMax = Fin 85\<rparr>),
      (''dcgm_mem_copy_util'', \<lparr>rangeMin = Fin (13421773 / 134217728), rangeMax = Fin (5033165 / 8388608)\<rparr>),
      (''dcgm_fb_usage_gpu'', \<lparr>rangeMin = Fin (13421773 / 67108864), rangeMax = Fin (11744051 / 16777216)\<rparr>),
      (''dcgm_ecc_sbe_aggregate_total'', \<lparr>rangeMin = Fin 0, rangeMax = Fin 0\<rparr>),
      (''dcgm_power_usage'', \<lparr>rangeMin = Fin 100, rangeMax = Fin 250\<rparr>),
      (''dcgm_gpu_util'', \<lparr>rangeMin = Fin (5033165 / 16777216), rangeMax = Fin (13421773 / 16777216)\<rparr>),
      (''dcgm_nvlink_bandwidth_total'', \<lparr>rangeMin = Fin 250, rangeMax = Fin 400\<rparr>)]"
  by code_simp

definition GpuClusterHealthScanPrmQuery :: string where
  "GpuClusterHealthScanPrmQuery = ''{service=\"dcgm-mock-exporter\", node=~\".+\"}''"

section \<open>The scan of the cluster\<close>

type_synonym metrics = "(string, go_float) gomap"
type_synonym gpus = "(string, metrics) gomap"
type_synonym health_scan = "(string, gpus) gomap"

definition or_make :: "('k, 'v) gomap option \<Rightarrow> ('k, 'v) gomap" where
  "or_make m = (case m of None \<Rightarrow> [] | Some m \<Rightarrow> m)"

definition add_sample :: "health_scan \<Rightarrow> Sample \<Rightarrow> health_scan" where
  "add_sample scan sample =
     (let node = or_empty (go_get (sampleMetric sample) ''node'');
          gpu = or_empty (go_get (sampleMetric sample) ''gpu'');
          metricName = or_empty (go_get (sampleMetric sample) ''__name__'');
          val = float32_of (sampleValue sample);
          scan_node = or_make (go_get scan node);
          scan_gpu = or_make (go_get scan_node gpu)
      in go_put node (go_put gpu (go_put metricName val scan_gpu) scan_node) scan)"

fun build_scan :: "health_scan \<Rightarrow> Sample list \<Rightarrow> health_scan" where
  "build_scan scan [] = scan"
| "build_scan scan (sample # vec) = build_scan (add_sample scan sample) vec"

definition GetFullGPUClusterHealthCheck ::
    "('w, 'e) kube_env \<Rightarrow> ('w, 'e, 'e go_err + health_scan) kprog" where
  "GetFullGPUClusterHealthCheck E = do {
     r \<leftarrow> callQuery E False GpuClusterHealthScanPrmQuery;
     case r of
       Inl err \<Rightarrow> ret (Inl (Ext err))
     | Inr r \<Rightarrow>
         (case r of
            Vector vec \<Rightarrow> ret (Inr (build_scan [] vec))
          | _ \<Rightarrow> ret (Inl (ExpectedVector r)))
   }"

section \<open>The report on one GPU\<close>

fun modelValToFloatVal :: "prom_value \<Rightarrow> 'e go_err + go_float" where
  "modelValToFloatVal (Vector []) = Inl NoMetricsFound"
| "modelValToFloatVal (Vector (v # vs)) = Inr (sampleValue v)"
| "modelValToFloatVal (Scalar v) = Inr v"
| "modelValToFloatVal val = Inl (UnexpectedResultType val)"

definition executeNodeGpuMetric ::
    "('w, 'e) kube_env \<Rightarrow> bool \<Rightarrow> string \<Rightarrow> string \<Rightarrow> string \<Rightarrow> ('w, 'e, 'e go_err + go_float) kprog" where
  "executeNodeGpuMetric E ctx query node gpu = do {
     val \<leftarrow> callQuery E ctx query;
     case val of
       Inl err \<Rightarrow> ret (Inl (QueryingPrometheus err))
     | Inr val \<Rightarrow>
         (case modelValToFloatVal val of
            Inl err \<Rightarrow> ret (Inl (NodeGpuErr node gpu err))
          | Inr res \<Rightarrow> ret (Inr res))
   }"

definition GetDCGMMetric ::
    "('w, 'e) kube_env \<Rightarrow> bool \<Rightarrow> string \<Rightarrow> string \<Rightarrow> string \<Rightarrow> ('w, 'e, 'e go_err + go_float) kprog" where
  "GetDCGMMetric E ctx metric node gpu =
     (let query = metric @ ''{node=\"'' @ node @ ''\", gpu=\"'' @ gpu @ ''\"}''
      in executeNodeGpuMetric E ctx query node gpu)"

text \<open>
  One goroutine per metric of the table, in the order in which they finish. The group keeps the first
  error and cancels the context it has given to all of them (\<open>errgroup.WithContext\<close>): what finishes after
  the first error finishes under a cancelled context. (The goroutines write the result map without a lock;
  the model takes each write as one step.)
\<close>

fun gather_metrics ::
    "('w, 'e) kube_env \<Rightarrow> string \<Rightarrow> string \<Rightarrow> metrics \<Rightarrow> 'e go_err option \<Rightarrow> string list \<Rightarrow>
     ('w, 'e, 'e go_err + metrics) kprog" where
  "gather_metrics E node gpu health first_err [] =
     ret (case first_err of Some err \<Rightarrow> Inl err | None \<Rightarrow> Inr health)"
| "gather_metrics E node gpu health first_err (healthMetric # order) = do {
     val \<leftarrow> GetDCGMMetric E (first_err \<noteq> None) healthMetric node gpu;
     case val of
       Inl err \<Rightarrow> gather_metrics E node gpu health
                    (case first_err of None \<Rightarrow> Some err | Some e \<Rightarrow> Some e) order
     | Inr val \<Rightarrow> gather_metrics E node gpu (go_put healthMetric val health) first_err order
   }"

text \<open>\<open>order\<close> arranges the table: every order in which its goroutines can finish.\<close>

definition GetFullGPUNodeHealthCheck ::
    "('w, 'e) kube_env \<Rightarrow> nat list \<Rightarrow> string \<Rightarrow> string \<Rightarrow> ('w, 'e, 'e go_err + metrics) kprog" where
  "GetFullGPUNodeHealthCheck E order node gpu =
     gather_metrics E node gpu [] None (arrange order (map fst HealthMetrics))"

section \<open>What a scan holds\<close>

text \<open>The three labels a sample is filed under.\<close>

definition sample_key :: "Sample \<Rightarrow> string \<times> string \<times> string" where
  "sample_key sample =
     (or_empty (go_get (sampleMetric sample) ''node''),
      or_empty (go_get (sampleMetric sample) ''gpu''),
      or_empty (go_get (sampleMetric sample) ''__name__''))"

definition scan_get :: "health_scan \<Rightarrow> string \<Rightarrow> string \<Rightarrow> string \<Rightarrow> go_float option" where
  "scan_get scan node gpu metric = go_get (or_make (go_get (or_make (go_get scan node)) gpu)) metric"

text \<open>The value the last sample filed under a key has, as a \<open>float32\<close>.\<close>

fun last_value :: "Sample list \<Rightarrow> string \<times> string \<times> string \<Rightarrow> go_float option" where
  "last_value [] key = None"
| "last_value (sample # vec) key =
     (case last_value vec key of
        Some v \<Rightarrow> Some v
      | None \<Rightarrow> if sample_key sample = key then Some (float32_of (sampleValue sample)) else None)"

definition exports_metrics :: "Sample list \<Rightarrow> string \<Rightarrow> bool" where
  "exports_metrics vec node \<longleftrightarrow> (\<exists>sample \<in> set vec. fst (sample_key sample) = node)"

definition scan_ok :: "health_scan \<Rightarrow> bool" where
  "scan_ok scan \<longleftrightarrow> go_keys_distinct scan \<and>
     (\<forall>(node, gs) \<in> set scan. go_keys_distinct gs \<and> (\<forall>(gpu, ms) \<in> set gs. go_keys_distinct ms))"

lemma or_make_simps [simp]: "or_make None = []" "or_make (Some m) = m"
  by (simp_all add: or_make_def)

lemma scan_get_add_sample:
  "scan_get (add_sample scan sample) node gpu metric =
     (if sample_key sample = (node, gpu, metric) then Some (float32_of (sampleValue sample))
      else scan_get scan node gpu metric)"
  by (auto simp: scan_get_def add_sample_def sample_key_def Let_def)

lemma scan_get_build:
  "scan_get (build_scan scan vec) node gpu metric =
     (case last_value vec (node, gpu, metric) of Some v \<Rightarrow> Some v | None \<Rightarrow> scan_get scan node gpu metric)"
  by (induction scan vec rule: build_scan.induct) (auto simp: scan_get_add_sample split: option.splits)

lemma scan_get_Nil [simp]: "scan_get [] node gpu metric = None"
  by (simp add: scan_get_def)

lemma scan_get_build_Nil:
  "scan_get (build_scan [] vec) node gpu metric = last_value vec (node, gpu, metric)"
  by (simp add: scan_get_build split: option.split)

lemma go_get_build:
  "go_get (build_scan scan vec) node = None \<longleftrightarrow>
     go_get scan node = None \<and> \<not> exports_metrics vec node"
  by (induction scan vec rule: build_scan.induct)
    (auto simp: add_sample_def Let_def sample_key_def exports_metrics_def)

lemma or_make_get_all: "\<forall>(k, m) \<in> set M. P m \<Longrightarrow> P [] \<Longrightarrow> P (or_make (go_get M k))"
  by (auto simp: or_make_def split: option.splits dest: map_of_SomeD)

lemma go_put_all:
  "\<forall>(k, v) \<in> set m. P v \<Longrightarrow> P w \<Longrightarrow> \<forall>(k, v) \<in> set (go_put k' w m). P v"
  by (induction m) (auto split: if_splits)

lemma scan_ok_add_sample: 
  assumes "scan_ok scan"
  shows "scan_ok (add_sample scan sample)"
proof -
  let ?ok = "\<lambda>gs. go_keys_distinct gs \<and> (\<forall>(gpu, ms) \<in> set gs. go_keys_distinct ms)"
  define node where k1: "node = or_empty (go_get (sampleMetric sample) ''node'')"
  define gpu where k2: "gpu = or_empty (go_get (sampleMetric sample) ''gpu'')"
  define metric where k3: "metric = or_empty (go_get (sampleMetric sample) ''__name__'')"
  have gs: "?ok (or_make (go_get scan node))"
    by (rule or_make_get_all [where P = ?ok]) (use assms in \<open>simp_all add: scan_ok_def\<close>)
  have "go_keys_distinct (or_make (go_get (or_make (go_get scan node)) gpu))"
    by (rule or_make_get_all [where P = go_keys_distinct]) (use gs in simp_all)
  with gs have "?ok (go_put gpu (go_put metric (float32_of (sampleValue sample))
      (or_make (go_get (or_make (go_get scan node)) gpu))) (or_make (go_get scan node)))"
    by (intro conjI go_keys_distinct_put go_put_all [where P = go_keys_distinct]) simp_all
  then have "\<forall>(node, gs) \<in> set (add_sample scan sample). ?ok gs"
    unfolding add_sample_def Let_def k1 [symmetric] k2 [symmetric] k3 [symmetric]
    by (rule go_put_all [where P = ?ok, rotated]) (use assms in \<open>simp add: scan_ok_def\<close>)
  moreover have "go_keys_distinct (add_sample scan sample)"
    using assms by (simp add: scan_ok_def add_sample_def Let_def)
  ultimately show ?thesis unfolding scan_ok_def by blast
qed

lemma scan_ok_build: "scan_ok scan \<Longrightarrow> scan_ok (build_scan scan vec)"
  by (induction scan vec rule: build_scan.induct) (simp_all add: scan_ok_add_sample)

lemma GetFullGPUClusterHealthCheck_runs:
  "satisfies (GetFullGPUClusterHealthCheck E) (\<lambda>r es.
     (\<exists>err. r = Inl (Ext err) \<and> es = [Query GpuClusterHealthScanPrmQuery (Inl err)]) \<or>
     (\<exists>vec. r = Inr (build_scan [] vec) \<and> es = [Query GpuClusterHealthScanPrmQuery (Inr (Vector vec))]) \<or>
     (\<exists>v. (\<forall>vec. v \<noteq> Vector vec) \<and> r = Inl (ExpectedVector v) \<and>
          es = [Query GpuClusterHealthScanPrmQuery (Inr v)]))"
  unfolding GetFullGPUClusterHealthCheck_def callQuery_def
  by (rule sat_bind, rule sat_invoke) (auto split: sum.splits prom_value.splits intro!: sat)

section \<open>What a report holds\<close>

text \<open>The reading an answer to a query holds, if it holds one, and the query for a metric.\<close>

definition reading :: "'e + prom_value \<Rightarrow> go_float option" where
  "reading answer = (case answer of Inl _ \<Rightarrow> None
     | Inr v \<Rightarrow> (case (modelValToFloatVal v :: unit go_err + go_float) of Inl _ \<Rightarrow> None | Inr f \<Rightarrow> Some f))"

definition metric_query :: "string \<Rightarrow> string \<Rightarrow> string \<Rightarrow> string" where
  "metric_query node gpu metric = metric @ ''{node=\"'' @ node @ ''\", gpu=\"'' @ gpu @ ''\"}''"

lemma modelValToFloatVal_reading:
  "modelValToFloatVal v = Inr f \<Longrightarrow> reading (Inr v) = Some f"
  "modelValToFloatVal v = Inl e \<Longrightarrow> reading (Inr v) = None"
  by (cases v rule: modelValToFloatVal.cases; simp add: reading_def)+

lemma reading_Inl [simp]: "reading (Inl e) = None"
  by (simp add: reading_def)

text \<open>What a query under a cancelled context is answered is an answer to such a query.\<close>

definition answered :: "('w, 'e) kube_env \<Rightarrow> bool \<Rightarrow> string \<Rightarrow> ('e + prom_value) \<Rightarrow> bool" where
  "answered E cancelled q answer \<longleftrightarrow> (\<exists>w. answer = fst (srvQuery E cancelled q w))"

lemma GetDCGMMetric_runs:
  "satisfies (GetDCGMMetric E ctx metric node gpu) (\<lambda>r es. \<exists>answer. es = [Query (metric_query node gpu metric) answer] \<and>
     answered E ctx (metric_query node gpu metric) answer \<and>
     (case r of Inl _ \<Rightarrow> reading answer = None | Inr f \<Rightarrow> reading answer = Some f))"
proof -
  have "satisfies (callQuery E ctx q) (\<lambda>r es. es = [Query q r] \<and> answered E ctx q r)" for q
    by (auto simp: callQuery_def satisfies_def answered_def)
  then show ?thesis
    unfolding GetDCGMMetric_def executeNodeGpuMetric_def Let_def metric_query_def [symmetric]
    by (rule sat_seq) (auto intro!: sat simp: modelValToFloatVal_reading)
qed

text \<open>The answers in the order in which they come: after the first without a reading, under a cancelled context.\<close>

fun answers_in_turn :: "('w, 'e) kube_env \<Rightarrow> string \<Rightarrow> string \<Rightarrow> bool \<Rightarrow> (string \<times> ('e + prom_value)) list \<Rightarrow> bool" where
  "answers_in_turn E node gpu cancelled [] \<longleftrightarrow> True"
| "answers_in_turn E node gpu cancelled ((metric, answer) # asked) \<longleftrightarrow>
     answered E cancelled (metric_query node gpu metric) answer \<and>
     answers_in_turn E node gpu (cancelled \<or> reading answer = None) asked"

lemma gather_metrics_runs:
  "satisfies (gather_metrics E node gpu health first_err order) (\<lambda>r es. \<exists>asked. map fst asked = order \<and>
     es = map (\<lambda>(metric, answer). Query (metric_query node gpu metric) answer) asked \<and>
     answers_in_turn E node gpu (first_err \<noteq> None) asked \<and>
     (case r of
        Inr h \<Rightarrow> first_err = None \<and> (\<forall>(metric, a) \<in> set asked. reading a \<noteq> None) \<and>
          h = fold (\<lambda>(metric, a). go_put metric (the (reading a))) asked health
      | Inl _ \<Rightarrow> first_err \<noteq> None \<or> (\<exists>(metric, a) \<in> set asked. reading a = None)))"
proof (induction order arbitrary: health first_err)
  case Nil
  show ?case by (auto intro!: sat split: option.split)
next
  case (Cons metric order)
  show ?case
    unfolding gather_metrics.simps
    apply (rule sat_seq [OF GetDCGMMetric_runs])
    apply (elim exE conjE)
    apply (rule sat_sum)
    subgoal for x es answer err
      apply (rule satisfies_mono [OF Cons.IH])
      apply (elim exE)
      subgoal for r es' asked
        by (rule exI [of _ "(metric, answer) # asked"]) (auto split: sum.splits option.splits)
      done
    subgoal for x es answer f
      apply (rule satisfies_mono [OF Cons.IH])
      apply (elim exE)
      subgoal for r es' asked
        by (rule exI [of _ "(metric, answer) # asked"]) (auto split: sum.splits)
      done
    done
qed

lemma go_get_fold_put:
  assumes "distinct (map fst kvs)"
  shows "go_get (fold (\<lambda>(k, a). go_put k (f a)) kvs m) k =
    (case map_of kvs k of Some a \<Rightarrow> Some (f a) | None \<Rightarrow> go_get m k)"
  using assms
proof (induction kvs arbitrary: m)
  case (Cons kv kvs)
  obtain k' a where kv: "kv = (k', a)" by (cases kv)
  have "map_of kvs k' = None" using Cons.prems kv by (simp add: map_of_eq_None_iff)
  moreover have "go_get (fold (\<lambda>(k, a). go_put k (f a)) kvs (go_put k' (f a) m)) k =
      (case map_of kvs k of Some a \<Rightarrow> Some (f a) | None \<Rightarrow> go_get (go_put k' (f a) m) k)"
    using Cons by simp
  ultimately show ?case by (simp add: kv split: option.split)
qed simp

end
