(* ===== verification/Goroutines.thy ===== *)
theory Goroutines
  imports Effects
begin

text \<open>
  Two goroutines and a \<open>sync.WaitGroup\<close>. A goroutine is a step function on its program counter: one
  call to the outside world per step, \<open>None\<close> when it has ended; \<open>fin\<close> is its code run alone from a
  program counter to the end. The interface \<open>goroutine\<close> says which event sequences a goroutine can
  still produce; \<open>goroutine_pair\<close> shows, once, that every schedule of two of them produces a shuffle
  of a sequence of the one and a sequence of the other.
\<close>

text \<open>
  At each element of the schedule one goroutine makes a step (\<open>True\<close>: the first one) unless it has
  ended; when the schedule is used up both run to their end. So every interleaving is the run of some
  schedule, and every schedule is a complete run up to \<open>wg.Wait()\<close>.
\<close>

fun run_pair ::
    "('a \<Rightarrow> ('w, 'ev, 'a) prog option) \<Rightarrow> ('a \<Rightarrow> ('w, 'ev, 'x) prog) \<Rightarrow>
     ('b \<Rightarrow> ('w, 'ev, 'b) prog option) \<Rightarrow> ('b \<Rightarrow> ('w, 'ev, 'y) prog) \<Rightarrow>
     bool list \<Rightarrow> 'a \<Rightarrow> 'b \<Rightarrow> ('w, 'ev, unit) prog" where
  "run_pair step1 fin1 step2 fin2 [] p q = do {
     _ \<leftarrow> fin1 p;
     _ \<leftarrow> fin2 q;
     ret ()
   }"
| "run_pair step1 fin1 step2 fin2 (True # sched) p q =
     (case step1 p of
        None \<Rightarrow> run_pair step1 fin1 step2 fin2 sched p q
      | Some m \<Rightarrow> do { p' \<leftarrow> m; run_pair step1 fin1 step2 fin2 sched p' q })"
| "run_pair step1 fin1 step2 fin2 (False # sched) p q =
     (case step2 q of
        None \<Rightarrow> run_pair step1 fin1 step2 fin2 sched p q
      | Some m \<Rightarrow> do { q' \<leftarrow> m; run_pair step1 fin1 step2 fin2 sched p q' })"

locale goroutine =
  fixes step :: "'a \<Rightarrow> ('w, 'ev, 'a) prog option"
    and fin :: "'a \<Rightarrow> ('w, 'ev, 'x) prog"
    and can :: "'a \<Rightarrow> 'ev list \<Rightarrow> bool"
  assumes step_can:
      "step p = Some m \<Longrightarrow> satisfies m (\<lambda>p' es. \<forall>es'. can p' es' \<longrightarrow> can p (es @ es'))"
    and fin_can: "satisfies (fin p) (\<lambda>_ es. can p es)"
    and fin_step: "step p = Some m \<Longrightarrow> fin p = State_Monad.bind m fin"
    and fin_stop: "step p = None \<Longrightarrow> \<exists>x. fin p = ret x"
begin

text \<open>A stopped goroutine has nothing left to do.\<close>

lemma stop_can: "step p = None \<Longrightarrow> can p []"
  using fin_can [of p] fin_stop [of p] by (auto simp: satisfies_def)

text \<open>Running alone some steps and then the rest is running the code from the start.\<close>

fun steps :: "nat \<Rightarrow> 'a \<Rightarrow> ('w, 'ev, 'a) prog" where
  "steps 0 p = ret p"
| "steps (Suc n) p = (case step p of None \<Rightarrow> ret p | Some m \<Rightarrow> State_Monad.bind m (steps n))"

lemma steps_fin: "State_Monad.bind (steps n p) fin = fin p"
proof (induction n arbitrary: p)
  case (Suc n)
  then show ?case by (cases "step p") (simp_all add: fin_step)
qed simp

end

lemma shuffles_appendL: "zs \<in> shuffles xs ys \<Longrightarrow> es @ zs \<in> shuffles (es @ xs) ys"
  by (induction es) (auto intro: Cons_in_shuffles_leftI)

lemma shuffles_appendR: "zs \<in> shuffles xs ys \<Longrightarrow> es @ zs \<in> shuffles xs (es @ ys)"
  by (induction es) (auto intro: Cons_in_shuffles_rightI)

lemma append_in_shuffles: "xs @ ys \<in> shuffles xs ys"
  using shuffles_appendL [of ys "[]" ys xs] by simp

locale goroutine_pair =
  first: goroutine step1 fin1 can1 + second: goroutine step2 fin2 can2
  for step1 :: "'a \<Rightarrow> ('w, 'ev, 'a) prog option" and fin1 :: "'a \<Rightarrow> ('w, 'ev, 'x) prog"
    and can1 :: "'a \<Rightarrow> 'ev list \<Rightarrow> bool"
    and step2 :: "'b \<Rightarrow> ('w, 'ev, 'b) prog option" and fin2 :: "'b \<Rightarrow> ('w, 'ev, 'y) prog"
    and can2 :: "'b \<Rightarrow> 'ev list \<Rightarrow> bool"
begin

lemma run_pair_shuffles:
  "satisfies (run_pair step1 fin1 step2 fin2 sched p q)
     (\<lambda>_ es. \<exists>es1 es2. can1 p es1 \<and> can2 q es2 \<and> es \<in> shuffles es1 es2)"
proof (induction sched arbitrary: p q)
  case Nil
  show ?case
    by (simp, rule sat_seq [OF first.fin_can], rule sat_seq [OF second.fin_can], rule sat_return)
      (simp, blast intro: append_in_shuffles)
next
  case (Cons b sched)
  show ?case
  proof (cases b)
    case True
    show ?thesis
    proof (cases "step1 p")
      case None
      then show ?thesis using True Cons by simp
    next
      case (Some m)
      have "satisfies (State_Monad.bind m (\<lambda>p'. run_pair step1 fin1 step2 fin2 sched p' q))
          (\<lambda>_ es. \<exists>es1 es2. can1 p es1 \<and> can2 q es2 \<and> es \<in> shuffles es1 es2)"
        by (rule sat_seq [OF first.step_can [OF Some]], rule satisfies_mono [OF Cons])
          (blast intro: shuffles_appendL)
      then show ?thesis using True Some by simp
    qed
  next
    case False
    show ?thesis
    proof (cases "step2 q")
      case None
      then show ?thesis using False Cons by simp
    next
      case (Some m)
      have "satisfies (State_Monad.bind m (\<lambda>q'. run_pair step1 fin1 step2 fin2 sched p q'))
          (\<lambda>_ es. \<exists>es1 es2. can1 p es1 \<and> can2 q es2 \<and> es \<in> shuffles es1 es2)"
        by (rule sat_seq [OF second.step_can [OF Some]], rule satisfies_mono [OF Cons])
          (blast intro: shuffles_appendR)
      then show ?thesis using False Some by simp
    qed
  qed
qed

end

end
