(* ===== verification/Node_Discovery.thy ===== *)
theory Node_Discovery
  imports Kube_Client Prom_Client Goroutines
begin

text \<open>
  \<open>internal/controller/gpu_node_discovery.go\<close>: the GPU nodes of the cluster split by the health of
  their metrics, and the two goroutines that write the verdicts back to the nodes.
\<close>

definition MULTI_NODE_NVLINK_INDICATOR :: string where
  "MULTI_NODE_NVLINK_INDICATOR = ''nvidia.com/gpu.clique''"
definition GPU_NODE_FAMILY_INDICATOR :: string where
  "GPU_NODE_FAMILY_INDICATOR = ''nvidia.com/gpu.family''"

definition NVLINK_ENHANCED_NODES :: "(string, bool) gomap" where
  "NVLINK_ENHANCED_NODES = [(''hopper'', True), (''ampere'', True)]"

section \<open>The verdict on a node\<close>

text \<open>A metric that is not in the table has the zero range.\<close>

definition range_of :: "string \<Rightarrow> HealthRange" where
  "range_of metric = (case go_get HealthMetrics metric of
     Some r \<Rightarrow> r | None \<Rightarrow> \<lparr>rangeMin = Fin 0, rangeMax = Fin 0\<rparr>)"

definition out_of_range :: "string \<Rightarrow> go_float \<Rightarrow> bool" where
  "out_of_range metric value \<longleftrightarrow>
     value < rangeMin (range_of metric) \<or> rangeMax (range_of metric) < value"

fun scan_metrics :: "bool \<Rightarrow> metrics \<Rightarrow> bool" where
  "scan_metrics healthy [] = healthy"
| "scan_metrics healthy ((metric, value) # ms) =
     scan_metrics (if out_of_range metric value then False else healthy) ms"

fun scan_gpus :: "bool \<Rightarrow> gpus \<Rightarrow> bool" where
  "scan_gpus healthy [] = healthy"
| "scan_gpus healthy ((gpuCore, ms) # gs) = scan_gpus (scan_metrics healthy ms) gs"

fun split_nodes :: "health_scan \<Rightarrow> Node list \<Rightarrow> Node list \<Rightarrow> Node list \<Rightarrow> Node list \<times> Node list" where
  "split_nodes healthScan healthyNodes unhealthyNodes [] = (healthyNodes, unhealthyNodes)"
| "split_nodes healthScan healthyNodes unhealthyNodes (gpuNode # gpuNodes) =
     (case go_get healthScan (nodeName gpuNode) of
        None \<Rightarrow> split_nodes healthScan healthyNodes unhealthyNodes gpuNodes
      | Some gpuCores \<Rightarrow>
          if scan_gpus True gpuCores
          then split_nodes healthScan (healthyNodes @ [gpuNode]) unhealthyNodes gpuNodes
          else split_nodes healthScan healthyNodes (unhealthyNodes @ [gpuNode]) gpuNodes)"

definition ListGPUNodes ::
    "('w, 'e) kube_env \<Rightarrow> ('w, 'e, 'e go_err + Node list \<times> Node list) kprog" where
  "ListGPUNodes E = do {
     gpuNodes \<leftarrow> GetClusterGPUNodes E;
     case gpuNodes of
       Inl err \<Rightarrow> ret (Inl err)
     | Inr gpuNodes \<Rightarrow> do {
         healthScan \<leftarrow> GetFullGPUClusterHealthCheck E;
         case healthScan of
           Inl err \<Rightarrow> ret (Inl err)
         | Inr healthScan \<Rightarrow> ret (Inr (split_nodes healthScan [] [] gpuNodes))
       }
   }"

definition IsNvlinkCapable :: "Node \<Rightarrow> bool" where
  "IsNvlinkCapable node \<longleftrightarrow>
     node_label node MULTI_NODE_NVLINK_INDICATOR \<noteq> None \<or>
     go_get NVLINK_ENHANCED_NODES (or_empty (node_label node GPU_NODE_FAMILY_INDICATOR)) \<noteq> None"

section \<open>Writing the verdicts back: two goroutines\<close>

text \<open>
  Where a goroutine stands, one call of the API server per step. The restoring goroutine is at the
  head of its loop, or holds the allocations of a node it has still to patch; the isolating goroutine
  is at the head of its loop.
\<close>

datatype restore_pc = NextNode "Node list" | PatchNext Node GpuResourceStatus "Node list"

fun restore_step ::
    "('w, 'e) kube_env \<Rightarrow> restore_pc \<Rightarrow> ('w, 'e, restore_pc) kprog option" where
  "restore_step E (NextNode []) = None"
| "restore_step E (NextNode (node # nodes)) = Some (do {
     status \<leftarrow> GetGpuNodeAllocations E node;
     ret (case status of Inl err \<Rightarrow> NextNode nodes | Inr status \<Rightarrow> PatchNext node status nodes)
   })"
| "restore_step E (PatchNext node status nodes) = Some (do {
     _ \<leftarrow> callPatchNode E (nodeName node) (restoration_patch node status);
     ret (NextNode nodes)
   })"

fun isolate_step :: "('w, 'e) kube_env \<Rightarrow> Node list \<Rightarrow> ('w, 'e, Node list) kprog option" where
  "isolate_step E [] = None"
| "isolate_step E (node # nodes) = Some (do {
     _ \<leftarrow> callPatchNode E (nodeName node) isolation_patch;
     ret nodes
   })"

text \<open>The restoring goroutine from a program counter to its end: the loop of the client.\<close>

fun finish_restore :: "('w, 'e) kube_env \<Rightarrow> restore_pc \<Rightarrow> ('w, 'e, 'e go_err option) kprog" where
  "finish_restore E (NextNode nodes) = RestoreHealthyNodes E nodes"
| "finish_restore E (PatchNext node status nodes) = do {
     _ \<leftarrow> callPatchNode E (nodeName node) (restoration_patch node status);
     RestoreHealthyNodes E nodes
   }"

definition SyncNodeHealthStatus ::
    "('w, 'e) kube_env \<Rightarrow> bool list \<Rightarrow> Node list \<Rightarrow> Node list \<Rightarrow> ('w, 'e, unit) kprog" where
  "SyncNodeHealthStatus E sched healthyNodes unhealthyNodes =
     run_pair (restore_step E) (finish_restore E) (isolate_step E) (IsolateUnhealthyNodes E) sched
       (NextNode (if 0 < length healthyNodes then healthyNodes else []))
       (if 0 < length unhealthyNodes then unhealthyNodes else [])"

section \<open>Verdicts\<close>

lemma scan_metrics_all: "scan_metrics h ms \<longleftrightarrow> h \<and> (\<forall>(m, v) \<in> set ms. \<not> out_of_range m v)"
  by (induction h ms rule: scan_metrics.induct) auto

lemma scan_gpus_all:
  "scan_gpus h gs \<longleftrightarrow> h \<and> (\<forall>(g, ms) \<in> set gs. \<forall>(m, v) \<in> set ms. \<not> out_of_range m v)"
  by (induction h gs rule: scan_gpus.induct) (auto simp: scan_metrics_all)

text \<open>
  The verdict in terms of the samples of the query: the last value of every GPU and metric of the node
  is in its range.
\<close>

definition in_ranges :: "Sample list \<Rightarrow> string \<Rightarrow> bool" where
  "in_ranges vec node \<longleftrightarrow>
     (\<forall>gpu metric v. last_value vec (node, gpu, metric) = Some v \<longrightarrow> \<not> out_of_range metric v)"

lemma scan_get_mem:
  assumes "scan_ok scan" and "go_get scan node = Some gs"
  shows "scan_get scan node gpu metric = Some v \<longleftrightarrow> (\<exists>ms. (gpu, ms) \<in> set gs \<and> (metric, v) \<in> set ms)"
proof -
  have gs: "go_keys_distinct gs" "\<forall>(gpu, ms) \<in> set gs. go_keys_distinct ms"
    using assms(1) map_of_SomeD [OF assms(2)] unfolding scan_ok_def by (blast, fast)
  show ?thesis
  proof (cases "go_get gs gpu")
    case None
    then have "(gpu, ms) \<notin> set gs" for ms using gs by (simp add: go_get_iff_mem [symmetric])
    then show ?thesis using None assms(2) by (simp add: scan_get_def)
  next
    case (Some ms)
    have mem: "(gpu, ms') \<in> set gs \<longleftrightarrow> ms' = ms" for ms'
      using Some by (auto simp: go_get_iff_mem [OF gs(1), symmetric])
    then have d: "go_keys_distinct ms" using gs(2) by blast
    show ?thesis
      unfolding scan_get_def assms(2) or_make_simps Some mem using go_get_iff_mem [OF d] by simp
  qed
qed

lemma verdict_in_ranges:
  assumes "go_get (build_scan [] vec) node = Some gs"
  shows "scan_gpus True gs \<longleftrightarrow> in_ranges vec node"
proof -
  have ok: "scan_ok (build_scan [] vec)"
    by (rule scan_ok_build) (simp add: scan_ok_def)
  have "last_value vec (node, gpu, metric) = Some v \<longleftrightarrow>
      (\<exists>ms. (gpu, ms) \<in> set gs \<and> (metric, v) \<in> set ms)" for gpu metric v
    using scan_get_mem [OF ok assms] by (simp add: scan_get_build_Nil)
  then show ?thesis unfolding in_ranges_def scan_gpus_all by fastforce
qed

lemma split_nodes_filter:
  "split_nodes scan h u nodes =
     (h @ filter (\<lambda>n. case go_get scan (nodeName n) of None \<Rightarrow> False | Some gs \<Rightarrow> scan_gpus True gs) nodes,
      u @ filter (\<lambda>n. case go_get scan (nodeName n) of None \<Rightarrow> False | Some gs \<Rightarrow> \<not> scan_gpus True gs) nodes)"
  by (induction scan h u nodes rule: split_nodes.induct) (auto split: option.splits)

lemma split_nodes_verdicts:
  "split_nodes (build_scan [] vec) [] [] nodes =
     (filter (\<lambda>n. exports_metrics vec (nodeName n) \<and> in_ranges vec (nodeName n)) nodes,
      filter (\<lambda>n. exports_metrics vec (nodeName n) \<and> \<not> in_ranges vec (nodeName n)) nodes)"
proof -
  have "(case go_get (build_scan [] vec) m of None \<Rightarrow> False | Some gs \<Rightarrow> scan_gpus True gs) \<longleftrightarrow>
      exports_metrics vec m \<and> in_ranges vec m" for m
    using go_get_build [of "[]" vec m] verdict_in_ranges [of vec m]
    by (cases "go_get (build_scan [] vec) m") auto
  moreover have "(case go_get (build_scan [] vec) m of None \<Rightarrow> False | Some gs \<Rightarrow> \<not> scan_gpus True gs) \<longleftrightarrow>
      exports_metrics vec m \<and> \<not> in_ranges vec m" for m
    using go_get_build [of "[]" vec m] verdict_in_ranges [of vec m]
    by (cases "go_get (build_scan [] vec) m") auto
  ultimately show ?thesis by (simp add: split_nodes_filter)
qed

text \<open>The nodes of a listing that are selected, export metrics, and have the given verdict.\<close>

definition nodes_with :: "bool \<Rightarrow> Sample list \<Rightarrow> Node list \<Rightarrow> Node list" where
  "nodes_with healthy vec items =
     filter (\<lambda>n. is_gpu_node n \<and> exports_metrics vec (nodeName n) \<and> in_ranges vec (nodeName n) = healthy) items"

lemma split_valid_nodes:
  "split_nodes (build_scan [] vec) [] [] (filter is_gpu_node items) =
     (nodes_with True vec items, nodes_with False vec items)"
  by (auto simp: split_nodes_verdicts nodes_with_def intro: filter_cong)

text \<open>The two events of a listing and the query of a successful discovery.\<close>

definition discovery :: "'e event list \<Rightarrow> Node list \<Rightarrow> Sample list \<Rightarrow> bool" where
  "discovery es items vec \<longleftrightarrow>
     (\<exists>sel. es = [ListNodes sel (Inr items), Query GpuClusterHealthScanPrmQuery (Inr (Vector vec))])"

definition only_reads :: "'e event \<Rightarrow> bool" where
  "only_reads e \<longleftrightarrow> (case e of ListNodes _ _ \<Rightarrow> True | Query _ _ \<Rightarrow> True | _ \<Rightarrow> False)"

lemma ListGPUNodes_runs:
  "satisfies (ListGPUNodes E) (\<lambda>r es. (\<forall>e \<in> set es. only_reads e) \<and>
     (case r of Inl _ \<Rightarrow> True | Inr hu \<Rightarrow>
        \<exists>items vec. discovery es items vec \<and> hu = (nodes_with True vec items, nodes_with False vec items)))"
  unfolding ListGPUNodes_def
proof (rule sat_seq [OF GetClusterGPUNodes_runs])
  fix r :: "'b go_err + Node list" and es :: "'b event list"
  assume r: "case ExistsSelector E GPU_NODE_LABEL_INDICATOR of
        Inl err \<Rightarrow> r = Inl (Ext err) \<and> es = []
      | Inr sel \<Rightarrow> (\<exists>err. r = Inl (Ext err) \<and> es = [ListNodes sel (Inl err)]) \<or>
                   (\<exists>items. r = Inr (filter is_gpu_node items) \<and> es = [ListNodes sel (Inr items)])"
  show "satisfies (case r of Inl err \<Rightarrow> ret (Inl err)
      | Inr gpuNodes \<Rightarrow> do {
          healthScan \<leftarrow> GetFullGPUClusterHealthCheck E;
          case healthScan of
            Inl err \<Rightarrow> ret (Inl err)
          | Inr healthScan \<Rightarrow> ret (Inr (split_nodes healthScan [] [] gpuNodes))
        }) (\<lambda>r es'. (\<forall>e \<in> set (es @ es'). only_reads e) \<and>
     (case r of Inl _ \<Rightarrow> True | Inr hu \<Rightarrow>
        \<exists>items vec. discovery (es @ es') items vec \<and> hu = (nodes_with True vec items, nodes_with False vec items)))"
  proof (cases r)
    case (Inl err)
    then show ?thesis using r by (auto intro!: sat simp: only_reads_def split: sum.splits)
  next
    case (Inr nodes)
    then obtain sel items where "nodes = filter is_gpu_node items" "es = [ListNodes sel (Inr items)]"
      using r by (auto split: sum.splits)
    then show ?thesis using Inr
      by (simp, intro sat_seq [OF GetFullGPUClusterHealthCheck_runs])
        (auto intro!: sat simp: only_reads_def discovery_def split_valid_nodes)
  qed
qed

section \<open>The goroutines of the synchronisation\<close>

text \<open>What the restoring goroutine can still log from a program counter.\<close>

fun can_restore :: "restore_pc \<Rightarrow> 'e event list \<Rightarrow> bool" where
  "can_restore (NextNode nodes) es \<longleftrightarrow> restoration_log nodes es"
| "can_restore (PatchNext node status nodes) (PatchNode name patch r # es) \<longleftrightarrow>
     name = nodeName node \<and> patch = restoration_patch node status \<and> restoration_log nodes es"
| "can_restore (PatchNext node status nodes) _ \<longleftrightarrow> False"

fun_cases restore_step_SomeE: "restore_step E p = Some m"
fun_cases isolate_step_SomeE: "isolate_step E p = Some m"

lemma next_node_can:
  "satisfies (do {
       status \<leftarrow> GetGpuNodeAllocations E node;
       ret (case status of Inl err \<Rightarrow> NextNode nodes | Inr status \<Rightarrow> PatchNext node status nodes)
     }) (\<lambda>p' es. \<forall>es'. can_restore p' es' \<longrightarrow> can_restore (NextNode (node # nodes)) (es @ es'))"
proof (rule sat_seq [OF GetGpuNodeAllocations_runs], rule sat_return, intro allI impI)
  fix r :: "'b go_err + GpuResourceStatus" and es es' :: "'b event list"
  assume "(\<exists>err. r = Inl (Ext err) \<and> es = [ListPods '''' (''spec.nodeName='' @ nodeName node) (Inl err)]) \<or>
     (\<exists>pods. r = Inr \<lparr>Allocated = count_allocated 0 pods, Allocatable = GetNodeAllocatableGPUs node\<rparr> \<and>
             es = [ListPods '''' (''spec.nodeName='' @ nodeName node) (Inr pods)])"
    and "can_restore (case r of Inl err \<Rightarrow> NextNode nodes | Inr status \<Rightarrow> PatchNext node status nodes) es'"
  then show "can_restore (NextNode (node # nodes)) ((es @ []) @ es')"
    by (cases es'; cases "hd es'") auto
qed

lemma restore_step_can:
  assumes "restore_step E p = Some m"
  shows "satisfies m (\<lambda>p' es. \<forall>es'. can_restore p' es' \<longrightarrow> can_restore p (es @ es'))"
  using assms
proof (rule restore_step_SomeE)
  fix node nodes
  assume "p = NextNode (node # nodes)"
    and "m = do {
       status \<leftarrow> GetGpuNodeAllocations E node;
       ret (case status of Inl err \<Rightarrow> NextNode nodes | Inr status \<Rightarrow> PatchNext node status nodes)
     }"
  then show ?thesis by (simp only: next_node_can)
next
  fix node status nodes
  assume p: "p = PatchNext node status nodes"
    and m: "m = do {
       _ \<leftarrow> callPatchNode E (nodeName node) (restoration_patch node status);
       ret (NextNode nodes)
     }"
  show ?thesis unfolding p m callPatchNode_def by (intro sat_bind sat_invoke sat_return) simp
qed

lemma finish_restore_can: "satisfies (finish_restore E p) (\<lambda>_ es. can_restore p es)"
proof (cases p)
  case (NextNode nodes)
  then show ?thesis by (auto intro: satisfies_mono [OF RestoreHealthyNodes_runs])
next
  case (PatchNext node status nodes)
  then show ?thesis unfolding callPatchNode_def
    by (auto intro!: sat_bind sat_invoke intro: satisfies_mono [OF RestoreHealthyNodes_runs] simp: callPatchNode_def)
qed

interpretation restorer: goroutine "restore_step E" "finish_restore E" can_restore for E
proof
  show "finish_restore E p = State_Monad.bind m (finish_restore E)" if "restore_step E p = Some m" for p m
    using that by (auto elim!: restore_step_SomeE intro!: arg_cong [where f = "State_Monad.bind _"]
        simp: fun_eq_iff split: sum.split)
  show "\<exists>x. finish_restore E p = ret x" if "restore_step E p = None" for p
    using that by (cases "(E, p)" rule: restore_step.cases) auto
qed (fact restore_step_can finish_restore_can)+

lemma isolate_step_can:
  assumes "isolate_step E p = Some m"
  shows "satisfies m (\<lambda>p' es. \<forall>es'. isolation_log p' es' \<longrightarrow> isolation_log p (es @ es'))"
  using assms by (auto elim!: isolate_step_SomeE simp: callPatchNode_def intro!: sat_bind sat_invoke sat_return)

interpretation isolator: goroutine "isolate_step E" "IsolateUnhealthyNodes E" isolation_log for E
proof
  show "IsolateUnhealthyNodes E p = State_Monad.bind m (IsolateUnhealthyNodes E)"
    if "isolate_step E p = Some m" for p m
    using that by (auto elim!: isolate_step_SomeE)
  show "\<exists>x. IsolateUnhealthyNodes E p = ret x" if "isolate_step E p = None" for p
    using that by (cases p) auto
  show "satisfies (IsolateUnhealthyNodes E p) (\<lambda>_ es. isolation_log p es)" for p
    by (rule satisfies_mono [OF IsolateUnhealthyNodes_runs]) simp
qed (fact isolate_step_can)

interpretation node_sync: goroutine_pair "restore_step E" "finish_restore E" can_restore
    "isolate_step E" "IsolateUnhealthyNodes E" isolation_log for E ..

lemma SyncNodeHealthStatus_runs:
  "satisfies (SyncNodeHealthStatus E sched h u)
     (\<lambda>_ es. \<exists>es1 es2. restoration_log h es1 \<and> isolation_log u es2 \<and> es \<in> shuffles es1 es2)"
  using node_sync.run_pair_shuffles [of E sched "NextNode h" u]
  by (cases h; cases u) (simp_all add: SyncNodeHealthStatus_def)

lemma isolation_log_map2:
  "isolation_log nodes es \<Longrightarrow>
   \<exists>rs. length rs = length nodes \<and> es = map2 (\<lambda>n r. PatchNode (nodeName n) isolation_patch r) nodes rs"
proof (induction nodes es rule: isolation_log.induct)
  case (2 node nodes name patch r es)
  then obtain rs where "length rs = length nodes"
    and "es = map2 (\<lambda>n r. PatchNode (nodeName n) isolation_patch r) nodes rs" by auto
  then show ?case using 2(2) by (intro exI [of _ "r # rs"]) simp
qed simp_all

lemma restoration_log_events:
  "restoration_log nodes es \<Longrightarrow> e \<in> set es \<Longrightarrow>
   (\<exists>node \<in> set nodes. \<exists>r. e = ListPods '''' (''spec.nodeName='' @ nodeName node) r) \<or>
   (\<exists>node \<in> set nodes. \<exists>status r. e = PatchNode (nodeName node) (restoration_patch node status) r)"
  by (induction nodes es rule: restoration_log.induct) auto

lemma restoration_log_patch:
  "restoration_log nodes es \<Longrightarrow> PatchNode name patch r \<in> set es \<Longrightarrow>
   \<exists>node \<in> set nodes. \<exists>pods. name = nodeName node \<and>
     ListPods '''' (''spec.nodeName='' @ nodeName node) (Inr pods) \<in> set es \<and>
     patch = restoration_patch node
       \<lparr>Allocated = count_allocated 0 pods, Allocatable = GetNodeAllocatableGPUs node\<rparr>"
proof (induction nodes es rule: restoration_log.induct)
  case (2 node nodes ns sel err es)
  then show ?case by fastforce
next
  case (3 node nodes ns sel pods name' patch' r' es)
  from 3(3) consider "PatchNode name patch r = PatchNode name' patch' r'" | "PatchNode name patch r \<in> set es"
    by auto
  then show ?case
  proof cases
    case 1
    then show ?thesis using 3(2) by auto
  next
    case 2
    then show ?thesis using 3(1,2) by fastforce
  qed
qed simp_all

text \<open>Patches of the given nodes.\<close>

definition patches_one_of :: "Node list \<Rightarrow> 'e event \<Rightarrow> bool" where
  "patches_one_of nodes e \<longleftrightarrow> (case e of PatchNode name _ _ \<Rightarrow> name \<in> nodeName ` set nodes | _ \<Rightarrow> False)"

lemma isolation_log_patches: "isolation_log nodes es \<Longrightarrow> e \<in> set es \<Longrightarrow> patches_one_of nodes e"
  by (induction nodes es rule: isolation_log.induct) (auto simp: patches_one_of_def split: event.splits)

lemma SyncNodeHealthStatus_projections:
  assumes "nodeName ` set h \<inter> nodeName ` set u = {}"
  shows "satisfies (SyncNodeHealthStatus E sched h u)
     (\<lambda>_ es. isolation_log u (filter (patches_one_of u) es) \<and>
             restoration_log h (filter (\<lambda>e. \<not> patches_one_of u e) es))"
proof (rule satisfies_mono [OF SyncNodeHealthStatus_runs], elim exE conjE)
  fix es :: "'b event list" and es1 es2
  assume r: "restoration_log h es1" and i: "isolation_log u es2" and sh: "es \<in> shuffles es1 es2"
  have "\<not> patches_one_of u e" if "e \<in> set es1" for e
    using restoration_log_events [OF r that] assms by (auto simp: patches_one_of_def)
  then have 1: "filter (patches_one_of u) es1 = []" "filter (\<lambda>e. \<not> patches_one_of u e) es1 = es1"
    by (simp_all add: filter_empty_conv filter_id_conv)
  have 2: "filter (patches_one_of u) es2 = es2" "filter (\<lambda>e. \<not> patches_one_of u e) es2 = []"
    using isolation_log_patches [OF i] by (simp_all add: filter_empty_conv filter_id_conv)
  have "filter (patches_one_of u) es \<in> shuffles [] es2" "filter (\<lambda>e. \<not> patches_one_of u e) es \<in> shuffles es1 []"
    using imageI [OF sh, of "filter (patches_one_of u)"] imageI [OF sh, of "filter (\<lambda>e. \<not> patches_one_of u e)"]
    unfolding filter_shuffles 1 2 by simp_all
  then show "isolation_log u (filter (patches_one_of u) es) \<and>
      restoration_log h (filter (\<lambda>e. \<not> patches_one_of u e) es)"
    using r i by simp
qed

lemma nodes_with_disjoint:
  "nodeName ` set (nodes_with True vec items) \<inter> nodeName ` set (nodes_with False vec items) = {}"
  by (auto simp: nodes_with_def)

section \<open>The ranges, on the values a GPU reports\<close>

text \<open>The bounds as the source writes them.\<close>

definition decimal_bounds :: "(string \<times> rat \<times> rat) list" where
  "decimal_bounds =
     [(GpuTemp, 35, 85), (MemCopyUtil, 1/10, 6/10), (FBUsage, 2/10, 7/10), (ECC_SBE_Errs, 0, 0),
      (PowerUsage, 100, 250), (GpuUtil, 3/10, 8/10), (NvlinkBandwidth, 250, 400)]"

lemma HealthMetrics_decimal:
  "HealthMetrics = map (\<lambda>(metric, lo, hi). (metric, health_range lo hi)) decimal_bounds"
  by (simp add: HealthMetrics_def decimal_bounds_def)

lemma HealthMetrics_distinct: "go_keys_distinct HealthMetrics"
  by (simp add: go_keys_distinct_def HealthMetrics_def metric_names)

lemma range_of_decimal:
  assumes "(metric, lo, hi) \<in> set decimal_bounds"
  shows "range_of metric = health_range lo hi"
proof -
  have "(metric, health_range lo hi) \<in> set HealthMetrics"
    using assms unfolding HealthMetrics_decimal by force
  then show ?thesis
    by (simp add: range_of_def go_get_iff_mem [OF HealthMetrics_distinct, symmetric])
qed

lemma float32_bounds:
  "(metric, lo, hi) \<in> set decimal_bounds \<Longrightarrow>
   (\<exists>a. float32_of (Fin lo) = Fin a) \<and> (\<exists>b. float32_of (Fin hi) = Fin b)"
proof -
  have "\<forall>(metric, lo, hi) \<in> set decimal_bounds.
      (case float32_of (Fin lo) of Fin a \<Rightarrow> True | _ \<Rightarrow> False) \<and>
      (case float32_of (Fin hi) of Fin a \<Rightarrow> True | _ \<Rightarrow> False)"
    by code_simp
  then show "(metric, lo, hi) \<in> set decimal_bounds \<Longrightarrow>
     (\<exists>a. float32_of (Fin lo) = Fin a) \<and> (\<exists>b. float32_of (Fin hi) = Fin b)"
    by (fastforce split: go_float.splits)
qed

lemma within_decimal_bounds:
  assumes "(metric, lo, hi) \<in> set decimal_bounds" and "lo \<le> q" and "q \<le> hi"
  shows "\<not> out_of_range metric (float32_of (Fin q))"
proof -
  obtain a b where ab: "float32_of (Fin lo) = Fin a" "float32_of (Fin hi) = Fin b"
    using float32_bounds [OF assms(1)] by blast
  then obtain r where "float32_of (Fin q) = Fin r" "a \<le> r" "r \<le> b"
    using float32_of_between [OF ab assms(2,3)] by blast
  then show ?thesis
    using ab range_of_decimal [OF assms(1)] by (simp add: out_of_range_def health_range_def)
qed

lemma unknown_metric_range:
  assumes "go_get HealthMetrics metric = None"
  shows "out_of_range metric (Fin q) \<longleftrightarrow> q \<noteq> 0"
  using assms by (auto simp: out_of_range_def range_of_def)

lemma NaN_in_range: "\<not> out_of_range metric NaN"
  by (simp add: out_of_range_def)

lemma known_metric: "go_get HealthMetrics metric = Some r \<Longrightarrow> \<exists>lo hi. (metric, lo, hi) \<in> set decimal_bounds"
  by (drule map_of_SomeD) (auto simp: HealthMetrics_decimal)

lemma infinite_out_of_range: "out_of_range metric PosInf" "out_of_range metric NegInf"
proof -
  have "\<exists>a b. range_of metric = \<lparr>rangeMin = Fin a, rangeMax = Fin b\<rparr>"
  proof (cases "go_get HealthMetrics metric")
    case None
    then show ?thesis by (simp add: range_of_def)
  next
    case (Some r)
    then obtain lo hi where m: "(metric, lo, hi) \<in> set decimal_bounds" using known_metric by blast
    then show ?thesis
      using float32_bounds [OF m] range_of_decimal [OF m] by (auto simp: health_range_def)
  qed
  then show "out_of_range metric PosInf" "out_of_range metric NegInf"
    by (auto simp: out_of_range_def)
qed

end
