(* ===== verification/Reconciler.thy ===== *)
theory Reconciler
  imports Node_Discovery
begin

text \<open>
  The reconciler, \<open>internal/controller/hpcjob_controller.go\<close>. A handler takes the job it works on as
  a value and, where the code writes through the pointer (\<open>updateJobStatus\<close> and its callers), returns
  the job it leaves behind. \<open>sched\<close> is the interleaving of the two goroutines of the node
  synchronisation. A handler returns the result for the work queue and the error.
\<close>

definition no_result :: Result where "no_result = \<lparr>RequeueAfter = 0\<rparr>"

text \<open>\<open>ctrl.Result{RequeueAfter: 5 * time.Minute}\<close>, in nanoseconds.\<close>

definition in_5_minutes :: Result where "in_5_minutes = \<lparr>RequeueAfter = 5 * (60 * 1000000000)\<rparr>"

section \<open>Status and pod of a job\<close>

text \<open>
  \<open>Status().Update\<close> decodes the object the server returns into the caller's job; when it fails the
  job keeps the new phase.
\<close>

definition updateJobStatus ::
    "('w, 'e) kube_env \<Rightarrow> HPCJob \<Rightarrow> string \<Rightarrow> ('w, 'e, 'e go_err option \<times> HPCJob) kprog" where
  "updateJobStatus E job newPhase = do {
     let job = set_phase newPhase job;
     r \<leftarrow> callUpdateStatus E job;
     case r of
       Inl err \<Rightarrow> ret (Some (Ext err), job)
     | Inr job' \<Rightarrow> ret (None, job')
   }"

definition scanPodStatus ::
    "('w, 'e) kube_env \<Rightarrow> HPCJob \<Rightarrow> ('w, 'e, bool \<times> 'e go_err option \<times> HPCJob) kprog" where
  "scanPodStatus E job = do {
     r \<leftarrow> GetPod E (jobName job) (jobNamespace job);
     case r of
       Inl err \<Rightarrow>
         if IsNotFound E err then ret (False, None, job)
         else do {
           (upd, job) \<leftarrow> updateJobStatus E job Failed;
           case upd of
             Some e \<Rightarrow> ret (True, Some e, job)
           | None \<Rightarrow> ret (True, Some (Ext err), job)
         }
     | Inr pod \<Rightarrow>
         if podPhase pod = PodRunning then do {
           (upd, job) \<leftarrow> updateJobStatus E job Running;
           case upd of Some e \<Rightarrow> ret (True, Some e, job) | None \<Rightarrow> ret (True, None, job)
         }
         else if podPhase pod = PodFailed then do {
           (upd, job) \<leftarrow> updateJobStatus E job Failed;
           case upd of Some e \<Rightarrow> ret (True, Some e, job)
           | None \<Rightarrow> ret (True, Some (PodIsFailing (podName pod)), job)
         }
         else if podPhase pod = PodSucceeded then do {
           (upd, job) \<leftarrow> updateJobStatus E job Complete;
           case upd of Some e \<Rightarrow> ret (True, Some e, job) | None \<Rightarrow> ret (True, None, job)
         }
         else ret (True, None, job)
   }"

definition manageExistingPod ::
    "('w, 'e) kube_env \<Rightarrow> HPCJob \<Rightarrow> ('w, 'e, bool \<times> Result \<times> 'e go_err option \<times> HPCJob) kprog" where
  "manageExistingPod E job = do {
     (podExists, err, job) \<leftarrow> scanPodStatus E job;
     case err of
       Some e \<Rightarrow> ret (podExists, no_result, Some e, job)
     | None \<Rightarrow>
         if podExists then
           if phase_of job \<noteq> Running \<and> phase_of job \<noteq> Failed \<and> phase_of job \<noteq> Complete
           then ret (podExists, in_5_minutes, None, job)
           else ret (podExists, no_result, None, job)
         else ret (podExists, no_result, None, job)
   }"

definition validateJobSpec :: "HPCJob \<Rightarrow> bool" where
  "validateJobSpec job =
     (let requiredCapacity = int64_of_int32 (GPUCount (jobSpec job))
      in 0 < sint requiredCapacity \<and> 0 < length (Image (jobSpec job)))"

definition fetchNodesAndSyncStatus ::
    "('w, 'e) kube_env \<Rightarrow> bool list \<Rightarrow> ('w, 'e, 'e go_err + Node list) kprog" where
  "fetchNodesAndSyncStatus E sched = do {
     r \<leftarrow> ListGPUNodes E;
     case r of
       Inl err \<Rightarrow> ret (Inl err)
     | Inr (healthy, nonHealthy) \<Rightarrow> do {
         _ \<leftarrow> SyncNodeHealthStatus E sched healthy nonHealthy;
         ret (Inr healthy)
       }
   }"

section \<open>Capacity\<close>

text \<open>The candidates, in node order: the density of each node with room for the job.\<close>

fun capacity_candidates :: "int64 \<Rightarrow> Node list \<Rightarrow> int64 list" where
  "capacity_candidates requiredCapacity [] = []"
| "capacity_candidates requiredCapacity (node # nodes) =
     (let nodeAllocatable = GetNodeAllocatableGPUs node;
          rest = capacity_candidates requiredCapacity nodes
      in case nodeLabels node of
           None \<Rightarrow> if sint requiredCapacity \<le> sint nodeAllocatable then 1 # rest else rest
         | Some labels \<Rightarrow>
             (case go_get labels HIGH_DENSITY_AFFINITY_LABEL of
                None \<Rightarrow> rest
              | Some val \<Rightarrow>
                  (case Atoi val of
                     None \<Rightarrow> rest
                   | Some allocated \<Rightarrow>
                       if sint requiredCapacity \<le> sint (nodeAllocatable - allocated)
                       then allocated # rest else rest)))"

fun min_loop :: "int64 \<Rightarrow> int64 list \<Rightarrow> int64" where
  "min_loop m [] = m"
| "min_loop m (val # vals) = min_loop (if sint val < sint m then val else m) vals"

definition calculateClusterCapacityForJob :: "Node list \<Rightarrow> int64 \<Rightarrow> int64 \<times> bool" where
  "calculateClusterCapacityForJob healthyNodes requiredCapacity =
     (case capacity_candidates requiredCapacity healthyNodes of
        [] \<Rightarrow> (0, False)
      | c # cs \<Rightarrow> (min_loop c (c # cs), True))"

section \<open>The pod of a job\<close>

definition hpc_pod :: "('w, 'e) kube_env \<Rightarrow> HPCJob \<Rightarrow> int64 \<Rightarrow> Pod" where
  "hpc_pod E hpcJob allocated =
     (let allocated = (if 0 < sint allocated then allocated - 1 else allocated);
          gpuQuantity = MustParse E (Itoa (int64_of_int32 (GPUCount (jobSpec hpcJob))))
      in \<lparr>podName = jobName hpcJob,
          podNamespace = jobNamespace hpcJob,
          podRestartPolicy = RestartPolicyOnFailure,
          podTolerations =
            [\<lparr>tolerationKey = GPU_NODE_TAINT_KEY, tolerationOperator = TolerationOpExists,
              tolerationEffect = TaintEffectNoSchedule\<rparr>],
          podPreferred =
            [\<lparr>termWeight = 80,
              termMatchExpressions =
                [\<lparr>exprKey = HIGH_DENSITY_AFFINITY_LABEL, exprOperator = NodeSelectorOpGt,
                  exprValues = [Itoa allocated]\<rparr>]\<rparr>],
          podContainers =
            [\<lparr>containerName = jobName hpcJob,
              containerImage = Image (jobSpec hpcJob),
              containerImagePullPolicy = PullIfNotPresent,
              containerLimits = [(GPU_CORES_CAPACITY, gpuQuantity)],
              containerRequests = [(GPU_CORES_CAPACITY, gpuQuantity)]\<rparr>],
          podPhase = ''''\<rparr>)"

definition createHpcPod ::
    "('w, 'e) kube_env \<Rightarrow> HPCJob \<Rightarrow> int64 \<Rightarrow> ('w, 'e, 'e option) kprog" where
  "createHpcPod E hpcJob allocated = CreatePod E (hpc_pod E hpcJob allocated)"

section \<open>The handlers\<close>

type_synonym 'e outcome = "Result \<times> 'e go_err option"

definition handlePending ::
    "('w, 'e) kube_env \<Rightarrow> bool list \<Rightarrow> HPCJob \<Rightarrow> ('w, 'e, 'e outcome) kprog" where
  "handlePending E sched job = do {
     (podExists, result, err, job) \<leftarrow> manageExistingPod E job;
     case err of
       Some e \<Rightarrow> ret (result, Some e)
     | None \<Rightarrow>
         if podExists then ret (result, None)
         else if \<not> validateJobSpec job then do {
           (upd, job) \<leftarrow> updateJobStatus E job Failed;
           case upd of Some e \<Rightarrow> ret (no_result, Some e) | None \<Rightarrow> ret (no_result, None)
         }
         else do {
           r \<leftarrow> fetchNodesAndSyncStatus E sched;
           case r of
             Inl e \<Rightarrow> ret (no_result, Some e)
           | Inr healthyNodes \<Rightarrow> do {
               let requiredCapacity = int64_of_int32 (GPUCount (jobSpec job));
               case calculateClusterCapacityForJob healthyNodes requiredCapacity of
                 (allocated, hasCapacity) \<Rightarrow>
                   if \<not> hasCapacity then ret (in_5_minutes, None)
                   else do {
                     created \<leftarrow> createHpcPod E job allocated;
                     case created of
                       Some e \<Rightarrow> if IsConflict E e then ret (in_5_minutes, None)
                                 else ret (no_result, Some (Ext e))
                     | None \<Rightarrow> ret (in_5_minutes, None)
                   }
             }
         }
   }"

definition handleRunning :: "('w, 'e) kube_env \<Rightarrow> HPCJob \<Rightarrow> ('w, 'e, 'e outcome) kprog" where
  "handleRunning E job = do {
     (podExists, result, err, job) \<leftarrow> manageExistingPod E job;
     case err of
       Some e \<Rightarrow> ret (result, Some e)
     | None \<Rightarrow>
         if \<not> podExists then do {
           (upd, job) \<leftarrow> updateJobStatus E job Pending;
           case upd of Some e \<Rightarrow> ret (in_5_minutes, Some e) | None \<Rightarrow> ret (in_5_minutes, None)
         }
         else ret (no_result, None)
   }"

definition handleFailed :: "('w, 'e) kube_env \<Rightarrow> HPCJob \<Rightarrow> ('w, 'e, 'e outcome) kprog" where
  "handleFailed E job = do {
     err \<leftarrow> DeletePod E (jobName job) (jobNamespace job);
     if (case err of None \<Rightarrow> True | Some e \<Rightarrow> IsNotFound E e)
     then do {
       (upd, job) \<leftarrow> updateJobStatus E job Failed;
       case upd of Some e \<Rightarrow> ret (in_5_minutes, Some e) | None \<Rightarrow> ret (no_result, None)
     }
     else ret (in_5_minutes, map_option Ext err)
   }"

text \<open>The loop of both deletion handlers: the pods one by one, up to the first error.\<close>

fun delete_pods :: "('w, 'e) kube_env \<Rightarrow> Pod list \<Rightarrow> ('w, 'e, 'e option) kprog" where
  "delete_pods E [] = ret None"
| "delete_pods E (pod # pods) = do {
     err \<leftarrow> DeletePod E (podName pod) (podNamespace pod);
     case err of
       Some e \<Rightarrow> ret (Some e)
     | None \<Rightarrow> delete_pods E pods
   }"

definition handleDeleted :: "('w, 'e) kube_env \<Rightarrow> HPCJob \<Rightarrow> ('w, 'e, 'e outcome) kprog" where
  "handleDeleted E job = do {
     pods \<leftarrow> ListPodsByName E (jobNamespace job) (jobName job);
     case pods of
       Inl e \<Rightarrow> ret (in_5_minutes, Some (Ext e))
     | Inr pods \<Rightarrow> do {
         err \<leftarrow> delete_pods E pods;
         case err of
           Some e \<Rightarrow> ret (in_5_minutes, Some (Ext e))
         | None \<Rightarrow> do {
             (err, job) \<leftarrow> RemoveResourceFinalizer E job;
             case err of
               Some e \<Rightarrow> ret (in_5_minutes, Some (Ext e))
             | None \<Rightarrow> ret (no_result, None)
           }
       }
   }"

definition handleDeletedByName ::
    "('w, 'e) kube_env \<Rightarrow> string \<Rightarrow> string \<Rightarrow> ('w, 'e, 'e outcome) kprog" where
  "handleDeletedByName E name ns = do {
     pods \<leftarrow> ListPodsByName E ns name;
     case pods of
       Inl e \<Rightarrow> ret (in_5_minutes, Some (Ext e))
     | Inr pods \<Rightarrow> do {
         err \<leftarrow> delete_pods E pods;
         case err of
           Some e \<Rightarrow> ret (in_5_minutes, Some (Ext e))
         | None \<Rightarrow> ret (no_result, None)
       }
   }"

section \<open>Reconcile\<close>

definition fetchCRDResource ::
    "('w, 'e) kube_env \<Rightarrow> string \<Rightarrow> string \<Rightarrow> ('w, 'e, 'e + HPCJob) kprog" where
  "fetchCRDResource E ns name = callGetJob E ns name"

definition dispatch :: "('w, 'e) kube_env \<Rightarrow> bool list \<Rightarrow> HPCJob \<Rightarrow> ('w, 'e, 'e outcome) kprog" where
  "dispatch E sched job =
     (let hpcJob = (if length (phase_of job) = 0 then set_phase Pending job else job)
      in if phase_of hpcJob = Pending then handlePending E sched hpcJob
         else if phase_of hpcJob = Running then handleRunning E hpcJob
         else if phase_of hpcJob = Failed then handleFailed E hpcJob
         else if \<not> IsZero (jobDeletionTimestamp hpcJob) then handleDeleted E hpcJob
         else ret (no_result, None))"

definition Reconcile ::
    "('w, 'e) kube_env \<Rightarrow> bool list \<Rightarrow> string \<Rightarrow> string \<Rightarrow> ('w, 'e, 'e outcome) kprog" where
  "Reconcile E sched ns name = do {
     r \<leftarrow> fetchCRDResource E ns name;
     case r of
       Inl err \<Rightarrow>
         if IsNotFound E err then handleDeletedByName E name ns
         else ret (no_result, None)
     | Inr hpcJob \<Rightarrow> dispatch E sched hpcJob
   }"

section \<open>The phases of a job\<close>

text \<open>
  The state machine of the persisted phase: every status write of a reconcile is one of these steps
  from the phase the reconcile read (an empty phase counts as Pending).
\<close>

inductive phase_step :: "string \<Rightarrow> string \<Rightarrow> bool" where
  pending_running: "phase_step Pending Running"
| pending_failed: "phase_step Pending Failed"
| pending_complete: "phase_step Pending Complete"
| running_running: "phase_step Running Running"
| running_failed: "phase_step Running Failed"
| running_complete: "phase_step Running Complete"
| running_pending: "phase_step Running Pending"
| failed_failed: "phase_step Failed Failed"

code_pred phase_step .

inductive_simps phase_step_simps: "phase_step p q"

lemma phase_step_supported:
  "phase_step p q \<Longrightarrow> p \<in> set SupportedPhases \<and> q \<in> set SupportedPhases"
  by (auto simp: phase_step_simps SupportedPhases_def)

lemma phase_step_Complete: "\<not> phase_step Complete q"
  by (simp add: phase_step_simps)

lemma phase_step_Failed: "phase_step Failed q \<longleftrightarrow> q = Failed"
  by (simp add: phase_step_simps)

definition effective_phase :: "string \<Rightarrow> string" where
  "effective_phase p = (if p = '''' then Pending else p)"

section \<open>Runs of the status operations\<close>

text \<open>The phase a reconcile records for the phase of the job's pod.\<close>

definition observed :: "string \<Rightarrow> string option" where
  "observed pod_phase =
     (if pod_phase = PodRunning then Some Running
      else if pod_phase = PodFailed then Some Failed
      else if pod_phase = PodSucceeded then Some Complete else None)"

definition status_write :: "HPCJob \<Rightarrow> string \<Rightarrow> 'e go_err option \<Rightarrow> HPCJob \<Rightarrow> 'e event list \<Rightarrow> bool" where
  "status_write job p err job' es \<longleftrightarrow>
     (\<exists>e. es = [UpdateStatus (set_phase p job) (Inl e)] \<and> err = Some (Ext e) \<and> job' = set_phase p job) \<or>
     (\<exists>j. es = [UpdateStatus (set_phase p job) (Inr j)] \<and> err = None \<and> job' = j)"

lemma updateJobStatus_runs:
  "satisfies (updateJobStatus E job p) (\<lambda>(err, job') es. status_write job p err job' es)"
  unfolding updateJobStatus_def callUpdateStatus_def Let_def
  by (auto intro!: sat_bind sat simp: status_write_def)

lemma updateJobStatus_seq:
  assumes "\<And>err job' es. status_write job p err job' es \<Longrightarrow> satisfies (f (err, job')) (\<lambda>y es'. Q y (es @ es'))"
  shows "satisfies (State_Monad.bind (updateJobStatus E job p) f) Q"
  by (rule sat_seq [OF updateJobStatus_runs]) (use assms in auto)

text \<open>The scan of the pod: at most one status write, and none when the pod does not exist.\<close>

definition pod_scan ::
    "('w, 'e) kube_env \<Rightarrow> HPCJob \<Rightarrow> bool \<Rightarrow> 'e go_err option \<Rightarrow> HPCJob \<Rightarrow> 'e event list \<Rightarrow> bool" where
  "pod_scan E job podExists err job' es \<longleftrightarrow>
     (\<exists>r ws. es = GetPodEv (jobNamespace job) (jobName job) r # ws \<and>
       (case r of
          Inl e \<Rightarrow>
            if IsNotFound E e then ws = [] \<and> \<not> podExists \<and> err = None \<and> job' = job
            else \<exists>upd. status_write job Failed upd job' ws \<and> podExists \<and>
                   err = Some (case upd of Some u \<Rightarrow> u | None \<Rightarrow> Ext e)
        | Inr pod \<Rightarrow>
            (case observed (podPhase pod) of
               None \<Rightarrow> ws = [] \<and> podExists \<and> err = None \<and> job' = job
             | Some p \<Rightarrow> \<exists>upd. status_write job p upd job' ws \<and> podExists \<and>
                 err = (case upd of Some u \<Rightarrow> Some u
                        | None \<Rightarrow> if p = Failed then Some (PodIsFailing (podName pod)) else None))))"

lemma scanPodStatus_runs:
  "satisfies (scanPodStatus E job) (\<lambda>(podExists, err, job') es. pod_scan E job podExists err job' es)"
  unfolding scanPodStatus_def GetPod_def callGetPod_def
  by (rule sat_bind, rule sat_invoke)
    (auto intro!: sat_sum sat_if updateJobStatus_seq sat_option sat_return
      simp: pod_scan_def observed_def split_option_ex)

lemma manageExistingPod_runs:
  "satisfies (manageExistingPod E job) (\<lambda>(podExists, res, err, job') es.
     pod_scan E job podExists err job' es \<and>
     res = (if err = None \<and> podExists \<and> phase_of job' \<notin> {Running, Failed, Complete}
            then in_5_minutes else no_result))"
  unfolding manageExistingPod_def
  by (rule sat_seq [OF scanPodStatus_runs]) (auto intro!: sat)

lemma manageExistingPod_seq:
  assumes "\<And>podExists res err job' es. pod_scan E job podExists err job' es \<Longrightarrow>
     res = (if err = None \<and> podExists \<and> phase_of job' \<notin> {Running, Failed, Complete}
            then in_5_minutes else no_result) \<Longrightarrow>
     satisfies (f (podExists, res, err, job')) (\<lambda>y es'. Q y (es @ es'))"
  shows "satisfies (State_Monad.bind (manageExistingPod E job) f) Q"
  by (rule sat_seq [OF manageExistingPod_runs]) (use assms in \<open>auto simp del: set_phase_simps\<close>)

section \<open>Capacity\<close>

text \<open>\<open>node\<close> has room for the job, and its density is \<open>d\<close> (1 for a node without labels).\<close>

definition has_room :: "int64 \<Rightarrow> Node \<Rightarrow> int64 \<Rightarrow> bool" where
  "has_room req node d \<longleftrightarrow>
     (case nodeLabels node of
        None \<Rightarrow> d = 1 \<and> sint req \<le> sint (GetNodeAllocatableGPUs node)
      | Some labels \<Rightarrow>
          (\<exists>t. go_get labels HIGH_DENSITY_AFFINITY_LABEL = Some t \<and> Atoi t = Some d \<and>
             sint req \<le> sint (GetNodeAllocatableGPUs node - d)))"

lemma capacity_candidates_Cons:
  "d \<in> set (capacity_candidates req (node # nodes)) \<longleftrightarrow>
     has_room req node d \<or> d \<in> set (capacity_candidates req nodes)"
  by (auto simp: has_room_def Let_def split: option.splits)

lemma set_capacity_candidates:
  "d \<in> set (capacity_candidates req nodes) \<longleftrightarrow> (\<exists>node \<in> set nodes. has_room req node d)"
proof (induction nodes)
  case (Cons node nodes)
  then show ?case unfolding capacity_candidates_Cons by simp
qed simp

lemma min_loop_least:
  "min_loop m vals \<in> insert m (set vals) \<and> (\<forall>v \<in> insert m (set vals). sint (min_loop m vals) \<le> sint v)"
proof (induction m vals rule: min_loop.induct)
  case (2 m val vals)
  then show ?case by (cases "sint val < sint m") auto
qed simp

lemma calculateClusterCapacityForJob_True:
  assumes "calculateClusterCapacityForJob nodes req = (a, True)"
  shows "(\<exists>node \<in> set nodes. has_room req node a) \<and>
    (\<forall>node \<in> set nodes. \<forall>d. has_room req node d \<longrightarrow> sint a \<le> sint d)"
proof -
  let ?cs = "capacity_candidates req nodes"
  have "a \<in> set ?cs \<and> (\<forall>d \<in> set ?cs. sint a \<le> sint d)"
    using assms min_loop_least [of "hd ?cs" ?cs]
    by (cases ?cs) (auto simp: calculateClusterCapacityForJob_def)
  then show ?thesis by (auto simp: set_capacity_candidates)
qed

lemma calculateClusterCapacityForJob_False:
  "calculateClusterCapacityForJob nodes req = (a, False) \<longleftrightarrow>
   a = 0 \<and> (\<forall>node \<in> set nodes. \<forall>d. \<not> has_room req node d)"
proof -
  have "capacity_candidates req nodes = [] \<longleftrightarrow> (\<forall>node \<in> set nodes. \<forall>d. \<not> has_room req node d)"
    using set_capacity_candidates [of _ req nodes] by (metis list.set_intros(1) neq_Nil_conv list.distinct(1) list.set_cases)
  then show ?thesis by (auto simp: calculateClusterCapacityForJob_def split: list.splits)
qed

end
