(* ===== verification/Handler_Runs.thy ===== *)
theory Handler_Runs
  imports Reconciler
begin

text \<open>
  What a run of each handler of the reconciler logs and returns, as one predicate per handler that
  reads like a table of its branches, and the contract the handlers of the three live phases share
  (\<open>job_handler\<close>): which calls they make, that they write the status at most once, along the phase
  state machine, and when they ask to run again.
\<close>

section \<open>Runs of the handlers\<close>

definition node_event :: "'e event \<Rightarrow> bool" where
  "node_event e \<longleftrightarrow> (case e of ListNodes _ _ \<Rightarrow> True | Query _ _ \<Rightarrow> True | PatchNode _ _ _ \<Rightarrow> True
     | ListPods ns sel _ \<Rightarrow> ns = '''' \<and> (\<exists>node. sel = ''spec.nodeName='' @ node) | _ \<Rightarrow> False)"

text \<open>
  A discovery and a synchronisation: the unhealthy nodes found are isolated and the healthy ones,
  which are returned, are restored.
\<close>

definition discovered :: "'e event list \<Rightarrow> Node list \<Rightarrow> Sample list \<Rightarrow> Node list \<Rightarrow> bool" where
  "discovered es items vec healthy \<longleftrightarrow>
     (let u = nodes_with False vec items
      in healthy = nodes_with True vec items \<and>
         (\<exists>es1 es2. es = es1 @ es2 \<and> discovery es1 items vec \<and>
            isolation_log u (filter (patches_one_of u) es2) \<and>
            restoration_log healthy (filter (\<lambda>e. \<not> patches_one_of u e) es2)))"

lemma isolation_log_node_event: "isolation_log nodes es \<Longrightarrow> e \<in> set es \<Longrightarrow> node_event e"
  by (induction nodes es rule: isolation_log.induct) (auto simp: node_event_def)

lemma restoration_log_node_event: "restoration_log nodes es \<Longrightarrow> e \<in> set es \<Longrightarrow> node_event e"
  by (induction nodes es rule: restoration_log.induct) (auto simp: node_event_def)

lemma discovered_node_events:
  assumes "discovered es items vec healthy" and "e \<in> set es"
  shows "node_event e"
proof -
  let ?u = "nodes_with False vec items"
  obtain es1 es2 where es: "es = es1 @ es2" "discovery es1 items vec"
    "isolation_log ?u (filter (patches_one_of ?u) es2)"
    "restoration_log healthy (filter (\<lambda>e. \<not> patches_one_of ?u e) es2)"
    using assms(1) by (auto simp: discovered_def Let_def)
  consider "e \<in> set es1" | "e \<in> set (filter (patches_one_of ?u) es2)"
    | "e \<in> set (filter (\<lambda>e. \<not> patches_one_of ?u e) es2)"
    using assms(2) es(1) by auto
  then show ?thesis
  proof cases
    case 1
    then show ?thesis using es(2) by (auto simp: discovery_def node_event_def)
  next
    case 2
    then show ?thesis by (rule isolation_log_node_event [OF es(3)])
  next
    case 3
    then show ?thesis by (rule restoration_log_node_event [OF es(4)])
  qed
qed

lemma fetchNodesAndSyncStatus_runs:
  "satisfies (fetchNodesAndSyncStatus E sched) (\<lambda>r es.
     case r of Inl _ \<Rightarrow> \<forall>e \<in> set es. node_event e
     | Inr healthy \<Rightarrow> \<exists>items vec. discovered es items vec healthy)"
  unfolding fetchNodesAndSyncStatus_def
proof (rule sat_seq [OF ListGPUNodes_runs])
  fix r :: "'b go_err + Node list \<times> Node list" and es :: "'b event list"
  assume r: "(\<forall>e \<in> set es. only_reads e) \<and> (case r of Inl _ \<Rightarrow> True | Inr hu \<Rightarrow>
        \<exists>items vec. discovery es items vec \<and> hu = (nodes_with True vec items, nodes_with False vec items))"
  show "satisfies (case r of Inl err \<Rightarrow> ret (Inl err)
      | Inr (healthy, nonHealthy) \<Rightarrow> do {
          _ \<leftarrow> SyncNodeHealthStatus E sched healthy nonHealthy;
          ret (Inr healthy)
        }) (\<lambda>r es'. case r of Inl _ \<Rightarrow> \<forall>e \<in> set (es @ es'). node_event e
     | Inr healthy \<Rightarrow> \<exists>items vec. discovered (es @ es') items vec healthy)"
  proof (cases r)
    case (Inl err)
    then show ?thesis
      using r by (auto intro!: sat simp: only_reads_def node_event_def split: event.splits)
  next
    case (Inr hu)
    then obtain items vec where d: "discovery es items vec"
      and hu: "hu = (nodes_with True vec items, nodes_with False vec items)" using r by auto
    show ?thesis unfolding Inr hu
      by (simp, rule sat_seq [OF SyncNodeHealthStatus_projections [OF nodes_with_disjoint]], rule sat_return)
        (use d in \<open>auto simp: discovered_def Let_def\<close>)
  qed
qed

text \<open>The outcome of a creation, and of the branch of \<open>handlePending\<close> where the job has no pod.\<close>

definition creation_outcome :: "('w, 'e) kube_env \<Rightarrow> 'e option \<Rightarrow> 'e outcome" where
  "creation_outcome E answer = (case answer of None \<Rightarrow> (in_5_minutes, None)
     | Some e \<Rightarrow> if IsConflict E e then (in_5_minutes, None) else (no_result, Some (Ext e)))"

definition placed_run ::
    "('w, 'e) kube_env \<Rightarrow> HPCJob \<Rightarrow> Node list \<Rightarrow> 'e outcome \<Rightarrow> 'e event list \<Rightarrow> bool" where
  "placed_run E job healthy out es \<longleftrightarrow>
     (case calculateClusterCapacityForJob healthy (int64_of_int32 (GPUCount (jobSpec job))) of
        (allocated, hasCapacity) \<Rightarrow>
          if \<not> hasCapacity then es = [] \<and> out = (in_5_minutes, None)
          else \<exists>answer. es = [CreatePodEv (jobNamespace job) (hpc_pod E job allocated) answer] \<and>
                 out = creation_outcome E answer)"

definition podless_run ::
    "('w, 'e) kube_env \<Rightarrow> HPCJob \<Rightarrow> 'e outcome \<Rightarrow> 'e event list \<Rightarrow> bool" where
  "podless_run E job out es \<longleftrightarrow>
     (if \<not> validateJobSpec job
      then \<exists>upd job'. status_write job Failed upd job' es \<and> out = (no_result, upd)
      else (\<exists>e. (\<forall>ev \<in> set es. node_event ev) \<and> out = (no_result, Some e)) \<or>
           (\<exists>items vec healthy es1 es2. es = es1 @ es2 \<and> discovered es1 items vec healthy \<and>
              placed_run E job healthy out es2))"

definition scanned_outcome :: "HPCJob \<Rightarrow> 'e go_err option \<Rightarrow> 'e outcome" where
  "scanned_outcome job' err =
     (case err of Some e \<Rightarrow> (no_result, Some e)
      | None \<Rightarrow> (if phase_of job' \<notin> {Running, Failed, Complete} then in_5_minutes else no_result, None))"

text \<open>Every run of \<open>handlePending\<close>: the scan of the pod, then, if there is none, the creation.\<close>

definition pending_run :: "('w, 'e) kube_env \<Rightarrow> HPCJob \<Rightarrow> 'e outcome \<Rightarrow> 'e event list \<Rightarrow> bool" where
  "pending_run E job out es \<longleftrightarrow>
     (\<exists>err job'. pod_scan E job True err job' es \<and> out = scanned_outcome job' err) \<or>
     (\<exists>es1 es2. es = es1 @ es2 \<and> pod_scan E job False None job es1 \<and> podless_run E job out es2)"

lemma pod_scan_absent: "pod_scan E job False err job' es \<Longrightarrow> err = None \<and> job' = job"
  unfolding pod_scan_def
proof (elim exE conjE)
  fix r ws
  assume "case r of
      Inl e \<Rightarrow> if IsNotFound E e then ws = [] \<and> \<not> False \<and> err = None \<and> job' = job
        else \<exists>upd. status_write job Failed upd job' ws \<and> False \<and>
               err = Some (case upd of Some u \<Rightarrow> u | None \<Rightarrow> Ext e)
    | Inr pod \<Rightarrow> (case observed (podPhase pod) of
           None \<Rightarrow> ws = [] \<and> False \<and> err = None \<and> job' = job
         | Some p \<Rightarrow> \<exists>upd. status_write job p upd job' ws \<and> False \<and>
             err = (case upd of Some u \<Rightarrow> Some u
                    | None \<Rightarrow> if p = Failed then Some (PodIsFailing (podName pod)) else None))"
  then show ?thesis by (cases r) (auto split: if_splits option.splits)
qed

lemma createHpcPod_hpc_pod:
  "createHpcPod E job allocated =
   invoke (srvCreatePod E (jobNamespace job) (hpc_pod E job allocated))
     (CreatePodEv (jobNamespace job) (hpc_pod E job allocated))"
  by (simp add: createHpcPod_def CreatePod_def callCreatePod_def hpc_pod_def Let_def)

lemma placed_runs:
  "satisfies (case calculateClusterCapacityForJob healthy (int64_of_int32 (GPUCount (jobSpec job))) of
       (allocated, hasCapacity) \<Rightarrow>
         if \<not> hasCapacity then ret (in_5_minutes, None)
         else do {
           created \<leftarrow> createHpcPod E job allocated;
           case created of
             Some e \<Rightarrow> if IsConflict E e then ret (in_5_minutes, None) else ret (no_result, Some (Ext e))
           | None \<Rightarrow> ret (in_5_minutes, None)
         }) (placed_run E job healthy)"
  by (auto intro!: sat sat_bind simp: createHpcPod_hpc_pod placed_run_def creation_outcome_def)

lemma handlePending_runs: "satisfies (handlePending E sched job) (pending_run E job)"
  unfolding handlePending_def
proof (rule manageExistingPod_seq, goal_cases)
  case (1 podExists res err job' es)
  have done_ex: "satisfies (ret (res, err)) (\<lambda>y es'. pending_run E job y (es @ es'))" if podExists
    using that 1 unfolding pending_run_def
    by (intro sat_return disjI1 exI [of _ err] exI [of _ job'])
      (auto simp: scanned_outcome_def split: option.splits)
  have lift: "satisfies m (podless_run E job) \<Longrightarrow> satisfies m (\<lambda>y es'. pending_run E job y (es @ es'))"
    if "\<not> podExists" for m :: "('a, 'b, 'b outcome) kprog"
    using that 1 pod_scan_absent [of E job err job' es]
    by (elim satisfies_mono) (auto simp: pending_run_def)
  show ?case
  proof (cases podExists)
    case True
    then show ?thesis using done_ex by (cases err) simp_all
  next
    case False
    then have e: "err = None" "job' = job" using 1 pod_scan_absent [of E job err job' es] by auto
    show ?thesis unfolding e using False
      apply simp
      apply (rule conjI; rule impI; rule lift, assumption)
      subgoal by (rule updateJobStatus_seq) (auto intro!: sat simp: podless_run_def)
      subgoal
        apply (rule sat_seq [OF fetchNodesAndSyncStatus_runs])
        apply (rule sat_sum)
         apply (rule sat_return)
         apply (simp add: podless_run_def)
        apply (simp add: Let_def, rule satisfies_mono [OF placed_runs])
        apply (auto simp: podless_run_def)
        done
      done
  qed
qed

text \<open>Every run of \<open>handleRunning\<close>: the scan of the pod, and back to Pending if there is none.\<close>

definition running_run :: "('w, 'e) kube_env \<Rightarrow> HPCJob \<Rightarrow> 'e outcome \<Rightarrow> 'e event list \<Rightarrow> bool" where
  "running_run E job out es \<longleftrightarrow>
     (\<exists>err job'. pod_scan E job True err job' es \<and> out = (no_result, err)) \<or>
     (\<exists>es1 es2 upd job'. es = es1 @ es2 \<and> pod_scan E job False None job es1 \<and>
        status_write job Pending upd job' es2 \<and> out = (in_5_minutes, upd))"

lemma handleRunning_runs: "satisfies (handleRunning E job) (running_run E job)"
  unfolding handleRunning_def
proof (rule manageExistingPod_seq, goal_cases)
  case (1 podExists res err job' es)
  show ?case
  proof (cases podExists)
    case True
    then show ?thesis using 1
      by (cases err) (auto intro!: sat_return disjI1 exI [of _ job'] simp: running_run_def)
  next
    case False
    then have e: "err = None" "job' = job" using 1 pod_scan_absent [of E job err job' es] by auto
    show ?thesis unfolding e using False 1 e
      by (simp del: Pending_def, intro updateJobStatus_seq)
        (auto intro!: sat simp: running_run_def simp del: Pending_def)
  qed
qed

text \<open>Every run of \<open>handleFailed\<close>: the pod is deleted and the status confirmed.\<close>

definition failed_run :: "('w, 'e) kube_env \<Rightarrow> HPCJob \<Rightarrow> 'e outcome \<Rightarrow> 'e event list \<Rightarrow> bool" where
  "failed_run E job out es \<longleftrightarrow>
     (\<exists>answer rest. es = DeletePodEv (jobNamespace job) (jobName job) answer # rest \<and>
       (if (case answer of None \<Rightarrow> True | Some e \<Rightarrow> IsNotFound E e)
        then \<exists>upd job'. status_write job Failed upd job' rest \<and>
               out = (if upd = None then no_result else in_5_minutes, upd)
        else rest = [] \<and> out = (in_5_minutes, map_option Ext answer)))"

lemma handleFailed_runs: "satisfies (handleFailed E job) (failed_run E job)"
  unfolding handleFailed_def DeletePod_def callDeletePod_def
proof (rule sat_bind, rule sat_invoke, rule sat_if)
  fix r
  assume "case r of None \<Rightarrow> True | Some e \<Rightarrow> IsNotFound E e"
  then show "satisfies (do {
       (upd, job) \<leftarrow> updateJobStatus E job Failed;
       case upd of Some e \<Rightarrow> ret (in_5_minutes, Some e) | None \<Rightarrow> ret (no_result, None)
     }) (\<lambda>y es'. failed_run E job y ([DeletePodEv (jobNamespace job) (jobName job) r] @ es'))"
    by (intro updateJobStatus_seq) (auto intro!: sat simp: failed_run_def split_option_ex simp del: Failed_def)
qed (auto intro!: sat simp: failed_run_def)

text \<open>The loop of the deletion handlers: one call per pod, up to the first error.\<close>

fun deletion_log :: "Pod list \<Rightarrow> 'e option \<Rightarrow> 'e event list \<Rightarrow> bool" where
  "deletion_log [] err es \<longleftrightarrow> err = None \<and> es = []"
| "deletion_log (pod # pods) err (DeletePodEv ns name answer # es) \<longleftrightarrow>
     ns = podNamespace pod \<and> name = podName pod \<and>
     (case answer of Some e \<Rightarrow> err = Some e \<and> es = [] | None \<Rightarrow> deletion_log pods err es)"
| "deletion_log (pod # pods) err _ \<longleftrightarrow> False"

lemma delete_pods_runs: "satisfies (delete_pods E pods) (deletion_log pods)"
proof (induction pods)
  case (Cons pod pods)
  show ?case unfolding delete_pods.simps DeletePod_def callDeletePod_def
    by (rule sat_bind, rule sat_invoke, rule sat_option)
      (auto intro!: sat_return satisfies_mono [OF Cons])
qed (auto intro!: sat_return)

text \<open>Every run of \<open>handleDeletedByName\<close>, and of \<open>handleDeleted\<close> with its finalizer request.\<close>

definition cleanup_run :: "string \<Rightarrow> string \<Rightarrow> 'e outcome \<Rightarrow> 'e event list \<Rightarrow> bool" where
  "cleanup_run ns name out es \<longleftrightarrow>
     (\<exists>r rest. es = ListPods ns (''metadata.name='' @ name) r # rest \<and>
       (case r of
          Inl e \<Rightarrow> rest = [] \<and> out = (in_5_minutes, Some (Ext e))
        | Inr pods \<Rightarrow> \<exists>err. deletion_log pods err rest \<and>
            out = (case err of Some e \<Rightarrow> (in_5_minutes, Some (Ext e)) | None \<Rightarrow> (no_result, None))))"

lemma handleDeletedByName_runs: "satisfies (handleDeletedByName E name ns) (cleanup_run ns name)"
  unfolding handleDeletedByName_def ListPodsByName_def callListPods_def
  apply (rule sat_bind, rule sat_invoke, rule sat_sum)
   apply (auto intro!: sat_return simp: cleanup_run_def)[1]
  apply (rule sat_seq [OF delete_pods_runs])
  apply (auto intro!: sat simp: cleanup_run_def)
  done

definition finalizer_dropped :: "HPCJob \<Rightarrow> HPCJob" where
  "finalizer_dropped job = job\<lparr>jobFinalizers := removeAll HPC_FINALIZER (jobFinalizers job)\<rparr>"

definition deleted_run :: "HPCJob \<Rightarrow> 'e outcome \<Rightarrow> 'e event list \<Rightarrow> bool" where
  "deleted_run job out es \<longleftrightarrow>
     (\<exists>r rest. es = ListPods (jobNamespace job) (''metadata.name='' @ jobName job) r # rest \<and>
       (case r of
          Inl e \<Rightarrow> rest = [] \<and> out = (in_5_minutes, Some (Ext e))
        | Inr pods \<Rightarrow>
            (\<exists>e. deletion_log pods (Some e) rest \<and> out = (in_5_minutes, Some (Ext e))) \<or>
            (\<exists>es1 answer. deletion_log pods None es1 \<and>
               rest = es1 @ [Put CoreV1 (jobNamespace job) ''hpcjobs'' (jobName job) (finalizer_dropped job) answer] \<and>
               out = (case answer of Some e \<Rightarrow> (in_5_minutes, Some (Ext e)) | None \<Rightarrow> (no_result, None)))))"

lemma handleDeleted_runs: "satisfies (handleDeleted E job) (deleted_run job)"
  unfolding handleDeleted_def ListPodsByName_def callListPods_def
  apply (rule sat_bind, rule sat_invoke, rule sat_sum)
   apply (auto intro!: sat_return simp: deleted_run_def)[1]
  apply (rule sat_seq [OF delete_pods_runs])
  apply (rule sat_option)
   apply (simp add: RemoveResourceFinalizer_def callPut_def Let_def)
   apply (rule sat_bind, rule sat_invoke)
   apply (auto intro!: sat simp: deleted_run_def finalizer_dropped_def)
  done

text \<open>Every run of a reconcile.\<close>

definition effective_job :: "HPCJob \<Rightarrow> HPCJob" where
  "effective_job job = (if phase_of job = '''' then set_phase Pending job else job)"

lemma effective_job_simps [simp]:
  "phase_of (effective_job job) = effective_phase (phase_of job)"
  "jobName (effective_job job) = jobName job" "jobNamespace (effective_job job) = jobNamespace job"
  "jobResourceVersion (effective_job job) = jobResourceVersion job"
  "jobSpec (effective_job job) = jobSpec job"
  "jobDeletionTimestamp (effective_job job) = jobDeletionTimestamp job"
  by (simp_all add: effective_job_def effective_phase_def)

definition job_run :: "('w, 'e) kube_env \<Rightarrow> HPCJob \<Rightarrow> 'e outcome \<Rightarrow> 'e event list \<Rightarrow> bool" where
  "job_run E job out es \<longleftrightarrow>
     (if phase_of job = Pending then pending_run E job out es
      else if phase_of job = Running then running_run E job out es
      else if phase_of job = Failed then failed_run E job out es
      else if \<not> IsZero (jobDeletionTimestamp job) then deleted_run job out es
      else es = [] \<and> out = (no_result, None))"

lemma dispatch_runs: "satisfies (dispatch E sched job) (job_run E (effective_job job))"
  unfolding dispatch_def Let_def effective_job_def
  by (simp only: length_0_conv, intro sat_if)
    (auto intro!: sat_return satisfies_mono [OF handlePending_runs] satisfies_mono [OF handleRunning_runs]
      satisfies_mono [OF handleFailed_runs] satisfies_mono [OF handleDeleted_runs] simp: job_run_def)

definition reconcile_run ::
    "('w, 'e) kube_env \<Rightarrow> string \<Rightarrow> string \<Rightarrow> 'e outcome \<Rightarrow> 'e event list \<Rightarrow> bool" where
  "reconcile_run E ns name out es \<longleftrightarrow>
     (\<exists>r rest. es = GetJob ns name r # rest \<and>
       (case r of
          Inl e \<Rightarrow> if IsNotFound E e then cleanup_run ns name out rest
                   else rest = [] \<and> out = (no_result, None)
        | Inr job \<Rightarrow> job_run E (effective_job job) out rest))"

lemma Reconcile_runs: "satisfies (Reconcile E sched ns name) (reconcile_run E ns name)"
  unfolding Reconcile_def fetchCRDResource_def callGetJob_def
  by (rule sat_bind, rule sat_invoke, rule sat_sum)
    (auto intro!: sat_if sat_return satisfies_mono [OF handleDeletedByName_runs]
      satisfies_mono [OF dispatch_runs] simp: reconcile_run_def)

section \<open>The contract of the handlers\<close>

text \<open>
  The calls a handler may make for a job: the pod calls name the job's own pod, a status write carries
  the job with a new phase that is a step of the state machine, and neither the job itself is read
  again nor its finalizers touched.
\<close>

definition job_event :: "HPCJob \<Rightarrow> 'e event \<Rightarrow> bool" where
  "job_event job e \<longleftrightarrow>
     (case e of
        UpdateStatus j _ \<Rightarrow> phase_step (phase_of job) (phase_of j) \<and> j = set_phase (phase_of j) job
      | GetPodEv ns name _ \<Rightarrow> ns = jobNamespace job \<and> name = jobName job
      | CreatePodEv ns pod _ \<Rightarrow> ns = jobNamespace job \<and> podNamespace pod = ns \<and> podName pod = jobName job
      | DeletePodEv ns name _ \<Rightarrow> ns = jobNamespace job \<and> name = jobName job
      | GetJob _ _ _ \<Rightarrow> False
      | Put _ _ _ _ _ _ \<Rightarrow> False
      | _ \<Rightarrow> True)"

definition is_status_write :: "'e event \<Rightarrow> bool" where
  "is_status_write e \<longleftrightarrow> (case e of UpdateStatus _ _ \<Rightarrow> True | _ \<Rightarrow> False)"

definition handled :: "HPCJob \<Rightarrow> 'e outcome \<Rightarrow> 'e event list \<Rightarrow> bool" where
  "handled job out es \<longleftrightarrow> (\<forall>e \<in> set es. job_event job e) \<and>
     length (filter is_status_write es) \<le> 1 \<and> fst out \<in> {no_result, in_5_minutes}"

locale job_handler =
  fixes handle :: "HPCJob \<Rightarrow> ('w, 'e, 'e outcome) kprog"
    and phase :: string
  assumes handles: "phase_of job = phase \<Longrightarrow> satisfies (handle job) (handled job)"
begin

lemma own_events:
  "phase_of job = phase \<Longrightarrow> e \<in> set (emitted (handle job) s) \<Longrightarrow> job_event job e"
  using satisfiesD [OF handles] unfolding handled_def by blast

lemma status_step:
  "phase_of job = phase \<Longrightarrow> UpdateStatus j r \<in> set (emitted (handle job) s) \<Longrightarrow>
   phase_step phase (phase_of j) \<and> j = set_phase (phase_of j) job"
  using own_events [of job "UpdateStatus j r" s] by (simp add: job_event_def)

lemma keeps_finalizers:
  "phase_of job = phase \<Longrightarrow> Put gv ns resource name body r \<notin> set (emitted (handle job) s)"
  using own_events [of job "Put gv ns resource name body r" s] by (auto simp: job_event_def)

lemma requeue:
  "phase_of job = phase \<Longrightarrow> fst (result (handle job) s) \<in> {no_result, in_5_minutes}"
  using satisfiesD [OF handles] unfolding handled_def by blast

end

lemma status_write_events:
  assumes "status_write job p err job' es" and "phase_step (phase_of job) p"
  shows "(\<forall>e \<in> set es. job_event job e) \<and> length (filter is_status_write es) = 1"
  using assms by (auto simp: status_write_def job_event_def is_status_write_def)

lemma observed_phases: "observed pod_phase = Some p \<Longrightarrow> p \<in> {Running, Failed, Complete}"
  by (auto simp: observed_def split: if_splits)

lemma pod_scan_write:
  assumes "pod_scan E job podExists err job' es"
  shows "\<exists>r ws. es = GetPodEv (jobNamespace job) (jobName job) r # ws \<and>
    (ws = [] \<or> podExists \<and> (\<exists>p upd. p \<in> {Running, Failed, Complete} \<and> status_write job p upd job' ws))"
proof -
  from assms obtain r ws where es: "es = GetPodEv (jobNamespace job) (jobName job) r # ws"
    and r: "case r of
          Inl e \<Rightarrow>
            if IsNotFound E e then ws = [] \<and> \<not> podExists \<and> err = None \<and> job' = job
            else \<exists>upd. status_write job Failed upd job' ws \<and> podExists \<and>
                   err = Some (case upd of Some u \<Rightarrow> u | None \<Rightarrow> Ext e)
        | Inr pod \<Rightarrow>
            (case observed (podPhase pod) of
               None \<Rightarrow> ws = [] \<and> podExists \<and> err = None \<and> job' = job
             | Some p \<Rightarrow> \<exists>upd. status_write job p upd job' ws \<and> podExists \<and>
                 err = (case upd of Some u \<Rightarrow> Some u
                        | None \<Rightarrow> if p = Failed then Some (PodIsFailing (podName pod)) else None))"
    unfolding pod_scan_def by (elim exE conjE) (rule that)
  show ?thesis
  proof (cases r)
    case (Inl e)
    then show ?thesis using r es by (auto split: if_splits)
  next
    case (Inr pod)
    then show ?thesis using r es observed_phases [of "podPhase pod"]
      by (cases "observed (podPhase pod)") auto
  qed
qed

lemma pod_scan_events:
  assumes "pod_scan E job podExists err job' es" and "phase_of job \<in> {Pending, Running}"
  shows "(\<forall>e \<in> set es. job_event job e) \<and> length (filter is_status_write es) \<le> of_bool podExists"
proof -
  obtain r ws where es: "es = GetPodEv (jobNamespace job) (jobName job) r # ws"
    and ws: "ws = [] \<or> podExists \<and> (\<exists>p upd. p \<in> {Running, Failed, Complete} \<and> status_write job p upd job' ws)"
    using pod_scan_write [OF assms(1)] by blast
  have "phase_step (phase_of job) p" if "p \<in> {Running, Failed, Complete}" for p
    using that assms(2) by (auto simp: phase_step_simps)
  then have "ws = [] \<or> podExists \<and> (\<forall>e \<in> set ws. job_event job e) \<and> length (filter is_status_write ws) = 1"
    using ws status_write_events [where job = job and job' = job' and es = ws] by (elim disjE exE conjE) simp_all
  then show ?thesis unfolding es by (auto simp: job_event_def is_status_write_def)
qed

lemma node_event_job_event: "node_event e \<Longrightarrow> job_event job e \<and> \<not> is_status_write e"
  by (cases e) (auto simp: node_event_def job_event_def is_status_write_def)

lemma hpc_pod_own [simp]: "podName (hpc_pod E job a) = jobName job" "podNamespace (hpc_pod E job a) = jobNamespace job"
  by (simp_all add: hpc_pod_def Let_def)

lemma creation_outcome_requeue: "fst (creation_outcome E answer) \<in> {no_result, in_5_minutes}"
  by (simp add: creation_outcome_def split: option.split)

lemma placed_run_cases:
  assumes "placed_run E job healthy out es"
  shows "es = [] \<and> out = (in_5_minutes, None) \<or>
    (\<exists>a answer. calculateClusterCapacityForJob healthy (int64_of_int32 (GPUCount (jobSpec job))) = (a, True) \<and>
       es = [CreatePodEv (jobNamespace job) (hpc_pod E job a) answer] \<and> out = creation_outcome E answer)"
proof (cases "calculateClusterCapacityForJob healthy (int64_of_int32 (GPUCount (jobSpec job)))")
  case (Pair a has)
  then show ?thesis using assms by (cases has) (simp_all add: placed_run_def)
qed

lemma placed_run_events:
  assumes "placed_run E job healthy out es"
  shows "(\<forall>e \<in> set es. job_event job e \<and> \<not> is_status_write e) \<and> fst out \<in> {no_result, in_5_minutes}"
  using placed_run_cases [OF assms]
proof (elim disjE exE conjE)
  fix a answer
  assume "es = [CreatePodEv (jobNamespace job) (hpc_pod E job a) answer]" "out = creation_outcome E answer"
  then show ?thesis using creation_outcome_requeue [of E answer]
    by (simp add: job_event_def is_status_write_def)
qed simp

lemma podless_run_handled:
  assumes "podless_run E job out es" and "phase_of job = Pending"
  shows "handled job out es"
proof (cases "validateJobSpec job")
  case False
  then obtain upd job' where "status_write job Failed upd job' es" "out = (no_result, upd)"
    using assms(1) by (auto simp: podless_run_def)
  then show ?thesis
    using status_write_events [of job Failed upd job' es] assms(2)
    by (simp add: handled_def phase_step_simps)
next
  case True
  then consider e where "\<forall>ev \<in> set es. node_event ev" "out = (no_result, Some e)"
    | items vec healthy es1 es2 where "es = es1 @ es2" "discovered es1 items vec healthy"
        "placed_run E job healthy out es2"
    using assms(1) by (auto simp: podless_run_def)
  then have "(\<forall>e \<in> set es. job_event job e \<and> \<not> is_status_write e) \<and> fst out \<in> {no_result, in_5_minutes}"
  proof cases
    case 1
    then show ?thesis by (simp add: node_event_job_event)
  next
    case 2
    then show ?thesis
      using placed_run_events [OF 2(3)] discovered_node_events [OF 2(2)]
      by (auto dest: node_event_job_event)
  qed
  then show ?thesis by (simp add: handled_def filter_False)
qed

lemma handled_append:
  "\<forall>e \<in> set es1. job_event job e \<Longrightarrow> filter is_status_write es1 = [] \<Longrightarrow> handled job out es2 \<Longrightarrow>
   handled job out (es1 @ es2)"
  by (auto simp: handled_def)

lemma pending_run_handled:
  assumes "pending_run E job out es" and ph: "phase_of job = Pending"
  shows "handled job out es"
  using assms(1) unfolding pending_run_def
proof (elim disjE exE conjE)
  fix err job'
  assume "pod_scan E job True err job' es" "out = scanned_outcome job' err"
  then show ?thesis
    using pod_scan_events [of E job True err job' es] ph
    by (auto simp: handled_def scanned_outcome_def split: option.split)
next
  fix es1 es2
  assume "es = es1 @ es2" "pod_scan E job False None job es1" "podless_run E job out es2"
  then show ?thesis
    using pod_scan_events [of E job False None job es1] podless_run_handled [of E job out es2] ph
    by (auto intro!: handled_append)
qed

interpretation pending: job_handler "handlePending E sched" Pending for E sched
  by unfold_locales (rule satisfies_mono [OF handlePending_runs], rule pending_run_handled)

lemma running_run_handled:
  assumes "running_run E job out es" and ph: "phase_of job = Running"
  shows "handled job out es"
  using assms(1) unfolding running_run_def
proof (elim disjE exE conjE)
  fix err job'
  assume "pod_scan E job True err job' es" "out = (no_result, err)"
  then show ?thesis
    using pod_scan_events [of E job True err job' es] ph by (auto simp: handled_def)
next
  fix es1 es2 upd job'
  assume "es = es1 @ es2" "pod_scan E job False None job es1"
    "status_write job Pending upd job' es2" "out = (in_5_minutes, upd)"
  then show ?thesis
    using pod_scan_events [of E job False None job es1] ph
      status_write_events [of job Pending upd job' es2]
    by (auto intro!: handled_append simp: phase_step_simps) (simp_all add: handled_def)
qed

lemma failed_run_handled:
  assumes "failed_run E job out es" and ph: "phase_of job = Failed"
  shows "handled job out es"
  using assms(1) unfolding failed_run_def
proof (elim exE conjE)
  fix answer rest
  assume es: "es = DeletePodEv (jobNamespace job) (jobName job) answer # rest"
    and "if case answer of None \<Rightarrow> True | Some e \<Rightarrow> IsNotFound E e
      then \<exists>upd job'. status_write job Failed upd job' rest \<and>
             out = (if upd = None then no_result else in_5_minutes, upd)
      else rest = [] \<and> out = (in_5_minutes, map_option Ext answer)"
  then have "(rest = [] \<or> (\<exists>upd job'. status_write job Failed upd job' rest)) \<and>
      fst out \<in> {no_result, in_5_minutes}" by (auto split: if_splits)
  then show ?thesis
    using status_write_events [of job Failed _ _ rest] ph unfolding es
    by (fastforce simp: handled_def job_event_def is_status_write_def phase_step_simps)
qed

interpretation running: job_handler "handleRunning E" Running for E
  by unfold_locales (rule satisfies_mono [OF handleRunning_runs], rule running_run_handled)

interpretation failed: job_handler "handleFailed E" Failed for E
  by unfold_locales (rule satisfies_mono [OF handleFailed_runs], rule failed_run_handled)

text \<open>A reconcile of a job in one of these phases runs its handler.\<close>

lemma dispatch_handled:
  assumes "phase_of (effective_job job) \<in> {Pending, Running, Failed}"
  shows "satisfies (dispatch E sched job) (handled (effective_job job))"
  using assms unfolding dispatch_def Let_def length_0_conv
  by (fold effective_job_def) (auto intro: pending.handles running.handles failed.handles)

end
