(* ===== verification/Reconcile_Facts.thy ===== *)
theory Reconcile_Facts
  imports Handler_Runs
begin

text \<open>
  The log of a reconcile taken apart: what follows the read of the job, how the answer about the pod
  decides the status, what a creation presupposes. These are the facts the properties of the
  reconciler are read off from.
\<close>

section \<open>From the read of the job to its handler\<close>

lemma Reconcile_fetched:
  assumes "fst (srvGetJob E ns name (world s)) = Inr job"
  shows "\<exists>rest. emitted (Reconcile E sched ns name) s = GetJob ns name (Inr job) # rest \<and>
    job_run E (effective_job job) (result (Reconcile E sched ns name) s) rest"
proof -
  let ?g = "\<lambda>r. case r of
       Inl err \<Rightarrow> if IsNotFound E err then handleDeletedByName E name ns else ret (no_result, None)
     | Inr hpcJob \<Rightarrow> dispatch E sched hpcJob"
  have sat: "satisfies (?g (fst (srvGetJob E ns name (world s)))) (job_run E (effective_job job))"
    using assms by (simp add: dispatch_runs)
  show ?thesis
    unfolding Reconcile_def fetchCRDResource_def callGetJob_def emitted_bind_invoke [where g = ?g and f = "srvGetJob E ns name" and s = s, OF sat]
    using satisfiesD [OF sat] assms by simp
qed

lemma Reconcile_unfetched:
  assumes "fst (srvGetJob E ns name (world s)) = Inl e"
  shows "\<exists>rest. emitted (Reconcile E sched ns name) s = GetJob ns name (Inl e) # rest \<and>
    (if IsNotFound E e then cleanup_run ns name (result (Reconcile E sched ns name) s) rest
     else rest = [] \<and> result (Reconcile E sched ns name) s = (no_result, None))"
proof -
  let ?g = "\<lambda>r. case r of
       Inl err \<Rightarrow> if IsNotFound E err then handleDeletedByName E name ns else ret (no_result, None)
     | Inr hpcJob \<Rightarrow> dispatch E sched hpcJob"
  have sat: "satisfies (?g (fst (srvGetJob E ns name (world s))))
      (\<lambda>out es. if IsNotFound E e then cleanup_run ns name out es else es = [] \<and> out = (no_result, None))"
    using assms by (auto intro!: sat_return satisfies_mono [OF handleDeletedByName_runs])
  show ?thesis
    unfolding Reconcile_def fetchCRDResource_def callGetJob_def emitted_bind_invoke [where g = ?g and f = "srvGetJob E ns name" and s = s, OF sat]
    using satisfiesD [OF sat, of "final (invoke (srvGetJob E ns name) (GetJob ns name)) s"] assms
    by (cases "IsNotFound E e") auto
qed

text \<open>The effective phase decides the handler.\<close>

lemma job_run_phases:
  "phase_of job = Pending \<Longrightarrow> job_run E job out es \<longleftrightarrow> pending_run E job out es"
  "phase_of job = Running \<Longrightarrow> job_run E job out es \<longleftrightarrow> running_run E job out es"
  "phase_of job = Failed \<Longrightarrow> job_run E job out es \<longleftrightarrow> failed_run E job out es"
  by (simp_all add: job_run_def)

lemma job_run_other:
  assumes "job_run E job out es" and "phase_of job \<notin> {Pending, Running, Failed}"
  shows "if IsZero (jobDeletionTimestamp job) then es = [] \<and> out = (no_result, None) else deleted_run job out es"
  using assms by (simp add: job_run_def)

lemma job_run_handled:
  assumes "job_run E job out es" and "phase_of job \<in> {Pending, Running, Failed}"
  shows "handled job out es"
proof -
  consider "phase_of job = Pending" | "phase_of job = Running" | "phase_of job = Failed"
    using assms(2) by blast
  then show ?thesis
    using assms(1) by cases (simp_all only: job_run_phases pending_run_handled running_run_handled failed_run_handled)
qed

lemma set_phase_effective [simp]: "set_phase p (effective_job job) = set_phase p job"
  by (simp add: effective_job_def set_phase_def)

text \<open>What can be logged apart from the handlers of the live phases.\<close>

lemma deletion_log_events:
  "deletion_log pods err es \<Longrightarrow> e \<in> set es \<Longrightarrow>
   \<exists>pod \<in> set pods. \<exists>r. e = DeletePodEv (podNamespace pod) (podName pod) r"
  by (induction pods err es rule: deletion_log.induct) (auto split: option.splits)

lemma deletion_log_Cons_None:
  "deletion_log (pod # pods) None es \<longleftrightarrow>
   (\<exists>es'. es = DeletePodEv (podNamespace pod) (podName pod) None # es' \<and> deletion_log pods None es')"
proof (cases es)
  case (Cons e es')
  then show ?thesis by (cases e) (auto split: option.splits)
qed simp

lemma deletion_log_None:
  "deletion_log pods None es \<Longrightarrow> es = map (\<lambda>pod. DeletePodEv (podNamespace pod) (podName pod) None) pods"
  by (induction pods arbitrary: es) (auto simp: deletion_log_Cons_None)

lemma cleanup_run_cases:
  assumes "cleanup_run ns name out es"
  obtains (unlisted) e where "es = [ListPods ns (''metadata.name='' @ name) (Inl e)]"
      "out = (in_5_minutes, Some (Ext e))"
    | (stuck) pods e rest where "es = ListPods ns (''metadata.name='' @ name) (Inr pods) # rest"
      "deletion_log pods (Some e) rest" "out = (in_5_minutes, Some (Ext e))"
    | (clean) pods rest where "es = ListPods ns (''metadata.name='' @ name) (Inr pods) # rest"
      "deletion_log pods None rest" "out = (no_result, None)"
proof -
  from assms obtain r rest where es: "es = ListPods ns (''metadata.name='' @ name) r # rest"
    and r: "case r of
          Inl e \<Rightarrow> rest = [] \<and> out = (in_5_minutes, Some (Ext e))
        | Inr pods \<Rightarrow> \<exists>err. deletion_log pods err rest \<and>
            out = (case err of Some e \<Rightarrow> (in_5_minutes, Some (Ext e)) | None \<Rightarrow> (no_result, None))"
    unfolding cleanup_run_def by (elim exE conjE) (rule that)
  show thesis
  proof (cases r)
    case (Inl e)
    then show thesis using r es by (intro unlisted) auto
  next
    case (Inr pods)
    then obtain err where "deletion_log pods err rest"
      "out = (case err of Some e \<Rightarrow> (in_5_minutes, Some (Ext e)) | None \<Rightarrow> (no_result, None))"
      using r by auto
    then show thesis using es Inr stuck clean by (cases err) auto
  qed
qed

text \<open>The list of pods, then their deletions; the finalizer request last, after all of them.\<close>

lemma deleted_run_cases:
  assumes "deleted_run job out es"
  obtains (unlisted) e where "es = [ListPods (jobNamespace job) (''metadata.name='' @ jobName job) (Inl e)]"
      "out = (in_5_minutes, Some (Ext e))"
    | (stuck) pods e rest where
      "es = ListPods (jobNamespace job) (''metadata.name='' @ jobName job) (Inr pods) # rest"
      "deletion_log pods (Some e) rest" "out = (in_5_minutes, Some (Ext e))"
    | (clean) pods rest answer where
      "es = ListPods (jobNamespace job) (''metadata.name='' @ jobName job) (Inr pods) # rest @
        [Put CoreV1 (jobNamespace job) ''hpcjobs'' (jobName job) (finalizer_dropped job) answer]"
      "deletion_log pods None rest"
      "out = (case answer of Some e \<Rightarrow> (in_5_minutes, Some (Ext e)) | None \<Rightarrow> (no_result, None))"
proof -
  from assms obtain r rest where
    es: "es = ListPods (jobNamespace job) (''metadata.name='' @ jobName job) r # rest"
    and r: "case r of
          Inl e \<Rightarrow> rest = [] \<and> out = (in_5_minutes, Some (Ext e))
        | Inr pods \<Rightarrow>
            (\<exists>e. deletion_log pods (Some e) rest \<and> out = (in_5_minutes, Some (Ext e))) \<or>
            (\<exists>es1 answer. deletion_log pods None es1 \<and>
               rest = es1 @ [Put CoreV1 (jobNamespace job) ''hpcjobs'' (jobName job) (finalizer_dropped job) answer] \<and>
               out = (case answer of Some e \<Rightarrow> (in_5_minutes, Some (Ext e)) | None \<Rightarrow> (no_result, None)))"
    unfolding deleted_run_def by (elim exE conjE) (rule that)
  show thesis
  proof (cases r)
    case (Inl e)
    then show thesis using r es by (intro unlisted) auto
  next
    case (Inr pods)
    then have "(\<exists>e. deletion_log pods (Some e) rest \<and> out = (in_5_minutes, Some (Ext e))) \<or>
        (\<exists>es1 answer. deletion_log pods None es1 \<and>
           rest = es1 @ [Put CoreV1 (jobNamespace job) ''hpcjobs'' (jobName job) (finalizer_dropped job) answer] \<and>
           out = (case answer of Some e \<Rightarrow> (in_5_minutes, Some (Ext e)) | None \<Rightarrow> (no_result, None)))"
      using r by simp
    then show thesis
    proof (elim disjE exE conjE)
      fix e
      assume "deletion_log pods (Some e) rest" "out = (in_5_minutes, Some (Ext e))"
      then show thesis using es Inr by (intro stuck [where pods = pods and e = e and rest = rest]) simp_all
    next
      fix es1 answer
      assume "deletion_log pods None es1"
        "rest = es1 @ [Put CoreV1 (jobNamespace job) ''hpcjobs'' (jobName job) (finalizer_dropped job) answer]"
        "out = (case answer of Some e \<Rightarrow> (in_5_minutes, Some (Ext e)) | None \<Rightarrow> (no_result, None))"
      then show thesis
        using es Inr by (intro clean [where pods = pods and rest = es1 and answer = answer]) simp_all
    qed
  qed
qed

text \<open>A deletion loop that meets an error has deleted a proper prefix of the pods.\<close>

lemma deletion_log_Some:
  "deletion_log pods (Some err) es \<Longrightarrow> \<exists>n < length pods.
     es = map (\<lambda>pod. DeletePodEv (podNamespace pod) (podName pod) None) (take n pods) @
       [DeletePodEv (podNamespace (pods ! n)) (podName (pods ! n)) (Some err)]"
proof (induction pods "Some err" es rule: deletion_log.induct)
  case (2 pod pods ns name answer es)
  show ?case
  proof (cases answer)
    case None
    then obtain n where "n < length pods" "es = map (\<lambda>pod. DeletePodEv (podNamespace pod) (podName pod) None) (take n pods) @
        [DeletePodEv (podNamespace (pods ! n)) (podName (pods ! n)) (Some err)]" using 2 by auto
    then show ?thesis using 2(2) None by (intro exI [of _ "Suc n"]) simp
  next
    case (Some e)
    then show ?thesis using 2(2) by (intro exI [of _ 0]) simp
  qed
qed simp_all

text \<open>The three forms a run of the deletion handler has, with the deletions written out.\<close>

lemma deleted_run_shape:
  assumes "deleted_run job out es"
  shows "\<exists>pods_read rest. es = ListPods (jobNamespace job) (''metadata.name='' @ jobName job) pods_read # rest \<and>
    (case pods_read of
       Inl e \<Rightarrow> rest = [] \<and> out = (in_5_minutes, Some (Ext e))
     | Inr pods \<Rightarrow>
         (\<exists>e. \<exists>n < length pods.
            rest = map (\<lambda>pod. DeletePodEv (podNamespace pod) (podName pod) None) (take n pods) @
              [DeletePodEv (podNamespace (pods ! n)) (podName (pods ! n)) (Some e)] \<and>
            out = (in_5_minutes, Some (Ext e))) \<or>
         (\<exists>answer.
            rest = map (\<lambda>pod. DeletePodEv (podNamespace pod) (podName pod) None) pods @
              [Put CoreV1 (jobNamespace job) ''hpcjobs'' (jobName job)
                 (job\<lparr>jobFinalizers := removeAll HPC_FINALIZER (jobFinalizers job)\<rparr>) answer] \<and>
            out = (case answer of Some e \<Rightarrow> (in_5_minutes, Some (Ext e)) | None \<Rightarrow> (no_result, None))))"
  using assms
proof (cases rule: deleted_run_cases)
  case (unlisted e)
  then show ?thesis by auto
next
  case (stuck pods e rest)
  then show ?thesis using deletion_log_Some [OF stuck(2)] by (auto split: sum.splits)
next
  case (clean pods rest answer)
  then show ?thesis using deletion_log_None [OF clean(2)]
    by (intro exI [of _ "Inr pods"]) (auto simp: finalizer_dropped_def)
qed

definition is_deletion :: "'e event \<Rightarrow> bool" where
  "is_deletion e \<longleftrightarrow> (case e of DeletePodEv _ _ _ \<Rightarrow> True | ListPods _ _ _ \<Rightarrow> True
     | Put _ _ _ _ _ _ \<Rightarrow> True | _ \<Rightarrow> False)"

lemma cleanup_run_deletions:
  assumes "cleanup_run ns name out es" and "e \<in> set es"
  shows "is_deletion e"
proof -
  have "is_deletion e" if "deletion_log pods err rest" "e \<in> set rest" for pods err rest
    using deletion_log_events [OF that] by (auto simp: is_deletion_def)
  with assms show ?thesis
    by (elim cleanup_run_cases) (auto simp: is_deletion_def)
qed

lemma deleted_run_deletions:
  assumes "deleted_run job out es" and "e \<in> set es"
  shows "is_deletion e"
proof -
  have "is_deletion e" if "deletion_log pods err rest" "e \<in> set rest" for pods err rest
    using deletion_log_events [OF that] by (auto simp: is_deletion_def)
  with assms show ?thesis
    by (elim deleted_run_cases) (auto simp: is_deletion_def)
qed

text \<open>
  The calls by which a deletion is carried out: a listing of pods by name, a deletion of a pod, a request
  that drops the finalizer. No run of a new, a Pending or a Running job contains one of them.
\<close>

definition cleanup_call :: "'e event \<Rightarrow> bool" where
  "cleanup_call e \<longleftrightarrow> (case e of DeletePodEv _ _ _ \<Rightarrow> True | Put _ _ _ _ _ _ \<Rightarrow> True
     | ListPods _ sel _ \<Rightarrow> (\<exists>name. sel = ''metadata.name='' @ name) | _ \<Rightarrow> False)"

lemma node_event_no_cleanup: "node_event e \<Longrightarrow> \<not> cleanup_call e"
  by (cases e) (auto simp: node_event_def cleanup_call_def)

lemma status_write_no_cleanup: "status_write job p upd job' es \<Longrightarrow> e \<in> set es \<Longrightarrow> \<not> cleanup_call e"
  by (auto simp: status_write_def cleanup_call_def)

lemma no_cleanup_call [simp]:
  "\<not> cleanup_call (GetJob ns name r)" "\<not> cleanup_call (GetPodEv ns name r')" "\<not> cleanup_call (CreatePodEv ns pod r'')"
  by (simp_all add: cleanup_call_def)

lemma pod_scan_no_cleanup:
  assumes "pod_scan E job podExists err job' es" and "e \<in> set es"
  shows "\<not> cleanup_call e"
proof -
  obtain r ws where "es = GetPodEv (jobNamespace job) (jobName job) r # ws"
    and "ws = [] \<or> (\<exists>p upd. status_write job p upd job' ws)"
    using pod_scan_write [OF assms(1)] by blast
  then show ?thesis using assms(2) status_write_no_cleanup by fastforce
qed

lemma podless_run_no_cleanup:
  assumes "podless_run E job out es" and "e \<in> set es"
  shows "\<not> cleanup_call e"
proof (cases "validateJobSpec job")
  case False
  then show ?thesis using assms by (auto simp: podless_run_def dest: status_write_no_cleanup)
next
  case True
  then consider "\<forall>ev \<in> set es. node_event ev"
    | items vec healthy es1 es2 where "es = es1 @ es2" "discovered es1 items vec healthy" "placed_run E job healthy out es2"
    using assms(1) by (auto simp: podless_run_def)
  then show ?thesis
  proof cases
    case 1
    then show ?thesis using assms(2) node_event_no_cleanup by blast
  next
    case 2
    then show ?thesis
      using assms(2) discovered_node_events [OF 2(2), of e] node_event_no_cleanup [of e] placed_run_cases [OF 2(3)]
      by auto
  qed
qed

lemma live_run_no_cleanup:
  "pending_run E job out es \<Longrightarrow> e \<in> set es \<Longrightarrow> \<not> cleanup_call e"
  "running_run E job out es \<Longrightarrow> e \<in> set es \<Longrightarrow> \<not> cleanup_call e"
  unfolding pending_run_def running_run_def
  by (auto dest: pod_scan_no_cleanup podless_run_no_cleanup status_write_no_cleanup)

lemma is_deletion_quiet: "is_deletion e \<Longrightarrow> \<not> is_status_write e"
  by (cases e) (simp_all add: is_deletion_def is_status_write_def)

text \<open>Every reconcile is that of a live job, or only deletes.\<close>

lemma Reconcile_cases:
  obtains (live) job rest where
      "fst (srvGetJob E ns name (world s)) = Inr job"
      "phase_of (effective_job job) \<in> {Pending, Running, Failed}"
      "emitted (Reconcile E sched ns name) s = GetJob ns name (Inr job) # rest"
      "job_run E (effective_job job) (result (Reconcile E sched ns name) s) rest"
      "handled (effective_job job) (result (Reconcile E sched ns name) s) rest"
    | (other) r rest where "emitted (Reconcile E sched ns name) s = GetJob ns name r # rest"
      "\<And>e. e \<in> set rest \<Longrightarrow> is_deletion e"
      "fst (result (Reconcile E sched ns name) s) \<in> {no_result, in_5_minutes}"
proof (cases "fst (srvGetJob E ns name (world s))")
  case (Inl e)
  obtain rest where rest: "emitted (Reconcile E sched ns name) s = GetJob ns name (Inl e) # rest"
    "if IsNotFound E e then cleanup_run ns name (result (Reconcile E sched ns name) s) rest
     else rest = [] \<and> result (Reconcile E sched ns name) s = (no_result, None)"
    using Reconcile_unfetched [OF Inl] by blast
  show thesis
  proof (rule other [OF rest(1)])
    show "is_deletion e'" if "e' \<in> set rest" for e'
      using rest(2) that by (auto split: if_splits dest: cleanup_run_deletions)
    show "fst (result (Reconcile E sched ns name) s) \<in> {no_result, in_5_minutes}"
      using rest(2) by (auto split: if_splits elim: cleanup_run_cases)
  qed
next
  case (Inr job)
  obtain rest where rest: "emitted (Reconcile E sched ns name) s = GetJob ns name (Inr job) # rest"
    "job_run E (effective_job job) (result (Reconcile E sched ns name) s) rest"
    using Reconcile_fetched [OF Inr] by blast
  show thesis
  proof (cases "phase_of (effective_job job) \<in> {Pending, Running, Failed}")
    case True
    then show thesis by (rule live [OF Inr _ rest job_run_handled [OF rest(2)]]) (rule True)
  next
    case False
    note o = job_run_other [OF rest(2) False]
    show thesis
    proof (rule other [OF rest(1)])
      show "is_deletion e'" if "e' \<in> set rest" for e'
        using o that by (auto split: if_splits dest: deleted_run_deletions)
      show "fst (result (Reconcile E sched ns name) s) \<in> {no_result, in_5_minutes}"
        using o by (auto split: if_splits option.splits elim!: deleted_run_cases)
    qed
  qed
qed

section \<open>The answer about the pod\<close>

lemma pod_scan_False:
  assumes "pod_scan E job False err job' es"
  shows "\<exists>e. es = [GetPodEv (jobNamespace job) (jobName job) (Inl e)] \<and> IsNotFound E e"
  using assms unfolding pod_scan_def
proof (elim exE conjE, goal_cases)
  case (1 r ws)
  then show ?case by (cases r) (auto split: if_splits option.splits)
qed

lemma pod_scan_answer:
  assumes "pod_scan E job podExists err job' es" and "GetPodEv ns name r \<in> set es"
  obtains ws where "es = GetPodEv (jobNamespace job) (jobName job) r # ws"
    and "case r of
          Inl e \<Rightarrow>
            if IsNotFound E e then ws = [] \<and> \<not> podExists \<and> err = None \<and> job' = job
            else \<exists>upd. status_write job Failed upd job' ws \<and> podExists \<and>
                   err = Some (case upd of Some u \<Rightarrow> u | None \<Rightarrow> Ext e)
        | Inr pod \<Rightarrow>
            (case observed (podPhase pod) of
               None \<Rightarrow> ws = [] \<and> podExists \<and> err = None \<and> job' = job
             | Some p \<Rightarrow> \<exists>upd. status_write job p upd job' ws \<and> podExists \<and>
                 err = (case upd of Some u \<Rightarrow> Some u
                        | None \<Rightarrow> if p = Failed then Some (PodIsFailing (podName pod)) else None))"
proof -
  have "GetPodEv ns name r \<notin> set (tl es)"
    using pod_scan_write [OF assms(1)] by (auto simp: status_write_def)
  then have "\<exists>ns name. hd es = GetPodEv ns name r" using assms(2) by (cases es) auto
  then show thesis
    using assms(1) unfolding pod_scan_def by (elim exE conjE) (auto intro: that)
qed

lemma pod_scan_found:
  assumes "pod_scan E job podExists err job' es" and "GetPodEv ns name (Inr pod) \<in> set es"
  shows "podExists \<and> (case observed (podPhase pod) of
      None \<Rightarrow> es = [GetPodEv (jobNamespace job) (jobName job) (Inr pod)] \<and> err = None \<and> job' = job
    | Some p \<Rightarrow> \<exists>upd ws. es = GetPodEv (jobNamespace job) (jobName job) (Inr pod) # ws \<and>
        status_write job p upd job' ws \<and>
        err = (case upd of Some u \<Rightarrow> Some u
               | None \<Rightarrow> if p = Failed then Some (PodIsFailing (podName pod)) else None))"
  using assms
proof (rule pod_scan_answer, goal_cases)
  case (1 ws)
  then show ?case
  proof (cases "observed (podPhase pod)")
    case (Some p)
    then obtain upd where "status_write job p upd job' ws" "podExists"
      "err = (case upd of Some u \<Rightarrow> Some u
              | None \<Rightarrow> if p = Failed then Some (PodIsFailing (podName pod)) else None)"
      using 1(2) by auto
    then show ?thesis using Some 1(1) by (simp del: Failed_def) blast
  qed simp
qed

lemma pod_scan_error:
  assumes "pod_scan E job podExists err job' es" and "GetPodEv ns name (Inl e) \<in> set es"
  shows "if IsNotFound E e
    then \<not> podExists \<and> es = [GetPodEv (jobNamespace job) (jobName job) (Inl e)]
    else \<exists>upd ws. podExists \<and> es = GetPodEv (jobNamespace job) (jobName job) (Inl e) # ws \<and>
           status_write job Failed upd job' ws \<and> err = Some (case upd of Some u \<Rightarrow> u | None \<Rightarrow> Ext e)"
  using assms
proof (rule pod_scan_answer, goal_cases)
  case (1 ws)
  then show ?case
  proof (cases "IsNotFound E e")
    case False
    then obtain upd where "status_write job Failed upd job' ws" "podExists"
      "err = Some (case upd of Some u \<Rightarrow> u | None \<Rightarrow> Ext e)" using 1(2) by auto
    then show ?thesis using False 1(1) by (simp del: Failed_def) blast
  qed simp
qed

lemma status_write_only: "status_write job p upd job' es \<Longrightarrow> \<exists>r. es = [UpdateStatus (set_phase p job) r]"
  by (auto simp: status_write_def)

lemma discovered_no_pod_event: "discovered es items vec healthy \<Longrightarrow> GetPodEv ns name r \<notin> set es"
  using discovered_node_events [of es items vec healthy "GetPodEv ns name r"] by (auto simp: node_event_def)

lemma podless_run_no_pod_event:
  assumes "podless_run E job out es"
  shows "GetPodEv ns name r \<notin> set es"
proof (cases "validateJobSpec job")
  case False
  then show ?thesis using assms by (auto simp: podless_run_def dest: status_write_only)
next
  case True
  then consider e where "\<forall>ev \<in> set es. node_event ev" "out = (no_result, Some e)"
    | items vec healthy es1 es2 where "es = es1 @ es2" "discovered es1 items vec healthy"
        "placed_run E job healthy out es2"
    using assms by (auto simp: podless_run_def)
  then show ?thesis
  proof cases
    case 1
    then show ?thesis by (auto simp: node_event_def)
  next
    case 2
    then show ?thesis using discovered_no_pod_event [OF 2(2)] placed_run_cases [OF 2(3)] by auto
  qed
qed

lemma pending_run_absent:
  assumes "pending_run E job out es" and "GetPodEv ns name (Inl e) \<in> set es" and "IsNotFound E e"
  shows "\<exists>es'. es = GetPodEv (jobNamespace job) (jobName job) (Inl e) # es' \<and> podless_run E job out es'"
  using assms(1) unfolding pending_run_def
proof (elim disjE exE conjE)
  fix err job'
  assume "pod_scan E job True err job' es"
  then show ?thesis using pod_scan_error [OF _ assms(2)] assms(3) by fastforce
next
  fix es1 es2
  assume es: "es = es1 @ es2" and sc: "pod_scan E job False None job es1" and p: "podless_run E job out es2"
  obtain e' where "es1 = [GetPodEv (jobNamespace job) (jobName job) (Inl e')]"
    using pod_scan_False [OF sc] by blast
  then show ?thesis using assms(2) es p podless_run_no_pod_event [OF p, of ns name "Inl e"] by auto
qed

lemma pending_run_present:
  assumes "pending_run E job out es" and "GetPodEv ns name r \<in> set es"
    and "\<And>e. r = Inl e \<Longrightarrow> \<not> IsNotFound E e"
  shows "\<exists>err job'. pod_scan E job True err job' es \<and> out = scanned_outcome job' err"
  using assms(1) unfolding pending_run_def
proof (elim disjE exE conjE)
  fix es1 es2
  assume es: "es = es1 @ es2" and sc: "pod_scan E job False None job es1" and p: "podless_run E job out es2"
  obtain e' where "es1 = [GetPodEv (jobNamespace job) (jobName job) (Inl e')]" "IsNotFound E e'"
    using pod_scan_False [OF sc] by blast
  then show ?thesis using assms(2,3) es p podless_run_no_pod_event [OF p, of ns name r] by auto
qed blast

lemma running_run_absent:
  assumes "running_run E job out es" and "GetPodEv ns name (Inl e) \<in> set es" and "IsNotFound E e"
  shows "\<exists>r. es = [GetPodEv (jobNamespace job) (jobName job) (Inl e), UpdateStatus (set_phase Pending job) r] \<and>
    fst out = in_5_minutes"
  using assms(1) unfolding running_run_def
proof (elim disjE exE conjE)
  fix err job'
  assume "pod_scan E job True err job' es"
  then show ?thesis using pod_scan_error [OF _ assms(2)] assms(3) by fastforce
next
  fix es1 es2 upd job'
  assume es: "es = es1 @ es2" and sc: "pod_scan E job False None job es1"
    and w: "status_write job Pending upd job' es2" and out: "out = (in_5_minutes, upd)"
  obtain e' r where "es1 = [GetPodEv (jobNamespace job) (jobName job) (Inl e')]"
    "es2 = [UpdateStatus (set_phase Pending job) r]"
    using pod_scan_False [OF sc] status_write_only [OF w] by blast
  then show ?thesis using assms(2) es out by auto
qed

lemma running_run_present:
  assumes "running_run E job out es" and "GetPodEv ns name r \<in> set es"
    and "\<And>e. r = Inl e \<Longrightarrow> \<not> IsNotFound E e"
  shows "\<exists>err job'. pod_scan E job True err job' es \<and> out = (no_result, err)"
  using assms(1) unfolding running_run_def
proof (elim disjE exE conjE)
  fix es1 es2 upd job'
  assume es: "es = es1 @ es2" and sc: "pod_scan E job False None job es1"
    and w: "status_write job Pending upd job' es2"
  obtain e' u where "es1 = [GetPodEv (jobNamespace job) (jobName job) (Inl e')]" "IsNotFound E e'"
    "es2 = [UpdateStatus (set_phase Pending job) u]"
    using pod_scan_False [OF sc] status_write_only [OF w] by blast
  then show ?thesis using assms(2,3) es by auto
qed blast

section \<open>Creation\<close>

text \<open>A node of a listing on which the discovery lets the job be placed, and its density label.\<close>

definition can_host :: "Sample list \<Rightarrow> HPCJob \<Rightarrow> Node \<Rightarrow> int64 \<Rightarrow> bool" where
  "can_host vec job node d \<longleftrightarrow>
     is_gpu_node node \<and> exports_metrics vec (nodeName node) \<and> in_ranges vec (nodeName node) \<and>
     has_room (int64_of_int32 (GPUCount (jobSpec job))) node d"

lemma can_host_nodes_with:
  "(\<exists>node \<in> set (nodes_with True vec items). has_room (int64_of_int32 (GPUCount (jobSpec job))) node d) \<longleftrightarrow>
   (\<exists>node \<in> set items. can_host vec job node d)"
  by (auto simp: nodes_with_def can_host_def)

lemma placed_run_created:
  assumes "discovered es1 items vec healthy" and "placed_run E job healthy out es2"
  shows "if \<exists>node \<in> set items. \<exists>d. can_host vec job node d
    then \<exists>a answer. (\<exists>node \<in> set items. can_host vec job node a) \<and>
           (\<forall>node \<in> set items. \<forall>d. can_host vec job node d \<longrightarrow> sint a \<le> sint d) \<and>
           es2 = [CreatePodEv (jobNamespace job) (hpc_pod E job a) answer] \<and> out = creation_outcome E answer
    else es2 = [] \<and> out = (in_5_minutes, None)"
proof -
  let ?req = "int64_of_int32 (GPUCount (jobSpec job))"
  have healthy: "healthy = nodes_with True vec items"
    using assms(1) by (simp add: discovered_def Let_def)
  obtain a has where c: "calculateClusterCapacityForJob healthy ?req = (a, has)" by fastforce
  show ?thesis
  proof (cases has)
    case True
    then have room: "\<exists>node \<in> set items. can_host vec job node a"
      "\<forall>node \<in> set items. \<forall>d. can_host vec job node d \<longrightarrow> sint a \<le> sint d"
      using calculateClusterCapacityForJob_True [of healthy ?req a] c
      unfolding healthy can_host_nodes_with by (auto simp: nodes_with_def can_host_def)
    obtain answer where "es2 = [CreatePodEv (jobNamespace job) (hpc_pod E job a) answer]"
      "out = creation_outcome E answer"
      using assms(2) c True by (auto simp: placed_run_def)
    then show ?thesis using room by auto
  next
    case False
    then have "\<not> (\<exists>node \<in> set items. \<exists>d. can_host vec job node d)"
      using c calculateClusterCapacityForJob_False [of healthy ?req a] can_host_nodes_with [of vec items job]
      unfolding healthy by auto
    then show ?thesis using assms(2) c False by (simp add: placed_run_def)
  qed
qed

lemma pending_run_created:
  assumes "pending_run E job out es" and "CreatePodEv ns' pod answer \<in> set es"
  shows "\<exists>e es1 items vec healthy a.
    es = GetPodEv (jobNamespace job) (jobName job) (Inl e) # es1 @ [CreatePodEv (jobNamespace job) (hpc_pod E job a) answer] \<and>
    CreatePodEv ns' pod answer = CreatePodEv (jobNamespace job) (hpc_pod E job a) answer \<and>
    IsNotFound E e \<and> validateJobSpec job \<and> discovered es1 items vec healthy \<and>
    (\<exists>node \<in> set items. can_host vec job node a) \<and>
    (\<forall>node \<in> set items. \<forall>d. can_host vec job node d \<longrightarrow> sint a \<le> sint d) \<and>
    out = creation_outcome E answer"
  using assms(1) unfolding pending_run_def
proof (elim disjE exE conjE)
  fix err job'
  assume "pod_scan E job True err job' es"
  then have False using pod_scan_write [of E job True err job' es] assms(2) by (auto dest: status_write_only)
  then show ?thesis ..
next
  fix es1 es2
  assume es: "es = es1 @ es2" and sc: "pod_scan E job False None job es1" and p: "podless_run E job out es2"
  obtain e where e: "es1 = [GetPodEv (jobNamespace job) (jobName job) (Inl e)]" "IsNotFound E e"
    using pod_scan_False [OF sc] by blast
  have mem: "CreatePodEv ns' pod answer \<in> set es2" using assms(2) es e by simp
  have valid: "validateJobSpec job"
    using p mem by (cases "validateJobSpec job") (auto simp: podless_run_def dest: status_write_only)
  obtain items vec healthy es3 es4 where d: "es2 = es3 @ es4" "discovered es3 items vec healthy"
    and pl: "placed_run E job healthy out es4"
    using p valid mem by (fastforce simp: podless_run_def node_event_def)
  have "CreatePodEv ns' pod answer \<notin> set es3"
    using discovered_node_events [OF d(2), of "CreatePodEv ns' pod answer"] by (auto simp: node_event_def)
  then have mem4: "CreatePodEv ns' pod answer \<in> set es4" using mem d(1) by simp
  note pc = placed_run_created [OF d(2) pl]
  have "\<exists>node \<in> set items. \<exists>d. can_host vec job node d"
    by (rule ccontr) (use pc mem4 in simp)
  then obtain a answer' where a: "\<exists>node \<in> set items. can_host vec job node a"
    "\<forall>node \<in> set items. \<forall>d. can_host vec job node d \<longrightarrow> sint a \<le> sint d"
    "es4 = [CreatePodEv (jobNamespace job) (hpc_pod E job a) answer']" "out = creation_outcome E answer'"
    using pc by (simp only: if_True) blast
  have ans: "CreatePodEv ns' pod answer = CreatePodEv (jobNamespace job) (hpc_pod E job a) answer'"
    using mem4 a(3) by simp
  show ?thesis
    by (rule exI [of _ e], rule exI [of _ es3], rule exI [of _ items], rule exI [of _ vec],
        rule exI [of _ healthy], rule exI [of _ a]) (use a d e es valid ans in simp)
qed

lemma effective_job_spec [simp]:
  "hpc_pod E (effective_job job) a = hpc_pod E job a"
  "can_host vec (effective_job job) node a = can_host vec job node a"
  "validateJobSpec (effective_job job) = validateJobSpec job"
  by (simp_all add: hpc_pod_def can_host_def validateJobSpec_def)

lemma effective_phase_eq_Pending: "effective_phase p = Pending \<longleftrightarrow> p = '''' \<or> p = Pending"
  by (auto simp: effective_phase_def)

lemma effective_phase_live [simp]: "p \<noteq> '''' \<Longrightarrow> effective_phase p = p"
  by (simp add: effective_phase_def)

lemma discovered_reads:
  "discovered es items vec healthy \<Longrightarrow>
   \<exists>sel. ListNodes sel (Inr items) \<in> set es \<and> Query GpuClusterHealthScanPrmQuery (Inr (Vector vec)) \<in> set es"
  by (auto simp: discovered_def discovery_def Let_def)

lemma running_run_no_create: "running_run E job out es \<Longrightarrow> CreatePodEv ns pod answer \<notin> set es"
  unfolding running_run_def
  by (elim disjE exE conjE) (auto dest!: pod_scan_write pod_scan_False status_write_only)

lemma failed_run_events:
  assumes "failed_run E job out es"
  shows "\<exists>answer ws. es = DeletePodEv (jobNamespace job) (jobName job) answer # ws \<and>
    (ws = [] \<or> (\<exists>r. ws = [UpdateStatus (set_phase Failed job) r]))"
proof -
  obtain answer rest where "es = DeletePodEv (jobNamespace job) (jobName job) answer # rest"
    and "if (case answer of None \<Rightarrow> True | Some e \<Rightarrow> IsNotFound E e)
        then \<exists>upd job'. status_write job Failed upd job' rest \<and>
               out = (if upd = None then no_result else in_5_minutes, upd)
        else rest = [] \<and> out = (in_5_minutes, map_option Ext answer)"
    using assms unfolding failed_run_def by (elim exE conjE) (rule that)
  then show ?thesis by (auto split: if_splits dest!: status_write_only simp del: Failed_def)
qed

lemma failed_run_no_create: "failed_run E job out es \<Longrightarrow> CreatePodEv ns pod answer \<notin> set es"
  using failed_run_events [of E job out es] by auto

text \<open>Only the handler of a pending job creates a pod.\<close>

lemma Reconcile_created:
  assumes "CreatePodEv ns' pod answer \<in> set (emitted (Reconcile E sched ns name) s)"
  shows "\<exists>job rest. fst (srvGetJob E ns name (world s)) = Inr job \<and> phase_of job \<in> {'''', Pending} \<and>
    emitted (Reconcile E sched ns name) s = GetJob ns name (Inr job) # rest \<and>
    CreatePodEv ns' pod answer \<in> set rest \<and>
    pending_run E (effective_job job) (result (Reconcile E sched ns name) s) rest"
proof (cases rule: Reconcile_cases [of E ns name s sched])
  case (live job rest)
  have mem: "CreatePodEv ns' pod answer \<in> set rest" using assms live(3) by simp
  have "phase_of (effective_job job) = Pending"
  proof (rule ccontr)
    assume "phase_of (effective_job job) \<noteq> Pending"
    then have "phase_of (effective_job job) = Running \<or> phase_of (effective_job job) = Failed"
      using live(2) by blast
    then have "running_run E (effective_job job) (result (Reconcile E sched ns name) s) rest \<or>
        failed_run E (effective_job job) (result (Reconcile E sched ns name) s) rest"
      using live(4) by (elim disjE) (simp_all only: job_run_phases simp_thms)
    then show False using mem by (elim disjE) (blast dest: running_run_no_create failed_run_no_create)+
  qed
  then show ?thesis using live mem by (auto simp: job_run_phases effective_phase_eq_Pending simp del: Pending_def)
next
  case (other r rest)
  then show ?thesis using assms by (auto simp: is_deletion_def dest: other(2))
qed

text \<open>The handler a job in a given phase gets.\<close>

lemma Reconcile_pending:
  assumes "fst (srvGetJob E ns name (world s)) = Inr job" and "phase_of job \<in> {'''', Pending}"
  shows "\<exists>rest. emitted (Reconcile E sched ns name) s = GetJob ns name (Inr job) # rest \<and>
    pending_run E (effective_job job) (result (Reconcile E sched ns name) s) rest"
  using Reconcile_fetched [OF assms(1), of sched] assms(2) job_run_phases(1) [of "effective_job job" E]
  by (auto simp: effective_phase_eq_Pending simp del: Pending_def)

lemma Reconcile_running:
  assumes "fst (srvGetJob E ns name (world s)) = Inr job" and "phase_of job = Running"
  shows "\<exists>rest. emitted (Reconcile E sched ns name) s = GetJob ns name (Inr job) # rest \<and>
    running_run E job (result (Reconcile E sched ns name) s) rest"
  using Reconcile_fetched [OF assms(1), of sched] assms(2) by (simp add: job_run_def effective_job_def)

lemma Reconcile_failed:
  assumes "fst (srvGetJob E ns name (world s)) = Inr job" and "phase_of job = Failed"
  shows "\<exists>rest. emitted (Reconcile E sched ns name) s = GetJob ns name (Inr job) # rest \<and>
    failed_run E job (result (Reconcile E sched ns name) s) rest"
  using Reconcile_fetched [OF assms(1), of sched] assms(2) by (simp add: job_run_def effective_job_def)

lemma Reconcile_other:
  assumes "fst (srvGetJob E ns name (world s)) = Inr job"
    and "phase_of job \<notin> {'''', Pending, Running, Failed}"
  shows "\<exists>rest. emitted (Reconcile E sched ns name) s = GetJob ns name (Inr job) # rest \<and>
    (if IsZero (jobDeletionTimestamp job)
     then rest = [] \<and> result (Reconcile E sched ns name) s = (no_result, None)
     else deleted_run job (result (Reconcile E sched ns name) s) rest)"
  using Reconcile_fetched [OF assms(1), of sched] assms(2)
  by (fastforce simp: effective_job_def dest: job_run_other)

lemma Reconcile_scanned:
  assumes "fst (srvGetJob E ns name (world s)) = Inr job" and "phase_of job \<in> {'''', Pending, Running}"
    and "GetPodEv ns' name' r \<in> set (emitted (Reconcile E sched ns name) s)"
    and "\<And>e. r = Inl e \<Longrightarrow> \<not> IsNotFound E e"
  obtains rest err job' where "emitted (Reconcile E sched ns name) s = GetJob ns name (Inr job) # rest"
    and "pod_scan E (effective_job job) True err job' rest" and "GetPodEv ns' name' r \<in> set rest"
    and "result (Reconcile E sched ns name) s =
      (if phase_of job = Running then (no_result, err) else scanned_outcome job' err)"
proof -
  let ?L = "emitted (Reconcile E sched ns name) s" and ?out = "result (Reconcile E sched ns name) s"
  have "\<exists>rest err job'. ?L = GetJob ns name (Inr job) # rest \<and> pod_scan E (effective_job job) True err job' rest \<and>
      ?out = (if phase_of job = Running then (no_result, err) else scanned_outcome job' err)"
  proof (cases "phase_of job = Running")
    case True
    then obtain rest where rest: "?L = GetJob ns name (Inr job) # rest" "running_run E job ?out rest"
      using Reconcile_running [OF assms(1), of sched] by blast
    then show ?thesis
      using running_run_present [OF rest(2), of ns' name' r] assms(3,4) True by (auto simp: effective_job_def)
  next
    case False
    then obtain rest where rest: "?L = GetJob ns name (Inr job) # rest" "pending_run E (effective_job job) ?out rest"
      using Reconcile_pending [OF assms(1), of sched] assms(2) by blast
    then show ?thesis
      using pending_run_present [OF rest(2), of ns' name' r] assms(3,4) False by auto
  qed
  then show thesis using that assms(3) by auto
qed

text \<open>A reconcile of a valid job without a pod that ends without an error has looked for a node.\<close>

lemma Reconcile_searched:
  assumes "fst (srvGetJob E ns name (world s)) = Inr job" and "phase_of job \<in> {'''', Pending}"
    and "validateJobSpec job"
    and "GetPodEv ns' name' (Inl e) \<in> set (emitted (Reconcile E sched ns name) s)" and "IsNotFound E e"
    and "snd (result (Reconcile E sched ns name) s) = None"
  obtains items vec healthy es1 es2 where
    "emitted (Reconcile E sched ns name) s =
       GetJob ns name (Inr job) # GetPodEv (jobNamespace job) (jobName job) (Inl e) # es1 @ es2"
    and "discovered es1 items vec healthy"
    and "placed_run E (effective_job job) healthy (result (Reconcile E sched ns name) s) es2"
proof -
  obtain rest where L: "emitted (Reconcile E sched ns name) s = GetJob ns name (Inr job) # rest"
    and run: "pending_run E (effective_job job) (result (Reconcile E sched ns name) s) rest"
    using Reconcile_pending [OF assms(1,2)] by blast
  obtain es where es: "rest = GetPodEv (jobNamespace job) (jobName job) (Inl e) # es"
    and p: "podless_run E (effective_job job) (result (Reconcile E sched ns name) s) es"
    using pending_run_absent [OF run, of ns' name' e] assms(4,5) L by auto
  obtain items vec healthy es1 es2 where "es = es1 @ es2" "discovered es1 items vec healthy"
    "placed_run E (effective_job job) healthy (result (Reconcile E sched ns name) s) es2"
    using p assms(3,6) by (auto simp: podless_run_def)
  then show thesis using that L es by simp
qed

section \<open>A node under a patch\<close>

text \<open>
  What the API server makes of a node when it accepts a patch, as far as the controller reads it back:
  \<open>n'\<close> has the labels of the patch and, for every other key, those of \<open>n\<close>; name and resources stay.
\<close>

definition patched :: "NodePatch \<Rightarrow> Node \<Rightarrow> Node \<Rightarrow> bool" where
  "patched patch n n' \<longleftrightarrow> nodeName n' = nodeName n \<and> GetNodeAllocatableGPUs n' = GetNodeAllocatableGPUs n \<and>
     (\<forall>key. node_label n' key =
        (case go_get (patchLabels patch) key of Some v \<Rightarrow> Some v | None \<Rightarrow> node_label n key))"

end
