(* ===== verification/Sample_Cluster.thy ===== *)
theory Sample_Cluster
  imports Kube_Client
begin

text \<open>
  A small cluster in memory: the environment the theorems are instantiated with where one shows that
  their hypotheses can hold. It keeps jobs with a resource version, pods with the node they are bound
  to, nodes, and the samples of the metrics query, and answers as the API server documents: every write of
  a job gives it a new resource version, and is accepted from the current one only (the versions that were
  replaced are kept, to state what a version stood for), a second pod of a name is refused, a
  merge patch of a node adds labels and replaces the list of taints, the core group knows no resource
  \<open>hpcjobs\<close>.
\<close>

record cluster =
  clJobs :: "HPCJob list"
  clPast :: "HPCJob list"
  clPods :: "(string \<times> Pod) list"
  clNodes :: "Node list"
  clSamples :: "Sample list"

definition is_job :: "string \<Rightarrow> string \<Rightarrow> HPCJob \<Rightarrow> bool" where
  "is_job ns name j \<longleftrightarrow> (jobNamespace j, jobName j) = (ns, name)"

definition is_pod :: "string \<Rightarrow> string \<Rightarrow> string \<times> Pod \<Rightarrow> bool" where
  "is_pod ns name p \<longleftrightarrow> (podNamespace (snd p), podName (snd p)) = (ns, name)"

definition find_job :: "string \<Rightarrow> string \<Rightarrow> cluster \<Rightarrow> HPCJob option" where
  "find_job ns name c = find (is_job ns name) (clJobs c)"

definition find_pod :: "string \<Rightarrow> string \<Rightarrow> cluster \<Rightarrow> Pod option" where
  "find_pod ns name c = map_option snd (find (is_pod ns name) (clPods c))"

definition job_got :: "string \<Rightarrow> string \<Rightarrow> cluster \<Rightarrow> (string + HPCJob) \<times> cluster" where
  "job_got ns name c = ((case find_job ns name c of None \<Rightarrow> Inl ''notfound'' | Some j \<Rightarrow> Inr j), c)"

definition fresh_version :: "cluster \<Rightarrow> string" where
  "fresh_version c = concat (map jobResourceVersion (clJobs c @ clPast c)) @ ''+''"

definition job_stored :: "HPCJob \<Rightarrow> cluster \<Rightarrow> cluster" where
  "job_stored job c = c\<lparr>
     clJobs := map (\<lambda>i. if is_job (jobNamespace job) (jobName job) i then job else i) (clJobs c),
     clPast := filter (is_job (jobNamespace job) (jobName job)) (clJobs c) @ clPast c\<rparr>"

definition status_updated :: "HPCJob \<Rightarrow> cluster \<Rightarrow> (string + HPCJob) \<times> cluster" where
  "status_updated job c =
     (case find_job (jobNamespace job) (jobName job) c of
        None \<Rightarrow> (Inl ''notfound'', c)
      | Some j \<Rightarrow>
          if jobResourceVersion j \<noteq> jobResourceVersion job then (Inl ''conflict'', c)
          else let j' = j\<lparr>jobStatus := jobStatus job, jobResourceVersion := fresh_version c\<rparr>
               in (Inr j', job_stored j' c))"

definition job_put :: "GroupVersionKey \<Rightarrow> string \<Rightarrow> string \<Rightarrow> string \<Rightarrow> HPCJob \<Rightarrow> cluster \<Rightarrow> string option \<times> cluster" where
  "job_put gv ns resource name body c =
     (if gv \<noteq> GroupVersion \<or> resource \<noteq> ''hpcjobs'' then (Some ''notfound'', c)
      else case find_job ns name c of
        None \<Rightarrow> (Some ''notfound'', c)
      | Some j \<Rightarrow>
          if jobResourceVersion j \<noteq> jobResourceVersion body then (Some ''conflict'', c)
          else (None, job_stored (j\<lparr>jobFinalizers := jobFinalizers body, jobSpec := jobSpec body,
                  jobResourceVersion := fresh_version c\<rparr>) c))"

definition pod_got :: "string \<Rightarrow> string \<Rightarrow> cluster \<Rightarrow> (string + Pod) \<times> cluster" where
  "pod_got ns name c = ((case find_pod ns name c of None \<Rightarrow> Inl ''notfound'' | Some p \<Rightarrow> Inr p), c)"

definition pods_listed :: "string \<Rightarrow> string \<Rightarrow> cluster \<Rightarrow> (string + Pod list) \<times> cluster" where
  "pods_listed ns sel c =
     (Inr (map snd (filter (\<lambda>p. (ns = '''' \<or> podNamespace (snd p) = ns) \<and>
        (sel = ''metadata.name='' @ podName (snd p) \<or> sel = ''spec.nodeName='' @ fst p)) (clPods c))), c)"

definition pod_created :: "string \<Rightarrow> Pod \<Rightarrow> cluster \<Rightarrow> string option \<times> cluster" where
  "pod_created ns pod c =
     (if find_pod ns (podName pod) c \<noteq> None then (Some ''exists'', c)
      else (None, c\<lparr>clPods := clPods c @ [('''', pod\<lparr>podNamespace := ns, podPhase := PodPending\<rparr>)]\<rparr>))"

definition pod_deleted :: "string \<Rightarrow> string \<Rightarrow> cluster \<Rightarrow> string option \<times> cluster" where
  "pod_deleted ns name c =
     (if find_pod ns name c = None then (Some ''notfound'', c)
      else (None, c\<lparr>clPods := filter (\<lambda>p. \<not> is_pod ns name p) (clPods c)\<rparr>))"

definition patch_applied :: "NodePatch \<Rightarrow> Node \<Rightarrow> Node" where
  "patch_applied patch node = node\<lparr>
     nodeLabels := Some (foldr (\<lambda>(k, v). go_put k v) (patchLabels patch)
       (case nodeLabels node of None \<Rightarrow> [] | Some m \<Rightarrow> m)),
     nodeTaints := (case patchTaints patch of None \<Rightarrow> [] | Some ts \<Rightarrow> ts)\<rparr>"

definition node_patched :: "string \<Rightarrow> NodePatch \<Rightarrow> cluster \<Rightarrow> string option \<times> cluster" where
  "node_patched name patch c =
     (if name \<in> set (map nodeName (clNodes c))
      then (None, c\<lparr>clNodes := map (\<lambda>n. if nodeName n = name then patch_applied patch n else n) (clNodes c)\<rparr>)
      else (Some ''notfound'', c))"

definition sample_env :: "(cluster, string) kube_env" where
  "sample_env =
     \<lparr>IsNotFound = (\<lambda>e. e = ''notfound''),
      IsConflict = (\<lambda>e. e = ''conflict''),
      MustParse = (\<lambda>s. case Atoi s of None \<Rightarrow> 0 | Some w \<Rightarrow> w),
      ExistsSelector = (\<lambda>key. Inr key),
      srvGetJob = job_got,
      srvUpdateStatus = status_updated,
      srvPut = job_put,
      srvGetPod = pod_got,
      srvListPods = pods_listed,
      srvCreatePod = pod_created,
      srvDeletePod = pod_deleted,
      srvListNodes = (\<lambda>sel c. (Inr (filter (\<lambda>n. node_label n sel \<noteq> None) (clNodes c)), c)),
      srvPatchNode = node_patched,
      srvQuery = (\<lambda>cancelled q c. (Inr (Vector (clSamples c)), c))\<rparr>"

lemma sample_env_calls:
  "srvGetJob sample_env = job_got" "srvUpdateStatus sample_env = status_updated"
  "srvPut sample_env = job_put"
  "srvGetPod sample_env = pod_got" "srvListPods sample_env = pods_listed"
  "srvCreatePod sample_env = pod_created" "srvDeletePod sample_env = pod_deleted"
  "srvListNodes sample_env = (\<lambda>sel c. (Inr (filter (\<lambda>n. node_label n sel \<noteq> None) (clNodes c)), c))"
  "srvPatchNode sample_env = node_patched" "srvQuery sample_env = (\<lambda>cancelled q c. (Inr (Vector (clSamples c)), c))"
  by (simp_all add: sample_env_def)

section \<open>A cluster with two GPU nodes\<close>

definition sample_job :: "string \<Rightarrow> string \<Rightarrow> int32 \<Rightarrow> HPCJob" where
  "sample_job name phase gpus =
     \<lparr>jobName = name, jobNamespace = ''lab'', jobResourceVersion = ''1'', jobFinalizers = [],
      jobDeletionTimestamp = None,
      jobSpec = \<lparr>Image = ''train:1'', GPUCount = gpus, Constraints = \<lparr>Topology = ''''\<rparr>\<rparr>,
      jobStatus = \<lparr>Phase = phase, Conditions = []\<rparr>\<rparr>"

text \<open>A node with eight GPUs, \<open>density\<close> of them in use according to its label.\<close>

definition sample_node :: "string \<Rightarrow> string \<Rightarrow> Node" where
  "sample_node name density =
     \<lparr>nodeName = name,
      nodeLabels = Some [(GPU_NODE_LABEL_INDICATOR, ''8''), (HIGH_DENSITY_AFFINITY_LABEL, density)],
      nodeTaints = [\<lparr>taintKey = GPU_NODE_TAINT_KEY, taintValue = ''present'', taintEffect = TaintEffectNoSchedule\<rparr>],
      nodeAllocatable = [(GPU_CORES_CAPACITY, 8)],
      nodeCapacity = [(GPU_CORES_CAPACITY, 8)],
      nodeConditions = []\<rparr>"

definition sample_temp :: "string \<Rightarrow> rat \<Rightarrow> Sample" where
  "sample_temp node temp =
     \<lparr>sampleMetric = [(''__name__'', ''dcgm_gpu_temp''), (''node'', node), (''gpu'', ''0'')],
      sampleValue = Fin temp\<rparr>"

text \<open>The pod of a job, as the cluster stores it.\<close>

definition sample_pod :: "string \<Rightarrow> string \<Rightarrow> Pod" where
  "sample_pod name phase =
     \<lparr>podName = name, podNamespace = ''lab'', podRestartPolicy = RestartPolicyOnFailure,
      podTolerations = [], podPreferred = [],
      podContainers =
        [\<lparr>containerName = name, containerImage = ''train:1'', containerImagePullPolicy = PullIfNotPresent,
          containerLimits = [(GPU_CORES_CAPACITY, 2)], containerRequests = [(GPU_CORES_CAPACITY, 2)]\<rparr>],
      podPhase = phase\<rparr>"

definition sample_cluster :: "HPCJob list \<Rightarrow> (string \<times> Pod) list \<Rightarrow> (cluster, string event) sys" where
  "sample_cluster jobs pods =
     \<lparr>world = \<lparr>clJobs = jobs, clPast = [], clPods = pods,
        clNodes = [sample_node ''n1'' ''4'', sample_node ''n2'' ''2''],
        clSamples = [sample_temp ''n1'' 60, sample_temp ''n2'' 90]\<rparr>,
      log = []\<rparr>"

end
