(* ===== verification/Job_Properties.thy ===== *)
theory Job_Properties
  imports Reconcile_Facts Sample_Cluster
begin

text \<open>
  The properties of the reconciler: when a pod is created and what it asks for, how the status follows
  the pod, what happens to invalid, failed and deleted jobs, and how the capacity is found. Each is
  stated over all environments and all schedules of the node synchronisation; its witness is a run of
  the sample cluster.
\<close>

section \<open>Runs of the sample cluster\<close>

text \<open>
  The job \<open>train\<close> is new: of the two nodes, n1 (4 of 8 GPUs in use) is healthy and n2 too hot, so a
  pod is created for the density 4 of n1.
\<close>

definition new_job_run :: "(cluster, string event) sys" where
  "new_job_run = sample_cluster [sample_job ''train'' '''' 2] []"

lemma new_job_fetched:
  "fst (srvGetJob sample_env ''lab'' ''train'' (world new_job_run)) = Inr (sample_job ''train'' '''' 2)"
  by code_simp

lemma new_job_run_state:
  "case run_state (Reconcile sample_env [] ''lab'' ''train'') new_job_run of (out, s') \<Rightarrow>
     snd out = None \<and>
     (let es = drop (length (sys.log new_job_run)) (sys.log s')
      in CreatePodEv ''lab'' (hpc_pod sample_env (sample_job ''train'' '''' 2) 4) None \<in> set es \<and>
         GetPodEv ''lab'' ''train'' (Inl ''notfound'') \<in> set es)"
  by code_simp

lemma new_job_created:
  "CreatePodEv ''lab'' (hpc_pod sample_env (sample_job ''train'' '''' 2) 4) None
     \<in> set (emitted (Reconcile sample_env [] ''lab'' ''train'') new_job_run)"
  "GetPodEv ''lab'' ''train'' (Inl ''notfound'') \<in> set (emitted (Reconcile sample_env [] ''lab'' ''train'') new_job_run)"
  "snd (result (Reconcile sample_env [] ''lab'' ''train'') new_job_run) = None"
  using new_job_run_state by (simp_all add: emitted_def result_def final_def Let_def split: prod.splits)

section \<open>Creation of the pod\<close>

text \<open>
C1: A reconcile creates a pod only as its last call, and only after it found all of this in the same
run: the job it fetched is new or Pending and has a valid spec, the API server had no pod of the job,
and the listing and the metrics it read hold a GPU node whose readings are all in range and which has
room for the job. The pod is the job's pod for the smallest density among such nodes.
\<close>

theorem creation_justified:
  assumes "CreatePodEv ns' pod answer \<in> set (emitted (Reconcile E sched ns name) s)"
  shows "\<exists>job e sel items vec a.
    fst (srvGetJob E ns name (world s)) = Inr job \<and> phase_of job \<in> {'''', Pending} \<and> validateJobSpec job \<and>
    GetPodEv (jobNamespace job) (jobName job) (Inl e) \<in> set (emitted (Reconcile E sched ns name) s) \<and> IsNotFound E e \<and>
    ListNodes sel (Inr items) \<in> set (emitted (Reconcile E sched ns name) s) \<and>
    Query GpuClusterHealthScanPrmQuery (Inr (Vector vec)) \<in> set (emitted (Reconcile E sched ns name) s) \<and>
    (\<exists>node \<in> set items. can_host vec job node a) \<and>
    (\<forall>node \<in> set items. \<forall>d. can_host vec job node d \<longrightarrow> sint a \<le> sint d) \<and>
    last (emitted (Reconcile E sched ns name) s) = CreatePodEv (jobNamespace job) (hpc_pod E job a) answer"
proof -
  obtain job rest where job: "fst (srvGetJob E ns name (world s)) = Inr job" "phase_of job \<in> {'''', Pending}"
    and L: "emitted (Reconcile E sched ns name) s = GetJob ns name (Inr job) # rest"
    and run: "pending_run E (effective_job job) (result (Reconcile E sched ns name) s) rest"
    and mem: "CreatePodEv ns' pod answer \<in> set rest"
    using Reconcile_created [OF assms] by blast
  obtain e es1 items vec healthy a where
    "rest = GetPodEv (jobNamespace job) (jobName job) (Inl e) # es1 @ [CreatePodEv (jobNamespace job) (hpc_pod E job a) answer]"
    "IsNotFound E e" "validateJobSpec job" and d: "discovered es1 items vec healthy"
    and "\<exists>node \<in> set items. can_host vec job node a"
    "\<forall>node \<in> set items. \<forall>d. can_host vec job node d \<longrightarrow> sint a \<le> sint d"
    using pending_run_created [OF run mem] unfolding effective_job_simps effective_job_spec by blast
  moreover obtain sel where "ListNodes sel (Inr items) \<in> set es1"
    "Query GpuClusterHealthScanPrmQuery (Inr (Vector vec)) \<in> set es1" using discovered_reads [OF d] by blast
  ultimately show ?thesis using job unfolding L
    by (intro exI [of _ job] exI [of _ e] exI [of _ sel] exI [of _ items] exI [of _ vec] exI [of _ a]) auto
qed

theorem creation_justified_witness:
  "\<exists>job. fst (srvGetJob sample_env ''lab'' ''train'' (world new_job_run)) = Inr job \<and> validateJobSpec job"
  using creation_justified [OF new_job_created(1)] by blast

text \<open>
C2: The converse. When a reconcile of a new or Pending job with a valid spec is answered that there
is no pod and ends without an error, it has read the nodes and the metrics, it has created a pod
exactly if one of the nodes can host the job, and it asks to run again in five minutes.
\<close>

theorem creation_complete:
  assumes "fst (srvGetJob E ns name (world s)) = Inr job" and "phase_of job \<in> {'''', Pending}"
    and "validateJobSpec job"
    and "GetPodEv ns' name' (Inl e) \<in> set (emitted (Reconcile E sched ns name) s)" and "IsNotFound E e"
    and "snd (result (Reconcile E sched ns name) s) = None"
  shows "\<exists>sel items vec. ListNodes sel (Inr items) \<in> set (emitted (Reconcile E sched ns name) s) \<and>
    Query GpuClusterHealthScanPrmQuery (Inr (Vector vec)) \<in> set (emitted (Reconcile E sched ns name) s) \<and>
    ((\<exists>pod answer. CreatePodEv (jobNamespace job) pod answer \<in> set (emitted (Reconcile E sched ns name) s)) \<longleftrightarrow>
     (\<exists>node \<in> set items. \<exists>d. can_host vec job node d)) \<and>
    fst (result (Reconcile E sched ns name) s) = in_5_minutes"
proof -
  let ?out = "result (Reconcile E sched ns name) s"
  obtain items vec healthy es1 es2 where
    L: "emitted (Reconcile E sched ns name) s =
      GetJob ns name (Inr job) # GetPodEv (jobNamespace job) (jobName job) (Inl e) # es1 @ es2"
    and d: "discovered es1 items vec healthy" and pl: "placed_run E (effective_job job) healthy ?out es2"
    by (rule Reconcile_searched [OF assms])
  obtain sel where r: "ListNodes sel (Inr items) \<in> set es1"
    "Query GpuClusterHealthScanPrmQuery (Inr (Vector vec)) \<in> set es1" using discovered_reads [OF d] by blast
  have none: "CreatePodEv n pod answer \<notin> set es1" for n pod answer
    using discovered_node_events [OF d, of "CreatePodEv n pod answer"] by (auto simp: node_event_def)
  note pc = placed_run_created [OF d pl]
  have "((\<exists>pod answer. CreatePodEv (jobNamespace job) pod answer \<in> set es2) \<longleftrightarrow>
      (\<exists>node \<in> set items. \<exists>d. can_host vec job node d)) \<and> fst ?out = in_5_minutes"
  proof (cases "\<exists>node \<in> set items. \<exists>d. can_host vec job node d")
    case True
    then show ?thesis using pc assms(6) by (auto simp: creation_outcome_def split: option.splits if_splits)
  next
    case False
    then show ?thesis using pc by simp
  qed
  then show ?thesis unfolding L using r none
    by (intro exI [of _ sel] exI [of _ items] exI [of _ vec]) auto
qed

theorem creation_complete_witness:
  "\<exists>sel items vec. ListNodes sel (Inr items) \<in> set (emitted (Reconcile sample_env [] ''lab'' ''train'') new_job_run) \<and>
    (\<exists>node \<in> set items. \<exists>d. can_host vec (sample_job ''train'' '''' 2) node d)"
proof -
  have "phase_of (sample_job ''train'' '''' 2) \<in> {'''', Pending}" "validateJobSpec (sample_job ''train'' '''' 2)"
    "IsNotFound sample_env ''notfound''" "jobNamespace (sample_job ''train'' '''' 2) = ''lab''" by code_simp+
  from creation_complete [OF new_job_fetched this(1,2) new_job_created(2) this(3) new_job_created(3)] this(4)
  show ?thesis using new_job_created(1) by metis
qed

section \<open>The status of the job\<close>

text \<open>
C4: Every status a reconcile writes is a step of the phase state machine from the phase it fetched (an
empty phase counts as Pending), and the object written is the fetched job with nothing but its phase
changed.
\<close>

theorem status_writes_follow_phases:
  assumes "UpdateStatus j r \<in> set (emitted (Reconcile E sched ns name) s)"
  shows "\<exists>job. fst (srvGetJob E ns name (world s)) = Inr job \<and>
    phase_step (effective_phase (phase_of job)) (phase_of j) \<and> j = set_phase (phase_of j) job"
proof (cases rule: Reconcile_cases [of E ns name s sched])
  case (live job rest)
  then have "job_event (effective_job job) (UpdateStatus j r)"
    using assms by (auto simp: handled_def)
  then show ?thesis using live(1) by (simp add: job_event_def)
next
  case (other u rest)
  then show ?thesis using assms by (auto simp: is_deletion_def dest: other(2))
qed

theorem status_writes_follow_phases_witness:
  "phase_step Running (phase_of (set_phase Complete (sample_job ''train'' ''Running'' 2)))"
proof -
  let ?s = "sample_cluster [sample_job ''train'' ''Running'' 2] [(''n1'', sample_pod ''train'' ''Succeeded'')]"
  have "UpdateStatus (set_phase Complete (sample_job ''train'' ''Running'' 2))
      (Inr (set_phase Complete (sample_job ''train'' ''Running'' 2)\<lparr>jobResourceVersion := ''1+''\<rparr>))
    \<in> set (emitted (Reconcile sample_env [] ''lab'' ''train'') ?s)" by code_simp
  from status_writes_follow_phases [OF this]
  obtain job where "fst (srvGetJob sample_env ''lab'' ''train'' (world ?s)) = Inr job"
    "phase_step (effective_phase (phase_of job)) (phase_of (set_phase Complete (sample_job ''train'' ''Running'' 2)))"
    by blast
  moreover have "fst (srvGetJob sample_env ''lab'' ''train'' (world ?s)) = Inr (sample_job ''train'' ''Running'' 2)"
    by code_simp
  ultimately show ?thesis by (simp add: sample_job_def effective_phase_def)
qed

text \<open>C19: A reconcile writes the status at most once, in every environment and schedule.\<close>

theorem single_status_write:
  "length (filter is_status_write (emitted (Reconcile E sched ns name) s)) \<le> 1"
proof (cases rule: Reconcile_cases [of E ns name s sched])
  case (live job rest)
  then show ?thesis by (simp add: handled_def is_status_write_def)
next
  case (other r rest)
  then have "filter is_status_write rest = []" by (auto simp: filter_empty_conv dest: is_deletion_quiet)
  then show ?thesis using other(1) by (simp add: is_status_write_def)
qed

text \<open>
C5: The status follows the pod. When the API server answers the reconcile of a live, non-failed job
with a pod that runs, failed or succeeded, the job is written with the phase Running, Failed or
Complete, as the only call after that answer; with any other pod phase nothing at all is called, and
a job not yet Running is looked at again in five minutes.
\<close>

theorem status_follows_pod:
  assumes "fst (srvGetJob E ns name (world s)) = Inr job" and "phase_of job \<in> {'''', Pending, Running}"
    and "GetPodEv ns' name' (Inr pod) \<in> set (emitted (Reconcile E sched ns name) s)"
  shows "(case observed (podPhase pod) of
      Some p \<Rightarrow> \<exists>r. emitted (Reconcile E sched ns name) s =
        [GetJob ns name (Inr job), GetPodEv (jobNamespace job) (jobName job) (Inr pod), UpdateStatus (set_phase p job) r]
    | None \<Rightarrow> emitted (Reconcile E sched ns name) s =
        [GetJob ns name (Inr job), GetPodEv (jobNamespace job) (jobName job) (Inr pod)] \<and>
        result (Reconcile E sched ns name) s = (if phase_of job = Running then no_result else in_5_minutes, None))"
proof -
  let ?L = "emitted (Reconcile E sched ns name) s" and ?out = "result (Reconcile E sched ns name) s"
  obtain rest err job' where L: "?L = GetJob ns name (Inr job) # rest"
    and sc: "pod_scan E (effective_job job) True err job' rest" and mem: "GetPodEv ns' name' (Inr pod) \<in> set rest"
    and out: "?out = (if phase_of job = Running then (no_result, err) else scanned_outcome job' err)"
    by (rule Reconcile_scanned [OF assms(1-3)]) (use assms in auto)
  note f = pod_scan_found [OF sc mem]
  show ?thesis
  proof (cases "observed (podPhase pod)")
    case None
    then show ?thesis using f out L assms(2) by (auto simp: scanned_outcome_def effective_phase_def)
  next
    case (Some p)
    then show ?thesis using f L by (auto dest: status_write_only)
  qed
qed

theorem status_follows_pod_witness:
  "\<exists>r. emitted (Reconcile sample_env [] ''lab'' ''train'')
      (sample_cluster [sample_job ''train'' '''' 2] [(''n1'', sample_pod ''train'' ''Failed'')]) =
     [GetJob ''lab'' ''train'' (Inr (sample_job ''train'' '''' 2)),
      GetPodEv ''lab'' ''train'' (Inr (sample_pod ''train'' ''Failed'')),
      UpdateStatus (set_phase Failed (sample_job ''train'' '''' 2)) r]"
proof -
  let ?s = "sample_cluster [sample_job ''train'' '''' 2] [(''n1'', sample_pod ''train'' ''Failed'')]"
  have 1: "fst (srvGetJob sample_env ''lab'' ''train'' (world ?s)) = Inr (sample_job ''train'' '''' 2)" by code_simp
  have 2: "phase_of (sample_job ''train'' '''' 2) \<in> {'''', Pending, Running}" by code_simp
  have 3: "GetPodEv ''lab'' ''train'' (Inr (sample_pod ''train'' ''Failed''))
      \<in> set (emitted (Reconcile sample_env [] ''lab'' ''train'') ?s)" by code_simp
  have "observed (podPhase (sample_pod ''train'' ''Failed'')) = Some Failed"
    "jobNamespace (sample_job ''train'' '''' 2) = ''lab''" "jobName (sample_job ''train'' '''' 2) = ''train''" by code_simp+
  with status_follows_pod [OF 1 2 3] show ?thesis by (simp del: Failed_def)
qed

text \<open>
A running job whose pod is gone goes back to Pending: the reconcile writes that status and nothing
else, and comes back in five minutes, when the pod is created anew.
\<close>

theorem lost_pod_back_to_pending:
  assumes "fst (srvGetJob E ns name (world s)) = Inr job" and "phase_of job = Running"
    and "GetPodEv ns' name' (Inl e) \<in> set (emitted (Reconcile E sched ns name) s)" and "IsNotFound E e"
  shows "(\<exists>r. emitted (Reconcile E sched ns name) s =
      [GetJob ns name (Inr job), GetPodEv (jobNamespace job) (jobName job) (Inl e), UpdateStatus (set_phase Pending job) r]) \<and>
    fst (result (Reconcile E sched ns name) s) = in_5_minutes"
proof -
  obtain rest where L: "emitted (Reconcile E sched ns name) s = GetJob ns name (Inr job) # rest"
    and run: "running_run E job (result (Reconcile E sched ns name) s) rest"
    using Reconcile_running [OF assms(1,2)] by blast
  show ?thesis
    using running_run_absent [OF run, of ns' name' e] assms(3,4) unfolding L by (auto simp del: Pending_def)
qed

theorem lost_pod_back_to_pending_witness:
  "fst (result (Reconcile sample_env [] ''lab'' ''train'') (sample_cluster [sample_job ''train'' ''Running'' 2] [])) =
   in_5_minutes"
proof -
  let ?s = "sample_cluster [sample_job ''train'' ''Running'' 2] []"
  have 1: "fst (srvGetJob sample_env ''lab'' ''train'' (world ?s)) = Inr (sample_job ''train'' ''Running'' 2)" by code_simp
  have 2: "phase_of (sample_job ''train'' ''Running'' 2) = Running" by code_simp
  have 3: "GetPodEv ''lab'' ''train'' (Inl ''notfound'') \<in> set (emitted (Reconcile sample_env [] ''lab'' ''train'') ?s)"
    by code_simp
  have 4: "IsNotFound sample_env ''notfound''" by code_simp
  show ?thesis using lost_pod_back_to_pending [OF 1 2 3 4] by simp
qed

text \<open>
C20: Any other failure of the read of the pod ends the job: a new, Pending or Running job is written as
Failed, whatever its pod does, and the error goes back to the work queue.
\<close>

theorem failed_read_fails_job:
  assumes "fst (srvGetJob E ns name (world s)) = Inr job" and "phase_of job \<in> {'''', Pending, Running}"
    and "GetPodEv ns' name' (Inl e) \<in> set (emitted (Reconcile E sched ns name) s)" and "\<not> IsNotFound E e"
  shows "\<exists>r. emitted (Reconcile E sched ns name) s =
      [GetJob ns name (Inr job), GetPodEv (jobNamespace job) (jobName job) (Inl e), UpdateStatus (set_phase Failed job) r] \<and>
    (case r of Inr _ \<Rightarrow> result (Reconcile E sched ns name) s = (no_result, Some (Ext e))
     | Inl e' \<Rightarrow> result (Reconcile E sched ns name) s = (no_result, Some (Ext e')))"
proof -
  let ?L = "emitted (Reconcile E sched ns name) s" and ?out = "result (Reconcile E sched ns name) s"
  obtain rest err job' where L: "?L = GetJob ns name (Inr job) # rest"
    and sc: "pod_scan E (effective_job job) True err job' rest" and mem: "GetPodEv ns' name' (Inl e) \<in> set rest"
    and out: "?out = (if phase_of job = Running then (no_result, err) else scanned_outcome job' err)"
    by (rule Reconcile_scanned [OF assms(1-3)]) (use assms in auto)
  from pod_scan_error [OF sc mem] assms(4) obtain upd ws where
    "rest = GetPodEv (jobNamespace job) (jobName job) (Inl e) # ws" "status_write (effective_job job) Failed upd job' ws"
    "err = Some (case upd of Some u \<Rightarrow> u | None \<Rightarrow> Ext e)" by (auto simp del: Failed_def)
  then show ?thesis using L out
    by (auto simp: status_write_def scanned_outcome_def simp del: Failed_def)
qed

theorem failed_read_fails_job_witness:
  "\<exists>r. UpdateStatus (set_phase Failed (sample_job ''train'' ''Running'' 2)) r \<in> set (emitted
     (Reconcile (sample_env\<lparr>srvGetPod := \<lambda>ns name c. (Inl ''timeout'', c)\<rparr>) [] ''lab'' ''train'')
     (sample_cluster [sample_job ''train'' ''Running'' 2] [(''n1'', sample_pod ''train'' ''Running'')]))"
proof -
  let ?E = "sample_env\<lparr>srvGetPod := \<lambda>ns name c. (Inl ''timeout'', c)\<rparr>"
  let ?s = "sample_cluster [sample_job ''train'' ''Running'' 2] [(''n1'', sample_pod ''train'' ''Running'')]"
  have 1: "fst (srvGetJob ?E ''lab'' ''train'' (world ?s)) = Inr (sample_job ''train'' ''Running'' 2)" by code_simp
  have 2: "phase_of (sample_job ''train'' ''Running'' 2) \<in> {'''', Pending, Running}" by code_simp
  have 3: "GetPodEv ''lab'' ''train'' (Inl ''timeout'') \<in> set (emitted (Reconcile ?E [] ''lab'' ''train'') ?s)"
    by code_simp
  have 4: "\<not> IsNotFound ?E ''timeout''" by code_simp
  show ?thesis using failed_read_fails_job [OF 1 2 3 4] by (auto simp del: Failed_def)
qed

section \<open>Invalid jobs and errors\<close>

text \<open>
C21: A new or Pending job whose spec asks for no GPU, or names no image, is written as Failed as soon
as it is known to have no pod; no node is read, patched or used for it.
\<close>

theorem invalid_spec_fails:
  assumes "fst (srvGetJob E ns name (world s)) = Inr job" and "phase_of job \<in> {'''', Pending}"
    and "sint (GPUCount (jobSpec job)) \<le> 0 \<or> Image (jobSpec job) = ''''"
    and "GetPodEv ns' name' (Inl e) \<in> set (emitted (Reconcile E sched ns name) s)" and "IsNotFound E e"
  shows "\<exists>r. emitted (Reconcile E sched ns name) s =
      [GetJob ns name (Inr job), GetPodEv (jobNamespace job) (jobName job) (Inl e), UpdateStatus (set_phase Failed job) r]"
proof -
  obtain rest where L: "emitted (Reconcile E sched ns name) s = GetJob ns name (Inr job) # rest"
    and run: "pending_run E (effective_job job) (result (Reconcile E sched ns name) s) rest"
    using Reconcile_pending [OF assms(1,2)] by blast
  obtain es where es: "rest = GetPodEv (jobNamespace job) (jobName job) (Inl e) # es"
    and p: "podless_run E (effective_job job) (result (Reconcile E sched ns name) s) es"
    using pending_run_absent [OF run, of ns' name' e] assms(4,5) L by auto
  have "\<not> validateJobSpec job" using assms(3) by (auto simp: validateJobSpec_def)
  then show ?thesis using p L es by (auto simp: podless_run_def dest!: status_write_only simp del: Failed_def)
qed

theorem invalid_spec_fails_witness:
  "\<exists>r. UpdateStatus (set_phase Failed (sample_job ''train'' ''Pending'' (-1))) r \<in> set (emitted
     (Reconcile sample_env [] ''lab'' ''train'') (sample_cluster [sample_job ''train'' ''Pending'' (-1)] []))"
proof -
  let ?j = "sample_job ''train'' ''Pending'' (-1)"
  let ?s = "sample_cluster [?j] []"
  have 1: "fst (srvGetJob sample_env ''lab'' ''train'' (world ?s)) = Inr ?j" by code_simp
  have 2: "phase_of ?j \<in> {'''', Pending}" by code_simp
  have 3: "sint (GPUCount (jobSpec ?j)) \<le> 0 \<or> Image (jobSpec ?j) = ''''" by code_simp
  have 4: "GetPodEv ''lab'' ''train'' (Inl ''notfound'') \<in> set (emitted (Reconcile sample_env [] ''lab'' ''train'') ?s)"
    by code_simp
  have 5: "IsNotFound sample_env ''notfound''" by code_simp
  show ?thesis using invalid_spec_fails [OF 1 2 3 4 5] by (auto simp del: Failed_def)
qed

text \<open>
The answer to the creation decides the outcome: accepted, or refused as a conflict, the reconcile
ends without an error and comes back in five minutes; any other refusal is returned. Already-exists
is no conflict, so the race the code means to tolerate (the log line for a conflict says that the pod
already exists) ends in an error.
\<close>

theorem creation_answer:
  assumes "CreatePodEv ns' pod answer \<in> set (emitted (Reconcile E sched ns name) s)"
  shows "result (Reconcile E sched ns name) s =
    (case answer of
       None \<Rightarrow> (in_5_minutes, None)
     | Some e \<Rightarrow> if IsConflict E e then (in_5_minutes, None) else (no_result, Some (Ext e)))"
proof -
  obtain job rest where "pending_run E (effective_job job) (result (Reconcile E sched ns name) s) rest"
    "CreatePodEv ns' pod answer \<in> set rest"
    using Reconcile_created [OF assms] by blast
  from pending_run_created [OF this] show ?thesis by (auto simp: creation_outcome_def)
qed

theorem creation_answer_witness:
  "result (Reconcile (sample_env\<lparr>srvCreatePod := \<lambda>ns pod c. (Some ''exists'', c)\<rparr>) [] ''lab'' ''train'')
     (sample_cluster [sample_job ''train'' '''' 2] []) = (no_result, Some (Ext ''exists''))"
proof -
  let ?E = "sample_env\<lparr>srvCreatePod := \<lambda>ns pod c. (Some ''exists'', c)\<rparr>"
  have "CreatePodEv ''lab'' (hpc_pod ?E (sample_job ''train'' '''' 2) 4) (Some ''exists'')
      \<in> set (emitted (Reconcile ?E [] ''lab'' ''train'') (sample_cluster [sample_job ''train'' '''' 2] []))"
    by code_simp
  from creation_answer [OF this] show ?thesis by (simp add: sample_env_def)
qed

text \<open>
When the fetch of the job fails for any reason but not-found, the reconcile does nothing and
reports success, so the work queue does not retry it; the fetch is the only call.
\<close>

theorem fetch_error_swallowed:
  assumes "fst (srvGetJob E ns name (world s)) = Inl e" and "\<not> IsNotFound E e"
  shows "emitted (Reconcile E sched ns name) s = [GetJob ns name (Inl e)] \<and>
    result (Reconcile E sched ns name) s = (no_result, None)"
  using Reconcile_unfetched [OF assms(1), of sched] assms(2) by auto

theorem fetch_error_swallowed_witness:
  "result (Reconcile (sample_env\<lparr>srvGetJob := \<lambda>ns name c. (Inl ''timeout'', c)\<rparr>) [] ''lab'' ''train'')
     (sample_cluster [] []) = (no_result, None)"
  by (rule conjunct2 [OF fetch_error_swallowed [where e = "''timeout''"]]) (simp_all add: sample_env_def)

text \<open>A reconcile asks to run again in five minutes or not at all, whatever it meets.\<close>

theorem requeue_delays: "fst (result (Reconcile E sched ns name) s) \<in> {no_result, in_5_minutes}"
  by (cases rule: Reconcile_cases [of E ns name s sched]) (simp_all add: handled_def)

text \<open>
A job that is Complete and not being deleted is left alone: after the fetch nothing is called.
\<close>

theorem complete_job_untouched:
  assumes "fst (srvGetJob E ns name (world s)) = Inr job" and "phase_of job = Complete"
    and "IsZero (jobDeletionTimestamp job)"
  shows "emitted (Reconcile E sched ns name) s = [GetJob ns name (Inr job)] \<and>
    result (Reconcile E sched ns name) s = (no_result, None)"
  using Reconcile_other [OF assms(1), of sched] assms(2,3) by auto

theorem complete_job_untouched_witness:
  "emitted (Reconcile sample_env [] ''lab'' ''train'') (sample_cluster [sample_job ''train'' ''Complete'' 2] []) =
     [GetJob ''lab'' ''train'' (Inr (sample_job ''train'' ''Complete'' 2))]"
proof -
  let ?s = "sample_cluster [sample_job ''train'' ''Complete'' 2] []"
  have 1: "fst (srvGetJob sample_env ''lab'' ''train'' (world ?s)) = Inr (sample_job ''train'' ''Complete'' 2)" by code_simp
  have 2: "phase_of (sample_job ''train'' ''Complete'' 2) = Complete" by code_simp
  have 3: "IsZero (jobDeletionTimestamp (sample_job ''train'' ''Complete'' 2))" by code_simp
  show ?thesis by (rule conjunct1 [OF complete_job_untouched [OF 1 2 3]])
qed

section \<open>Deletion\<close>

text \<open>
C18: The pods a reconcile creates or deletes for a job that is new, Pending, Running or Failed are the
job's own: they are in its namespace and bear its name, and the pod it reads is that one too.
\<close>

theorem own_pods_only:
  assumes "fst (srvGetJob E ns name (world s)) = Inr job"
    and "phase_of job \<in> {'''', Pending, Running, Failed}"
    and "e \<in> set (emitted (Reconcile E sched ns name) s)"
  shows "(\<forall>n m r. e = GetPodEv n m r \<longrightarrow> n = jobNamespace job \<and> m = jobName job) \<and>
    (\<forall>n m r. e = DeletePodEv n m r \<longrightarrow> n = jobNamespace job \<and> m = jobName job) \<and>
    (\<forall>n pod r. e = CreatePodEv n pod r \<longrightarrow>
       n = jobNamespace job \<and> podNamespace pod = jobNamespace job \<and> podName pod = jobName job)"
proof -
  obtain rest where L: "emitted (Reconcile E sched ns name) s = GetJob ns name (Inr job) # rest"
    and run: "job_run E (effective_job job) (result (Reconcile E sched ns name) s) rest"
    using Reconcile_fetched [OF assms(1)] by blast
  have "phase_of (effective_job job) \<in> {Pending, Running, Failed}"
    using assms(2) by (auto simp: effective_phase_def)
  from job_run_handled [OF run this] have "e = GetJob ns name (Inr job) \<or> job_event (effective_job job) e"
    using assms(3) L by (auto simp: handled_def)
  then show ?thesis by (auto simp: job_event_def)
qed

theorem own_pods_only_witness:
  "DeletePodEv ''lab'' ''train'' None \<in> set (emitted (Reconcile sample_env [] ''lab'' ''train'')
     (sample_cluster [sample_job ''train'' ''Failed'' 2] [(''n1'', sample_pod ''train'' ''Failed'')])) \<and>
   jobNamespace (sample_job ''train'' ''Failed'' 2) = ''lab'' \<and> jobName (sample_job ''train'' ''Failed'' 2) = ''train''"
proof -
  let ?j = "sample_job ''train'' ''Failed'' 2"
  let ?s = "sample_cluster [?j] [(''n1'', sample_pod ''train'' ''Failed'')]"
  have 1: "fst (srvGetJob sample_env ''lab'' ''train'' (world ?s)) = Inr ?j" by code_simp
  have 2: "phase_of ?j \<in> {'''', Pending, Running, Failed}" by code_simp
  have 3: "DeletePodEv ''lab'' ''train'' None \<in> set (emitted (Reconcile sample_env [] ''lab'' ''train'') ?s)"
    by code_simp
  show ?thesis using own_pods_only [OF 1 2 3] 3 by simp
qed

text \<open>
C22: What a deletion timestamp leads to depends on the phase. A reconcile of a new, Pending or Running job
makes none of the calls of a deletion, whatever the timestamp says: it lists no pod by name, deletes no pod
and asks for no finalizer to be dropped. Of a Failed job it deletes the pod of its own name and then writes
at most the status. A job in any other phase is left alone if it has no timestamp; if it has one, the pods of
its name are listed, then deleted one by one up to the first error, and only when all of them are deleted does
the last call ask for the job without its finalizer.
\<close>

theorem finalizer_request:
  assumes "fst (srvGetJob E ns name (world s)) = Inr job"
    and "emitted (Reconcile E sched ns name) s = es" and "result (Reconcile E sched ns name) s = out"
  shows
    "if phase_of job \<in> {'''', Pending, Running} then \<forall>e \<in> set es. \<not> cleanup_call e
     else if phase_of job = Failed then
       \<exists>answer writes. es = GetJob ns name (Inr job) # DeletePodEv (jobNamespace job) (jobName job) answer # writes \<and>
         length writes \<le> 1 \<and> (\<forall>e \<in> set writes. \<exists>r. e = UpdateStatus job r)
     else if IsZero (jobDeletionTimestamp job) then es = [GetJob ns name (Inr job)] \<and> out = (no_result, None)
     else \<exists>pods_read rest.
       es = GetJob ns name (Inr job) # ListPods (jobNamespace job) (''metadata.name='' @ jobName job) pods_read # rest \<and>
       (case pods_read of
          Inl e \<Rightarrow> rest = [] \<and> out = (in_5_minutes, Some (Ext e))
        | Inr pods \<Rightarrow>
            (\<exists>e. \<exists>n < length pods.
               rest = map (\<lambda>pod. DeletePodEv (podNamespace pod) (podName pod) None) (take n pods) @
                 [DeletePodEv (podNamespace (pods ! n)) (podName (pods ! n)) (Some e)] \<and>
               out = (in_5_minutes, Some (Ext e))) \<or>
            (\<exists>answer.
               rest = map (\<lambda>pod. DeletePodEv (podNamespace pod) (podName pod) None) pods @
                 [Put CoreV1 (jobNamespace job) ''hpcjobs'' (jobName job)
                    (job\<lparr>jobFinalizers := removeAll HPC_FINALIZER (jobFinalizers job)\<rparr>) answer] \<and>
               out = (case answer of Some e \<Rightarrow> (in_5_minutes, Some (Ext e)) | None \<Rightarrow> (no_result, None))))"
proof -
  let ?L = "emitted (Reconcile E sched ns name) s" and ?out = "result (Reconcile E sched ns name) s"
  consider "phase_of job \<in> {'''', Pending}" | "phase_of job = Running" | "phase_of job = Failed"
    | "phase_of job \<notin> {'''', Pending, Running, Failed}" by blast
  then show ?thesis
  proof cases
    case 1
    then obtain rest where "?L = GetJob ns name (Inr job) # rest" "pending_run E (effective_job job) ?out rest"
      using Reconcile_pending [OF assms(1)] by blast
    then show ?thesis using 1 live_run_no_cleanup(1) [of E "effective_job job"] assms(2) by auto
  next
    case 2
    then obtain rest where "?L = GetJob ns name (Inr job) # rest" "running_run E job ?out rest"
      using Reconcile_running [OF assms(1)] by blast
    then show ?thesis using 2 live_run_no_cleanup(2) [of E job] assms(2) by auto
  next
    case 3
    then obtain rest where rest: "?L = GetJob ns name (Inr job) # rest" "failed_run E job ?out rest"
      using Reconcile_failed [OF assms(1)] by blast
    have "set_phase Failed job = job" using 3 by (rule set_phase_id)
    then show ?thesis using rest(1) 3 assms(2) failed_run_events [OF rest(2)] by auto
  next
    case 4
    then obtain rest where rest: "?L = GetJob ns name (Inr job) # rest"
      and d: "if IsZero (jobDeletionTimestamp job) then rest = [] \<and> ?out = (no_result, None) else deleted_run job ?out rest"
      using Reconcile_other [OF assms(1)] by blast
    show ?thesis
    proof (cases "IsZero (jobDeletionTimestamp job)")
      case True
      then show ?thesis using 4 rest d assms(2,3) by simp
    next
      case False
      then have "deleted_run job out rest" using d assms(3) by simp
      from deleted_run_shape [OF this] show ?thesis using 4 False rest assms(2) by simp
    qed
  qed
qed

theorem finalizer_request_witness:
  "\<not> list_ex cleanup_call (emitted (Reconcile sample_env [] ''lab'' ''train'')
      (sample_cluster [sample_job ''train'' ''Running'' 2\<lparr>jobDeletionTimestamp := Some 7\<rparr>] [])) \<and>
   (\<exists>answer. last (emitted (Reconcile sample_env [] ''lab'' ''train'')
      (sample_cluster [sample_job ''train'' ''Complete'' 2\<lparr>jobDeletionTimestamp := Some 7, jobFinalizers := [HPC_FINALIZER]\<rparr>] [])) =
      Put CoreV1 ''lab'' ''hpcjobs'' ''train'' (sample_job ''train'' ''Complete'' 2\<lparr>jobDeletionTimestamp := Some 7\<rparr>) answer)"
proof -
  let ?r = "sample_job ''train'' ''Running'' 2\<lparr>jobDeletionTimestamp := Some 7\<rparr>"
  let ?c = "sample_job ''train'' ''Complete'' 2\<lparr>jobDeletionTimestamp := Some 7, jobFinalizers := [HPC_FINALIZER]\<rparr>"
  have r: "fst (srvGetJob sample_env ''lab'' ''train'' (world (sample_cluster [?r] []))) = Inr ?r" by code_simp
  have c: "fst (srvGetJob sample_env ''lab'' ''train'' (world (sample_cluster [?c] []))) = Inr ?c" by code_simp
  have l: "emitted (Reconcile sample_env [] ''lab'' ''train'') (sample_cluster [?c] []) =
      [GetJob ''lab'' ''train'' (Inr ?c), ListPods ''lab'' ''metadata.name=train'' (Inr []),
       last (emitted (Reconcile sample_env [] ''lab'' ''train'') (sample_cluster [?c] []))]" by code_simp
  have p: "phase_of ?r = Running" "phase_of ?c \<notin> {'''', Pending, Running, Failed}" "\<not> IsZero (jobDeletionTimestamp ?c)"
    "jobNamespace ?c = ''lab''" "jobName ?c = ''train''"
    "?c\<lparr>jobFinalizers := removeAll HPC_FINALIZER (jobFinalizers ?c)\<rparr> = sample_job ''train'' ''Complete'' 2\<lparr>jobDeletionTimestamp := Some 7\<rparr>"
    by code_simp+
  show ?thesis
    using finalizer_request [OF r refl refl, of "[]"] finalizer_request [OF c l refl] p by (auto simp: list_ex_iff)
qed

section \<open>The pod and the capacity\<close>

text \<open>
C14: The pod of a job carries its spec: name and namespace, one container with the job's image, and as
many GPUs requested and allowed as the spec asks for, which is also what the pod adds to the density
of its node once it is stored. This needs that the quantity parser reads a decimal number as itself.
\<close>

theorem pod_carries_spec:
  assumes "\<And>w. MustParse E (Itoa w) = w"
  shows "podName (hpc_pod E job a) = jobName job \<and> podNamespace (hpc_pod E job a) = jobNamespace job \<and>
    (\<exists>c. podContainers (hpc_pod E job a) = [c] \<and> containerImage c = Image (jobSpec job) \<and>
       go_get (containerRequests c) GPU_CORES_CAPACITY = go_get (containerLimits c) GPU_CORES_CAPACITY) \<and>
    gpu_requests [hpc_pod E job a\<lparr>podPhase := PodPending\<rparr>] = [int64_of_int32 (GPUCount (jobSpec job))] \<and>
    count_allocated n [hpc_pod E job a\<lparr>podPhase := PodPending\<rparr>] = n + int64_of_int32 (GPUCount (jobSpec job))"
  using assms by (simp add: hpc_pod_def Let_def count_allocated_sum gpu_requests_def occupies_def container_request_def)

theorem pod_carries_spec_witness:
  "count_allocated 3 [hpc_pod sample_env (sample_job ''train'' '''' 2) 4\<lparr>podPhase := PodPending\<rparr>] = 5"
proof -
  have "MustParse sample_env (Itoa w) = w" for w by (simp add: sample_env_def)
  from pod_carries_spec [OF this] have
    "count_allocated 3 [hpc_pod sample_env (sample_job ''train'' '''' 2) 4\<lparr>podPhase := PodPending\<rparr>] =
     3 + int64_of_int32 (GPUCount (jobSpec (sample_job ''train'' '''' 2)))" by blast
  then show ?thesis by (simp add: sample_job_def int64_of_int32_def)
qed

text \<open>
What the affinity of the pod prefers, with \<open>a\<close> the smallest density with room. For a positive \<open>a\<close>
the nodes of density \<open>a\<close> and above; but for 0 only the nodes above 0, so the empty node whose room
was the reason to create the pod is not among the preferred ones.
\<close>

theorem affinity_threshold:
  "\<exists>w. podPreferred (hpc_pod E job a) =
      [\<lparr>termWeight = 80, termMatchExpressions =
        [\<lparr>exprKey = HIGH_DENSITY_AFFINITY_LABEL, exprOperator = NodeSelectorOpGt, exprValues = [Itoa w]\<rparr>]\<rparr>] \<and>
    (\<forall>d. sint w < sint d \<longleftrightarrow> (if 0 < sint a then sint a \<le> sint d else sint a < sint d))"
proof -
  have "sint (a - 1) = sint a - 1" if "0 < sint a"
    using sint_minus_fits64 [of a 1] that sint_fits64 [of a] by (simp add: fits64_def)
  then show ?thesis
    by (intro exI [of _ "if 0 < sint a then a - 1 else a"]) (auto simp: hpc_pod_def Let_def)
qed

text \<open>
C12: The cluster has capacity for a job exactly if a healthy node has room, and the density returned is
then the least one of a node with room.
\<close>

theorem capacity_least:
  "case calculateClusterCapacityForJob nodes req of (a, hasCapacity) \<Rightarrow>
     (hasCapacity \<longleftrightarrow> (\<exists>node \<in> set nodes. \<exists>d. has_room req node d)) \<and>
     (if hasCapacity
      then (\<exists>node \<in> set nodes. has_room req node a) \<and> (\<forall>node \<in> set nodes. \<forall>d. has_room req node d \<longrightarrow> sint a \<le> sint d)
      else a = 0)"
proof (cases "calculateClusterCapacityForJob nodes req")
  case (Pair a hasCapacity)
  then show ?thesis
    using calculateClusterCapacityForJob_True [of nodes req a] calculateClusterCapacityForJob_False [of nodes req a]
    by (cases hasCapacity) auto
qed

theorem capacity_least_witness:
  "calculateClusterCapacityForJob [sample_node ''n1'' ''4'', sample_node ''n2'' ''2''] 3 = (2, True) \<and>
   (has_room 3 (sample_node ''n1'' ''4'') 2 \<or> has_room 3 (sample_node ''n2'' ''2'') 2)"
proof -
  have "calculateClusterCapacityForJob [sample_node ''n1'' ''4'', sample_node ''n2'' ''2''] 3 = (2, True)" by code_simp
  then show ?thesis using capacity_least [of "[sample_node ''n1'' ''4'', sample_node ''n2'' ''2'']" 3] by simp
qed

text \<open>The answer does not depend on the order in which the nodes were listed.\<close>

theorem capacity_order_independent:
  assumes "mset nodes' = mset nodes"
  shows "calculateClusterCapacityForJob nodes' req = calculateClusterCapacityForJob nodes req"
proof -
  obtain a h a' h' where c: "calculateClusterCapacityForJob nodes req = (a, h)"
    "calculateClusterCapacityForJob nodes' req = (a', h')" by fastforce
  have s: "set nodes' = set nodes" using assms by (rule mset_eq_setD)
  show ?thesis
  proof (cases h)
    case True
    then have 1: "(\<exists>node \<in> set nodes. has_room req node a) \<and>
        (\<forall>node \<in> set nodes. \<forall>d. has_room req node d \<longrightarrow> sint a \<le> sint d)"
      using calculateClusterCapacityForJob_True [of nodes req a] c(1) by simp
    then have "h'" using calculateClusterCapacityForJob_False [of nodes' req a'] c(2) s by (cases h') auto
    then have 2: "(\<exists>node \<in> set nodes. has_room req node a') \<and>
        (\<forall>node \<in> set nodes. \<forall>d. has_room req node d \<longrightarrow> sint a' \<le> sint d)"
      using calculateClusterCapacityForJob_True [of nodes' req a'] c(2) s by simp
    from 1 2 have "sint a = sint a'" by (meson order_antisym)
    then have "a = a'" by (rule signed_word_eqI)
    then show ?thesis using c True \<open>h'\<close> by simp
  next
    case False
    then have "a = 0" "\<forall>node \<in> set nodes. \<forall>d. \<not> has_room req node d"
      using calculateClusterCapacityForJob_False [of nodes req a] c(1) by auto
    then have "calculateClusterCapacityForJob nodes' req = (0, False)"
      unfolding calculateClusterCapacityForJob_False [of nodes' req 0] s by simp
    then show ?thesis using c(1) False \<open>a = 0\<close> by simp
  qed
qed

theorem capacity_order_independent_witness:
  "calculateClusterCapacityForJob [sample_node ''n2'' ''2'', sample_node ''n1'' ''4''] 3 = (2, True)"
proof -
  have 1: "calculateClusterCapacityForJob [sample_node ''n1'' ''4'', sample_node ''n2'' ''2''] 3 = (2, True)" by code_simp
  have 2: "mset [sample_node ''n2'' ''2'', sample_node ''n1'' ''4''] = mset [sample_node ''n1'' ''4'', sample_node ''n2'' ''2'']"
    by simp
  show ?thesis by (rule trans [OF capacity_order_independent [OF 2] 1])
qed

text \<open>
C13: With density labels and allocatable counts that are not negative, the capacity check is exact: the
candidates are the densities of the nodes whose free GPUs, counted without wrapping around, are at least as
many as the request, in the order of the nodes, and the job has capacity exactly if there is such a node.
\<close>

theorem room_is_exact:
  assumes "\<And>node. node \<in> set nodes \<Longrightarrow>
      \<exists>t. node_label node HIGH_DENSITY_AFFINITY_LABEL = Some t \<and> Atoi t = Some (density node) \<and>
        0 \<le> sint (density node) \<and> 0 \<le> sint (GetNodeAllocatableGPUs node)"
  shows "capacity_candidates req nodes =
      map density (filter (\<lambda>node. sint req \<le> sint (GetNodeAllocatableGPUs node) - sint (density node)) nodes) \<and>
    snd (calculateClusterCapacityForJob nodes req) =
      (\<exists>node \<in> set nodes. sint req \<le> sint (GetNodeAllocatableGPUs node) - sint (density node))"
proof -
  have "capacity_candidates req nodes =
      map density (filter (\<lambda>node. sint req \<le> sint (GetNodeAllocatableGPUs node) - sint (density node)) nodes)"
    using assms
  proof (induction nodes)
    case (Cons node nodes)
    obtain t where t: "node_label node HIGH_DENSITY_AFFINITY_LABEL = Some t" "Atoi t = Some (density node)"
      "0 \<le> sint (density node)" "0 \<le> sint (GetNodeAllocatableGPUs node)" using Cons.prems [of node] by auto
    have "sint (GetNodeAllocatableGPUs node - density node) = sint (GetNodeAllocatableGPUs node) - sint (density node)"
      using t(3,4) sint_fits64 [of "density node"] sint_fits64 [of "GetNodeAllocatableGPUs node"]
      by (intro sint_minus_fits64) (auto simp: fits64_def)
    moreover obtain labels where "nodeLabels node = Some labels" "go_get labels HIGH_DENSITY_AFFINITY_LABEL = Some t"
      using t(1) by (auto simp: node_label_def split: option.splits)
    ultimately show ?case using t(2) Cons.IH Cons.prems by (simp add: Let_def)
  qed simp
  moreover have "snd (calculateClusterCapacityForJob nodes req) \<longleftrightarrow> capacity_candidates req nodes \<noteq> []"
    by (simp add: calculateClusterCapacityForJob_def split: list.split)
  ultimately show ?thesis by (auto simp: filter_empty_conv)
qed

theorem room_is_exact_witness:
  "capacity_candidates 4 [sample_node ''n1'' ''4'', sample_node ''n2'' ''5''] = [4] \<and>
   \<not> snd (calculateClusterCapacityForJob [sample_node ''n1'' ''4'', sample_node ''n2'' ''5''] 5)"
proof -
  let ?nodes = "[sample_node ''n1'' ''4'', sample_node ''n2'' ''5'']"
  let ?density = "\<lambda>node. if nodeName node = ''n1'' then 4 else 5 :: int64"
  have 1: "\<exists>t. node_label node HIGH_DENSITY_AFFINITY_LABEL = Some t \<and> Atoi t = Some (?density node) \<and>
      0 \<le> sint (?density node) \<and> 0 \<le> sint (GetNodeAllocatableGPUs node)" if "node \<in> set ?nodes" for node
  proof -
    have "node_label (sample_node ''n1'' ''4'') HIGH_DENSITY_AFFINITY_LABEL = Some ''4''" "Atoi ''4'' = Some 4"
      "node_label (sample_node ''n2'' ''5'') HIGH_DENSITY_AFFINITY_LABEL = Some ''5''" "Atoi ''5'' = Some 5"
      "sint (GetNodeAllocatableGPUs (sample_node ''n1'' ''4'')) = 8" "sint (GetNodeAllocatableGPUs (sample_node ''n2'' ''5'')) = 8"
      by code_simp+
    then show ?thesis using that by (auto simp: sample_node_def)
  qed
  have 2: "sint (GetNodeAllocatableGPUs (sample_node ''n1'' ''4'')) = 8" "sint (GetNodeAllocatableGPUs (sample_node ''n2'' ''5'')) = 8"
    "nodeName (sample_node ''n1'' ''4'') = ''n1''" "nodeName (sample_node ''n2'' ''5'') = ''n2''" by code_simp+
  show ?thesis using room_is_exact [of ?nodes ?density 4, OF 1] room_is_exact [of ?nodes ?density 5, OF 1] by (simp add: 2)
qed

text \<open>
A node with labels but no density label has room for nothing, however many GPUs are free. So in a
cluster whose GPU nodes were never restored the first reconcile of a job creates no pod.
\<close>

theorem no_density_no_capacity:
  assumes "\<And>node. node \<in> set nodes \<Longrightarrow> nodeLabels node \<noteq> None \<and> node_label node HIGH_DENSITY_AFFINITY_LABEL = None"
  shows "calculateClusterCapacityForJob nodes req = (0, False)"
proof -
  have "\<not> has_room req node d" if "node \<in> set nodes" for node d
    using assms [OF that] by (auto simp: has_room_def node_label_def split: option.splits)
  then show ?thesis by (simp add: calculateClusterCapacityForJob_False)
qed

theorem no_density_no_capacity_witness:
  "calculateClusterCapacityForJob [sample_node ''n1'' ''4''\<lparr>nodeLabels := Some [(GPU_NODE_LABEL_INDICATOR, ''8'')]\<rparr>] 1 = (0, False)"
  by (rule no_density_no_capacity)
    (simp add: node_label_def GPU_NODE_LABEL_INDICATOR_def HIGH_DENSITY_AFFINITY_LABEL_def)

text \<open>
C16: What a restoration writes is what the capacity check reads. Every patch of a run of
\<open>RestoreHealthyNodes\<close> belongs to a node it was given and to a listing of the pods on it, and wherever the
API server merges its labels, whatever the stored node's other labels are by then, the check reads back the
GPUs counted on these pods: the node is a candidate with exactly this density if the GPUs left suffice, and
no candidate otherwise.
\<close>

theorem restored_density_read_back:
  assumes "PatchNode name patch answer \<in> set (emitted (RestoreHealthyNodes E nodes) s)"
  shows "\<exists>node \<in> set nodes. \<exists>pods. nodeName node = name \<and>
    ListPods '''' (''spec.nodeName='' @ name) (Inr pods) \<in> set (emitted (RestoreHealthyNodes E nodes) s) \<and>
    (\<forall>req stored node'. patched patch stored node' \<and> GetNodeAllocatableGPUs stored = GetNodeAllocatableGPUs node \<longrightarrow>
       capacity_candidates req [node'] =
         (if sint req \<le> sint (GetNodeAllocatableGPUs node - count_allocated 0 pods) then [count_allocated 0 pods] else []))"
proof -
  have "restoration_log nodes (emitted (RestoreHealthyNodes E nodes) s)"
    using satisfiesD [OF RestoreHealthyNodes_runs [of E nodes], of s] by blast
  from restoration_log_patch [OF this assms] obtain node pods where n: "node \<in> set nodes" "nodeName node = name"
    "ListPods '''' (''spec.nodeName='' @ name) (Inr pods) \<in> set (emitted (RestoreHealthyNodes E nodes) s)"
    "patch = restoration_patch node \<lparr>Allocated = count_allocated 0 pods, Allocatable = GetNodeAllocatableGPUs node\<rparr>"
    by blast
  have "capacity_candidates req [node'] =
      (if sint req \<le> sint (GetNodeAllocatableGPUs node - count_allocated 0 pods) then [count_allocated 0 pods] else [])"
    if p: "patched patch stored node'" "GetNodeAllocatableGPUs stored = GetNodeAllocatableGPUs node" for req stored node'
  proof -
    have "node_label node' HIGH_DENSITY_AFFINITY_LABEL = Some (Itoa (count_allocated 0 pods))"
      using p(1) n(4) by (simp add: patched_def restoration_patch_def Let_def)
    then obtain labels where "nodeLabels node' = Some labels"
      "go_get labels HIGH_DENSITY_AFFINITY_LABEL = Some (Itoa (count_allocated 0 pods))"
      by (auto simp: node_label_def split: option.splits)
    then show ?thesis using p by (simp add: Let_def patched_def)
  qed
  then show ?thesis using n by blast
qed

theorem restored_density_read_back_witness:
  "\<exists>pods. ListPods '''' ''spec.nodeName=n1'' (Inr pods) \<in> set (emitted (RestoreHealthyNodes sample_env [sample_node ''n1'' ''7''])
      (sample_cluster [] [(''n1'', sample_pod ''other'' ''Running'')])) \<and>
    capacity_candidates 1 [sample_node ''n1'' ''2''] =
      (if 1 \<le> sint (8 - count_allocated 0 pods) then [count_allocated 0 pods] else [])"
proof -
  let ?n = "sample_node ''n1'' ''7''" and ?n' = "sample_node ''n1'' ''2''"
  let ?patch = "restoration_patch ?n \<lparr>Allocated = 2, Allocatable = 8\<rparr>"
  have e: "emitted (RestoreHealthyNodes sample_env [?n]) (sample_cluster [] [(''n1'', sample_pod ''other'' ''Running'')]) =
      [ListPods '''' ''spec.nodeName=n1'' (Inr [sample_pod ''other'' ''Running'']), PatchNode ''n1'' ?patch None]"
    by code_simp
  have g: "GetNodeAllocatableGPUs ?n = 8" "GetNodeAllocatableGPUs ?n' = 8" "patchLabels ?patch = [(HIGH_DENSITY_AFFINITY_LABEL, ''2'')]"
    by code_simp+
  have merged: "patched ?patch ?n ?n'"
    unfolding patched_def g
    by (auto simp: sample_node_def node_label_def GPU_NODE_LABEL_INDICATOR_def HIGH_DENSITY_AFFINITY_LABEL_def)
  have "PatchNode ''n1'' ?patch None \<in> set (emitted (RestoreHealthyNodes sample_env [?n])
      (sample_cluster [] [(''n1'', sample_pod ''other'' ''Running'')]))" unfolding e by simp
  from restored_density_read_back [OF this] obtain pods where
    listed: "ListPods '''' (''spec.nodeName='' @ ''n1'') (Inr pods) \<in> set (emitted (RestoreHealthyNodes sample_env [?n])
      (sample_cluster [] [(''n1'', sample_pod ''other'' ''Running'')]))"
    and read: "\<And>req stored node'. patched ?patch stored node' \<Longrightarrow> GetNodeAllocatableGPUs stored = GetNodeAllocatableGPUs ?n \<Longrightarrow>
       capacity_candidates req [node'] =
         (if sint req \<le> sint (GetNodeAllocatableGPUs ?n - count_allocated 0 pods) then [count_allocated 0 pods] else [])"
    unfolding list.set by blast
  have "capacity_candidates 1 [?n'] =
      (if sint (1 :: int64) \<le> sint (GetNodeAllocatableGPUs ?n - count_allocated 0 pods) then [count_allocated 0 pods] else [])"
    by (rule read [OF merged refl])
  then show ?thesis using listed unfolding g(1)
    by (intro exI [of _ pods] conjI) (simp_all del: capacity_candidates.simps RestoreHealthyNodes.simps)
qed

end
