(* ===== verification/Simulation.thy ===== *)
theory Simulation
  imports Effects
begin

text \<open>
  Programs that follow an abstract server: a transition system whose labels are the logged calls.
  \<open>simulates view step m\<close> says that every run of \<open>m\<close> is a path of the abstract server, labelled with
  the calls the run logs, between the views of the world before and after.
\<close>

section \<open>Following an abstract server\<close>

inductive path :: "('s \<Rightarrow> 'ev \<Rightarrow> 's \<Rightarrow> bool) \<Rightarrow> 's \<Rightarrow> 'ev list \<Rightarrow> 's \<Rightarrow> bool"
  for step :: "'s \<Rightarrow> 'ev \<Rightarrow> 's \<Rightarrow> bool" where
  path_Nil: "path step a [] a"
| path_Cons: "step a e b \<Longrightarrow> path step b es c \<Longrightarrow> path step a (e # es) c"

inductive_simps path_Nil_iff [simp]: "path step a [] b"
inductive_simps path_Cons_iff [simp]: "path step a (e # es) c"

lemma path_append [simp]: "path step a (es1 @ es2) c \<longleftrightarrow> (\<exists>b. path step a es1 b \<and> path step b es2 c)"
  by (induction es1 arbitrary: a) auto

lemma path_invariant:
  assumes "path step a es c" and "I a" and "\<And>a e b. step a e b \<Longrightarrow> e \<in> set es \<Longrightarrow> I a \<Longrightarrow> I b"
  shows "I c"
  using assms by (induction rule: path.induct) (metis list.set_intros)+

named_theorems sim "rules that split a program that follows an abstract server"

definition simulates ::
    "('w \<Rightarrow> 's) \<Rightarrow> ('s \<Rightarrow> 'ev \<Rightarrow> 's \<Rightarrow> bool) \<Rightarrow> ('w, 'ev, 'a) prog \<Rightarrow> bool" where
  "simulates view step m \<longleftrightarrow> (\<forall>s. \<exists>es. log (final m s) = log s @ es \<and>
     path step (view (world s)) es (view (world (final m s))))"

lemma simulatesD:
  "simulates view step m \<Longrightarrow> path step (view (world s)) (emitted m s) (view (world (final m s)))"
  by (auto simp: simulates_def emitted_def dest!: spec [where x = s])

lemma simulates_return [sim]: "simulates view step (ret x)"
  by (auto simp: simulates_def)

lemma simulates_bind [sim]:
  assumes "simulates view step m" and "\<And>x. simulates view step (f x)"
  shows "simulates view step (State_Monad.bind m f)"
  unfolding simulates_def
proof
  fix s
  obtain es1 where "log (final m s) = log s @ es1" "path step (view (world s)) es1 (view (world (final m s)))"
    using assms(1) unfolding simulates_def by blast
  moreover obtain es2 where "log (final (f (result m s)) (final m s)) = log (final m s) @ es2"
    "path step (view (world (final m s))) es2 (view (world (final (f (result m s)) (final m s))))"
    using assms(2) unfolding simulates_def by blast
  ultimately show "\<exists>es. log (final (State_Monad.bind m f) s) = log s @ es \<and>
      path step (view (world s)) es (view (world (final (State_Monad.bind m f) s)))"
    by (intro exI [of _ "es1 @ es2"]) auto
qed

lemma simulates_invoke:
  "(\<And>w. step (view w) (ev (fst (f w))) (view (snd (f w)))) \<Longrightarrow> simulates view step (invoke f ev)"
  by (auto simp: simulates_def)

lemma simulates_if [sim]:
  "(b \<Longrightarrow> simulates view step m) \<Longrightarrow> (\<not> b \<Longrightarrow> simulates view step n) \<Longrightarrow>
   simulates view step (if b then m else n)"
  by simp

lemma simulates_sum [sim]:
  "(\<And>e. x = Inl e \<Longrightarrow> simulates view step (f e)) \<Longrightarrow> (\<And>r. x = Inr r \<Longrightarrow> simulates view step (g r)) \<Longrightarrow>
   simulates view step (case x of Inl e \<Rightarrow> f e | Inr r \<Rightarrow> g r)"
  by (cases x) simp_all

lemma simulates_option [sim]:
  "(x = None \<Longrightarrow> simulates view step m) \<Longrightarrow> (\<And>y. x = Some y \<Longrightarrow> simulates view step (f y)) \<Longrightarrow>
   simulates view step (case x of None \<Rightarrow> m | Some y \<Rightarrow> f y)"
  by (cases x) simp_all

lemma simulates_prod [sim]:
  "(\<And>a b. x = (a, b) \<Longrightarrow> simulates view step (f a b)) \<Longrightarrow> simulates view step (case x of (a, b) \<Rightarrow> f a b)"
  by (cases x) simp

lemma simulates_let [sim]: "(\<And>y. y = x \<Longrightarrow> simulates view step (f y)) \<Longrightarrow> simulates view step (let y = x in f y)"
  by simp

end
