(* ===== verification/Server_Laws.thy ===== *)
theory Server_Laws
  imports Reconcile_Facts Simulation
begin

text \<open>
  What persists in the cluster across the calls of a program. \<open>serves E view step\<close> says that each call
  of the environment \<open>E\<close> is a step of an abstract server between the views of the world before and
  after. A reconcile then follows a path of the abstract server labelled with its log, and what the
  log of a reconcile can be (\<open>reconcile_run\<close>) determines what the path can do. Two abstract servers
  are defined: one that keeps the versions of a job, where other actors may write too, and one that keeps
  whether the job's pod is live.
\<close>

section \<open>The calls of the environment\<close>

text \<open>One law per call.\<close>

definition serves ::
    "('w, 'e) kube_env \<Rightarrow> ('w \<Rightarrow> 's) \<Rightarrow> ('s \<Rightarrow> 'e event \<Rightarrow> 's \<Rightarrow> bool) \<Rightarrow> bool" where
  "serves E view step \<longleftrightarrow>
     (\<forall>w ns name. step (view w) (GetJob ns name (fst (srvGetJob E ns name w))) (view (snd (srvGetJob E ns name w)))) \<and>
     (\<forall>w job. step (view w) (UpdateStatus job (fst (srvUpdateStatus E job w))) (view (snd (srvUpdateStatus E job w)))) \<and>
     (\<forall>w gv ns resource name body.
        step (view w) (Put gv ns resource name body (fst (srvPut E gv ns resource name body w)))
          (view (snd (srvPut E gv ns resource name body w)))) \<and>
     (\<forall>w ns name. step (view w) (GetPodEv ns name (fst (srvGetPod E ns name w))) (view (snd (srvGetPod E ns name w)))) \<and>
     (\<forall>w ns sel. step (view w) (ListPods ns sel (fst (srvListPods E ns sel w))) (view (snd (srvListPods E ns sel w)))) \<and>
     (\<forall>w ns pod. step (view w) (CreatePodEv ns pod (fst (srvCreatePod E ns pod w))) (view (snd (srvCreatePod E ns pod w)))) \<and>
     (\<forall>w ns name. step (view w) (DeletePodEv ns name (fst (srvDeletePod E ns name w))) (view (snd (srvDeletePod E ns name w)))) \<and>
     (\<forall>w sel. step (view w) (ListNodes sel (fst (srvListNodes E sel w))) (view (snd (srvListNodes E sel w)))) \<and>
     (\<forall>w name patch. step (view w) (PatchNode name patch (fst (srvPatchNode E name patch w)))
        (view (snd (srvPatchNode E name patch w)))) \<and>
     (\<forall>w ended q. step (view w) (Query q (fst (srvQuery E ended q w))) (view (snd (srvQuery E ended q w))))"

lemma simulates_calls [sim]:
  assumes "serves E view step"
  shows "simulates view step (callGetJob E ns name)" "simulates view step (callUpdateStatus E job)"
    "simulates view step (callPut E gv ns resource name body)" "simulates view step (callGetPod E ns name)"
    "simulates view step (callListPods E ns sel)" "simulates view step (callCreatePod E ns pod)"
    "simulates view step (callDeletePod E ns name)" "simulates view step (callListNodes E sel)"
    "simulates view step (callPatchNode E name patch)" "simulates view step (callQuery E ended q)"
  using assms unfolding call_defs serves_def by (auto intro!: simulates_invoke)

text \<open>The operations, bottom up.\<close>

lemma simulates_run_pair:
  assumes "\<And>p m. step1 p = Some m \<Longrightarrow> simulates view step m" and "\<And>p. simulates view step (fin1 p)"
    and "\<And>q m. step2 q = Some m \<Longrightarrow> simulates view step m" and "\<And>q. simulates view step (fin2 q)"
  shows "simulates view step (run_pair step1 fin1 step2 fin2 sched p q)"
proof (induction sched arbitrary: p q)
  case Nil
  show ?case by (auto intro!: sim assms(2,4))
next
  case (Cons b sched)
  then show ?case by (cases b) (auto intro!: sim intro: assms(1,3))
qed

lemma simulates_GetGpuNodeAllocations [sim]:
  "serves E view step \<Longrightarrow> simulates view step (GetGpuNodeAllocations E node)"
  unfolding GetGpuNodeAllocations_def by (auto intro!: sim)

lemma simulates_loops [sim]:
  assumes "serves E view step"
  shows "simulates view step (IsolateUnhealthyNodes E nodes)" "simulates view step (RestoreHealthyNodes E nodes)"
    "simulates view step (delete_pods E pods)"
proof -
  show "simulates view step (IsolateUnhealthyNodes E nodes)"
    by (induction nodes) (auto intro!: sim assms)
  show "simulates view step (RestoreHealthyNodes E nodes)"
    by (induction nodes) (auto intro!: sim assms)
  show "simulates view step (delete_pods E pods)"
    by (induction pods) (auto intro!: sim assms simp: DeletePod_def)
qed

lemma simulates_SyncNodeHealthStatus [sim]:
  assumes "serves E view step"
  shows "simulates view step (SyncNodeHealthStatus E sched h u)"
  unfolding SyncNodeHealthStatus_def
proof (rule simulates_run_pair)
  show "simulates view step m" if "restore_step E p = Some m" for p m
    using that by (auto elim!: restore_step_SomeE intro!: sim assms)
  show "simulates view step (finish_restore E p)" for p
    by (cases p) (auto intro!: sim assms)
  show "simulates view step m" if "isolate_step E q = Some m" for q m
    using that by (auto elim!: isolate_step_SomeE intro!: sim assms)
  show "simulates view step (IsolateUnhealthyNodes E q)" for q by (intro sim assms)
qed

lemma simulates_discovery [sim]:
  assumes "serves E view step"
  shows "simulates view step (ListGPUNodes E)" "simulates view step (fetchNodesAndSyncStatus E sched)"
proof -
  show l: "simulates view step (ListGPUNodes E)"
    unfolding ListGPUNodes_def GetClusterGPUNodes_def GetFullGPUClusterHealthCheck_def
    by (intro sim assms) (auto intro!: sim assms split: prom_value.split)
  show "simulates view step (fetchNodesAndSyncStatus E sched)"
    unfolding fetchNodesAndSyncStatus_def by (intro sim assms l)
qed

lemma simulates_status [sim]:
  assumes "serves E view step"
  shows "simulates view step (updateJobStatus E job p)" "simulates view step (manageExistingPod E job)"
proof -
  show u: "simulates view step (updateJobStatus E job p)" for job p
    unfolding updateJobStatus_def by (intro sim assms)
  show "simulates view step (manageExistingPod E job)"
    unfolding manageExistingPod_def scanPodStatus_def GetPod_def by (intro sim assms u)
qed

lemma simulates_Reconcile:
  assumes "serves E view step"
  shows "simulates view step (Reconcile E sched ns name)"
  unfolding Reconcile_def fetchCRDResource_def dispatch_def handlePending_def handleRunning_def
    handleFailed_def handleDeleted_def handleDeletedByName_def createHpcPod_def CreatePod_def
    DeletePod_def ListPodsByName_def RemoveResourceFinalizer_def
  by (intro sim assms)

text \<open>A reconcile of the program, as the abstract server sees it.\<close>

lemma Reconcile_path:
  assumes "serves E view step"
  shows "\<exists>es. reconcile_run E ns name (result (Reconcile E sched ns name) s) es \<and>
    emitted (Reconcile E sched ns name) s = es \<and>
    path step (view (world s)) es (view (world (final (Reconcile E sched ns name) s)))"
  using satisfiesD [OF Reconcile_runs [of E sched ns name], of s]
    simulatesD [OF simulates_Reconcile [OF assms, where sched = sched and ns = ns and name = name], of s]
  by auto

section \<open>The phase of a job\<close>

text \<open>
  What the API server keeps of the job \<open>name\<close> in \<open>ns\<close>: the resource version that is stored, none if there
  is no such job, and every version there has ever been, with the UID of its object and its phase. A job
  that is deleted and created again is a new object with a new UID.
\<close>

record job_store =
  storedVersion :: "string option"
  allVersions :: "string \<rightharpoonup> string \<times> string"

definition stored :: "job_store \<Rightarrow> (string \<times> string) option" where
  "stored v = Option.bind (storedVersion v) (allVersions v)"

definition uids :: "job_store \<Rightarrow> string set" where
  "uids v = fst ` ran (allVersions v)"

text \<open>
  What may happen to the job at any time, by anyone, and any number of times: a write that is not one of the
  status, with a new version each, a deletion, and a creation under a new UID.
\<close>

definition moves :: "job_store \<Rightarrow> job_store \<Rightarrow> bool" where
  "moves a b \<longleftrightarrow> allVersions a \<subseteq>\<^sub>m allVersions b \<and>
     (\<forall>u p. stored b = Some (u, p) \<longrightarrow> stored a = Some (u, p) \<or> u \<notin> uids a)"

text \<open>A write of the status: it is done only from the stored version, and stores the phase that is written.\<close>

definition commits :: "job_store \<Rightarrow> HPCJob \<Rightarrow> job_store \<Rightarrow> bool" where
  "commits a j b \<longleftrightarrow> (\<exists>c d u p. moves a c \<and>
     storedVersion c = Some (jobResourceVersion j) \<and> stored c = Some (u, p) \<and>
     allVersions c \<subseteq>\<^sub>m allVersions d \<and> stored d = Some (u, phase_of j) \<and> moves d b)"

text \<open>
  The law of the server. A read returns the requested job in some version there has been (the client reads
  through a cache). An accepted update of the job's status is a write of it; one that is answered with an
  error may have been done or not. Nothing else that is called writes the status of the job, and nobody else
  does; the rest may move on around every call.
\<close>

definition phase_server :: "string \<Rightarrow> string \<Rightarrow> job_store \<Rightarrow> 'e event \<Rightarrow> job_store \<Rightarrow> bool" where
  "phase_server ns name a e b \<longleftrightarrow>
     (case e of
        GetJob ns' name' (Inr j) \<Rightarrow>
          moves a b \<and> jobNamespace j = ns' \<and> jobName j = name' \<and>
          ((ns', name') = (ns, name) \<longrightarrow> (\<exists>u. allVersions b (jobResourceVersion j) = Some (u, phase_of j)))
      | UpdateStatus j answer \<Rightarrow>
          if (jobNamespace j, jobName j) = (ns, name) then commits a j b \<or> (isl answer \<and> moves a b) else moves a b
      | _ \<Rightarrow> moves a b)"

lemma moves_refl [simp]: "moves a a"
  by (simp add: moves_def)

lemma uids_mono: "allVersions a \<subseteq>\<^sub>m allVersions b \<Longrightarrow> uids a \<subseteq> uids b"
  unfolding uids_def ran_def map_le_def dom_def by force

lemma moves_trans: "moves a b \<Longrightarrow> moves b c \<Longrightarrow> moves a c"
  unfolding moves_def using uids_mono map_le_trans by (metis subsetD)

text \<open>What a program that follows the state machine makes of the job.\<close>

definition advances :: "job_store \<Rightarrow> job_store \<Rightarrow> bool" where
  "advances a b \<longleftrightarrow> allVersions a \<subseteq>\<^sub>m allVersions b \<and>
     (\<forall>u q. stored b = Some (u, q) \<longrightarrow> u \<notin> uids a \<or>
        (\<exists>p. stored a = Some (u, p) \<and> (q = p \<or> phase_step\<^sup>+\<^sup>+ (effective_phase p) q)))"

lemma stored_uid: "stored v = Some (u, p) \<Longrightarrow> u \<in> uids v"
  unfolding stored_def uids_def by (auto simp: bind_eq_Some_conv intro: ranI rev_image_eqI)

lemma moves_advances: "moves a b \<Longrightarrow> advances a b"
  unfolding moves_def advances_def by blast

lemma phase_path_trans:
  assumes "q = p \<or> phase_step\<^sup>+\<^sup>+ (effective_phase p) q" and "r = q \<or> phase_step\<^sup>+\<^sup>+ (effective_phase q) r"
  shows "r = p \<or> phase_step\<^sup>+\<^sup>+ (effective_phase p) r"
proof -
  have "effective_phase q = q" if "phase_step\<^sup>+\<^sup>+ x q" for x
    using that by (cases rule: tranclp.cases) (auto simp: phase_step_simps effective_phase_def)
  then show ?thesis using assms by (metis tranclp_trans)
qed

lemma advances_trans:
  assumes "advances a b" and "advances b c"
  shows "advances a c"
  unfolding advances_def
proof (intro conjI allI impI)
  have le: "allVersions a \<subseteq>\<^sub>m allVersions b" "allVersions b \<subseteq>\<^sub>m allVersions c"
    using assms by (simp_all add: advances_def)
  then show "allVersions a \<subseteq>\<^sub>m allVersions c" by (rule map_le_trans)
  show "u \<notin> uids a \<or> (\<exists>p. stored a = Some (u, p) \<and> (r = p \<or> phase_step\<^sup>+\<^sup>+ (effective_phase p) r))"
    if r: "stored c = Some (u, r)" for u r
  proof (cases "u \<in> uids a")
    case True
    then have "u \<in> uids b" using uids_mono [OF le(1)] by blast
    then obtain q where q: "stored b = Some (u, q)" "r = q \<or> phase_step\<^sup>+\<^sup>+ (effective_phase q) r"
      using assms(2) r unfolding advances_def by blast
    obtain p where "stored a = Some (u, p)" "q = p \<or> phase_step\<^sup>+\<^sup>+ (effective_phase p) q"
      using assms(1) q(1) True unfolding advances_def by blast
    then show ?thesis using phase_path_trans [OF _ q(2)] by blast
  qed simp
qed

text \<open>A write of the status goes on from the phase that was read, if it is a step from there.\<close>

lemma commits_advances:
  assumes "commits a j b" and "allVersions a (jobResourceVersion j) = Some (u, p)"
    and "phase_step (effective_phase p) (phase_of j)"
  shows "advances a b"
proof -
  obtain c d u' p' where c: "moves a c" "storedVersion c = Some (jobResourceVersion j)" "stored c = Some (u', p')"
    and d: "allVersions c \<subseteq>\<^sub>m allVersions d" "stored d = Some (u', phase_of j)" "moves d b"
    using assms(1) unfolding commits_def by blast
  have "allVersions c (jobResourceVersion j) = Some (u, p)"
    using c(1) assms(2) unfolding moves_def map_le_def by (metis domI)
  then have "u' = u" "p' = p" using c(2,3) by (simp_all add: stored_def)
  then have "advances c d" using c(3) d(1,2) assms(3) by (auto simp: advances_def)
  then show ?thesis using moves_advances c(1) d(3) advances_trans by blast
qed

text \<open>The requests of a work queue, one after the other.\<close>

fun serve_requests :: "('w, 'e) kube_env \<Rightarrow> (bool list \<times> string \<times> string) list \<Rightarrow> ('w, 'e, unit) kprog" where
  "serve_requests E [] = ret ()"
| "serve_requests E ((sched, ns, name) # requests) = do {
     _ \<leftarrow> Reconcile E sched ns name;
     serve_requests E requests
   }"

lemma phase_server_quiet:
  assumes "path (phase_server ns name) a es b" and "\<forall>e \<in> set es. \<not> is_status_write e"
  shows "moves a b"
proof (rule path_invariant [OF assms(1), where I = "moves a"])
  show "moves a c" if "phase_server ns name c' e c" "e \<in> set es" "moves a c'" for c' e c
  proof -
    have "\<not> is_status_write e" using assms(2) that(2) by blast
    then have "moves c' c" using that(1)
      by (cases e) (auto simp: phase_server_def is_status_write_def split: sum.splits)
    then show ?thesis by (rule moves_trans [OF that(3)])
  qed
qed simp

lemma phase_server_handled:
  assumes "path (phase_server ns name) a es b" and "handled job out es"
    and "(jobNamespace job, jobName job) = (ns, name) \<Longrightarrow>
         \<exists>u p. allVersions a (jobResourceVersion job) = Some (u, p) \<and> effective_phase p = phase_of job"
  shows "advances a b"
proof (cases "\<exists>e \<in> set es. is_status_write e")
  case False
  then show ?thesis using phase_server_quiet [OF assms(1)] moves_advances by blast
next
  case True
  then obtain es1 e es2 where es: "es = es1 @ e # es2" and w: "is_status_write e" by (metis split_list)
  have n: "length (filter is_status_write es) \<le> 1" using assms(2) by (simp add: handled_def)
  have q: "filter is_status_write es1 = [] \<and> filter is_status_write es2 = []"
    using n w unfolding es by simp
  obtain c d where p: "path (phase_server ns name) a es1 c" "phase_server ns name c e d"
    "path (phase_server ns name) d es2 b" using assms(1) unfolding es by auto
  have ac: "moves a c" by (rule phase_server_quiet [OF p(1)]) (use q in \<open>simp add: filter_empty_conv\<close>)
  have db: "moves d b" by (rule phase_server_quiet [OF p(3)]) (use q in \<open>simp add: filter_empty_conv\<close>)
  obtain j r where e: "e = UpdateStatus j r" using w by (cases e) (auto simp: is_status_write_def)
  have j: "phase_step (phase_of job) (phase_of j)" "j = set_phase (phase_of j) job"
    using assms(2) unfolding handled_def es e by (auto simp: job_event_def)
  then have k: "jobNamespace j = jobNamespace job" "jobName j = jobName job"
    "jobResourceVersion j = jobResourceVersion job"
    by (metis set_phase_simps(3), metis set_phase_simps(2), metis set_phase_simps(7))
  consider "moves c d" | "commits c j d" "(jobNamespace job, jobName job) = (ns, name)"
    using p(2) k unfolding e by (auto simp: phase_server_def split: if_splits)
  then have "advances c d"
  proof cases
    case 2
    obtain u p where v: "allVersions a (jobResourceVersion job) = Some (u, p)" "effective_phase p = phase_of job"
      using assms(3) [OF 2(2)] by blast
    then have "allVersions c (jobResourceVersion j) = Some (u, p)"
      using ac k(3) unfolding moves_def map_le_def by (metis domI)
    then show ?thesis using commits_advances [OF 2(1)] j(1) v(2) by simp
  qed (rule moves_advances)
  then show ?thesis using moves_advances [OF ac] moves_advances [OF db] advances_trans by blast
qed

lemma Reconcile_phase_step:
  assumes "serves E view (phase_server ns name)"
  shows "advances (view (world s)) (view (world (final (Reconcile E sched ns' name') s)))"
proof -
  let ?R = "Reconcile E sched ns' name'"
  let ?a = "view (world s)" and ?b = "view (world (final ?R s))"
  have path: "path (phase_server ns name) ?a (emitted ?R s) ?b"
    by (rule simulatesD [OF simulates_Reconcile [OF assms]])
  show ?thesis
  proof (cases rule: Reconcile_cases [of E ns' name' s sched])
    case (live job rest)
    obtain c where j: "moves ?a c" "jobNamespace job = ns'" "jobName job = name'"
        "(ns', name') = (ns, name) \<Longrightarrow> \<exists>u. allVersions c (jobResourceVersion job) = Some (u, phase_of job)"
      and c: "path (phase_server ns name) c rest ?b"
      using path unfolding live(3) by (auto simp: phase_server_def)
    have "advances c ?b" by (rule phase_server_handled [OF c live(5)]) (use j in auto)
    then show ?thesis using moves_advances [OF j(1)] advances_trans by blast
  next
    case (other r rest)
    have "moves ?a ?b"
      by (rule phase_server_quiet [OF path])
        (use other(1,2) is_deletion_quiet in \<open>auto simp: is_status_write_def [of "GetJob _ _ _"]\<close>)
    then show ?thesis by (rule moves_advances)
  qed
qed

lemma serve_requests_advances:
  assumes "serves E view (phase_server ns name)"
  shows "advances (view (world s)) (view (world (final (serve_requests E requests) s)))"
proof (induction requests arbitrary: s)
  case Nil
  show ?case by (simp add: moves_advances)
next
  case (Cons request requests)
  obtain sched ns' name' where req: "request = (sched, ns', name')" by (cases request) auto
  show ?case
    using advances_trans [OF Reconcile_phase_step [OF assms] Cons.IH] by (simp add: req)
qed

lemma serve_requests_phase:
  assumes "serves E view (phase_server ns name)"
    and "stored (view (world s)) = Some (u, p)"
    and "stored (view (world (final (serve_requests E requests) s))) = Some (u, q)"
  shows "q = p \<or> phase_step\<^sup>+\<^sup>+ (effective_phase p) q"
  using serve_requests_advances [OF assms(1), of s requests] assms(2,3) stored_uid [OF assms(2)]
  unfolding advances_def by auto

lemma phase_step_absorbing:
  assumes "phase_step\<^sup>+\<^sup>+ p q" and "p \<in> {Failed, Complete}"
  shows "q = p"
  using assms by (induction rule: tranclp_induct) (auto simp: phase_step_simps)

section \<open>The pod of a job\<close>

text \<open>
  What the API server promises about the pod \<open>name\<close> in \<open>ns\<close>, as whether it is live, that is, exists and
  is not being deleted: a deletion it accepts ends the life of the pod, one it answers with not-found
  proves there is none, a listing by the name holds every live pod, and no one but the program brings
  the pod to life. A pod may end at any time.
\<close>

definition pod_server :: "('w, 'e) kube_env \<Rightarrow> string \<Rightarrow> string \<Rightarrow> bool \<Rightarrow> 'e event \<Rightarrow> bool \<Rightarrow> bool" where
  "pod_server E ns name a e b \<longleftrightarrow>
     (case e of
        CreatePodEv ns' pod None \<Rightarrow> (ns', podName pod) = (ns, name) \<or> (b \<longrightarrow> a)
      | DeletePodEv ns' name' None \<Rightarrow> if (ns', name') = (ns, name) then \<not> b else (b \<longrightarrow> a)
      | DeletePodEv ns' name' (Some err) \<Rightarrow>
          (b \<longrightarrow> a) \<and> ((ns', name') = (ns, name) \<and> IsNotFound E err \<longrightarrow> \<not> a)
      | ListPods ns' sel (Inr pods) \<Rightarrow>
          (b \<longrightarrow> a) \<and> (ns' = ns \<and> sel = ''metadata.name='' @ name \<and> b \<longrightarrow>
            (\<exists>pod \<in> set pods. (podNamespace pod, podName pod) = (ns, name)))
      | _ \<Rightarrow> b \<longrightarrow> a)"

lemma deletion_log_pod:
  assumes "deletion_log pods None es" and "path (pod_server E ns name) a es b"
    and "a \<Longrightarrow> \<exists>pod \<in> set pods. (podNamespace pod, podName pod) = (ns, name)"
  shows "\<not> b"
  using assms
proof (induction pods arbitrary: a es)
  case (Cons pod pods)
  then obtain es' where es: "es = DeletePodEv (podNamespace pod) (podName pod) None # es'"
    and d: "deletion_log pods None es'" by (auto simp: deletion_log_Cons_None)
  obtain c where c: "pod_server E ns name a (DeletePodEv (podNamespace pod) (podName pod) None) c"
    "path (pod_server E ns name) c es' b" using Cons.prems(2) unfolding es by auto
  show ?case
    by (rule Cons.IH [OF d c(2)]) (use c(1) Cons.prems(3) in \<open>auto simp: pod_server_def split: if_splits\<close>)
qed auto

lemma cleanup_run_pod:
  assumes "cleanup_run ns name out es" and "snd out = None" and "path (pod_server E ns name) a es b"
  shows "\<not> b"
  using assms(1)
proof (cases rule: cleanup_run_cases)
  case (clean pods rest)
  then obtain c where c: "pod_server E ns name a (ListPods ns (''metadata.name='' @ name) (Inr pods)) c"
    "path (pod_server E ns name) c rest b" using assms(3) by auto
  show ?thesis
    by (rule deletion_log_pod [OF clean(2) c(2)]) (use c(1) in \<open>simp add: pod_server_def\<close>)
qed (use assms(2) in simp_all)

lemma status_write_pod:
  "status_write job p err job' es \<Longrightarrow> path (pod_server E ns name) a es b \<Longrightarrow> b \<longrightarrow> a"
  by (auto simp: status_write_def pod_server_def)

lemma failed_run_pod:
  assumes "failed_run E job out es" and "snd out = None"
    and "path (pod_server E (jobNamespace job) (jobName job)) a es b"
  shows "\<not> b"
proof -
  obtain answer rest where es: "es = DeletePodEv (jobNamespace job) (jobName job) answer # rest"
    and r: "if (case answer of None \<Rightarrow> True | Some e \<Rightarrow> IsNotFound E e)
        then \<exists>upd job'. status_write job Failed upd job' rest \<and>
               out = (if upd = None then no_result else in_5_minutes, upd)
        else rest = [] \<and> out = (in_5_minutes, map_option Ext answer)"
    using assms(1) unfolding failed_run_def by (elim exE conjE) (rule that)
  have ok: "case answer of None \<Rightarrow> True | Some e \<Rightarrow> IsNotFound E e"
    using r assms(2) by (auto split: if_splits option.splits)
  then obtain upd job' where w: "status_write job Failed upd job' rest" using r by auto
  obtain c where c: "pod_server E (jobNamespace job) (jobName job) a (DeletePodEv (jobNamespace job) (jobName job) answer) c"
    "path (pod_server E (jobNamespace job) (jobName job)) c rest b"
    using assms(3) unfolding es by auto
  have "\<not> c" using c(1) ok by (auto simp: pod_server_def split: option.splits)
  then show ?thesis using status_write_pod [OF w c(2)] by simp
qed

end
