(* ===== verification/Sample_Laws.thy ===== *)
theory Sample_Laws
  imports Server_Laws Sample_Cluster
begin

text \<open>
  The sample cluster keeps the laws of \<open>Server_Laws\<close>: it is an environment that serves the versions
  of a job and the life of its pod.
\<close>

section \<open>The phase of a job\<close>

definition versions_of :: "string \<Rightarrow> string \<Rightarrow> cluster \<Rightarrow> job_store" where
  "versions_of ns name c =
     \<lparr>storedVersion = map_option jobResourceVersion (find_job ns name c),
      allVersions = (\<lambda>rv. map_option (\<lambda>j. (''uid'', phase_of j))
        (find (\<lambda>j. is_job ns name j \<and> jobResourceVersion j = rv) (clJobs c @ clPast c)))\<rparr>"

lemma find_job_names: "find_job ns name c = Some j \<Longrightarrow> jobNamespace j = ns \<and> jobName j = name"
  by (auto simp: find_job_def find_Some_iff is_job_def)

lemma find_append: "find P (xs @ ys) = (case find P xs of None \<Rightarrow> find P ys | Some x \<Rightarrow> Some x)"
  by (induction xs) auto

lemma find_first:
  assumes "find P xs = Some x" and "Q x"
  shows "find (\<lambda>y. P y \<and> Q y) xs = Some x"
  using assms by (induction xs) (auto split: if_splits)

lemma stored_versions_of: "stored (versions_of ns name c) = map_option (\<lambda>j. (''uid'', phase_of j)) (find_job ns name c)"
proof (cases "find_job ns name c")
  case (Some j)
  have "find (\<lambda>i. is_job ns name i \<and> jobResourceVersion i = jobResourceVersion j) (clJobs c) = Some j"
    by (rule find_first) (use Some in \<open>simp_all add: find_job_def\<close>)
  then show ?thesis by (simp add: stored_def versions_of_def Some find_append)
qed (simp add: stored_def versions_of_def)

lemma length_in_concat: "x \<in> set xs \<Longrightarrow> length x \<le> length (concat xs)"
  by (induction xs) auto

lemma fresh_version_new: "j \<in> set (clJobs c @ clPast c) \<Longrightarrow> jobResourceVersion j \<noteq> fresh_version c"
proof
  assume "j \<in> set (clJobs c @ clPast c)" and j: "jobResourceVersion j = fresh_version c"
  then have "length (jobResourceVersion j) \<le> length (concat (map jobResourceVersion (clJobs c @ clPast c)))"
    by (intro length_in_concat) (metis image_eqI set_map)
  then show False unfolding j by (simp add: fresh_version_def)
qed

text \<open>A new version of a job is added to the versions there have been.\<close>

lemma find_job_stored:
  "find_job ns name (job_stored j c) =
     (if (jobNamespace j, jobName j) = (ns, name) then map_option (\<lambda>_. j) (find_job ns name c) else find_job ns name c)"
proof (cases "(jobNamespace j, jobName j) = (ns, name)")
  case True
  then have "is_job ns name j" by (simp add: is_job_def)
  then have "find (is_job ns name) (map (\<lambda>i. if is_job ns name i then j else i) js) =
      map_option (\<lambda>_. j) (find (is_job ns name) js)" for js
    by (induction js) simp_all
  then show ?thesis using True by (simp add: find_job_def job_stored_def)
next
  case False
  then have "\<not> is_job ns name j" and "is_job (jobNamespace j) (jobName j) i \<Longrightarrow> \<not> is_job ns name i" for i
    by (auto simp: is_job_def)
  then have "find (is_job ns name) (map (\<lambda>i. if is_job (jobNamespace j) (jobName j) i then j else i) js) =
      find (is_job ns name) js" for js
    by (induction js) simp_all
  then show ?thesis using False by (auto simp: find_job_def job_stored_def)
qed

lemma job_stored_versions:
  assumes "jobResourceVersion j = fresh_version c"
  shows "allVersions (versions_of ns name c) \<subseteq>\<^sub>m allVersions (versions_of ns name (job_stored j c))"
proof -
  let ?P = "\<lambda>rv i. is_job ns name i \<and> jobResourceVersion i = rv"
  let ?mine = "is_job (jobNamespace j) (jobName j)"
  have old: "find (?P rv) (map (\<lambda>i. if ?mine i then j else i) js @ filter ?mine js @ past) = find (?P rv) (js @ past)"
    if "rv \<noteq> jobResourceVersion j" for rv js past
  proof (cases "(jobNamespace j, jobName j) = (ns, name)")
    case True
    then have "find (?P rv) (map (\<lambda>i. if ?mine i then j else i) js) = None" for js
      using that by (auto simp: find_None_iff)
    moreover have "find (?P rv) (filter ?mine js) = find (?P rv) js" for js using True by (induction js) auto
    ultimately show ?thesis by (simp add: find_append)
  next
    case False
    then have "find (?P rv) (map (\<lambda>i. if ?mine i then j else i) js) = find (?P rv) js" for js
      by (induction js) (auto simp: is_job_def)
    moreover have "find (?P rv) (filter ?mine js) = None" for js using False by (auto simp: find_None_iff is_job_def)
    ultimately show ?thesis by (simp add: find_append split: option.split)
  qed
  have "rv \<noteq> jobResourceVersion j" if "find (?P rv) (clJobs c @ clPast c) = Some i" for rv i
    using that fresh_version_new [of i c] assms unfolding find_Some_iff by (metis nth_mem)
  then show ?thesis
    using old [of _ "clJobs c" "clPast c"] by (auto simp: map_le_def versions_of_def job_stored_def)
qed

lemma job_stored_moves:
  assumes "jobResourceVersion j = fresh_version c"
    and "\<And>i. find_job (jobNamespace j) (jobName j) c = Some i \<Longrightarrow> phase_of j = phase_of i"
  shows "moves (versions_of ns name c) (versions_of ns name (job_stored j c))"
  using job_stored_versions [OF assms(1)] assms(2)
  by (auto simp: moves_def stored_versions_of find_job_stored split: if_splits)

lemma status_updated_phase:
  "phase_server ns name (versions_of ns name c) (UpdateStatus job (fst (status_updated job c)))
     (versions_of ns name (snd (status_updated job c)))"
proof (cases "find_job (jobNamespace job) (jobName job) c")
  case (Some j)
  let ?j = "j\<lparr>jobStatus := jobStatus job, jobResourceVersion := fresh_version c\<rparr>"
  have n: "jobNamespace j = jobNamespace job" "jobName j = jobName job" using find_job_names [OF Some] by simp_all
  note mono = job_stored_versions [of ?j c ns name]
  show ?thesis
  proof (cases "jobResourceVersion j = jobResourceVersion job")
    case rv: True
    show ?thesis
    proof (cases "(jobNamespace job, jobName job) = (ns, name)")
      case True
      have version: "storedVersion (versions_of ns name c) = Some (jobResourceVersion job)"
        using Some True rv by (simp add: versions_of_def)
      have "commits (versions_of ns name c) job (versions_of ns name (job_stored ?j c))"
        unfolding commits_def
        by (rule exI [of _ "versions_of ns name c"], rule exI [of _ "versions_of ns name (job_stored ?j c)"])
          (use Some True rv n mono version in \<open>auto simp: stored_versions_of find_job_stored\<close>)
      then show ?thesis using Some True rv by (simp add: status_updated_def phase_server_def Let_def)
    next
      case False
      then have "moves (versions_of ns name c) (versions_of ns name (job_stored ?j c))"
        using mono n by (auto simp: moves_def stored_versions_of find_job_stored)
      then show ?thesis using Some False rv by (auto simp: status_updated_def phase_server_def Let_def)
    qed
  qed (use Some in \<open>simp add: status_updated_def phase_server_def\<close>)
qed (simp add: status_updated_def phase_server_def)

lemma sample_serves_phase: "serves sample_env (versions_of ns name) (phase_server ns name)"
proof -
  have get: "phase_server ns name (versions_of ns name c) (GetJob n m (fst (job_got n m c))) (versions_of ns name (snd (job_got n m c)))"
    for n m c
  proof (cases "find_job n m c")
    case (Some j)
    have "allVersions (versions_of n m c) (jobResourceVersion j) = Some (''uid'', phase_of j)"
      using stored_versions_of [of n m c] Some by (simp add: stored_def versions_of_def)
    then show ?thesis using Some find_job_names [OF Some] by (auto simp: job_got_def phase_server_def)
  qed (simp add: job_got_def phase_server_def)
  have pods: "versions_of ns name (snd (pod_created n pod c)) = versions_of ns name c"
    "versions_of ns name (snd (pod_deleted n m c)) = versions_of ns name c"
    "versions_of ns name (snd (node_patched m patch c)) = versions_of ns name c" for n pod c m patch
    by (simp_all add: pod_created_def pod_deleted_def node_patched_def versions_of_def find_job_def)
  have put: "moves (versions_of ns name c) (versions_of ns name (snd (job_put gv n resource m body c)))" for gv n resource m body c
  proof (cases "find_job n m c")
    case (Some j)
    then show ?thesis
      using find_job_names [OF Some] by (auto simp: job_put_def intro!: job_stored_moves)
  qed (simp add: job_put_def)
  show ?thesis
    unfolding serves_def
    by (simp add: sample_env_calls get status_updated_phase)
      (simp add: phase_server_def pods put pod_got_def pods_listed_def)
qed

section \<open>The pod of a job\<close>

definition has_live_pod :: "string \<Rightarrow> string \<Rightarrow> cluster \<Rightarrow> bool" where
  "has_live_pod ns name c = list_ex (is_pod ns name) (clPods c)"

lemma has_live_pod_find: "has_live_pod ns name c \<longleftrightarrow> find_pod ns name c \<noteq> None"
  by (auto simp: has_live_pod_def find_pod_def find_None_iff list_ex_iff)

lemma sample_serves_pod: "serves sample_env (has_live_pod ns name) (pod_server sample_env ns name)"
proof -
  have 1: "has_live_pod ns name (snd (pod_got n m c)) = has_live_pod ns name c"
    "has_live_pod ns name (snd (job_got n m c)) = has_live_pod ns name c"
    "has_live_pod ns name (snd (node_patched m patch c)) = has_live_pod ns name c"
    "has_live_pod ns name (snd (status_updated job c)) = has_live_pod ns name c"
    "has_live_pod ns name (snd (job_put gv n r m job c)) = has_live_pod ns name c" for n m c patch job gv r
    by (auto simp: pod_got_def job_got_def node_patched_def status_updated_def job_put_def job_stored_def has_live_pod_def Let_def
        split: option.split)
  have 2: "pod_server sample_env ns name (has_live_pod ns name c) (CreatePodEv n pod (fst (pod_created n pod c)))
      (has_live_pod ns name (snd (pod_created n pod c)))" for n pod c
    by (auto simp: pod_server_def pod_created_def has_live_pod_def is_pod_def)
  have 3: "pod_server sample_env ns name (has_live_pod ns name c) (DeletePodEv n m (fst (pod_deleted n m c)))
      (has_live_pod ns name (snd (pod_deleted n m c)))" for n m c
    by (auto simp: pod_server_def pod_deleted_def has_live_pod_find)
      (auto simp: find_pod_def find_None_iff find_Some_iff is_pod_def)
  have 4: "pod_server sample_env ns name (has_live_pod ns name c) (ListPods n sel (fst (pods_listed n sel c)))
      (has_live_pod ns name (snd (pods_listed n sel c)))" for n sel c
    by (auto simp: pod_server_def pods_listed_def has_live_pod_def list_ex_iff is_pod_def) blast
  show ?thesis
    unfolding serves_def by (simp add: sample_env_calls 2 3 4) (simp add: pod_server_def 1)
qed

end
