(* ===== verification/Placement.thy ===== *)
theory Placement
  imports Sample_Laws
begin

text \<open>
  Two reconciles in a row: the labels the first one leaves on a node are what the second one places a pod
  by. The node is kept by an abstract server, like the phase and the pod of a job.
\<close>

section \<open>A reconcile that looks for a node\<close>

text \<open>
  The job is new or Pending and valid, its pod is not found, and the reconcile ends without an error.
\<close>

definition searches ::
    "('w, 'e) kube_env \<Rightarrow> bool list \<Rightarrow> string \<Rightarrow> string \<Rightarrow> ('w, 'e event) sys \<Rightarrow> HPCJob \<Rightarrow> bool" where
  "searches E sched ns name s job \<longleftrightarrow>
     fst (srvGetJob E ns name (world s)) = Inr job \<and> phase_of job \<in> {'''', Pending} \<and> validateJobSpec job \<and>
     (\<exists>ns' name' e. GetPodEv ns' name' (Inl e) \<in> set (emitted (Reconcile E sched ns name) s) \<and> IsNotFound E e) \<and>
     snd (result (Reconcile E sched ns name) s) = None"

lemma searches_run:
  assumes "searches E sched ns name s job"
  obtains e items vec healthy es1 es2 where
    "emitted (Reconcile E sched ns name) s =
       GetJob ns name (Inr job) # GetPodEv (jobNamespace job) (jobName job) (Inl e) # es1 @ es2"
    and "discovered es1 items vec healthy"
    and "placed_run E (effective_job job) healthy (result (Reconcile E sched ns name) s) es2"
proof -
  obtain ns' name' e where h: "fst (srvGetJob E ns name (world s)) = Inr job" "phase_of job \<in> {'''', Pending}"
    "validateJobSpec job" "GetPodEv ns' name' (Inl e) \<in> set (emitted (Reconcile E sched ns name) s)" "IsNotFound E e"
    "snd (result (Reconcile E sched ns name) s) = None"
    using assms unfolding searches_def by blast
  show thesis by (rule Reconcile_searched [OF h that])
qed

section \<open>A node in the API server\<close>

text \<open>
  Between two looks at a node anyone may change it, as long as its name, its count of GPUs, its allocatable
  GPUs and the label of the density stay: these are what the placement reads.
\<close>

definition steady :: "Node \<Rightarrow> Node \<Rightarrow> bool" where
  "steady n n' \<longleftrightarrow> nodeName n' = nodeName n \<and> GetNodeAllocatableGPUs n' = GetNodeAllocatableGPUs n \<and>
     (\<forall>key \<in> {GPU_NODE_LABEL_INDICATOR, HIGH_DENSITY_AFFINITY_LABEL}. node_label n' key = node_label n key)"

text \<open>
  What the API server promises about the node \<open>nm\<close>: it stays; an accepted patch merges its labels
  (\<open>patched\<close>), a patch that was answered with an error may have been applied or not; the rest is steady.
\<close>

definition node_server :: "string \<Rightarrow> Node option \<Rightarrow> 'e event \<Rightarrow> Node option \<Rightarrow> bool" where
  "node_server nm a e b \<longleftrightarrow>
     (\<forall>n. a = Some n \<longrightarrow> (\<exists>n'. b = Some n' \<and>
        (steady n n' \<and> (\<forall>patch. e \<noteq> PatchNode nm patch None) \<or>
         (\<exists>patch answer m. e = PatchNode nm patch answer \<and> patched patch n m \<and> steady m n'))))"

text \<open>The listings of a log show the node as it is stored.\<close>

definition shows_node :: "Node \<Rightarrow> 'e event list \<Rightarrow> bool" where
  "shows_node n es \<longleftrightarrow> (\<forall>sel items. ListNodes sel (Inr items) \<in> set es \<longrightarrow>
     (\<exists>n' \<in> set items. steady n n') \<and> (\<forall>n' \<in> set items. nodeName n' = nodeName n \<longrightarrow> steady n n'))"

definition reads_healthy :: "string \<Rightarrow> 'e event list \<Rightarrow> bool" where
  "reads_healthy nm es \<longleftrightarrow> (\<forall>q vec. Query q (Inr (Vector vec)) \<in> set es \<longrightarrow> exports_metrics vec nm \<and> in_ranges vec nm)"

text \<open>The pods of the node are listed, and the patches of the node accepted.\<close>

definition restorable :: "string \<Rightarrow> Pod list \<Rightarrow> 'e event list \<Rightarrow> bool" where
  "restorable nm pods es \<longleftrightarrow>
     (\<forall>r. ListPods '''' (''spec.nodeName='' @ nm) r \<in> set es \<longrightarrow> r = Inr pods) \<and>
     (\<forall>patch r. PatchNode nm patch r \<in> set es \<longrightarrow> r = None)"

lemma steady_refl [simp]: "steady n n"
  and steady_trans: "steady n n' \<Longrightarrow> steady n' n'' \<Longrightarrow> steady n n''"
  by (simp_all add: steady_def)

lemma steady_gpu_node: "steady n n' \<Longrightarrow> is_gpu_node n' = is_gpu_node n"
  by (simp add: steady_def is_gpu_node_def)

text \<open>What a reconcile leaves of a node, but for the label of the density.\<close>

definition like_node :: "Node \<Rightarrow> Node \<Rightarrow> bool" where
  "like_node n n' \<longleftrightarrow> nodeName n' = nodeName n \<and> is_gpu_node n' = is_gpu_node n \<and>
     GetNodeAllocatableGPUs n' = GetNodeAllocatableGPUs n"

lemma like_node_refl [simp]: "like_node n n"
  and like_node_trans: "like_node n n' \<Longrightarrow> like_node n' n'' \<Longrightarrow> like_node n n''"
  by (simp_all add: like_node_def)

lemma steady_like: "steady n n' \<Longrightarrow> like_node n n'"
  by (simp add: like_node_def steady_def is_gpu_node_def)

lemma steady_density: "steady n n' \<Longrightarrow> node_label n' HIGH_DENSITY_AFFINITY_LABEL = node_label n HIGH_DENSITY_AFFINITY_LABEL"
  by (simp add: steady_def)

lemma patched_density:
  assumes "patched patch n m" and "patchLabels patch = [(HIGH_DENSITY_AFFINITY_LABEL, v)]"
  shows "node_label m HIGH_DENSITY_AFFINITY_LABEL = Some v" and "like_node n m"
proof -
  have label: "node_label m key = (if key = HIGH_DENSITY_AFFINITY_LABEL then Some v else node_label n key)" for key
    using assms by (simp add: patched_def)
  then show "node_label m HIGH_DENSITY_AFFINITY_LABEL = Some v" by simp
  have "node_label m GPU_NODE_LABEL_INDICATOR = node_label n GPU_NODE_LABEL_INDICATOR"
    using label by (simp add: HIGH_DENSITY_AFFINITY_LABEL_def GPU_NODE_LABEL_INDICATOR_def)
  then show "like_node n m" using assms(1) by (simp add: like_node_def is_gpu_node_def patched_def)
qed

lemma restoration_log_covers:
  assumes "restoration_log nodes es" and "n \<in> set nodes"
    and "\<And>r. ListPods '''' (''spec.nodeName='' @ nodeName n) r \<in> set es \<Longrightarrow> r = Inr pods"
  shows "\<exists>patch r. PatchNode (nodeName n) patch r \<in> set es"
  using assms
proof (induction nodes es rule: restoration_log.induct)
  case (2 node nodes ns sel err es)
  then show ?case by (cases "n = node") fastforce+
next
  case (3 node nodes ns sel pods' name patch r es)
  then show ?case by (cases "n = node") fastforce+
qed simp_all

text \<open>A step of the server whose patches of the node, if any, only write the density \<open>v\<close>.\<close>

lemma node_server_step:
  assumes "node_server nm (Some n) e b"
    and "\<And>patch r. e = PatchNode nm patch r \<Longrightarrow> patchLabels patch = [(HIGH_DENSITY_AFFINITY_LABEL, v)]"
  obtains n' where "b = Some n'" and "like_node n n'"
    and "node_label n HIGH_DENSITY_AFFINITY_LABEL = Some v \<Longrightarrow> node_label n' HIGH_DENSITY_AFFINITY_LABEL = Some v"
    and "\<And>patch. e = PatchNode nm patch None \<Longrightarrow> node_label n' HIGH_DENSITY_AFFINITY_LABEL = Some v"
proof -
  obtain n' where b: "b = Some n'" and s: "steady n n' \<and> (\<forall>patch. e \<noteq> PatchNode nm patch None) \<or>
      (\<exists>patch answer m. e = PatchNode nm patch answer \<and> patched patch n m \<and> steady m n')"
    using assms(1) by (auto simp: node_server_def)
  from s show thesis
  proof (elim disjE exE conjE)
    assume "steady n n'" and "\<forall>patch. e \<noteq> PatchNode nm patch None"
    then show thesis using that b steady_like steady_density by metis
  next
    fix patch answer m
    assume "e = PatchNode nm patch answer" and m: "patched patch n m" "steady m n'"
    then show thesis
      using that b patched_density [OF m(1) assms(2)] like_node_trans [OF _ steady_like [OF m(2)]] steady_density [OF m(2)]
      by metis
  qed
qed

lemma node_server_path:
  assumes "path (node_server nm) (Some n) es b"
    and "\<And>patch r. PatchNode nm patch r \<in> set es \<Longrightarrow> patchLabels patch = [(HIGH_DENSITY_AFFINITY_LABEL, v)]"
  shows "\<exists>n'. b = Some n' \<and> like_node n n' \<and>
    (node_label n HIGH_DENSITY_AFFINITY_LABEL = Some v \<or> (\<exists>patch. PatchNode nm patch None \<in> set es) \<longrightarrow>
     node_label n' HIGH_DENSITY_AFFINITY_LABEL = Some v)"
  using assms
proof (induction es arbitrary: n)
  case (Cons e es)
  then obtain c where c: "node_server nm (Some n) e c" "path (node_server nm) c es b" by auto
  obtain n1 where n1: "c = Some n1" "like_node n n1"
    "node_label n HIGH_DENSITY_AFFINITY_LABEL = Some v \<Longrightarrow> node_label n1 HIGH_DENSITY_AFFINITY_LABEL = Some v"
    "\<And>patch. e = PatchNode nm patch None \<Longrightarrow> node_label n1 HIGH_DENSITY_AFFINITY_LABEL = Some v"
    using node_server_step [OF c(1), of v] Cons.prems(2) by (metis list.set_intros(1))
  obtain n2 where "b = Some n2" "like_node n1 n2"
    "node_label n1 HIGH_DENSITY_AFFINITY_LABEL = Some v \<or> (\<exists>patch. PatchNode nm patch None \<in> set es) \<longrightarrow>
     node_label n2 HIGH_DENSITY_AFFINITY_LABEL = Some v"
    using Cons.IH [OF c(2) [unfolded n1(1)]] Cons.prems(2) by auto
  then show ?case using n1(2-4) like_node_trans by auto
qed simp

text \<open>A discovery that reads a node as healthy leaves it with the density counted on it.\<close>

lemma discovered_density:
  assumes "discovered es items vec healthy" and "n \<in> set items"
    and "is_gpu_node n" and "exports_metrics vec (nodeName n)" and "in_ranges vec (nodeName n)"
    and "restorable (nodeName n) pods es"
  shows "(\<exists>patch. PatchNode (nodeName n) patch None \<in> set es) \<and>
    (\<forall>patch r. PatchNode (nodeName n) patch r \<in> set es \<longrightarrow>
       patchLabels patch = [(HIGH_DENSITY_AFFINITY_LABEL, Itoa (count_allocated 0 pods))])"
proof -
  let ?u = "nodes_with False vec items"
  obtain es1 es2 where es: "es = es1 @ es2" "discovery es1 items vec"
    and rest: "restoration_log healthy (filter (\<lambda>e. \<not> patches_one_of ?u e) es2)"
    and healthy: "healthy = nodes_with True vec items"
    using assms(1) by (auto simp: discovered_def Let_def)
  have n: "n \<in> set healthy" using assms(2-5) by (simp add: healthy nodes_with_def)
  have "nodeName n \<notin> nodeName ` set ?u" using assms(5) by (auto simp: nodes_with_def)
  then have mine: "\<not> patches_one_of ?u (PatchNode (nodeName n) patch r)" for patch r by (simp add: patches_one_of_def)
  have late: "PatchNode name patch r \<in> set es2" if "PatchNode name patch r \<in> set es" for name patch r
    using that es by (auto simp: discovery_def)
  have pods: "r = Inr pods" if "ListPods '''' (''spec.nodeName='' @ nodeName n) r \<in> set es2" for r
    using that assms(6) es(1) unfolding restorable_def by auto
  obtain patch r where "PatchNode (nodeName n) patch r \<in> set es2"
    using restoration_log_covers [OF rest n, of pods] pods by auto
  moreover from this have "r = None" using assms(6) es(1) unfolding restorable_def by auto
  moreover have "patchLabels patch = [(HIGH_DENSITY_AFFINITY_LABEL, Itoa (count_allocated 0 pods))]"
    if "PatchNode (nodeName n) patch r \<in> set es2" for patch r
  proof -
    have "PatchNode (nodeName n) patch r \<in> set (filter (\<lambda>e. \<not> patches_one_of ?u e) es2)" using that mine by simp
    from restoration_log_patch [OF rest this] obtain node pods' where node: "nodeName n = nodeName node"
      "ListPods '''' (''spec.nodeName='' @ nodeName node) (Inr pods') \<in> set (filter (\<lambda>e. \<not> patches_one_of ?u e) es2)"
      "patch = restoration_patch node \<lparr>Allocated = count_allocated 0 pods', Allocatable = GetNodeAllocatableGPUs node\<rparr>"
      by blast
    then have "pods' = pods" using pods [of "Inr pods'"] by simp
    then show ?thesis using node(3) by (simp add: restoration_patch_def Let_def)
  qed
  ultimately show ?thesis using late es(1) by (metis Un_iff set_append)
qed

section \<open>The second reconcile\<close>

lemma searches_reads:
  assumes "emitted (Reconcile E sched ns name) s =
      GetJob ns name (Inr job) # GetPodEv (jobNamespace job) (jobName job) (Inl e) # es1 @ es2"
    and "discovered es1 items vec healthy" and "reads_healthy (nodeName n) (emitted (Reconcile E sched ns name) s)"
    and "shows_node n (emitted (Reconcile E sched ns name) s)"
  obtains n' where "n' \<in> set items" and "steady n n'"
    and "exports_metrics vec (nodeName n')" and "in_ranges vec (nodeName n')"
proof -
  obtain sel where "ListNodes sel (Inr items) \<in> set es1" "Query GpuClusterHealthScanPrmQuery (Inr (Vector vec)) \<in> set es1"
    using discovered_reads [OF assms(2)] by blast
  then have m: "\<exists>n' \<in> set items. steady n n'" and "exports_metrics vec (nodeName n)" "in_ranges vec (nodeName n)"
    using assms(3,4) unfolding assms(1) reads_healthy_def shows_node_def by auto
  from m obtain n' where "n' \<in> set items" "steady n n'" by blast
  moreover from this(2) have "nodeName n' = nodeName n" by (simp add: steady_def)
  ultimately show thesis using that \<open>exports_metrics vec (nodeName n)\<close> \<open>in_ranges vec (nodeName n)\<close> by simp
qed

lemma placed_run_no_patch: "placed_run E job healthy out es \<Longrightarrow> PatchNode nm patch r \<notin> set es"
  by (auto simp: placed_run_def split: prod.splits if_splits)

lemma reconcile_leaves_density:
  assumes "serves E view (node_server (nodeName n))" and "searches E sched ns name s job"
    and "view (world s) = Some n" and "is_gpu_node n"
    and "shows_node n (emitted (Reconcile E sched ns name) s)"
    and "reads_healthy (nodeName n) (emitted (Reconcile E sched ns name) s)"
    and "restorable (nodeName n) pods (emitted (Reconcile E sched ns name) s)"
  shows "\<exists>n'. view (world (final (Reconcile E sched ns name) s)) = Some n' \<and> like_node n n' \<and>
    node_label n' HIGH_DENSITY_AFFINITY_LABEL = Some (Itoa (count_allocated 0 pods))"
proof -
  let ?L = "emitted (Reconcile E sched ns name) s"
  obtain e items vec healthy es1 es2 where
    L: "?L = GetJob ns name (Inr job) # GetPodEv (jobNamespace job) (jobName job) (Inl e) # es1 @ es2"
    and d: "discovered es1 items vec healthy"
    and p: "placed_run E (effective_job job) healthy (result (Reconcile E sched ns name) s) es2"
    using searches_run [OF assms(2)] .
  obtain m where m: "m \<in> set items" "steady n m" "exports_metrics vec (nodeName m)" "in_ranges vec (nodeName m)"
    by (rule searches_reads [OF L d assms(6,5)])
  then have name: "nodeName m = nodeName n" "is_gpu_node m" using assms(4) steady_like [OF m(2)] by (simp_all add: like_node_def)
  have "restorable (nodeName m) pods es1" using assms(7) unfolding restorable_def L name by simp
  from discovered_density [OF d m(1) name(2) m(3,4) this, unfolded name(1)]
  have patched: "\<exists>patch. PatchNode (nodeName n) patch None \<in> set ?L"
    and density: "\<And>patch q. PatchNode (nodeName n) patch q \<in> set ?L \<Longrightarrow>
      patchLabels patch = [(HIGH_DENSITY_AFFINITY_LABEL, Itoa (count_allocated 0 pods))]"
    using placed_run_no_patch [OF p] by (auto simp: L)
  have "path (node_server (nodeName n)) (view (world s)) ?L (view (world (final (Reconcile E sched ns name) s)))"
    by (rule simulatesD [OF simulates_Reconcile [OF assms(1)]])
  from node_server_path [OF this [unfolded assms(3)], of "Itoa (count_allocated 0 pods)"] density
  show ?thesis using patched by blast
qed

lemma searches_places:
  assumes "searches E sched ns name s job" and "is_gpu_node n"
    and "shows_node n (emitted (Reconcile E sched ns name) s)"
    and "reads_healthy (nodeName n) (emitted (Reconcile E sched ns name) s)"
    and "node_label n HIGH_DENSITY_AFFINITY_LABEL = Some (Itoa d)"
    and "sint (int64_of_int32 (GPUCount (jobSpec job))) \<le> sint (GetNodeAllocatableGPUs n - d)"
  shows "\<exists>a answer. CreatePodEv (jobNamespace job) (hpc_pod E job a) answer \<in> set (emitted (Reconcile E sched ns name) s) \<and>
    sint a \<le> sint d"
proof -
  obtain e items vec healthy es1 es2 where
    L: "emitted (Reconcile E sched ns name) s =
      GetJob ns name (Inr job) # GetPodEv (jobNamespace job) (jobName job) (Inl e) # es1 @ es2"
    and d: "discovered es1 items vec healthy"
    and p: "placed_run E (effective_job job) healthy (result (Reconcile E sched ns name) s) es2"
    using searches_run [OF assms(1)] .
  obtain m where m: "m \<in> set items" "steady n m" "exports_metrics vec (nodeName m)" "in_ranges vec (nodeName m)"
    by (rule searches_reads [OF L d assms(4,3)])
  have "can_host vec (effective_job job) m d"
    using assms(2,5,6) m(3,4) steady_like [OF m(2)] steady_density [OF m(2)]
    by (auto simp: can_host_def has_room_def node_label_def like_node_def split: option.splits)
  then have "\<exists>a answer. sint a \<le> sint d \<and>
      es2 = [CreatePodEv (jobNamespace (effective_job job)) (hpc_pod E (effective_job job) a) answer]"
    using placed_run_created [OF d p] m(1) by (auto split: if_splits)
  then show ?thesis unfolding L by fastforce
qed

text \<open>Without the label of the density no node has room.\<close>

lemma unlabelled_creates_nothing:
  assumes "searches E sched ns name s job"
    and "\<And>sel items n. ListNodes sel (Inr items) \<in> set (emitted (Reconcile E sched ns name) s) \<Longrightarrow> n \<in> set items \<Longrightarrow>
      node_label n HIGH_DENSITY_AFFINITY_LABEL = None"
  shows "CreatePodEv ns' pod answer \<notin> set (emitted (Reconcile E sched ns name) s)"
proof -
  obtain e items vec healthy es1 es2 where
    L: "emitted (Reconcile E sched ns name) s =
      GetJob ns name (Inr job) # GetPodEv (jobNamespace job) (jobName job) (Inl e) # es1 @ es2"
    and d: "discovered es1 items vec healthy"
    and p: "placed_run E (effective_job job) healthy (result (Reconcile E sched ns name) s) es2"
    using searches_run [OF assms(1)] .
  obtain sel where "ListNodes sel (Inr items) \<in> set es1" using discovered_reads [OF d] by blast
  then have none: "node_label n HIGH_DENSITY_AFFINITY_LABEL = None" if "n \<in> set items" for n
    using assms(2) that unfolding L by auto
  have "\<not> can_host vec (effective_job job) n d" if "n \<in> set items" for n d
    using none [OF that] is_gpu_node_labelled [of n] by (auto simp: can_host_def has_room_def node_label_def)
  then have "\<not> (\<exists>n \<in> set items. \<exists>d. can_host vec (effective_job job) n d)" by blast
  then have "es2 = []" using placed_run_created [OF d p] by simp
  moreover have "CreatePodEv ns' pod answer \<notin> set es1"
    using discovered_node_events [OF d, of "CreatePodEv ns' pod answer"] by (auto simp: node_event_def)
  ultimately show ?thesis unfolding L by simp
qed

text \<open>
C3: A fresh cluster needs two reconciles, and two are enough. Take a first reconcile that looks for a node,
and a healthy GPU node, with any labels. (1) If no node that the first one lists has the label of the density,
it creates no pod. (2) It leaves the node with the GPUs it has counted on it as its density. (3) A later
reconcile, of the same job or another, that looks for a node creates its pod if the job fits beside the
counted GPUs, and asks for a density that is no higher. This needs that the listings show the node as it is
stored, that the patches of the node are accepted in the first reconcile, and that nobody else changes the
node's count of GPUs, its density or its allocatable GPUs; anything else of it may change at any time.
\<close>

theorem second_reconcile_places:
  assumes "serves E view (node_server (nodeName n))" and "view (world s) = Some n" and "is_gpu_node n"
    and "searches E sched ns name s job" and "final (Reconcile E sched ns name) s = s'"
    and "shows_node n (emitted (Reconcile E sched ns name) s)"
    and "reads_healthy (nodeName n) (emitted (Reconcile E sched ns name) s)"
    and "restorable (nodeName n) pods (emitted (Reconcile E sched ns name) s)"
  shows "((\<forall>sel items. ListNodes sel (Inr items) \<in> set (emitted (Reconcile E sched ns name) s) \<longrightarrow>
        (\<forall>m \<in> set items. node_label m HIGH_DENSITY_AFFINITY_LABEL = None)) \<longrightarrow>
      (\<forall>ns' pod answer. CreatePodEv ns' pod answer \<notin> set (emitted (Reconcile E sched ns name) s))) \<and>
    (\<exists>n'. view (world s') = Some n' \<and> nodeName n' = nodeName n \<and>
      node_label n' HIGH_DENSITY_AFFINITY_LABEL = Some (Itoa (count_allocated 0 pods)) \<and>
      (\<forall>sched' ns' name' s'' job' n''.
         view (world s'') = Some n'' \<longrightarrow> steady n' n'' \<longrightarrow> searches E sched' ns' name' s'' job' \<longrightarrow>
         shows_node n'' (emitted (Reconcile E sched' ns' name') s'') \<longrightarrow>
         reads_healthy (nodeName n) (emitted (Reconcile E sched' ns' name') s'') \<longrightarrow>
         sint (int64_of_int32 (GPUCount (jobSpec job'))) \<le> sint (GetNodeAllocatableGPUs n - count_allocated 0 pods) \<longrightarrow>
         (\<exists>d answer. CreatePodEv (jobNamespace job') (hpc_pod E job' d) answer
            \<in> set (emitted (Reconcile E sched' ns' name') s'') \<and> sint d \<le> sint (count_allocated 0 pods))))"
proof (intro conjI impI allI)
  show "CreatePodEv ns' pod answer \<notin> set (emitted (Reconcile E sched ns name) s)"
    if "\<forall>sel items. ListNodes sel (Inr items) \<in> set (emitted (Reconcile E sched ns name) s) \<longrightarrow>
        (\<forall>m \<in> set items. node_label m HIGH_DENSITY_AFFINITY_LABEL = None)" for ns' pod answer
    by (rule unlabelled_creates_nothing [OF assms(4)]) (use that in blast)
  obtain n' where n': "view (world s') = Some n'" "like_node n n'"
    "node_label n' HIGH_DENSITY_AFFINITY_LABEL = Some (Itoa (count_allocated 0 pods))"
    using reconcile_leaves_density [OF assms(1,4,2,3,6-8)] assms(5) by blast
  have "\<exists>d answer. CreatePodEv (jobNamespace job') (hpc_pod E job' d) answer
      \<in> set (emitted (Reconcile E sched' ns' name') s'') \<and> sint d \<le> sint (count_allocated 0 pods)"
    if "steady n' n''" and "searches E sched' ns' name' s'' job'"
      and "shows_node n'' (emitted (Reconcile E sched' ns' name') s'')"
      and "reads_healthy (nodeName n) (emitted (Reconcile E sched' ns' name') s'')"
      and "sint (int64_of_int32 (GPUCount (jobSpec job'))) \<le> sint (GetNodeAllocatableGPUs n - count_allocated 0 pods)"
    for sched' ns' name' s'' job' n''
  proof -
    have like: "like_node n n''" by (rule like_node_trans [OF n'(2) steady_like [OF that(1)]])
    show ?thesis
      by (rule searches_places [OF that(2) _ that(3)])
        (use like that(4,5) assms(3) n'(3) steady_density [OF that(1)] in \<open>simp_all add: like_node_def\<close>)
  qed
  then show "\<exists>n'. view (world s') = Some n' \<and> nodeName n' = nodeName n \<and>
      node_label n' HIGH_DENSITY_AFFINITY_LABEL = Some (Itoa (count_allocated 0 pods)) \<and>
      (\<forall>sched' ns' name' s'' job' n''.
         view (world s'') = Some n'' \<longrightarrow> steady n' n'' \<longrightarrow> searches E sched' ns' name' s'' job' \<longrightarrow>
         shows_node n'' (emitted (Reconcile E sched' ns' name') s'') \<longrightarrow>
         reads_healthy (nodeName n) (emitted (Reconcile E sched' ns' name') s'') \<longrightarrow>
         sint (int64_of_int32 (GPUCount (jobSpec job'))) \<le> sint (GetNodeAllocatableGPUs n - count_allocated 0 pods) \<longrightarrow>
         (\<exists>d answer. CreatePodEv (jobNamespace job') (hpc_pod E job' d) answer
            \<in> set (emitted (Reconcile E sched' ns' name') s'') \<and> sint d \<le> sint (count_allocated 0 pods)))"
    using n' by (intro exI [of _ n']) (auto simp: like_node_def)
qed

text \<open>A cluster whose only GPU node, with two of its eight GPUs in use, has never been looked at.\<close>

definition stored_node :: "string \<Rightarrow> cluster \<Rightarrow> Node option" where
  "stored_node nm c = find (\<lambda>n. nodeName n = nm) (clNodes c)"

lemma nodeName_apply [simp]: "nodeName (patch_applied patch n) = nodeName n"
  by (simp add: patch_applied_def)

lemma go_get_foldr_put:
  "go_get (foldr (\<lambda>(k, v). go_put k v) ps m) key = (case go_get ps key of Some v \<Rightarrow> Some v | None \<Rightarrow> go_get m key)"
  by (induction ps) (auto split: option.split)

lemma patched_applied: "patched patch n (patch_applied patch n)"
  by (simp add: patched_def patch_applied_def node_label_def GetNodeAllocatableGPUs_def go_get_foldr_put split: option.split)

lemma find_patched:
  "find (\<lambda>n. nodeName n = nm) (map (\<lambda>n. if nodeName n = name then patch_applied patch n else n) ns) =
     (if name = nm then map_option (patch_applied patch) (find (\<lambda>n. nodeName n = nm) ns) else find (\<lambda>n. nodeName n = nm) ns)"
  by (induction ns) auto

lemma sample_serves_node: "serves sample_env (stored_node nm) (node_server nm)"
proof -
  have 1: "stored_node nm (snd (pod_got n m c)) = stored_node nm c" "stored_node nm (snd (job_got n m c)) = stored_node nm c"
    "stored_node nm (snd (status_updated job c)) = stored_node nm c" "stored_node nm (snd (pod_created n pod c)) = stored_node nm c"
    "stored_node nm (snd (job_put gv n r m job c)) = stored_node nm c"
    "stored_node nm (snd (pod_deleted n m c)) = stored_node nm c" "stored_node nm (snd (pods_listed n m c)) = stored_node nm c"
    for n m c job pod gv r
    by (auto simp: pod_got_def job_got_def status_updated_def job_put_def job_stored_def pod_created_def pod_deleted_def pods_listed_def stored_node_def
        Let_def split: option.split)
  have 2: "node_server nm (stored_node nm c) (PatchNode m patch (fst (node_patched m patch c))) (stored_node nm (snd (node_patched m patch c)))"
    for m patch c
  proof -
    have "m \<in> nodeName ` set (clNodes c)" if "find (\<lambda>n. nodeName n = m) (clNodes c) = Some n" for n
      using that by (auto simp: find_Some_iff)
    then show ?thesis
      using patched_applied by (fastforce simp: node_server_def node_patched_def stored_node_def find_patched)
  qed
  show ?thesis
    unfolding serves_def by (simp add: sample_env_calls 2) (auto simp: node_server_def 1 split: option.split)
qed

definition fresh_node :: Node where
  "fresh_node = (sample_node ''n1'' '''')\<lparr>nodeLabels := Some [(GPU_NODE_LABEL_INDICATOR, ''8'')]\<rparr>"

definition fresh_cluster :: "(cluster, string event) sys" where
  "fresh_cluster = \<lparr>world = \<lparr>clJobs = [sample_job ''train'' '''' 2], clPast = [], clPods = [(''n1'', sample_pod ''other'' ''Running'')],
     clNodes = [fresh_node], clSamples = [sample_temp ''n1'' 60]\<rparr>, log = []\<rparr>"

definition fresh_log :: "Node \<Rightarrow> string event list" where
  "fresh_log n =
     [GetJob ''lab'' ''train'' (Inr (sample_job ''train'' '''' 2)), GetPodEv ''lab'' ''train'' (Inl ''notfound''),
      ListNodes GPU_NODE_LABEL_INDICATOR (Inr [n]), Query GpuClusterHealthScanPrmQuery (Inr (Vector [sample_temp ''n1'' 60])),
      ListPods '''' ''spec.nodeName=n1'' (Inr [sample_pod ''other'' ''Running'']),
      PatchNode ''n1'' (restoration_patch n \<lparr>Allocated = 2, Allocatable = 8\<rparr>) None]"

lemma fresh_first:
  "run_state (Reconcile sample_env [] ''lab'' ''train'') fresh_cluster =
     ((in_5_minutes, None),
      \<lparr>world = (world fresh_cluster)\<lparr>clNodes := [patch_applied (restoration_patch fresh_node \<lparr>Allocated = 2, Allocatable = 8\<rparr>) fresh_node]\<rparr>,
       log = fresh_log fresh_node\<rparr>)"
  by code_simp

definition seen_node :: Node where
  "seen_node = patch_applied (restoration_patch fresh_node \<lparr>Allocated = 2, Allocatable = 8\<rparr>) fresh_node"

definition seen_cluster :: "(cluster, string event) sys" where
  "seen_cluster = final (Reconcile sample_env [] ''lab'' ''train'') fresh_cluster"

lemma fresh_second:
  "case run_state (Reconcile sample_env [] ''lab'' ''train'') seen_cluster of (out, s') \<Rightarrow>
     out = (in_5_minutes, None) \<and>
     sys.log s' = fresh_log fresh_node @ fresh_log seen_node @
       [CreatePodEv ''lab'' (hpc_pod sample_env (sample_job ''train'' '''' 2) 2) None]"
  by code_simp

lemma fresh_logs:
  "emitted (Reconcile sample_env [] ''lab'' ''train'') fresh_cluster = fresh_log fresh_node"
  "emitted (Reconcile sample_env [] ''lab'' ''train'') seen_cluster =
     fresh_log seen_node @ [CreatePodEv ''lab'' (hpc_pod sample_env (sample_job ''train'' '''' 2) 2) None]"
  "snd (result (Reconcile sample_env [] ''lab'' ''train'') fresh_cluster) = None"
  "snd (result (Reconcile sample_env [] ''lab'' ''train'') seen_cluster) = None"
proof -
  have log: "sys.log fresh_cluster = []" "sys.log seen_cluster = fresh_log fresh_node"
    by (simp add: fresh_cluster_def, unfold seen_cluster_def final_def fresh_first, simp)
  show "emitted (Reconcile sample_env [] ''lab'' ''train'') fresh_cluster = fresh_log fresh_node"
    "snd (result (Reconcile sample_env [] ''lab'' ''train'') fresh_cluster) = None"
    by (simp_all add: emitted_def log final_def result_def fresh_first)
  show "emitted (Reconcile sample_env [] ''lab'' ''train'') seen_cluster =
      fresh_log seen_node @ [CreatePodEv ''lab'' (hpc_pod sample_env (sample_job ''train'' '''' 2) 2) None]"
    "snd (result (Reconcile sample_env [] ''lab'' ''train'') seen_cluster) = None"
    using fresh_second by (simp_all add: emitted_def log final_def result_def split: prod.splits)
qed

lemma fresh_healthy:
  "exports_metrics [sample_temp ''n1'' 60] ''n1''" "in_ranges [sample_temp ''n1'' 60] ''n1''"
proof -
  have "nodes_with True [sample_temp ''n1'' 60] [fresh_node] \<noteq> []"
  proof -
    have "split_nodes (build_scan [] [sample_temp ''n1'' 60]) [] [] [fresh_node] = ([fresh_node], [])" by code_simp
    moreover have "is_gpu_node fresh_node" by code_simp
    ultimately show ?thesis using split_valid_nodes [of "[sample_temp ''n1'' 60]" "[fresh_node]"] by simp
  qed
  then show "exports_metrics [sample_temp ''n1'' 60] ''n1''" "in_ranges [sample_temp ''n1'' 60] ''n1''"
    by (auto simp: nodes_with_def fresh_node_def sample_node_def split: if_splits)
qed

theorem second_reconcile_places_witness:
  "(\<forall>ns pod answer. CreatePodEv ns pod answer \<notin> set (emitted (Reconcile sample_env [] ''lab'' ''train'') fresh_cluster)) \<and>
   (\<exists>d answer. CreatePodEv ''lab'' (hpc_pod sample_env (sample_job ''train'' '''' 2) d) answer
      \<in> set (emitted (Reconcile sample_env [] ''lab'' ''train'') seen_cluster) \<and> sint d \<le> 2)"
proof -
  let ?job = "sample_job ''train'' '''' 2" and ?pods = "[sample_pod ''other'' ''Running'']"
  have name: "nodeName fresh_node = ''n1''" "nodeName seen_node = ''n1''"
    by (simp_all add: seen_node_def fresh_node_def sample_node_def)
  have facts: "is_gpu_node fresh_node" "validateJobSpec ?job" "IsNotFound sample_env ''notfound''" "phase_of ?job \<in> {'''', Pending}"
    "fst (srvGetJob sample_env ''lab'' ''train'' (world fresh_cluster)) = Inr ?job"
    "fst (srvGetJob sample_env ''lab'' ''train'' (world seen_cluster)) = Inr ?job"
    "stored_node ''n1'' (world fresh_cluster) = Some fresh_node" "stored_node ''n1'' (world seen_cluster) = Some seen_node"
    "node_label fresh_node HIGH_DENSITY_AFFINITY_LABEL = None"
    "sint (int64_of_int32 (GPUCount (jobSpec ?job))) \<le> sint (GetNodeAllocatableGPUs fresh_node - count_allocated 0 ?pods)"
    "jobNamespace ?job = ''lab''" "sint (count_allocated 0 ?pods) = 2"
    by code_simp+
  have searches: "searches sample_env [] ''lab'' ''train'' fresh_cluster ?job" "searches sample_env [] ''lab'' ''train'' seen_cluster ?job"
    unfolding searches_def fresh_logs using facts(2-6) by (auto simp: fresh_log_def)
  have stored: "shows_node fresh_node (fresh_log fresh_node)" "shows_node seen_node (fresh_log seen_node @ [CreatePodEv ns pod r])" for ns pod r
    by (auto simp: shows_node_def fresh_log_def)
  have healthy: "reads_healthy ''n1'' (fresh_log n)" "reads_healthy ''n1'' (fresh_log n @ [CreatePodEv ns pod r])" for n ns pod r
    using fresh_healthy by (auto simp: reads_healthy_def fresh_log_def)
  have pods: "restorable ''n1'' ?pods (fresh_log fresh_node)" by (auto simp: restorable_def fresh_log_def)
  have unlabelled: "\<forall>sel items. ListNodes sel (Inr items) \<in> set (fresh_log fresh_node) \<longrightarrow>
      (\<forall>m \<in> set items. node_label m HIGH_DENSITY_AFFINITY_LABEL = None)"
    using facts(9) by (auto simp: fresh_log_def)
  note two = second_reconcile_places [of sample_env "stored_node ''n1''" fresh_node fresh_cluster "[]" "''lab''" "''train''" ?job
      seen_cluster ?pods, unfolded name fresh_logs(1), OF sample_serves_node facts(7,1) searches(1) seen_cluster_def [symmetric]
      stored(1) healthy(1) pods]
  obtain n' where n': "stored_node ''n1'' (world seen_cluster) = Some n'" and later: "\<And>sched' ns' name' s'' job' n''.
      stored_node ''n1'' (world s'') = Some n'' \<Longrightarrow> steady n' n'' \<Longrightarrow> searches sample_env sched' ns' name' s'' job' \<Longrightarrow>
      shows_node n'' (emitted (Reconcile sample_env sched' ns' name') s'') \<Longrightarrow>
      reads_healthy ''n1'' (emitted (Reconcile sample_env sched' ns' name') s'') \<Longrightarrow>
      sint (int64_of_int32 (GPUCount (jobSpec job'))) \<le> sint (GetNodeAllocatableGPUs fresh_node - count_allocated 0 ?pods) \<Longrightarrow>
      \<exists>d answer. CreatePodEv (jobNamespace job') (hpc_pod sample_env job' d) answer
        \<in> set (emitted (Reconcile sample_env sched' ns' name') s'') \<and> sint d \<le> sint (count_allocated 0 ?pods)"
    using conjunct2 [OF two] by blast
  have "n' = seen_node" using n' facts(8) by simp
  with later [OF facts(8) _ searches(2) _ _ facts(10)] stored(2) healthy(2)
  have "\<exists>d answer. CreatePodEv ''lab'' (hpc_pod sample_env ?job d) answer
      \<in> set (emitted (Reconcile sample_env [] ''lab'' ''train'') seen_cluster) \<and> sint d \<le> 2"
    unfolding fresh_logs(2) facts(11,12) by simp
  then show ?thesis using conjunct1 [OF two] unlabelled unfolding fresh_logs(1) by blast
qed

end
