(* ===== verification/Node_Properties.thy ===== *)
theory Node_Properties
  imports Node_Discovery Sample_Cluster
begin

text \<open>
  The properties of the clients and of the node discovery: which nodes are selected, how metrics make a
  verdict, what is counted and patched on a node, that the two goroutines of the synchronisation do
  not interfere, and how finalizers are added and removed.
\<close>

section \<open>Discovery\<close>

text \<open>
C10: A discovery splits the GPU nodes of its listing by the metrics of its query. Healthy are exactly
the selected nodes with at least one sample all of whose last readings are in range, unhealthy those
with samples and a last reading out of range; a node without samples is in neither list.
\<close>

theorem listing_split_by_verdict:
  assumes "result (ListGPUNodes E) s = Inr (healthy, unhealthy)"
  shows "\<exists>sel items vec.
    emitted (ListGPUNodes E) s = [ListNodes sel (Inr items), Query GpuClusterHealthScanPrmQuery (Inr (Vector vec))] \<and>
    healthy = filter (\<lambda>n. is_gpu_node n \<and> exports_metrics vec (nodeName n) \<and> in_ranges vec (nodeName n)) items \<and>
    unhealthy = filter (\<lambda>n. is_gpu_node n \<and> exports_metrics vec (nodeName n) \<and> \<not> in_ranges vec (nodeName n)) items"
  using satisfiesD [OF ListGPUNodes_runs, of E s] assms
  by (auto simp: discovery_def nodes_with_def)

theorem listing_split_by_verdict_witness:
  "\<exists>vec. [sample_node ''n1'' ''4''] =
     filter (\<lambda>n. is_gpu_node n \<and> exports_metrics vec (nodeName n) \<and> in_ranges vec (nodeName n))
       [sample_node ''n1'' ''4'', sample_node ''n2'' ''2'']"
proof -
  let ?s = "sample_cluster [] []"
  have 1: "result (ListGPUNodes sample_env) ?s = Inr ([sample_node ''n1'' ''4''], [sample_node ''n2'' ''2''])" by code_simp
  obtain sel items vec where
    l: "emitted (ListGPUNodes sample_env) ?s = [ListNodes sel (Inr items), Query GpuClusterHealthScanPrmQuery (Inr (Vector vec))]"
    and h: "[sample_node ''n1'' ''4''] =
      filter (\<lambda>n. is_gpu_node n \<and> exports_metrics vec (nodeName n) \<and> in_ranges vec (nodeName n)) items"
    using listing_split_by_verdict [OF 1] by blast
  have "hd (emitted (ListGPUNodes sample_env) ?s) =
      ListNodes GPU_NODE_LABEL_INDICATOR (Inr [sample_node ''n1'' ''4'', sample_node ''n2'' ''2''])" by code_simp
  then have "items = [sample_node ''n1'' ''4'', sample_node ''n2'' ''2'']" using l by simp
  then show ?thesis using h by blast
qed

text \<open>
The GPU nodes are the listed nodes whose count label is a positive decimal number, in the order of
the listing; in particular every one of them has labels, so the branch of the capacity check for a
node without labels is never taken in a reconcile.
\<close>

theorem gpu_node_selection:
  assumes "result (GetClusterGPUNodes E) s = Inr nodes"
  shows "\<exists>sel items. emitted (GetClusterGPUNodes E) s = [ListNodes sel (Inr items)] \<and>
    nodes = filter (\<lambda>n. \<exists>t c. node_label n GPU_NODE_LABEL_INDICATOR = Some t \<and> Atoi t = Some c \<and> 0 < sint c) items \<and>
    (\<forall>n \<in> set nodes. nodeLabels n \<noteq> None)"
proof -
  have "is_gpu_node n \<longleftrightarrow> (\<exists>t c. node_label n GPU_NODE_LABEL_INDICATOR = Some t \<and> Atoi t = Some c \<and> 0 < sint c)" for n
    by (cases "node_label n GPU_NODE_LABEL_INDICATOR") (auto simp: is_gpu_node_def or_empty_def split: option.splits)
  then have eq: "is_gpu_node = (\<lambda>n. \<exists>t c. node_label n GPU_NODE_LABEL_INDICATOR = Some t \<and> Atoi t = Some c \<and> 0 < sint c)"
    by (simp add: fun_eq_iff)
  obtain sel items where "nodes = filter is_gpu_node items" "emitted (GetClusterGPUNodes E) s = [ListNodes sel (Inr items)]"
    using satisfiesD [OF GetClusterGPUNodes_runs, of E s] assms by (auto split: sum.splits)
  then show ?thesis unfolding eq by (auto simp: node_label_def split: option.splits)
qed

theorem gpu_node_selection_witness:
  "nodeLabels (sample_node ''n1'' ''4'') \<noteq> None \<and> nodeLabels (sample_node ''n2'' ''2'') \<noteq> None"
proof -
  have "result (GetClusterGPUNodes sample_env) (sample_cluster [] []) = Inr [sample_node ''n1'' ''4'', sample_node ''n2'' ''2'']"
    by code_simp
  from gpu_node_selection [OF this] show ?thesis by auto
qed

section \<open>Verdicts\<close>

text \<open>
The scan of the cluster files each sample under its node, GPU and metric, and a later sample
replaces an earlier one: what is read at a key is the value of the last sample with that key, as a
\<open>float32\<close>.
\<close>

theorem scan_keeps_last_sample:
  "scan_get (build_scan [] (vec @ [sample])) node gpu metric =
     (if sample_key sample = (node, gpu, metric) then Some (float32_of (sampleValue sample))
      else scan_get (build_scan [] vec) node gpu metric)"
proof -
  have "build_scan scan (vec @ [sample]) = add_sample (build_scan scan vec) sample" for scan
    by (induction scan vec rule: build_scan.induct) simp_all
  then show ?thesis by (simp add: scan_get_add_sample)
qed

text \<open>
Go visits the entries of a map in any order; the verdict on a node does not depend on it, nor on
how its readings are grouped by GPU, only on the set of the readings.
\<close>

theorem verdict_order_independent:
  assumes "set (concat (map snd gs')) = set (concat (map snd gs))"
  shows "scan_gpus True gs' = scan_gpus True gs"
proof -
  have "scan_gpus True gs \<longleftrightarrow> (\<forall>(m, v) \<in> set (concat (map snd gs)). \<not> out_of_range m v)" for gs
    by (simp add: scan_gpus_all case_prod_beta)
  then show ?thesis by (simp only: assms)
qed

theorem verdict_order_independent_witness:
  "scan_gpus True [(''1'', []), (''0'', [(''dcgm_gpu_temp'', Fin 90), (''dcgm_gpu_util'', Fin (1/2))])] = False"
proof -
  have "scan_gpus True [(''1'', []), (''0'', [(''dcgm_gpu_temp'', Fin 90), (''dcgm_gpu_util'', Fin (1/2))])] =
      scan_gpus True [(''0'', [(''dcgm_gpu_util'', Fin (1/2)), (''dcgm_gpu_temp'', Fin 90)])]"
    by (rule verdict_order_independent) auto
  also have "\<dots> = False" by code_simp
  finally show ?thesis .
qed

text \<open>
C17: Rounding to \<open>float32\<close> never flags a good reading: a value within the bounds as the source writes
them stays within the rounded bounds after it is rounded itself.
\<close>

theorem good_readings_pass:
  assumes "(metric, lo, hi) \<in> set decimal_bounds" and "lo \<le> q" and "q \<le> hi"
  shows "\<not> out_of_range metric (float32_of (Fin q))"
  by (rule within_decimal_bounds [OF assms])

theorem good_readings_pass_witness:
  "\<not> out_of_range MemCopyUtil (float32_of (Fin (1/10))) \<and> \<not> out_of_range MemCopyUtil (float32_of (Fin (6/10)))"
proof -
  have "(MemCopyUtil, 1/10, 6/10) \<in> set decimal_bounds" by (simp add: decimal_bounds_def)
  then show ?thesis using good_readings_pass [of MemCopyUtil "1/10" "6/10"] by simp
qed

text \<open>
Readings that are no numbers: an infinity is out of range for every metric, but a NaN, which a
Prometheus sample may be, is in range for every metric, so a GPU that reports NaN counts as healthy.
\<close>

theorem special_readings:
  "out_of_range metric PosInf \<and> out_of_range metric NegInf \<and> \<not> out_of_range metric NaN"
  by (simp add: infinite_out_of_range NaN_in_range)

text \<open>
The query asks for every series of the exporter, also those the table does not know. A series
outside the table whose last value is a finite number other than zero makes its node unhealthy.
\<close>

theorem unknown_series_flags_node:
  assumes "last_value vec (node, gpu, metric) = Some (Fin q)" and "go_get HealthMetrics metric = None"
    and "q \<noteq> 0"
  shows "\<not> in_ranges vec node"
  using assms unknown_metric_range [OF assms(2)] by (auto simp: in_ranges_def)

theorem unknown_series_flags_node_witness:
  "\<not> in_ranges [\<lparr>sampleMetric = [(''__name__'', ''up''), (''node'', ''n1'')], sampleValue = Fin 1\<rparr>] ''n1''"
proof (rule unknown_series_flags_node)
  show "last_value [\<lparr>sampleMetric = [(''__name__'', ''up''), (''node'', ''n1'')], sampleValue = Fin 1\<rparr>]
      (''n1'', '''', ''up'') = Some (Fin 1)" by code_simp
  show "go_get HealthMetrics ''up'' = None" by code_simp
qed simp

section \<open>Counting and patching\<close>

text \<open>
C24: The number of GPUs in use on a node is the sum of the requests of the pods that are listed for it
and are running, pending or failed. The count is exact, without wrap-around, as long as the requests
are not negative and their sum is below \<open>2^63\<close>.
\<close>

theorem allocations_counted:
  assumes "result (GetGpuNodeAllocations E node) s = Inr status"
  shows "\<exists>pods. emitted (GetGpuNodeAllocations E node) s = [ListPods '''' (''spec.nodeName='' @ nodeName node) (Inr pods)] \<and>
    Allocatable status = GetNodeAllocatableGPUs node \<and> Allocated status = sum_list (gpu_requests pods) \<and>
    ((\<forall>q \<in> set (gpu_requests pods). 0 \<le> sint q) \<and> sum_list (map sint (gpu_requests pods)) < 2 ^ 63 \<longrightarrow>
     sint (Allocated status) = sum_list (map sint (gpu_requests pods)))"
  using satisfiesD [OF GetGpuNodeAllocations_runs, of E node s] assms
  by (auto simp: count_allocated_sum sint_sum_list)

theorem allocations_counted_witness:
  "\<exists>status. result (GetGpuNodeAllocations sample_env (sample_node ''n1'' ''4''))
     (sample_cluster [] [(''n1'', sample_pod ''a'' ''Running''), (''n1'', sample_pod ''b'' ''Succeeded'')]) = Inr status \<and>
     sint (Allocated status) = 2"
proof -
  let ?s = "sample_cluster [] [(''n1'', sample_pod ''a'' ''Running''), (''n1'', sample_pod ''b'' ''Succeeded'')]"
  let ?n = "sample_node ''n1'' ''4''"
  have 1: "result (GetGpuNodeAllocations sample_env ?n) ?s = Inr \<lparr>Allocated = 2, Allocatable = 8\<rparr>" by code_simp
  have 2: "emitted (GetGpuNodeAllocations sample_env ?n) ?s =
      [ListPods '''' ''spec.nodeName=n1'' (Inr [sample_pod ''a'' ''Running'', sample_pod ''b'' ''Succeeded''])]" by code_simp
  have 3: "gpu_requests [sample_pod ''a'' ''Running'', sample_pod ''b'' ''Succeeded''] = [2]" by code_simp
  from allocations_counted [OF 1] 2 3 have "sint (Allocated \<lparr>Allocated = 2, Allocatable = 8\<rparr>) = 2" by auto
  then show ?thesis using 1 by blast
qed

text \<open>
The isolation of the unhealthy nodes patches each of them exactly once, in order, with the
density 0 and the taint, whatever the earlier patches were answered, and reports no error.
\<close>

theorem every_unhealthy_node_patched:
  "result (IsolateUnhealthyNodes E nodes) s = None \<and>
   (\<exists>answers. length answers = length nodes \<and>
      emitted (IsolateUnhealthyNodes E nodes) s =
        map2 (\<lambda>node answer. PatchNode (nodeName node)
          \<lparr>patchLabels = [(HIGH_DENSITY_AFFINITY_LABEL, ''0'')],
           patchTaints = Some [\<lparr>taintKey = UNHEALTHY_TAINT_KEY, taintValue = ''true'', taintEffect = ''NoSchedule''\<rparr>]\<rparr>
          answer) nodes answers)"
  using satisfiesD [OF IsolateUnhealthyNodes_runs, of E nodes s] isolation_log_map2
  by (fastforce simp: isolation_patch_def unhealthyTaint_def TaintEffectNoSchedule_def)

text \<open>
C15: The restoration patches only nodes it was given, each with the density label that stands for the
GPUs counted on it in this very run, and with the node's taints but the unhealthy one; a node whose
pods could not be listed is skipped. It reports no error.
\<close>

theorem restoration_patches_justified:
  "result (RestoreHealthyNodes E nodes) s = None \<and>
   (\<forall>name patch answer. PatchNode name patch answer \<in> set (emitted (RestoreHealthyNodes E nodes) s) \<longrightarrow>
     (\<exists>node \<in> set nodes. \<exists>pods. name = nodeName node \<and>
        ListPods '''' (''spec.nodeName='' @ name) (Inr pods) \<in> set (emitted (RestoreHealthyNodes E nodes) s) \<and>
        (\<exists>t. patchLabels patch = [(HIGH_DENSITY_AFFINITY_LABEL, t)] \<and> Atoi t = Some (sum_list (gpu_requests pods))) \<and>
        (case patchTaints patch of None \<Rightarrow> [] | Some ts \<Rightarrow> ts) = filter (\<lambda>t. taintKey t \<noteq> UNHEALTHY_TAINT_KEY) (nodeTaints node)))"
proof -
  have "result (RestoreHealthyNodes E nodes) s = None"
    and log: "restoration_log nodes (emitted (RestoreHealthyNodes E nodes) s)"
    using satisfiesD [OF RestoreHealthyNodes_runs, of E nodes s] by simp_all
  then show ?thesis
    using restoration_log_patch [OF log]
    by (fastforce simp: restoration_patch_def Let_def count_allocated_sum)
qed

theorem restoration_patches_justified_witness:
  "\<exists>pods t. Atoi t = Some (sum_list (gpu_requests pods)) \<and> patchLabels (restoration_patch (sample_node ''n1'' ''4'')
     \<lparr>Allocated = 2, Allocatable = 8\<rparr>) = [(HIGH_DENSITY_AFFINITY_LABEL, t)]"
proof -
  let ?s = "sample_cluster [] [(''n1'', sample_pod ''a'' ''Running'')]"
  have "PatchNode ''n1'' (restoration_patch (sample_node ''n1'' ''4'') \<lparr>Allocated = 2, Allocatable = 8\<rparr>) None
      \<in> set (emitted (RestoreHealthyNodes sample_env [sample_node ''n1'' ''4'']) ?s)" by code_simp
  then show ?thesis using restoration_patches_justified [of sample_env "[sample_node ''n1'' ''4'']" ?s] by blast
qed

text \<open>
C11: The two goroutines of the synchronisation do not interfere: under every schedule the calls that
patch unhealthy nodes are those of the isolation alone, the other calls those of the restoration
alone, each in its own order, provided no node is in both lists.
\<close>

theorem sync_schedule_independent:
  assumes "nodeName ` set healthy \<inter> nodeName ` set unhealthy = {}"
  shows "isolation_log unhealthy (filter (patches_one_of unhealthy) (emitted (SyncNodeHealthStatus E sched healthy unhealthy) s)) \<and>
    restoration_log healthy (filter (\<lambda>e. \<not> patches_one_of unhealthy e) (emitted (SyncNodeHealthStatus E sched healthy unhealthy) s))"
  using satisfiesD [OF SyncNodeHealthStatus_projections [OF assms, of E sched], of s] by simp

theorem sync_schedule_independent_witness:
  "isolation_log [sample_node ''n2'' ''2''] (filter (patches_one_of [sample_node ''n2'' ''2''])
     (emitted (SyncNodeHealthStatus sample_env [True, False, True] [sample_node ''n1'' ''4''] [sample_node ''n2'' ''2''])
       (sample_cluster [] [])))"
  by (rule conjunct1 [OF sync_schedule_independent]) (simp add: sample_node_def)

text \<open>
A node that was isolated and is found healthy again has lost every taint: the isolation replaces
the whole list by the one taint, and the restoration removes that one. A taint that kept other work
off the node is gone.
\<close>

theorem isolation_forgets_taints:
  "patchTaints isolation_patch = Some [unhealthyTaint] \<and>
   (nodeTaints node = [unhealthyTaint] \<longrightarrow> patchTaints (restoration_patch node status) = None)"
  by (simp add: isolation_patch_def restoration_patch_def Let_def unhealthyTaint_def)

section \<open>The report on one GPU\<close>

text \<open>
C25: The report on a GPU asks for every metric of the table exactly once, whatever the earlier answers were,
and in whatever order the goroutines finish; what comes after an answer without a reading is answered under
the cancelled context of the group. The report succeeds exactly if every answer holds a reading, and then it
has these seven metrics and no other, each with the reading of its own query.
\<close>

theorem gpu_report_complete:
  "\<exists>asked. mset (map fst asked) =
      {#GpuTemp, MemCopyUtil, FBUsage, ECC_SBE_Errs, PowerUsage, GpuUtil, NvlinkBandwidth#} \<and>
    emitted (GetFullGPUNodeHealthCheck E order node gpu) s =
      map (\<lambda>(metric, answer). Query (metric_query node gpu metric) answer) asked \<and>
    answers_in_turn E node gpu False asked \<and>
    (case result (GetFullGPUNodeHealthCheck E order node gpu) s of
       Inl _ \<Rightarrow> \<exists>(metric, answer) \<in> set asked. reading answer = None
     | Inr health \<Rightarrow> \<forall>(metric, answer) \<in> set asked. reading answer \<noteq> None \<and> go_get health metric = reading answer) \<and>
    (\<forall>health. result (GetFullGPUNodeHealthCheck E order node gpu) s = Inr health \<longrightarrow>
       (\<forall>metric. go_get health metric \<noteq> None \<longleftrightarrow> metric \<in> fst ` set asked))"
proof -
  let ?order = "arrange order (map fst HealthMetrics)"
  obtain asked where keys: "map fst asked = ?order"
    and es: "emitted (GetFullGPUNodeHealthCheck E order node gpu) s =
      map (\<lambda>(metric, answer). Query (metric_query node gpu metric) answer) asked"
    and turn: "answers_in_turn E node gpu False asked"
    and r: "case result (GetFullGPUNodeHealthCheck E order node gpu) s of
        Inr h \<Rightarrow> (\<forall>(metric, a) \<in> set asked. reading a \<noteq> None) \<and>
          h = fold (\<lambda>(metric, a). go_put metric (the (reading a))) asked []
      | Inl _ \<Rightarrow> \<exists>(metric, a) \<in> set asked. reading a = None"
    using satisfiesD [OF gather_metrics_runs [of E node gpu "[]" None ?order], of s, folded GetFullGPUNodeHealthCheck_def]
    apply (elim exE conjE)
    subgoal for asked by (rule that [of asked]) (simp_all split: sum.splits)
    done
  have m: "mset (map fst asked) = {#GpuTemp, MemCopyUtil, FBUsage, ECC_SBE_Errs, PowerUsage, GpuUtil, NvlinkBandwidth#}"
    unfolding keys mset_arrange by (simp add: HealthMetrics_def)
  have "distinct (map fst HealthMetrics)" by (simp add: HealthMetrics_def metric_names)
  then have d: "distinct (map fst asked)"
    unfolding keys using mset_arrange mset_eq_imp_distinct_iff by blast
  have h: "go_get (fold (\<lambda>(metric, a). go_put metric (the (reading a))) asked []) metric =
      (case map_of asked metric of None \<Rightarrow> None | Some a \<Rightarrow> Some (the (reading a)))" for metric
    using go_get_fold_put [OF d, of "\<lambda>a. the (reading a)" "[]" metric] by (simp split: option.splits)
  have get: "\<forall>(metric, a) \<in> set asked. reading a \<noteq> None \<and> go_get health metric = reading a"
    and has: "\<forall>metric. go_get health metric \<noteq> None \<longleftrightarrow> metric \<in> fst ` set asked"
    if "result (GetFullGPUNodeHealthCheck E order node gpu) s = Inr health" for health
    using r d by (auto simp: that h map_of_is_SomeI split: option.splits dest: map_of_SomeD)
      (metis domI domIff dom_map_of_conv_image_fst image_eqI fst_conv)+
  show ?thesis using m es turn r get has
    by (intro exI [of _ asked]) (auto split: sum.splits)
qed

theorem gpu_report_complete_witness:
  "\<exists>asked. length asked = 7 \<and>
    emitted (GetFullGPUNodeHealthCheck sample_env [3, 1] ''n1'' ''0'') (sample_cluster [] []) =
      map (\<lambda>(metric, answer). Query (metric_query ''n1'' ''0'' metric) answer) asked \<and>
    list_all (\<lambda>(metric, answer). reading answer = Some (Fin 60)) asked"
proof -
  obtain asked where a: "mset (map fst asked) = {#GpuTemp, MemCopyUtil, FBUsage, ECC_SBE_Errs, PowerUsage, GpuUtil, NvlinkBandwidth#}"
    "emitted (GetFullGPUNodeHealthCheck sample_env [3, 1] ''n1'' ''0'') (sample_cluster [] []) =
      map (\<lambda>(metric, answer). Query (metric_query ''n1'' ''0'' metric) answer) asked"
    using gpu_report_complete [of sample_env "[3, 1]" "''n1''" "''0''" "sample_cluster [] []"] by blast
  have "length asked = 7" using arg_cong [OF a(1), of size] by simp
  moreover have "\<forall>e \<in> set (emitted (GetFullGPUNodeHealthCheck sample_env [3, 1] ''n1'' ''0'') (sample_cluster [] [])).
      case e of Query _ answer \<Rightarrow> reading answer = Some (Fin 60) | _ \<Rightarrow> False" by code_simp
  ultimately show ?thesis using a(2) by (intro exI [of _ asked]) (fastforce simp: list_all_iff)
qed

section \<open>Finalizers\<close>

text \<open>
C23: Adding the finalizer and then removing it gives back the finalizers the job had, if none of them
contains the finalizer's name; a job that has it is not written again.
\<close>

theorem finalizer_round_trip:
  assumes "\<not> Contains (Join (jobFinalizers job) '','') HPC_FINALIZER"
    and "result (AddResourceFinalizer E job) s = (err, added)"
  shows "HPC_FINALIZER \<in> set (jobFinalizers added) \<and>
    emitted (AddResourceFinalizer E added) s' = [] \<and>
    jobFinalizers (snd (result (RemoveResourceFinalizer E added) s')) = jobFinalizers job"
proof -
  have fresh: "HPC_FINALIZER \<notin> set (jobFinalizers job)" using assms(1) HPC_FINALIZER_found by blast
  have added: "added = job\<lparr>jobFinalizers := jobFinalizers job @ [HPC_FINALIZER]\<rparr>"
    using assms by (simp add: AddResourceFinalizer_def callPut_def Let_def)
  then have "Contains (Join (jobFinalizers added) '','') HPC_FINALIZER" by (intro HPC_FINALIZER_found) simp
  then show ?thesis
    using fresh by (simp add: AddResourceFinalizer_def RemoveResourceFinalizer_def callPut_def Let_def added emitted_def)
qed

theorem finalizer_round_trip_witness:
  "HPC_FINALIZER \<in> set (jobFinalizers (snd (result (AddResourceFinalizer sample_env (sample_job ''train'' '''' 2))
     (sample_cluster [] []))))"
proof -
  let ?j = "sample_job ''train'' '''' 2" and ?s = "sample_cluster [] []"
  have 1: "\<not> Contains (Join (jobFinalizers ?j) '','') HPC_FINALIZER" by code_simp
  obtain err added where 2: "result (AddResourceFinalizer sample_env ?j) ?s = (err, added)" by fastforce
  show ?thesis using finalizer_round_trip [OF 1 2] 2 by simp
qed

text \<open>
The test for the finalizer is a search in the joined names. A foreign finalizer whose name
contains the program's makes the program believe it has its own: nothing is added or written.
\<close>

theorem foreign_finalizer_shadows:
  assumes "f \<in> set (jobFinalizers job)" and "Contains f HPC_FINALIZER"
  shows "result (AddResourceFinalizer E job) s = (None, job) \<and> emitted (AddResourceFinalizer E job) s = []"
  using Contains_Join [OF assms, of "'',''"] by (simp add: AddResourceFinalizer_def emitted_def)

theorem foreign_finalizer_shadows_witness:
  "result (AddResourceFinalizer sample_env (sample_job ''train'' '''' 2\<lparr>jobFinalizers := [''my-hpc-sentinel/finalizer'']\<rparr>))
     (sample_cluster [] []) = (None, sample_job ''train'' '''' 2\<lparr>jobFinalizers := [''my-hpc-sentinel/finalizer'']\<rparr>)"
proof -
  have "Contains ''my-hpc-sentinel/finalizer'' HPC_FINALIZER" by code_simp
  then show ?thesis by (rule conjunct1 [OF foreign_finalizer_shadows, rotated]) simp
qed

end
