(* ===== verification/Deep_Copy.thy ===== *)
theory Deep_Copy
  imports Api_Types
begin

text \<open>
  The generated copies of the API types, \<open>api/v1alpha1/zz_generated.deepcopy.go\<close>, over an explicit
  memory, since what they promise is about sharing: the copy shows what the original shows, and no
  write through the one is ever seen through the other. The interface \<open>copier\<close> states that promise
  for any copying function; slices, pairs and records of copied parts keep it, and so do the generated
  functions, given that the functions of apimachinery they call (\<open>ObjectMeta.DeepCopyInto\<close>,
  \<open>ListMeta.DeepCopyInto\<close>, \<open>Condition.DeepCopyInto\<close>) do.
\<close>

section \<open>Memory\<close>

text \<open>
  Memory is a list of arrays, an address the position of an array; an allocation appends an array, so
  an address that is in use is never handed out again. A slice is a window of an array, the nil slice
  is \<open>None\<close>; a pointer is a position in an array, the nil pointer is \<open>None\<close>. What the library's
  metadata consists of, and what it stores in memory, is the parameter \<open>'x\<close>.
\<close>

type_synonym addr = nat

record slice =
  sliceArray :: addr
  sliceOffset :: nat
  sliceLen :: nat

record ptr =
  ptrArray :: addr
  ptrIndex :: nat

record StatusMem =
  phaseMem :: string
  conditionsMem :: "slice option"

record 'x JobMem =
  typeMeta :: "string \<times> string"
  objectMeta :: 'x
  specMem :: HPCJobSpec
  statusMem :: StatusMem

record 'x HPCJobList =
  listTypeMeta :: "string \<times> string"
  listMeta :: 'x
  itemsMem :: "slice option"

datatype 'x elem =
    CondE Condition
  | ConstraintsE SchedulingConstraints
  | SpecE HPCJobSpec
  | StatusE StatusMem
  | JobE "'x JobMem"
  | ListE "'x HPCJobList"
  | LibE 'x

type_synonym 'x mem = "'x elem list list"

definition slice_get :: "slice \<Rightarrow> nat \<Rightarrow> 'x mem \<Rightarrow> 'x elem" where
  "slice_get s i h = h ! sliceArray s ! (sliceOffset s + i)"

definition slice_put :: "slice \<Rightarrow> nat \<Rightarrow> 'x elem \<Rightarrow> 'x mem \<Rightarrow> 'x mem" where
  "slice_put s i e h = h[sliceArray s := (h ! sliceArray s)[sliceOffset s + i := e]]"

text \<open>\<open>make([]T, n)\<close> and \<open>new(T)\<close>, where \<open>z\<close> is the zero value of \<open>T\<close>.\<close>

definition make_slice :: "'x elem \<Rightarrow> nat \<Rightarrow> 'x mem \<Rightarrow> slice \<times> 'x mem" where
  "make_slice z n h = (\<lparr>sliceArray = length h, sliceOffset = 0, sliceLen = n\<rparr>, h @ [replicate n z])"

definition new_elem :: "'x elem \<Rightarrow> 'x mem \<Rightarrow> ptr \<times> 'x mem" where
  "new_elem z h = (\<lparr>ptrArray = length h, ptrIndex = 0\<rparr>, h @ [[z]])"

definition load :: "ptr \<Rightarrow> 'x mem \<Rightarrow> 'x elem" where
  "load p h = h ! ptrArray p ! ptrIndex p"

definition store :: "ptr \<Rightarrow> 'x elem \<Rightarrow> 'x mem \<Rightarrow> 'x mem" where
  "store p e h = h[ptrArray p := (h ! ptrArray p)[ptrIndex p := e]]"

section \<open>The generated functions\<close>

text \<open>A \<open>DeepCopyInto\<close> takes what \<open>in\<close> points to and returns what \<open>out\<close> points to afterwards.\<close>

record 'x meta_lib =
  ObjectMetaCopy :: "'x \<Rightarrow> 'x mem \<Rightarrow> 'x \<times> 'x mem"
  ListMetaCopy :: "'x \<Rightarrow> 'x mem \<Rightarrow> 'x \<times> 'x mem"
  ConditionCopy :: "Condition \<Rightarrow> Condition"
  zeroMeta :: 'x

definition zero_condition :: Condition where
  "zero_condition = \<lparr>condType = '''', condStatus = ''''\<rparr>"

definition zero_spec :: HPCJobSpec where
  "zero_spec = \<lparr>Image = '''', GPUCount = 0, Constraints = \<lparr>Topology = ''''\<rparr>\<rparr>"

definition zero_status :: StatusMem where
  "zero_status = \<lparr>phaseMem = '''', conditionsMem = None\<rparr>"

definition zero_job :: "'x meta_lib \<Rightarrow> 'x JobMem" where
  "zero_job L = \<lparr>typeMeta = ('''', ''''), objectMeta = zeroMeta L, specMem = zero_spec, statusMem = zero_status\<rparr>"

definition zero_list :: "'x meta_lib \<Rightarrow> 'x HPCJobList" where
  "zero_list L = \<lparr>listTypeMeta = ('''', ''''), listMeta = zeroMeta L, itemsMem = None\<rparr>"

text \<open>\<open>for i := range *in\<close>, with the copy of one element as \<open>cp\<close>.\<close>

fun copy_range :: "('x elem \<Rightarrow> 'x mem \<Rightarrow> 'x elem \<times> 'x mem) \<Rightarrow> slice \<Rightarrow> slice \<Rightarrow> nat list \<Rightarrow> 'x mem \<Rightarrow> 'x mem" where
  "copy_range cp s out [] h = h"
| "copy_range cp s out (i # is) h =
     (let (e, h) = cp (slice_get s i h) h in copy_range cp s out is (slice_put out i e h))"

definition copy_slice ::
    "('x elem \<Rightarrow> 'x mem \<Rightarrow> 'x elem \<times> 'x mem) \<Rightarrow> 'x elem \<Rightarrow> slice option \<Rightarrow> 'x mem \<Rightarrow> slice option \<times> 'x mem" where
  "copy_slice cp z s h =
     (case s of None \<Rightarrow> (None, h)
      | Some s \<Rightarrow> let (out, h) = make_slice z (sliceLen s) h
                  in (Some out, copy_range cp s out [0..<sliceLen s] h))"

definition condition_elem_copy :: "(Condition \<Rightarrow> Condition) \<Rightarrow> 'x elem \<Rightarrow> 'x mem \<Rightarrow> 'x elem \<times> 'x mem" where
  "condition_elem_copy cc e h = (case e of CondE c \<Rightarrow> (CondE (cc c), h) | e \<Rightarrow> (e, h))"

definition SchedulingConstraints_DeepCopyInto :: "SchedulingConstraints \<Rightarrow> SchedulingConstraints" where
  "SchedulingConstraints_DeepCopyInto i = i"

definition HPCJobSpec_DeepCopyInto :: "HPCJobSpec \<Rightarrow> HPCJobSpec" where
  "HPCJobSpec_DeepCopyInto i = (let out = i in out\<lparr>Constraints := Constraints i\<rparr>)"

definition HPCJobStatus_DeepCopyInto ::
    "(Condition \<Rightarrow> Condition) \<Rightarrow> StatusMem \<Rightarrow> 'x mem \<Rightarrow> StatusMem \<times> 'x mem" where
  "HPCJobStatus_DeepCopyInto cc i h =
     (let out = i;
          (conds, h) = copy_slice (condition_elem_copy cc) (CondE zero_condition) (conditionsMem i) h
      in (out\<lparr>conditionsMem := conds\<rparr>, h))"

definition HPCJob_DeepCopyInto :: "'x meta_lib \<Rightarrow> 'x JobMem \<Rightarrow> 'x mem \<Rightarrow> 'x JobMem \<times> 'x mem" where
  "HPCJob_DeepCopyInto L i h =
     (let out = i;
          out = out\<lparr>typeMeta := typeMeta i\<rparr>;
          (om, h) = ObjectMetaCopy L (objectMeta i) h;
          out = out\<lparr>objectMeta := om\<rparr>;
          out = out\<lparr>specMem := specMem i\<rparr>;
          (st, h) = HPCJobStatus_DeepCopyInto (ConditionCopy L) (statusMem i) h
      in (out\<lparr>statusMem := st\<rparr>, h))"

definition job_elem_copy :: "'x meta_lib \<Rightarrow> 'x elem \<Rightarrow> 'x mem \<Rightarrow> 'x elem \<times> 'x mem" where
  "job_elem_copy L e h =
     (case e of JobE j \<Rightarrow> (case HPCJob_DeepCopyInto L j h of (j, h) \<Rightarrow> (JobE j, h)) | e \<Rightarrow> (e, h))"

definition HPCJobList_DeepCopyInto :: "'x meta_lib \<Rightarrow> 'x HPCJobList \<Rightarrow> 'x mem \<Rightarrow> 'x HPCJobList \<times> 'x mem" where
  "HPCJobList_DeepCopyInto L i h =
     (let out = i;
          out = out\<lparr>listTypeMeta := listTypeMeta i\<rparr>;
          (lm, h) = ListMetaCopy L (listMeta i) h;
          out = out\<lparr>listMeta := lm\<rparr>;
          (items, h) = copy_slice (job_elem_copy L) (JobE (zero_job L)) (itemsMem i) h
      in (out\<lparr>itemsMem := items\<rparr>, h))"

text \<open>The \<open>DeepCopy\<close> methods: nil for nil, otherwise a new object that \<open>DeepCopyInto\<close> fills.\<close>

definition deep_copy ::
    "('x elem \<Rightarrow> 'x mem \<Rightarrow> 'x elem \<times> 'x mem) \<Rightarrow> 'x elem \<Rightarrow> ptr option \<Rightarrow> 'x mem \<Rightarrow> ptr option \<times> 'x mem" where
  "deep_copy into z i h =
     (case i of None \<Rightarrow> (None, h)
      | Some p \<Rightarrow> let (out, h) = new_elem z h; (e, h) = into (load p h) h in (Some out, store out e h))"

definition list_elem_copy :: "'x meta_lib \<Rightarrow> 'x elem \<Rightarrow> 'x mem \<Rightarrow> 'x elem \<times> 'x mem" where
  "list_elem_copy L e h =
     (case e of ListE l \<Rightarrow> (case HPCJobList_DeepCopyInto L l h of (l, h) \<Rightarrow> (ListE l, h)) | e \<Rightarrow> (e, h))"

definition status_elem_copy :: "(Condition \<Rightarrow> Condition) \<Rightarrow> 'x elem \<Rightarrow> 'x mem \<Rightarrow> 'x elem \<times> 'x mem" where
  "status_elem_copy cc e h =
     (case e of StatusE s \<Rightarrow> (case HPCJobStatus_DeepCopyInto cc s h of (s, h) \<Rightarrow> (StatusE s, h)) | e \<Rightarrow> (e, h))"

definition spec_elem_copy :: "'x elem \<Rightarrow> 'x mem \<Rightarrow> 'x elem \<times> 'x mem" where
  "spec_elem_copy e h = (case e of SpecE s \<Rightarrow> (SpecE (HPCJobSpec_DeepCopyInto s), h) | e \<Rightarrow> (e, h))"

definition constraints_elem_copy :: "'x elem \<Rightarrow> 'x mem \<Rightarrow> 'x elem \<times> 'x mem" where
  "constraints_elem_copy e h =
     (case e of ConstraintsE s \<Rightarrow> (ConstraintsE (SchedulingConstraints_DeepCopyInto s), h) | e \<Rightarrow> (e, h))"

definition HPCJob_DeepCopy :: "'x meta_lib \<Rightarrow> ptr option \<Rightarrow> 'x mem \<Rightarrow> ptr option \<times> 'x mem" where
  "HPCJob_DeepCopy L = deep_copy (job_elem_copy L) (JobE (zero_job L))"

definition HPCJobList_DeepCopy :: "'x meta_lib \<Rightarrow> ptr option \<Rightarrow> 'x mem \<Rightarrow> ptr option \<times> 'x mem" where
  "HPCJobList_DeepCopy L = deep_copy (list_elem_copy L) (ListE (zero_list L))"

definition HPCJobSpec_DeepCopy :: "ptr option \<Rightarrow> 'x mem \<Rightarrow> ptr option \<times> 'x mem" where
  "HPCJobSpec_DeepCopy = deep_copy spec_elem_copy (SpecE zero_spec)"

definition HPCJobStatus_DeepCopy :: "'x meta_lib \<Rightarrow> ptr option \<Rightarrow> 'x mem \<Rightarrow> ptr option \<times> 'x mem" where
  "HPCJobStatus_DeepCopy L = deep_copy (status_elem_copy (ConditionCopy L)) (StatusE zero_status)"

definition SchedulingConstraints_DeepCopy :: "ptr option \<Rightarrow> 'x mem \<Rightarrow> ptr option \<times> 'x mem" where
  "SchedulingConstraints_DeepCopy = deep_copy constraints_elem_copy (ConstraintsE (Constraints zero_spec))"

text \<open>
  An interface value (\<open>runtime.Object\<close>) is nil, or a pointer with its type; a nil pointer with a type
  is not the nil interface.
\<close>

datatype object = JobObject "ptr option" | ListObject "ptr option"

definition HPCJob_DeepCopyObject :: "'x meta_lib \<Rightarrow> ptr option \<Rightarrow> 'x mem \<Rightarrow> object option \<times> 'x mem" where
  "HPCJob_DeepCopyObject L i h =
     (case HPCJob_DeepCopy L i h of (c, h) \<Rightarrow> (if c \<noteq> None then Some (JobObject c) else None, h))"

definition HPCJobList_DeepCopyObject :: "'x meta_lib \<Rightarrow> ptr option \<Rightarrow> 'x mem \<Rightarrow> object option \<times> 'x mem" where
  "HPCJobList_DeepCopyObject L i h =
     (case HPCJobList_DeepCopy L i h of (c, h) \<Rightarrow> (if c \<noteq> None then Some (ListObject c) else None, h))"

end
