(* ===== verification/Copy_Laws.thy ===== *)
theory Copy_Laws
  imports Deep_Copy
begin

text \<open>
  What the generated copies promise, stated once for any copying function (locale \<open>copier\<close>), kept by
  slices, records and elements of copied parts, and so by the copies of a status, a job and a list of
  jobs. The functions of apimachinery enter as a \<open>copier\<close> of their own.
\<close>

section \<open>What a copy promises\<close>

text \<open>
  For a value \<open>x\<close>: \<open>okay h x\<close> says that all its pointers are valid, \<open>reach h x\<close> are the arrays one can
  get to from it, \<open>content h x\<close> is what it shows, pointers followed. A copy only adds arrays, and the
  copy reaches none but the added ones.
\<close>

locale copier =
  fixes copy :: "'a \<Rightarrow> 'x mem \<Rightarrow> 'a \<times> 'x mem"
    and okay :: "'x mem \<Rightarrow> 'a \<Rightarrow> bool"
    and reach :: "'x mem \<Rightarrow> 'a \<Rightarrow> addr set"
    and content :: "'x mem \<Rightarrow> 'a \<Rightarrow> 'v"
  assumes reach_valid: "okay h x \<Longrightarrow> a \<in> reach h x \<Longrightarrow> a < length h"
    and frame: "okay h x \<Longrightarrow> length h \<le> length h' \<Longrightarrow> (\<And>a. a \<in> reach h x \<Longrightarrow> h' ! a = h ! a) \<Longrightarrow>
      okay h' x \<and> reach h' x = reach h x \<and> content h' x = content h x"
    and copied: "okay h x \<Longrightarrow> copy x h = (y, h') \<Longrightarrow>
      (\<exists>new. h' = h @ new) \<and> okay h' y \<and> content h' y = content h x \<and> (\<forall>a \<in> reach h' y. length h \<le> a)"
begin

text \<open>Growing the memory changes nothing that is in use.\<close>

lemma grown: "okay h x \<Longrightarrow> okay (h @ new) x \<and> reach (h @ new) x = reach h x \<and> content (h @ new) x = content h x"
  by (rule frame) (auto simp: nth_append dest: reach_valid)

lemma elsewhere:
  assumes "okay h x" and "a \<notin> reach h x"
  shows "okay (h[a := arr]) x \<and> reach (h[a := arr]) x = reach h x \<and> content (h[a := arr]) x = content h x"
proof (rule frame [OF assms(1)])
  show "h[a := arr] ! b = h ! b" if "b \<in> reach h x" for b
    using that assms(2) by (cases "a = b") auto
qed simp

lemma copy_separate:
  assumes "okay h x" and "copy x h = (y, h')"
  shows "content h' y = content h x" and "content h' x = content h x"
    and "reach h' y \<inter> reach h' x = {}"
    and "a \<in> reach h' y \<Longrightarrow> content (h'[a := arr]) x = content h x"
    and "a \<in> reach h' x \<Longrightarrow> content (h'[a := arr]) y = content h x"
proof -
  obtain new where h': "h' = h @ new" and y: "okay h' y" "content h' y = content h x"
    "\<And>a. a \<in> reach h' y \<Longrightarrow> length h \<le> a"
    using copied [OF assms] by blast
  have x: "okay h' x" "reach h' x = reach h x" "content h' x = content h x"
    using grown [OF assms(1)] by (simp_all add: h')
  show "content h' y = content h x" "content h' x = content h x" using x y by simp_all
  show disj: "reach h' y \<inter> reach h' x = {}"
    using y(3) reach_valid [OF assms(1)] unfolding x(2) by force
  show "a \<in> reach h' y \<Longrightarrow> content (h'[a := arr]) x = content h x"
    using elsewhere [OF x(1), of a arr] disj x(3) by auto
  show "a \<in> reach h' x \<Longrightarrow> content (h'[a := arr]) y = content h x"
    using elsewhere [OF y(1), of a arr] disj y(2) by auto
qed

end

text \<open>The same promise, in other words: the content seen through a function.\<close>

lemma copier_view:
  assumes C: "copier cp ok re co" and eq: "\<And>h x. ok' h x = ok h x" "\<And>h x. re' h x = re h x"
    and view: "\<And>h x. co' h x = f (co h x)"
  shows "copier cp ok' re' co'"
proof (unfold_locales, unfold eq view)
  show "ok h x \<Longrightarrow> a \<in> re h x \<Longrightarrow> a < length h" for h x a by (rule copier.reach_valid [OF C])
next
  fix h x h'
  assume "ok h x" "length h \<le> length h'" "\<And>a. a \<in> re h x \<Longrightarrow> h' ! a = h ! a"
  from copier.frame [OF C this] show "ok h' x \<and> re h' x = re h x \<and> f (co h' x) = f (co h x)" by simp
next
  fix h x y h'
  assume "ok h x" "cp x h = (y, h')"
  from copier.copied [OF C this]
  show "(\<exists>new. h' = h @ new) \<and> ok h' y \<and> f (co h' y) = f (co h x) \<and> (\<forall>a \<in> re h' y. length h \<le> a)" by simp
qed

section \<open>Slices of copied elements\<close>

definition slice_elems :: "'x mem \<Rightarrow> slice \<Rightarrow> 'x elem list" where
  "slice_elems h s = map (\<lambda>i. slice_get s i h) [0..<sliceLen s]"

definition slice_okay :: "('x mem \<Rightarrow> 'x elem \<Rightarrow> bool) \<Rightarrow> 'x mem \<Rightarrow> slice option \<Rightarrow> bool" where
  "slice_okay ok h s = (case s of None \<Rightarrow> True
     | Some s \<Rightarrow> sliceArray s < length h \<and> sliceOffset s + sliceLen s \<le> length (h ! sliceArray s) \<and>
                 list_all (ok h) (slice_elems h s))"

definition slice_reach :: "('x mem \<Rightarrow> 'x elem \<Rightarrow> addr set) \<Rightarrow> 'x mem \<Rightarrow> slice option \<Rightarrow> addr set" where
  "slice_reach re h s = (case s of None \<Rightarrow> {} | Some s \<Rightarrow> insert (sliceArray s) (\<Union>e \<in> set (slice_elems h s). re h e))"

definition slice_content :: "('x mem \<Rightarrow> 'x elem \<Rightarrow> 'v) \<Rightarrow> 'x mem \<Rightarrow> slice option \<Rightarrow> 'v list option" where
  "slice_content co h s = map_option (\<lambda>s. map (co h) (slice_elems h s)) s"

lemma set_slice_elems: "set (slice_elems h s) = (\<lambda>i. slice_get s i h) ` {..<sliceLen s}"
  by (auto simp: slice_elems_def)

lemma slice_elems_same: "h' ! sliceArray s = h ! sliceArray s \<Longrightarrow> slice_elems h' s = slice_elems h s"
  by (simp add: slice_elems_def slice_get_def)


text \<open>
  The loop from the \<open>k\<close>-th element on: memory is what there was, then the output array, then what the
  copies of the elements added.
\<close>

lemma copy_range_from:
  assumes C: "copier cp ok re co" and s: "slice_okay ok base (Some s)"
    and out: "sliceArray out = length base" "sliceOffset out = 0"
    and "k \<le> sliceLen s" and "length arr = sliceLen s"
    and "\<And>i. i < k \<Longrightarrow> ok (base @ arr # ext) (arr ! i) \<and>
      co (base @ arr # ext) (arr ! i) = co base (slice_get s i base) \<and>
      (\<forall>a \<in> re (base @ arr # ext) (arr ! i). length base < a)"
  shows "\<exists>arr' ext'. copy_range cp s out [k..<sliceLen s] (base @ arr # ext) = base @ arr' # ext' \<and>
    length arr' = sliceLen s \<and> (\<forall>i < sliceLen s. ok (base @ arr' # ext') (arr' ! i) \<and>
      co (base @ arr' # ext') (arr' ! i) = co base (slice_get s i base) \<and>
      (\<forall>a \<in> re (base @ arr' # ext') (arr' ! i). length base < a))"
  using assms(5-7)
proof (induction "sliceLen s - k" arbitrary: k arr ext)
  case 0
  then show ?case by (intro exI [of _ arr] exI [of _ ext]) simp
next
  case (Suc m)
  let ?h = "base @ arr # ext" and ?x = "slice_get s k base"
  have k: "k < sliceLen s" using Suc.hyps(2) by simp
  have x: "slice_get s k ?h = ?x" "ok base ?x"
    using s k by (auto simp: slice_get_def slice_okay_def nth_append list_all_iff set_slice_elems)
  obtain y h1 where cp: "cp ?x ?h = (y, h1)" by (cases "cp ?x ?h")
  have xh: "ok ?h ?x" "co ?h ?x = co base ?x"
    using copier.grown [OF C x(2), of "arr # ext"] by simp_all
  obtain new where h1: "h1 = ?h @ new" and y: "ok h1 y" "co h1 y = co base ?x"
    "\<And>a. a \<in> re h1 y \<Longrightarrow> length ?h \<le> a"
    using copier.copied [OF C xh(1) cp] xh(2) by auto
  let ?arr = "arr[k := y]" and ?ext = "ext @ new"
  let ?h2 = "base @ ?arr # ?ext"
  have h2: "slice_put out k y h1 = ?h2" using out by (simp add: slice_put_def h1)
  have same: "?h2 ! a = h1 ! a" if "a \<noteq> length base" for a
    using that by (auto simp: h1 nth_append nth_Cons split: nat.splits)
  have y2: "ok ?h2 y" "co ?h2 y = co base ?x" "\<And>a. a \<in> re ?h2 y \<Longrightarrow> length base < a"
    using copier.frame [OF C y(1), of ?h2] same y(2,3) by (force simp: h1)+
  have done1: "ok ?h2 (arr ! i) \<and> co ?h2 (arr ! i) = co base (slice_get s i base) \<and>
      (\<forall>a \<in> re ?h2 (arr ! i). length base < a)" if "i < k" for i
  proof -
    note i = Suc.prems(3) [OF that]
    have "?h2 ! a = ?h ! a" if "a \<in> re ?h (arr ! i)" for a
      using same [of a] i that copier.reach_valid [OF C, of ?h "arr ! i" a] by (auto simp: h1 nth_append)
    then show ?thesis using copier.frame [OF C, of ?h "arr ! i" ?h2] i by simp
  qed
  have "\<exists>arr' ext'. copy_range cp s out [Suc k..<sliceLen s] ?h2 = base @ arr' # ext' \<and>
    length arr' = sliceLen s \<and> (\<forall>i < sliceLen s. ok (base @ arr' # ext') (arr' ! i) \<and>
      co (base @ arr' # ext') (arr' ! i) = co base (slice_get s i base) \<and>
      (\<forall>a \<in> re (base @ arr' # ext') (arr' ! i). length base < a))"
  proof (rule Suc.hyps(1))
    show "m = sliceLen s - Suc k" "Suc k \<le> sliceLen s" "length ?arr = sliceLen s"
      using Suc.hyps(2) Suc.prems(2) k by simp_all
    show "ok ?h2 (?arr ! i) \<and> co ?h2 (?arr ! i) = co base (slice_get s i base) \<and>
      (\<forall>a \<in> re ?h2 (?arr ! i). length base < a)" if "i < Suc k" for i
    proof (cases "i = k")
      case True
      then show ?thesis using y2 Suc.prems(2) k by simp
    next
      case False
      then have "i < k" using that by simp
      from done1 [OF this] show ?thesis using False by simp
    qed
  qed
  then show ?case using k x(1) cp by (simp add: upt_conv_Cons h2)
qed

lemma slice_copier:
  assumes C: "copier cp ok re co"
  shows "copier (copy_slice cp z) (slice_okay ok) (slice_reach re) (slice_content co)"
proof
  fix h :: "'a mem" and s a
  show "slice_okay ok h s \<Longrightarrow> a \<in> slice_reach re h s \<Longrightarrow> a < length h"
    using copier.reach_valid [OF C] by (auto simp: slice_okay_def slice_reach_def list_all_iff split: option.splits)
next
  fix h h' :: "'a mem" and s
  assume ok: "slice_okay ok h s" and len: "length h \<le> length h'"
    and same: "\<And>a. a \<in> slice_reach re h s \<Longrightarrow> h' ! a = h ! a"
  show "slice_okay ok h' s \<and> slice_reach re h' s = slice_reach re h s \<and> slice_content co h' s = slice_content co h s"
  proof (cases s)
    case (Some t)
    have elems: "slice_elems h' t = slice_elems h t"
      using same Some by (intro slice_elems_same) (simp add: slice_reach_def)
    have e: "ok h' e \<and> re h' e = re h e \<and> co h' e = co h e" if "e \<in> set (slice_elems h t)" for e
      using that ok same Some by (intro copier.frame [OF C _ len])
        (auto simp: slice_okay_def slice_reach_def list_all_iff)
    show ?thesis using Some ok len same e
      by (auto simp: slice_okay_def slice_reach_def slice_content_def elems list_all_iff)
  qed (simp add: slice_okay_def slice_reach_def slice_content_def)
next
  fix h h' :: "'a mem" and s t
  assume ok: "slice_okay ok h s" and cp: "copy_slice cp z s h = (t, h')"
  show "(\<exists>new. h' = h @ new) \<and> slice_okay ok h' t \<and> slice_content co h' t = slice_content co h s \<and>
    (\<forall>a \<in> slice_reach re h' t. length h \<le> a)"
  proof (cases s)
    case None
    then show ?thesis using cp by (auto simp: copy_slice_def slice_okay_def slice_reach_def slice_content_def)
  next
    case (Some s')
    let ?n = "sliceLen s'"
    let ?out = "\<lparr>sliceArray = length h, sliceOffset = 0, sliceLen = ?n\<rparr>"
    obtain arr ext where "copy_range cp s' ?out [0..<?n] (h @ replicate ?n z # []) = h @ arr # ext"
      and arr: "length arr = ?n" "\<And>i. i < ?n \<Longrightarrow> ok (h @ arr # ext) (arr ! i) \<and>
        co (h @ arr # ext) (arr ! i) = co h (slice_get s' i h) \<and> (\<forall>a \<in> re (h @ arr # ext) (arr ! i). length h < a)"
      using copy_range_from [OF C, where base = h and s = s' and out = ?out and k = 0
          and arr = "replicate ?n z" and ext = "[]"] ok Some by auto
    then have t: "t = Some ?out" "h' = h @ arr # ext"
      using cp Some by (simp_all add: copy_slice_def make_slice_def)
    have elems: "slice_elems h' ?out = arr"
      using arr(1) by (auto simp: slice_elems_def slice_get_def t intro: nth_equalityI)
    have "map (co h') arr = map (co h) (slice_elems h s')"
      using arr by (intro nth_equalityI) (auto simp: slice_elems_def t)
    moreover have "ok h' e \<and> (\<forall>a \<in> re h' e. length h \<le> a)" if "e \<in> set arr" for e
      using that arr by (force simp: t in_set_conv_nth)
    ultimately show ?thesis using Some elems arr(1)
      by (auto simp: slice_okay_def slice_reach_def slice_content_def list_all_iff t)
  qed
qed


section \<open>Copies of parts\<close>

text \<open>A value with two copied parts, the first copied first; the rest of the value is kept.\<close>

lemma parts_copier:
  assumes A: "copier ca oa ra va" and B: "copier cb ob rb vb"
    and set_get: "\<And>x a b. getA (put x a b) = a \<and> getB (put x a b) = b \<and> rest (put x a b) = rest x"
    and cp: "\<And>x h. cp x h = (let (a, h) = ca (getA x) h; (b, h) = cb (getB x) h in (put x a b, h))"
  shows "copier cp (\<lambda>h x. oa h (getA x) \<and> ob h (getB x)) (\<lambda>h x. ra h (getA x) \<union> rb h (getB x))
    (\<lambda>h x. (rest x, va h (getA x), vb h (getB x)))"
proof
  fix h x a
  show "oa h (getA x) \<and> ob h (getB x) \<Longrightarrow> a \<in> ra h (getA x) \<union> rb h (getB x) \<Longrightarrow> a < length h"
    using copier.reach_valid [OF A] copier.reach_valid [OF B] by blast
next
  fix h h' x
  assume "oa h (getA x) \<and> ob h (getB x)" "length h \<le> length h'"
    "\<And>a. a \<in> ra h (getA x) \<union> rb h (getB x) \<Longrightarrow> h' ! a = h ! a"
  then show "(oa h' (getA x) \<and> ob h' (getB x)) \<and>
    ra h' (getA x) \<union> rb h' (getB x) = ra h (getA x) \<union> rb h (getB x) \<and>
    (rest x, va h' (getA x), vb h' (getB x)) = (rest x, va h (getA x), vb h (getB x))"
    using copier.frame [OF A, of h "getA x" h'] copier.frame [OF B, of h "getB x" h'] by simp
next
  fix h h' x y
  assume ok: "oa h (getA x) \<and> ob h (getB x)" and c: "cp x h = (y, h')"
  obtain a h1 where a: "ca (getA x) h = (a, h1)" by (cases "ca (getA x) h")
  obtain b h2 where b: "cb (getB x) h1 = (b, h2)" by (cases "cb (getB x) h1")
  have y: "y = put x a b" "h2 = h'" using c a b by (simp_all add: cp)
  obtain n1 where h1: "h1 = h @ n1" and A1: "oa h1 a" "va h1 a = va h (getA x)" "\<forall>r \<in> ra h1 a. length h \<le> r"
    using copier.copied [OF A _ a] ok by blast
  have B1: "ob h1 (getB x)" "vb h1 (getB x) = vb h (getB x)"
    using copier.grown [OF B, of h "getB x"] ok by (simp_all add: h1)
  obtain n2 where h2: "h2 = h1 @ n2" and B2: "ob h2 b" "vb h2 b = vb h (getB x)" "\<forall>r \<in> rb h2 b. length h1 \<le> r"
    using copier.copied [OF B B1(1) b] B1(2) by auto
  have A2: "oa h2 a" "va h2 a = va h (getA x)" "ra h2 a = ra h1 a"
    using copier.grown [OF A A1(1)] A1(2) by (simp_all add: h2)
  have "\<exists>new. h' = h @ new" using h1 h2 y by simp
  moreover have "\<forall>r \<in> ra h' a \<union> rb h' b. length h \<le> r" using A1(3) A2(3) B2(3) y by (auto simp: h1)
  ultimately show "(\<exists>new. h' = h @ new) \<and> (oa h' (getA y) \<and> ob h' (getB y)) \<and>
    (rest y, va h' (getA y), vb h' (getB y)) = (rest x, va h (getA x), vb h (getB x)) \<and>
    (\<forall>r \<in> ra h' (getA y) \<union> rb h' (getB y). length h \<le> r)"
    using A2(1,2) B2(1,2) y set_get by simp
qed

text \<open>An element of memory that holds a copied value; elements of other types hold nothing to copy.\<close>

lemma elem_copier:
  assumes C: "copier cp ok re co" and wrap: "\<And>x. unwrap (wrap x) = Some x"
    and ec: "\<And>e h. ec e h = (case unwrap e of Some x \<Rightarrow> (case cp x h of (x, h) \<Rightarrow> (wrap x, h)) | None \<Rightarrow> (e, h))"
  shows "copier ec (\<lambda>h e. case unwrap e of Some x \<Rightarrow> ok h x | None \<Rightarrow> False)
    (\<lambda>h e. case unwrap e of Some x \<Rightarrow> re h x | None \<Rightarrow> {}) (\<lambda>h e. map_option (co h) (unwrap e))"
proof
  fix h e a
  show "(case unwrap e of Some x \<Rightarrow> ok h x | None \<Rightarrow> False) \<Longrightarrow>
    a \<in> (case unwrap e of Some x \<Rightarrow> re h x | None \<Rightarrow> {}) \<Longrightarrow> a < length h"
    using copier.reach_valid [OF C] by (auto split: option.splits)
next
  fix h h' e
  assume ok: "case unwrap e of Some x \<Rightarrow> ok h x | None \<Rightarrow> False" and len: "length h \<le> length h'"
    and same: "\<And>a. a \<in> (case unwrap e of Some x \<Rightarrow> re h x | None \<Rightarrow> {}) \<Longrightarrow> h' ! a = h ! a"
  from ok obtain x where "unwrap e = Some x" "ok h x" by (cases "unwrap e") auto
  then show "(case unwrap e of Some x \<Rightarrow> ok h' x | None \<Rightarrow> False) \<and>
    (case unwrap e of Some x \<Rightarrow> re h' x | None \<Rightarrow> {}) = (case unwrap e of Some x \<Rightarrow> re h x | None \<Rightarrow> {}) \<and>
    map_option (co h') (unwrap e) = map_option (co h) (unwrap e)"
    using copier.frame [OF C, of h x h'] len same by simp
next
  fix h h' e e'
  assume ok: "case unwrap e of Some x \<Rightarrow> ok h x | None \<Rightarrow> False" and "ec e h = (e', h')"
  then obtain x y where "unwrap e = Some x" "ok h x" "cp x h = (y, h')" "e' = wrap y"
    by (auto simp: ec split: option.splits prod.splits)
  then show "(\<exists>new. h' = h @ new) \<and> (case unwrap e' of Some x \<Rightarrow> ok h' x | None \<Rightarrow> False) \<and>
    map_option (co h') (unwrap e') = map_option (co h) (unwrap e) \<and>
    (\<forall>a \<in> case unwrap e' of Some x \<Rightarrow> re h' x | None \<Rightarrow> {}. length h \<le> a)"
    using copier.copied [OF C, of h x y h'] by (simp add: wrap)
qed

text \<open>A pointer is a slice of one element, and its \<open>DeepCopy\<close> the copy of that slice.\<close>

definition ptr_slice :: "ptr \<Rightarrow> slice" where
  "ptr_slice p = \<lparr>sliceArray = ptrArray p, sliceOffset = ptrIndex p, sliceLen = 1\<rparr>"

lemma deep_copy_slice:
  "copy_slice cp z (map_option ptr_slice p) h = (case deep_copy cp z p h of (q, h') \<Rightarrow> (map_option ptr_slice q, h'))"
  if "\<And>q. p = Some q \<Longrightarrow> ptrArray q < length h"
  using that by (cases p) (auto simp: copy_slice_def deep_copy_def make_slice_def new_elem_def ptr_slice_def
    slice_get_def slice_put_def load_def store_def nth_append split: prod.splits)


section \<open>The generated copies\<close>

text \<open>Values without pointers.\<close>

lemma value_copier: "(\<And>x. f x = x) \<Longrightarrow> copier (\<lambda>x h. (f x, h)) (\<lambda>h x. True) (\<lambda>h x. {}) (\<lambda>h x. x)"
  by unfold_locales auto

definition as_condition :: "'x elem \<Rightarrow> Condition option" where
  "as_condition e = (case e of CondE c \<Rightarrow> Some c | _ \<Rightarrow> None)"

definition as_job :: "'x elem \<Rightarrow> 'x JobMem option" where
  "as_job e = (case e of JobE j \<Rightarrow> Some j | _ \<Rightarrow> None)"

definition as_list :: "'x elem \<Rightarrow> 'x HPCJobList option" where
  "as_list e = (case e of ListE l \<Rightarrow> Some l | _ \<Rightarrow> None)"

definition elem_okay :: "('x elem \<Rightarrow> 'a option) \<Rightarrow> ('x mem \<Rightarrow> 'a \<Rightarrow> bool) \<Rightarrow> 'x mem \<Rightarrow> 'x elem \<Rightarrow> bool" where
  "elem_okay unwrap ok h e = (case unwrap e of Some x \<Rightarrow> ok h x | None \<Rightarrow> False)"

definition elem_reach :: "('x elem \<Rightarrow> 'a option) \<Rightarrow> ('x mem \<Rightarrow> 'a \<Rightarrow> addr set) \<Rightarrow> 'x mem \<Rightarrow> 'x elem \<Rightarrow> addr set" where
  "elem_reach unwrap re h e = (case unwrap e of Some x \<Rightarrow> re h x | None \<Rightarrow> {})"

definition elem_content :: "('x elem \<Rightarrow> 'a option) \<Rightarrow> ('x mem \<Rightarrow> 'a \<Rightarrow> 'v) \<Rightarrow> 'x mem \<Rightarrow> 'x elem \<Rightarrow> 'v option" where
  "elem_content unwrap co h e = map_option (co h) (unwrap e)"

definition status_okay :: "'x mem \<Rightarrow> StatusMem \<Rightarrow> bool" where
  "status_okay h s = slice_okay (elem_okay as_condition (\<lambda>h c. True)) h (conditionsMem s)"

definition status_reach :: "'x mem \<Rightarrow> StatusMem \<Rightarrow> addr set" where
  "status_reach h s = slice_reach (elem_reach as_condition (\<lambda>h c. {})) h (conditionsMem s)"

definition status_content :: "'x mem \<Rightarrow> StatusMem \<Rightarrow> string \<times> Condition option list option" where
  "status_content h s = (phaseMem s, slice_content (elem_content as_condition (\<lambda>h c. c)) h (conditionsMem s))"

text \<open>
  For a job and a list of jobs the three notions come from those of the metadata, \<open>ok\<close>, \<open>re\<close>, \<open>co\<close>.
\<close>

definition job_okay :: "('x mem \<Rightarrow> 'x \<Rightarrow> bool) \<Rightarrow> 'x mem \<Rightarrow> 'x JobMem \<Rightarrow> bool" where
  "job_okay ok h j \<longleftrightarrow> ok h (objectMeta j) \<and> status_okay h (statusMem j)"

definition job_reach :: "('x mem \<Rightarrow> 'x \<Rightarrow> addr set) \<Rightarrow> 'x mem \<Rightarrow> 'x JobMem \<Rightarrow> addr set" where
  "job_reach re h j = re h (objectMeta j) \<union> status_reach h (statusMem j)"

definition job_content where
  "job_content co h j = ((typeMeta j, specMem j), co h (objectMeta j), status_content h (statusMem j))"

definition list_okay :: "('x mem \<Rightarrow> 'x \<Rightarrow> bool) \<Rightarrow> 'x mem \<Rightarrow> 'x HPCJobList \<Rightarrow> bool" where
  "list_okay ok h l \<longleftrightarrow> ok h (listMeta l) \<and> slice_okay (elem_okay as_job (job_okay ok)) h (itemsMem l)"

definition list_reach :: "('x mem \<Rightarrow> 'x \<Rightarrow> addr set) \<Rightarrow> 'x mem \<Rightarrow> 'x HPCJobList \<Rightarrow> addr set" where
  "list_reach re h l = re h (listMeta l) \<union> slice_reach (elem_reach as_job (job_reach re)) h (itemsMem l)"

definition list_content where
  "list_content co h l =
     (listTypeMeta l, co h (listMeta l), slice_content (elem_content as_job (job_content co)) h (itemsMem l))"

lemma condition_copier:
  assumes "\<And>c. cc c = c"
  shows "copier (condition_elem_copy cc) (elem_okay as_condition (\<lambda>h c. True))
    (elem_reach as_condition (\<lambda>h c. {})) (elem_content as_condition (\<lambda>h c. c))"
  unfolding elem_okay_def elem_reach_def elem_content_def
  by (rule elem_copier [OF value_copier [OF assms], where wrap = CondE])
    (auto simp: as_condition_def condition_elem_copy_def split: elem.splits)

lemma status_copier:
  assumes "\<And>c. cc c = c"
  shows "copier (HPCJobStatus_DeepCopyInto cc) status_okay status_reach status_content"
  by (rule copier_view [OF parts_copier [OF value_copier slice_copier [OF condition_copier [OF assms],
        where z = "CondE zero_condition"], where put = "\<lambda>s p c. s\<lparr>phaseMem := p, conditionsMem := c\<rparr>"
          and getA = phaseMem and getB = conditionsMem and rest = "\<lambda>_. ()" and cp = "HPCJobStatus_DeepCopyInto cc"],
        where f = snd])
    (simp_all add: status_okay_def status_reach_def status_content_def HPCJobStatus_DeepCopyInto_def split_beta,
      rule StatusMem.equality, simp_all)

lemma job_copier:
  assumes "copier (ObjectMetaCopy L) ok re co" and "\<And>c. ConditionCopy L c = c"
  shows "copier (HPCJob_DeepCopyInto L) (job_okay ok) (job_reach re) (job_content co)"
  unfolding job_okay_def job_reach_def job_content_def
  by (rule parts_copier [OF assms(1) status_copier [OF assms(2)],
        where put = "\<lambda>j m s. j\<lparr>objectMeta := m, statusMem := s\<rparr>"])
    (auto simp: HPCJob_DeepCopyInto_def Let_def split: prod.splits)

lemma job_elem_copier:
  assumes "copier (ObjectMetaCopy L) ok re co" and "\<And>c. ConditionCopy L c = c"
  shows "copier (job_elem_copy L) (elem_okay as_job (job_okay ok)) (elem_reach as_job (job_reach re))
    (elem_content as_job (job_content co))"
  unfolding elem_okay_def elem_reach_def elem_content_def
  by (rule elem_copier [OF job_copier [OF assms], where wrap = JobE])
    (auto simp: as_job_def job_elem_copy_def split: elem.splits prod.splits)

lemma list_copier:
  assumes "copier (ObjectMetaCopy L) ok re co" and "copier (ListMetaCopy L) ok re co"
    and "\<And>c. ConditionCopy L c = c"
  shows "copier (HPCJobList_DeepCopyInto L) (list_okay ok) (list_reach re) (list_content co)"
  unfolding list_okay_def list_reach_def list_content_def
  by (rule parts_copier [OF assms(2) slice_copier [OF job_elem_copier [OF assms(1,3)],
        where z = "JobE (zero_job L)"], where put = "\<lambda>l m i. l\<lparr>listMeta := m, itemsMem := i\<rparr>"])
    (auto simp: HPCJobList_DeepCopyInto_def Let_def split: prod.splits)

lemma list_elem_copier:
  assumes "copier (ObjectMetaCopy L) ok re co" and "copier (ListMetaCopy L) ok re co"
    and "\<And>c. ConditionCopy L c = c"
  shows "copier (list_elem_copy L) (elem_okay as_list (list_okay ok)) (elem_reach as_list (list_reach re))
    (elem_content as_list (list_content co))"
  unfolding elem_okay_def elem_reach_def elem_content_def
  by (rule elem_copier [OF list_copier [OF assms], where wrap = ListE])
    (auto simp: as_list_def list_elem_copy_def split: elem.splits prod.splits)


section \<open>Pointers\<close>

definition ptr_okay :: "('x mem \<Rightarrow> 'x elem \<Rightarrow> bool) \<Rightarrow> 'x mem \<Rightarrow> ptr \<Rightarrow> bool" where
  "ptr_okay ok h p \<longleftrightarrow> ptrArray p < length h \<and> ptrIndex p < length (h ! ptrArray p) \<and> ok h (load p h)"

definition ptr_reach :: "('x mem \<Rightarrow> 'x elem \<Rightarrow> addr set) \<Rightarrow> 'x mem \<Rightarrow> ptr \<Rightarrow> addr set" where
  "ptr_reach re h p = insert (ptrArray p) (re h (load p h))"

definition ptr_content :: "('x mem \<Rightarrow> 'x elem \<Rightarrow> 'v) \<Rightarrow> 'x mem \<Rightarrow> ptr \<Rightarrow> 'v" where
  "ptr_content co h p = co h (load p h)"

lemma slice_elems_ptr: "slice_elems h (ptr_slice p) = [load p h]"
  by (simp add: slice_elems_def slice_get_def ptr_slice_def load_def)

lemma slice_ptr:
  "slice_okay ok h (Some (ptr_slice p)) = ptr_okay ok h p"
  "slice_reach re h (Some (ptr_slice p)) = ptr_reach re h p"
  "slice_content co h (Some (ptr_slice p)) = Some [ptr_content co h p]"
  by (auto simp: slice_okay_def slice_reach_def slice_content_def slice_elems_ptr ptr_okay_def
      ptr_reach_def ptr_content_def) (auto simp: ptr_slice_def)

text \<open>
  What is promised of the copy of the object a pointer refers to: both show what the original showed,
  and no write to an array of the one shows in the other.
\<close>

definition separate_copy where
  "separate_copy re co h p q h' \<longleftrightarrow>
     ptr_content co h' q = ptr_content co h p \<and> ptr_content co h' p = ptr_content co h p \<and>
     (\<forall>a \<in> ptr_reach re h' q. \<forall>arr. ptr_content co (h'[a := arr]) p = ptr_content co h p) \<and>
     (\<forall>a \<in> ptr_reach re h' p. \<forall>arr. ptr_content co (h'[a := arr]) q = ptr_content co h p)"

lemma deep_copy_separate:
  assumes C: "copier cp ok re co" and ok: "ptr_okay ok h p"
  shows "\<exists>q h'. deep_copy cp z (Some p) h = (Some q, h') \<and> separate_copy re co h p q h'"
proof -
  obtain q h' where q: "deep_copy cp z (Some p) h = (Some q, h')"
    by (cases "deep_copy cp z (Some p) h") (auto simp: deep_copy_def split: prod.splits)
  have S: "copy_slice cp z (Some (ptr_slice p)) h = (Some (ptr_slice q), h')"
    using deep_copy_slice [of "Some p" h cp z] ok q by (simp add: ptr_okay_def)
  note c = copier.copy_separate [OF slice_copier [OF C, where z = z] _ S]
  have "slice_okay ok h (Some (ptr_slice p))" using ok by (simp add: slice_ptr)
  note c = c [OF this, unfolded slice_ptr option.inject list.inject]
  show ?thesis using q c by (auto simp: separate_copy_def)
qed

lemma deep_copy_None: "deep_copy cp z None h = (None, h)"
  by (simp add: deep_copy_def)

section \<open>Metadata with a slice\<close>

text \<open>
  Metadata as the witnesses use it: a name and a slice of finalizers. Its copy allocates, as that of
  the library does.
\<close>

record meta =
  metaName :: string
  metaFinalizers :: "slice option"

definition finalizer :: "string \<Rightarrow> meta elem" where
  "finalizer f = LibE \<lparr>metaName = f, metaFinalizers = None\<rparr>"

definition as_finalizer :: "meta elem \<Rightarrow> string option" where
  "as_finalizer e = (case e of LibE m \<Rightarrow> if metaFinalizers m = None then Some (metaName m) else None | _ \<Rightarrow> None)"

definition finalizer_elem_copy :: "meta elem \<Rightarrow> meta mem \<Rightarrow> meta elem \<times> meta mem" where
  "finalizer_elem_copy e h = (e, h)"

definition sample_meta_copy :: "meta \<Rightarrow> meta mem \<Rightarrow> meta \<times> meta mem" where
  "sample_meta_copy m h =
     (let (s, h) = copy_slice finalizer_elem_copy (finalizer '''') (metaFinalizers m) h
      in (m\<lparr>metaFinalizers := s\<rparr>, h))"

definition sample_lib :: "meta meta_lib" where
  "sample_lib = \<lparr>ObjectMetaCopy = sample_meta_copy, ListMetaCopy = sample_meta_copy,
     ConditionCopy = id, zeroMeta = \<lparr>metaName = '''', metaFinalizers = None\<rparr>\<rparr>"

definition meta_okay :: "meta mem \<Rightarrow> meta \<Rightarrow> bool" where
  "meta_okay h m = slice_okay (elem_okay as_finalizer (\<lambda>h f. True)) h (metaFinalizers m)"

definition meta_reach :: "meta mem \<Rightarrow> meta \<Rightarrow> addr set" where
  "meta_reach h m = slice_reach (elem_reach as_finalizer (\<lambda>h f. {})) h (metaFinalizers m)"

definition meta_content :: "meta mem \<Rightarrow> meta \<Rightarrow> string \<times> string option list option" where
  "meta_content h m = (metaName m, slice_content (elem_content as_finalizer (\<lambda>h f. f)) h (metaFinalizers m))"

lemma sample_meta_copier: "copier sample_meta_copy meta_okay meta_reach meta_content"
proof -
  have F: "copier finalizer_elem_copy (elem_okay as_finalizer (\<lambda>h f. True))
      (elem_reach as_finalizer (\<lambda>h f. {})) (elem_content as_finalizer (\<lambda>h f. f))"
    unfolding elem_okay_def elem_reach_def elem_content_def
    by (rule elem_copier [OF value_copier [where f = "\<lambda>f. f"], where wrap = finalizer])
      (auto simp: as_finalizer_def finalizer_def finalizer_elem_copy_def split: elem.splits)
  show ?thesis
    by (rule copier_view [OF parts_copier [OF value_copier slice_copier [OF F, where z = "finalizer ''''"],
          where put = "\<lambda>m n s. m\<lparr>metaName := n, metaFinalizers := s\<rparr>" and getA = metaName and getB = metaFinalizers
            and rest = "\<lambda>_. ()" and cp = sample_meta_copy], where f = snd])
      (simp_all add: meta_okay_def meta_reach_def meta_content_def sample_meta_copy_def split_beta,
        rule meta.equality, simp_all)
qed

interpretation status_copy: copier "HPCJobStatus_DeepCopyInto id" status_okay status_reach status_content
  by (rule status_copier) simp

interpretation job_copy: copier "HPCJob_DeepCopyInto sample_lib"
  "job_okay meta_okay" "job_reach meta_reach" "job_content meta_content"
  by (rule job_copier) (simp_all add: sample_lib_def sample_meta_copier)

text \<open>A job in memory: its finalizers in the first array, its conditions in the second, the job in the third.\<close>

definition sample_mem :: "meta mem" where
  "sample_mem =
     [[finalizer ''hpc-sentinel/finalizer''],
      [CondE \<lparr>condType = ''Available'', condStatus = ''True''\<rparr>, CondE \<lparr>condType = ''Degraded'', condStatus = ''False''\<rparr>],
      [JobE \<lparr>typeMeta = (''HPCJob'', ''v1alpha1''), objectMeta = \<lparr>metaName = ''train'', metaFinalizers = Some \<lparr>sliceArray = 0, sliceOffset = 0, sliceLen = 1\<rparr>\<rparr>,
         specMem = zero_spec,
         statusMem = \<lparr>phaseMem = ''Running'', conditionsMem = Some \<lparr>sliceArray = 1, sliceOffset = 0, sliceLen = 2\<rparr>\<rparr>\<rparr>],
      [ListE \<lparr>listTypeMeta = (''HPCJobList'', ''v1alpha1''), listMeta = \<lparr>metaName = '''', metaFinalizers = None\<rparr>,
         itemsMem = Some \<lparr>sliceArray = 2, sliceOffset = 0, sliceLen = 1\<rparr>\<rparr>]]"

section \<open>The properties\<close>

text \<open>
C38: A deep copy of a job shows what the job shows and shares no memory with it: after
\<open>HPCJob.DeepCopy\<close> no write to memory reached from the copy shows in the original, nor the other way
round. This needs that the copies of the metadata and of a condition, of apimachinery, are deep.
\<close>

theorem job_copy_separate:
  assumes "copier (ObjectMetaCopy L) ok re co" and "\<And>c. ConditionCopy L c = c"
    and "ptr_okay (elem_okay as_job (job_okay ok)) h p"
  shows "\<exists>q h'. HPCJob_DeepCopy L (Some p) h = (Some q, h') \<and>
    separate_copy (elem_reach as_job (job_reach re)) (elem_content as_job (job_content co)) h p q h'"
  unfolding HPCJob_DeepCopy_def
  by (rule deep_copy_separate [OF job_elem_copier [OF assms(1,2)] assms(3)])

theorem job_copy_separate_witness:
  "\<exists>q h'. HPCJob_DeepCopy sample_lib (Some \<lparr>ptrArray = 2, ptrIndex = 0\<rparr>) sample_mem = (Some q, h') \<and>
    separate_copy (elem_reach as_job (job_reach meta_reach)) (elem_content as_job (job_content meta_content))
      sample_mem \<lparr>ptrArray = 2, ptrIndex = 0\<rparr> q h'"
proof (rule job_copy_separate)
  show "copier (ObjectMetaCopy sample_lib) meta_okay meta_reach meta_content"
    by (simp add: sample_lib_def sample_meta_copier)
  show "ConditionCopy sample_lib c = c" for c by (simp add: sample_lib_def)
  show "ptr_okay (elem_okay as_job (job_okay meta_okay)) sample_mem \<lparr>ptrArray = 2, ptrIndex = 0\<rparr>" by code_simp
qed

text \<open>
The same for a list of jobs, whose items array, metadata, finalizers and conditions are all copied;
and a nil list has a nil copy and a nil object.
\<close>

theorem list_copy_separate:
  assumes "copier (ObjectMetaCopy L) ok re co" and "copier (ListMetaCopy L) ok re co"
    and "\<And>c. ConditionCopy L c = c"
    and "ptr_okay (elem_okay as_list (list_okay ok)) h p"
  shows "(\<exists>q h'. HPCJobList_DeepCopyObject L (Some p) h = (Some (ListObject (Some q)), h') \<and>
      separate_copy (elem_reach as_list (list_reach re)) (elem_content as_list (list_content co)) h p q h') \<and>
    HPCJobList_DeepCopyObject L None h = (None, h)"
proof -
  obtain q h' where "HPCJobList_DeepCopy L (Some p) h = (Some q, h')"
    "separate_copy (elem_reach as_list (list_reach re)) (elem_content as_list (list_content co)) h p q h'"
    unfolding HPCJobList_DeepCopy_def
    using deep_copy_separate [OF list_elem_copier [OF assms(1-3)] assms(4)] by blast
  then show ?thesis by (simp add: HPCJobList_DeepCopyObject_def) (simp add: HPCJobList_DeepCopy_def deep_copy_None)
qed

theorem list_copy_separate_witness:
  "(\<exists>q h'. HPCJobList_DeepCopyObject sample_lib (Some \<lparr>ptrArray = 3, ptrIndex = 0\<rparr>) sample_mem =
      (Some (ListObject (Some q)), h') \<and>
      separate_copy (elem_reach as_list (list_reach meta_reach)) (elem_content as_list (list_content meta_content))
        sample_mem \<lparr>ptrArray = 3, ptrIndex = 0\<rparr> q h') \<and>
    HPCJobList_DeepCopyObject sample_lib None sample_mem = (None, sample_mem)"
proof (rule list_copy_separate)
  show "copier (ObjectMetaCopy sample_lib) meta_okay meta_reach meta_content"
    "copier (ListMetaCopy sample_lib) meta_okay meta_reach meta_content"
    by (simp_all add: sample_lib_def sample_meta_copier)
  show "ConditionCopy sample_lib c = c" for c by (simp add: sample_lib_def)
  show "ptr_okay (elem_okay as_list (list_okay meta_okay)) sample_mem \<lparr>ptrArray = 3, ptrIndex = 0\<rparr>" by code_simp
qed

end
