(* ===== verification/Host_Env.thy ===== *)
theory Host_Env
  imports Effects Kube_Client
begin

text \<open>
  What the tools around the controller rely on and do not define: the operating system (environment
  variables, files, commands, clocks), the random generator, kind, helm, and the parts of the
  Kubernetes client library they call. As in \<open>Kube_Env\<close> they are the fields of a record, and each call
  is logged with its answer. A call that can fail answers with the values the Go function returns.
\<close>

text \<open>A command of \<open>os/exec\<close>; \<open>cmdEnv = None\<close> is the nil environment, which inherits the process's.\<close>

record command =
  cmdArgs :: "string list"
  cmdEnv :: "string list option"

definition Command :: "string list \<Rightarrow> command" where
  "Command args = \<lparr>cmdArgs = args, cmdEnv = None\<rparr>"

text \<open>Go values as \<open>yaml.Marshal\<close> gets them.\<close>

datatype yaml =
    YString string
  | YInt int
  | YBool bool
  | YList "yaml list"
  | YMap "(string \<times> yaml) list"

record ConfigMap =
  cmName :: string
  cmNamespace :: string
  cmResourceVersion :: string
  cmData :: "(string, string) gomap"

record ('w, 'c, 'k, 'e) host_env =
  HostNotFound :: "'e \<Rightarrow> bool"
  KindConfig :: string
  UnmarshalNodes :: "string \<Rightarrow> 'e + string list"
  YamlMarshal :: "yaml \<Rightarrow> string \<times> 'e option"
  TempDir :: string
  hostLookupEnv :: "'w \<Rightarrow> environ"
  hostEnviron :: "'w \<Rightarrow> string list"
  hostClientLib :: "'w \<Rightarrow> ('c, 'k, 'e) client_lib"
  hostSetenv :: "string \<Rightarrow> string \<Rightarrow> 'w \<Rightarrow> 'w"
  hostWriteFile :: "string \<Rightarrow> string \<Rightarrow> nat \<Rightarrow> 'w \<Rightarrow> 'e option \<times> 'w"
  hostRemove :: "string \<Rightarrow> 'w \<Rightarrow> 'e option \<times> 'w"
  hostRun :: "command \<Rightarrow> 'w \<Rightarrow> (string \<times> 'e option) \<times> 'w"
  hostStart :: "command \<Rightarrow> 'w \<Rightarrow> 'e option \<times> 'w"
  hostDraw :: "'w \<Rightarrow> nat \<times> 'w"
  hostOrder :: "'w \<Rightarrow> nat list \<times> 'w"
  hostWait :: "'w \<Rightarrow> (nat \<times> bool) \<times> 'w"
  hostSleep :: "int \<Rightarrow> 'w \<Rightarrow> 'w"
  hostClock :: "'w \<Rightarrow> int"
  hostPrint :: "string \<Rightarrow> 'w \<Rightarrow> 'w"
  kindList :: "'w \<Rightarrow> ('e + string list) \<times> 'w"
  kindCreate :: "string \<Rightarrow> string \<Rightarrow> 'w \<Rightarrow> 'e option \<times> 'w"
  kindKubeConfig :: "string \<Rightarrow> bool \<Rightarrow> 'w \<Rightarrow> ('e + string) \<times> 'w"
  helmInit :: "string \<Rightarrow> 'w \<Rightarrow> 'e option \<times> 'w"
  helmHistory :: "string \<Rightarrow> nat \<Rightarrow> string \<Rightarrow> 'w \<Rightarrow> 'e option \<times> 'w"
  apiListNodes :: "'k \<Rightarrow> string \<Rightarrow> 'w \<Rightarrow> (Node list \<times> 'e option \<times> nat) \<times> 'w"
  apiMergeNode :: "'k \<Rightarrow> string \<Rightarrow> labels \<Rightarrow> 'w \<Rightarrow> 'e option \<times> 'w"
  apiGetMap :: "'k \<Rightarrow> string \<Rightarrow> string \<Rightarrow> 'w \<Rightarrow> ('e + ConfigMap) \<times> 'w"
  apiCreateMap :: "'k \<Rightarrow> string \<Rightarrow> ConfigMap \<Rightarrow> 'w \<Rightarrow> 'e option \<times> 'w"
  apiUpdateMap :: "'k \<Rightarrow> string \<Rightarrow> ConfigMap \<Rightarrow> 'w \<Rightarrow> 'e option \<times> 'w"
  httpListenAndServe :: "string \<Rightarrow> 'w \<Rightarrow> 'e \<times> 'w"

text \<open>
  The log entries. A listing of nodes returns both the items and an error, and how long it took;
  \<open>Waited\<close> is one \<open>select\<close> between a deadline and a timer, see below.
\<close>

datatype ('k, 'e) host_event =
    Getenv string "string option"
  | Environ "string list"
  | Setenv string string
  | Loaded Config
  | MadeClient "'e client_err + 'k"
  | WroteFile string string nat "'e option"
  | RemovedFile string "'e option"
  | Ran command "string \<times> 'e option"
  | Started command "'e option"
  | DrewIntN nat nat
  | DrewBits nat nat
  | Ordered "nat list"
  | Waited "nat \<times> bool"
  | Slept int
  | Clock int
  | Printed string
  | ListedClusters "'e + string list"
  | CreatedCluster string string "'e option"
  | GotKubeConfig string "'e + string"
  | InitHelm string "'e option"
  | GotHistory string nat string "'e option"
  | ListedNodes string "Node list \<times> 'e option \<times> nat"
  | MergedNode string labels "'e option"
  | GotMap string string "'e + ConfigMap"
  | CreatedMap string ConfigMap "'e option"
  | UpdatedMap string ConfigMap "'e option"
  | Listened string 'e

type_synonym ('w, 'k, 'e, 'a) hprog = "('w, ('k, 'e) host_event, 'a) prog"

section \<open>Environment variables and clients\<close>

definition callLookupEnv :: "('w, 'c, 'k, 'e) host_env \<Rightarrow> string \<Rightarrow> ('w, 'k, 'e, string option) hprog" where
  "callLookupEnv H key = invoke (\<lambda>w. (hostLookupEnv H w key, w)) (Getenv key)"

text \<open>\<open>os.Getenv\<close>: the empty string for a variable that is not set.\<close>

definition callGetenv :: "('w, 'c, 'k, 'e) host_env \<Rightarrow> string \<Rightarrow> ('w, 'k, 'e, string) hprog" where
  "callGetenv H key = do { v \<leftarrow> callLookupEnv H key; ret (or_empty v) }"

definition callEnviron :: "('w, 'c, 'k, 'e) host_env \<Rightarrow> ('w, 'k, 'e, string list) hprog" where
  "callEnviron H = invoke (\<lambda>w. (hostEnviron H w, w)) Environ"

definition callSetenv :: "('w, 'c, 'k, 'e) host_env \<Rightarrow> string \<Rightarrow> string \<Rightarrow> ('w, 'k, 'e, unit) hprog" where
  "callSetenv H key v = invoke (\<lambda>w. ((), hostSetenv H key v w)) (\<lambda>_. Setenv key v)"

definition callLoad :: "('w, 'c, 'k, 'e) host_env \<Rightarrow> ('w, 'k, 'e, Config) hprog" where
  "callLoad H = invoke (\<lambda>w. (Load (hostLookupEnv H w) (HomeDir (hostClientLib H w)), w)) Loaded"

text \<open>The clientset of \<open>kube.NewKubeClient(cfg)\<close> and of \<open>kube.NewClientFromRawConfig(raw)\<close>.\<close>

definition callKubeClient :: "('w, 'c, 'k, 'e) host_env \<Rightarrow> Config \<Rightarrow> ('w, 'k, 'e, 'e client_err + 'k) hprog" where
  "callKubeClient H cfg =
     invoke (\<lambda>w. (map_sum id Kube (fst (NewKubeClient (hostClientLib H w) cfg)), w)) MadeClient"

definition callRawClient :: "('w, 'c, 'k, 'e) host_env \<Rightarrow> string \<Rightarrow> ('w, 'k, 'e, 'e client_err + 'k) hprog" where
  "callRawClient H raw =
     invoke (\<lambda>w. (map_sum id Kube (NewClientFromRawConfig (hostClientLib H w) raw), w)) MadeClient"

section \<open>Files, commands, output\<close>

definition callWriteFile ::
    "('w, 'c, 'k, 'e) host_env \<Rightarrow> string \<Rightarrow> string \<Rightarrow> nat \<Rightarrow> ('w, 'k, 'e, 'e option) hprog" where
  "callWriteFile H path data perm = invoke (hostWriteFile H path data perm) (WroteFile path data perm)"

definition callRemove :: "('w, 'c, 'k, 'e) host_env \<Rightarrow> string \<Rightarrow> ('w, 'k, 'e, 'e option) hprog" where
  "callRemove H path = invoke (hostRemove H path) (RemovedFile path)"

definition callRun :: "('w, 'c, 'k, 'e) host_env \<Rightarrow> command \<Rightarrow> ('w, 'k, 'e, string \<times> 'e option) hprog" where
  "callRun H c = invoke (hostRun H c) (Ran c)"

definition callStart :: "('w, 'c, 'k, 'e) host_env \<Rightarrow> command \<Rightarrow> ('w, 'k, 'e, 'e option) hprog" where
  "callStart H c = invoke (hostStart H c) (Started c)"

definition callSleep :: "('w, 'c, 'k, 'e) host_env \<Rightarrow> int \<Rightarrow> ('w, 'k, 'e, unit) hprog" where
  "callSleep H d = invoke (\<lambda>w. ((), hostSleep H d w)) (\<lambda>_. Slept d)"

definition callPrint :: "('w, 'c, 'k, 'e) host_env \<Rightarrow> string \<Rightarrow> ('w, 'k, 'e, unit) hprog" where
  "callPrint H t = invoke (\<lambda>w. ((), hostPrint H t w)) (\<lambda>_. Printed t)"

section \<open>Random numbers and the order of a map\<close>

text \<open>\<open>rand.IntN(n)\<close>: any number below \<open>n\<close>. A float is drawn as its significand of that many bits.\<close>

definition callIntN :: "('w, 'c, 'k, 'e) host_env \<Rightarrow> nat \<Rightarrow> ('w, 'k, 'e, nat) hprog" where
  "callIntN H n = invoke (\<lambda>w. case hostDraw H w of (r, w') \<Rightarrow> (r mod n, w')) (DrewIntN n)"

definition callBits :: "('w, 'c, 'k, 'e) host_env \<Rightarrow> nat \<Rightarrow> ('w, 'k, 'e, nat) hprog" where
  "callBits H bits = invoke (\<lambda>w. case hostDraw H w of (r, w') \<Rightarrow> (r mod 2 ^ bits, w')) (DrewBits bits)"

definition callRange :: "('w, 'c, 'k, 'e) host_env \<Rightarrow> ('k1 \<times> 'v) list \<Rightarrow> ('w, 'k, 'e, ('k1 \<times> 'v) list) hprog" where
  "callRange H m = do { order \<leftarrow> invoke (hostOrder H) Ordered; ret (arrange order m) }"

lemma callIntN_runs: "0 < n \<Longrightarrow> satisfies (callIntN H n) (\<lambda>i es. es = [DrewIntN n i] \<and> i < n)"
  by (auto simp: callIntN_def satisfies_def split: prod.splits)

lemma callBits_runs: "satisfies (callBits H bits) (\<lambda>r es. es = [DrewBits bits r] \<and> r < 2 ^ bits)"
  by (auto simp: callBits_def satisfies_def split: prod.splits)

lemma callRange_runs: "satisfies (callRange H m) (\<lambda>r es. \<exists>order. es = [Ordered order] \<and> mset r = mset m)"
  by (auto simp: callRange_def satisfies_def)

section \<open>Waiting\<close>

text \<open>Durations in nanoseconds.\<close>

definition Second :: int where "Second = 1000000000"
definition Minute :: int where "Minute = 60 * Second"

text \<open>
  \<open>select\<close> between \<open>ctx.Done()\<close>, whose deadline is \<open>remaining\<close> away, and \<open>time.After(interval)\<close>. The
  goroutine runs again some time \<open>late\<close> after the first of the two is ready; if both are ready by then
  the choice is arbitrary. The result is the time that has passed and whether the timer was chosen.
\<close>

definition select_outcome :: "int \<Rightarrow> int \<Rightarrow> nat \<times> bool \<Rightarrow> int \<times> bool" where
  "select_outcome remaining interval lt =
     (if remaining \<le> 0 then (0, False)
      else let woken = min remaining interval + int (fst lt)
           in (woken, interval \<le> woken \<and> (woken < remaining \<or> snd lt)))"

definition callWait :: "('w, 'c, 'k, 'e) host_env \<Rightarrow> ('w, 'k, 'e, nat \<times> bool) hprog" where
  "callWait H = invoke (hostWait H) Waited"

text \<open>A tick brings the deadline closer by the interval at least.\<close>

lemma select_outcome_tick:
  "select_outcome remaining interval lt = (woken, True) \<Longrightarrow> 0 < remaining \<and> interval \<le> woken"
  by (auto simp: select_outcome_def Let_def split: if_splits)

lemma select_outcome_punctual:
  "fst lt = 0 \<Longrightarrow> interval < remaining \<Longrightarrow> 0 < interval \<Longrightarrow>
   select_outcome remaining interval lt = (interval, True)"
  by (auto simp: select_outcome_def Let_def)

text \<open>One turn of a waiting loop: the deadline, or the body after the time that has passed.\<close>

lemma sat_tick:
  assumes "\<And>lt. Q expired [Waited lt]"
    and "\<And>lt woken. select_outcome remaining interval lt = (woken, True) \<Longrightarrow> 0 < remaining \<Longrightarrow> interval \<le> woken \<Longrightarrow>
      satisfies (body woken) (\<lambda>r es. Q r (Waited lt # es))"
  shows "satisfies (do { lt \<leftarrow> callWait H;
      case select_outcome remaining interval lt of (woken, tick) \<Rightarrow> if \<not> tick then ret expired else body woken }) Q"
  unfolding callWait_def
  using assms select_outcome_tick by (auto intro!: sat_bind sat_invoke sat_prod sat_if sat_return)

text \<open>\<open>k\<close> turns, each an interval at least, fit before the deadline or start just before it.\<close>

definition turns_fit :: "int \<Rightarrow> int \<Rightarrow> nat \<Rightarrow> bool" where
  "turns_fit interval remaining k \<longleftrightarrow> int k * interval \<le> max 0 (remaining + interval - 1)"

lemma turns_fit_0 [simp]: "turns_fit interval remaining 0"
  by (simp add: turns_fit_def)

lemma turns_fit_Suc:
  "turns_fit interval (remaining - woken - int took) k \<Longrightarrow> 0 < remaining \<Longrightarrow> interval \<le> woken \<Longrightarrow>
   turns_fit interval remaining (Suc k)"
  by (auto simp: turns_fit_def algebra_simps max_def split: if_splits)

lemma turns_fit_Suc_0: "0 < remaining \<Longrightarrow> turns_fit interval remaining (Suc 0)"
  by (simp add: turns_fit_def)

section \<open>A ticker\<close>

text \<open>
  \<open>time.NewTicker(d)\<close> ticks every \<open>d\<close> from its start. Its channel holds one tick, and a tick that finds it
  full is dropped, so what a receive gets is the first tick since the channel was last emptied: at once if it
  is due already, otherwise when it comes.
\<close>

record ticker =
  tickerStart :: int
  tickerPeriod :: int
  tickerEmptied :: int

definition NewTicker :: "int \<Rightarrow> int \<Rightarrow> ticker" where
  "NewTicker now d = \<lparr>tickerStart = now, tickerPeriod = d, tickerEmptied = now\<rparr>"

definition next_tick :: "ticker \<Rightarrow> int" where
  "next_tick t = tickerStart t + tickerPeriod t * ((tickerEmptied t - tickerStart t) div tickerPeriod t + 1)"

definition callNow :: "('w, 'c, 'k, 'e) host_env \<Rightarrow> ('w, 'k, 'e, int) hprog" where
  "callNow H = invoke (\<lambda>w. (hostClock H w, w)) Clock"

definition callTick :: "('w, 'c, 'k, 'e) host_env \<Rightarrow> ticker \<Rightarrow> ('w, 'k, 'e, ticker) hprog" where
  "callTick H t = do {
     now \<leftarrow> callNow H;
     _ \<leftarrow> callSleep H (max 0 (next_tick t - now));
     ret (t\<lparr>tickerEmptied := max now (next_tick t)\<rparr>)
   }"

lemma next_tick_after:
  assumes "0 < tickerPeriod t"
  shows "tickerEmptied t < next_tick t \<and> next_tick t \<le> tickerEmptied t + tickerPeriod t"
proof -
  let ?d = "tickerEmptied t - tickerStart t" and ?p = "tickerPeriod t"
  have "?d = ?p * (?d div ?p) + ?d mod ?p" by simp
  moreover have "0 \<le> ?d mod ?p" "?d mod ?p < ?p" using assms by simp_all
  ultimately have "?d < ?p * (?d div ?p) + ?p" "?p * (?d div ?p) \<le> ?d" by linarith+
  then show ?thesis by (simp add: next_tick_def algebra_simps)
qed

lemma callTick_runs:
  "satisfies (callTick H t) (\<lambda>t' es. \<exists>now. es = [Clock now, Slept (max 0 (next_tick t - now))] \<and>
     t' = t\<lparr>tickerEmptied := max now (next_tick t)\<rparr>)"
  unfolding callTick_def callNow_def callSleep_def by (auto intro!: sat sat_bind)

section \<open>kind, helm and the API server\<close>

definition callListClusters :: "('w, 'c, 'k, 'e) host_env \<Rightarrow> ('w, 'k, 'e, 'e + string list) hprog" where
  "callListClusters H = invoke (kindList H) ListedClusters"

definition callCreateCluster ::
    "('w, 'c, 'k, 'e) host_env \<Rightarrow> string \<Rightarrow> string \<Rightarrow> ('w, 'k, 'e, 'e option) hprog" where
  "callCreateCluster H name raw = invoke (kindCreate H name raw) (CreatedCluster name raw)"

definition callGetKubeConfig :: "('w, 'c, 'k, 'e) host_env \<Rightarrow> string \<Rightarrow> bool \<Rightarrow> ('w, 'k, 'e, 'e + string) hprog" where
  "callGetKubeConfig H name internal = invoke (kindKubeConfig H name internal) (GotKubeConfig name)"

definition callInitHelm :: "('w, 'c, 'k, 'e) host_env \<Rightarrow> string \<Rightarrow> ('w, 'k, 'e, 'e option) hprog" where
  "callInitHelm H ns = invoke (helmInit H ns) (InitHelm ns)"

definition callHistory :: "('w, 'c, 'k, 'e) host_env \<Rightarrow> string \<Rightarrow> nat \<Rightarrow> string \<Rightarrow> ('w, 'k, 'e, 'e option) hprog" where
  "callHistory H ns n release = invoke (helmHistory H ns n release) (GotHistory ns n release)"

definition callNodes ::
    "('w, 'c, 'k, 'e) host_env \<Rightarrow> 'k \<Rightarrow> string \<Rightarrow> ('w, 'k, 'e, Node list \<times> 'e option \<times> nat) hprog" where
  "callNodes H client sel = invoke (apiListNodes H client sel) (ListedNodes sel)"

definition callMergeNode ::
    "('w, 'c, 'k, 'e) host_env \<Rightarrow> 'k \<Rightarrow> string \<Rightarrow> labels \<Rightarrow> ('w, 'k, 'e, 'e option) hprog" where
  "callMergeNode H client name lb = invoke (apiMergeNode H client name lb) (MergedNode name lb)"

definition callGetMap ::
    "('w, 'c, 'k, 'e) host_env \<Rightarrow> 'k \<Rightarrow> string \<Rightarrow> string \<Rightarrow> ('w, 'k, 'e, 'e + ConfigMap) hprog" where
  "callGetMap H client ns name = invoke (apiGetMap H client ns name) (GotMap ns name)"

definition callCreateMap ::
    "('w, 'c, 'k, 'e) host_env \<Rightarrow> 'k \<Rightarrow> string \<Rightarrow> ConfigMap \<Rightarrow> ('w, 'k, 'e, 'e option) hprog" where
  "callCreateMap H client ns cm = invoke (apiCreateMap H client ns cm) (CreatedMap ns cm)"

definition callUpdateMap ::
    "('w, 'c, 'k, 'e) host_env \<Rightarrow> 'k \<Rightarrow> string \<Rightarrow> ConfigMap \<Rightarrow> ('w, 'k, 'e, 'e option) hprog" where
  "callUpdateMap H client ns cm = invoke (apiUpdateMap H client ns cm) (UpdatedMap ns cm)"

definition callListen :: "('w, 'c, 'k, 'e) host_env \<Rightarrow> string \<Rightarrow> ('w, 'k, 'e, 'e) hprog" where
  "callListen H addr = invoke (httpListenAndServe H addr) (Listened addr)"

lemmas host_calls = callLookupEnv_def callGetenv_def callEnviron_def callSetenv_def callLoad_def
  callKubeClient_def callRawClient_def callWriteFile_def callRemove_def callRun_def callStart_def
  callSleep_def callNow_def callTick_def callPrint_def callIntN_def callBits_def callRange_def callWait_def callListClusters_def
  callCreateCluster_def callGetKubeConfig_def callInitHelm_def callHistory_def callNodes_def
  callMergeNode_def callGetMap_def callCreateMap_def callUpdateMap_def callListen_def

end
