(* ===== verification/Provisioner.thy ===== *)
theory Provisioner
  imports Host_Env
begin

text \<open>
  The provisioner of test clusters, \<open>internal/provisioner/kind.go\<close> and \<open>cmd/provisioner/main.go\<close>: it
  checks the tools, creates a kind cluster, waits for its nodes, labels the GPU workers, and installs
  the add-ons. Log output is left out, and so are the parameters of library calls that only select a
  way of printing. A wrapped error is a constructor around the error it wraps.
\<close>

section \<open>Names and the hardware catalogue\<close>

definition GPU_OPERATOR_NS :: string where "GPU_OPERATOR_NS = ''gpu-operator''"
definition KUBECONFIG :: string where "KUBECONFIG = ''KUBECONFIG''"

record GPUInfo =
  gpuProduct :: string
  gpuFamily :: string

definition hwCatalog :: "(string, GPUInfo) gomap" where
  "hwCatalog =
     [(''h100-pool'', \<lparr>gpuProduct = ''NVIDIA-H100-80GB-HBM3'', gpuFamily = ''hopper''\<rparr>),
      (''a100-pool'', \<lparr>gpuProduct = ''NVIDIA-A100-SXM4-80GB'', gpuFamily = ''ampere''\<rparr>),
      (''a800-pool'', \<lparr>gpuProduct = ''NVIDIA-A800-80GB-SXM4'', gpuFamily = ''ampere''\<rparr>),
      (''l4-pool'', \<lparr>gpuProduct = ''NVIDIA-L4'', gpuFamily = ''ada''\<rparr>),
      (''l40s-pool'', \<lparr>gpuProduct = ''NVIDIA-L40S'', gpuFamily = ''ada''\<rparr>),
      (''t4-pool'', \<lparr>gpuProduct = ''Tesla-T4'', gpuFamily = ''turing''\<rparr>),
      (''a10-pool'', \<lparr>gpuProduct = ''NVIDIA-A10'', gpuFamily = ''ampere''\<rparr>),
      (''v100-pool'', \<lparr>gpuProduct = ''NVIDIA-V100-SXM2-16GB'', gpuFamily = ''volta''\<rparr>)]"

record KindProvider =
  ClusterName :: string

definition NewKindProvider :: "string \<Rightarrow> KindProvider" where
  "NewKindProvider name = \<lparr>ClusterName = name\<rparr>"

definition gpu_worker_selector :: string where
  "gpu_worker_selector = ''hpc-sentinel/node-type=gpu-worker''"

definition kubeconfig_path :: "('w, 'c, 'k, 'e) host_env \<Rightarrow> KindProvider \<Rightarrow> string" where
  "kubeconfig_path H p = filepath_Join [TempDir H, ClusterName p @ ''-kubeconfig.yaml'']"

datatype 'e prov_err =
    ProvErr 'e
  | CheckFailed string
  | CreateClusterErr "'e prov_err"
  | ListClustersErr 'e
  | RawClientErr "'e client_err"
  | FallbackErr "'e client_err"
  | GetClientErr "'e prov_err"
  | NodeCountErr 'e
  | NodesTimeout
  | GpuTimeout
  | RestartListErr 'e
  | RestartErr string string
  | HelmErr string 'e
  | MakeErr 'e string

section \<open>Checks and the cluster\<close>

definition system_checks :: "(string \<times> command) list" where
  "system_checks =
     [(''Docker'', Command [''docker'', ''info'']),
      (''Kind'', Command [''kind'', ''version'']),
      (''Skaffold'', Command [''skaffold'', ''version''])]"

fun run_checks ::
    "('w, 'c, 'k, 'e) host_env \<Rightarrow> (string \<times> command) list \<Rightarrow> ('w, 'k, 'e, 'e prov_err option) hprog" where
  "run_checks H [] = ret None"
| "run_checks H ((name, cmd) # checks) = do {
     (out, err) \<leftarrow> callRun H cmd;
     if err \<noteq> None then ret (Some (CheckFailed name)) else run_checks H checks
   }"

definition CheckSystemRequirements ::
    "('w, 'c, 'k, 'e) host_env \<Rightarrow> KindProvider \<Rightarrow> ('w, 'k, 'e, 'e prov_err option) hprog" where
  "CheckSystemRequirements H p = run_checks H system_checks"

definition getExpectedNodeCount :: "('w, 'c, 'k, 'e) host_env \<Rightarrow> 'e + nat" where
  "getExpectedNodeCount H =
     (case UnmarshalNodes H (KindConfig H) of
        Inl err \<Rightarrow> Inl err
      | Inr nodes \<Rightarrow> let count = length nodes in Inr (if count = 0 then 1 else count))"

definition createCluster ::
    "('w, 'c, 'k, 'e) host_env \<Rightarrow> KindProvider \<Rightarrow> ('w, 'k, 'e, 'e prov_err option) hprog" where
  "createCluster H p = do {
     clusters \<leftarrow> callListClusters H;
     case clusters of
       Inl err \<Rightarrow> ret (Some (ListClustersErr err))
     | Inr clusters \<Rightarrow>
         if ClusterName p \<in> set clusters then ret None
         else do {
           err \<leftarrow> callCreateCluster H (ClusterName p) (KindConfig H);
           ret (map_option ProvErr err)
         }
   }"

definition getKubernetesClient ::
    "('w, 'c, 'k, 'e) host_env \<Rightarrow> KindProvider \<Rightarrow> ('w, 'k, 'e, 'e prov_err + 'k) hprog" where
  "getKubernetesClient H p = do {
     kubeconfig \<leftarrow> callGetKubeConfig H (ClusterName p) False;
     case kubeconfig of
       Inr kubeconfig \<Rightarrow> do {
         kClient \<leftarrow> callRawClient H kubeconfig;
         case kClient of
           Inl err \<Rightarrow> ret (Inl (RawClientErr err))
         | Inr kClient \<Rightarrow> ret (Inr kClient)
       }
     | Inl _ \<Rightarrow> do {
         cfg \<leftarrow> callLoad H;
         kClient \<leftarrow> callKubeClient H cfg;
         case kClient of
           Inl err \<Rightarrow> ret (Inl (FallbackErr err))
         | Inr kClient \<Rightarrow> ret (Inr kClient)
       }
   }"

section \<open>The labels of the GPU workers\<close>

definition nvidiaLabels :: "('w, 'c, 'k, 'e) host_env \<Rightarrow> ('w, 'k, 'e, labels) hprog" where
  "nvidiaLabels H = do {
     entries \<leftarrow> callRange H hwCatalog;
     let keys = map fst entries;
     i \<leftarrow> callIntN H (length keys);
     let poolName = keys ! i;
     let selection = (case go_get hwCatalog poolName of
                        Some info \<Rightarrow> info | None \<Rightarrow> \<lparr>gpuProduct = '''', gpuFamily = ''''\<rparr>);
     let counts = [1, 2, 4, 8];
     j \<leftarrow> callIntN H (length counts);
     let randomCount = counts ! j;
     ret [(''hpc-sentinel/node-type'', ''gpu-worker''),
          (''nvidia.com/gpu.count'', Itoa randomCount),
          (''nvidia.com/gpu.product'', gpuProduct selection),
          (''nvidia.com/gpu.machine'', ''kind-worker-mock''),
          (''nvidia.com/gpu.present'', ''true''),
          (''run.ai/simulated-gpu-node-pool'', poolName),
          (''run.ai/fake.gpu'', ''true'')]
   }"

text \<open>The merge patch holds the labels only; \<open>json.Marshal\<close> of it cannot fail.\<close>

fun label_nodes ::
    "('w, 'c, 'k, 'e) host_env \<Rightarrow> 'k \<Rightarrow> Node list \<Rightarrow> ('w, 'k, 'e, 'e prov_err option) hprog" where
  "label_nodes H client [] = ret None"
| "label_nodes H client (node # nodes) = do {
     lb \<leftarrow> nvidiaLabels H;
     err \<leftarrow> callMergeNode H client (nodeName node) lb;
     case err of Some e \<Rightarrow> ret (Some (ProvErr e)) | None \<Rightarrow> label_nodes H client nodes
   }"

definition simulateNvidiaLabels ::
    "('w, 'c, 'k, 'e) host_env \<Rightarrow> 'k \<Rightarrow> ('w, 'k, 'e, 'e prov_err option) hprog" where
  "simulateNvidiaLabels H client = do {
     (items, err, _) \<leftarrow> callNodes H client gpu_worker_selector;
     case err of Some e \<Rightarrow> ret (Some (ProvErr e)) | None \<Rightarrow> label_nodes H client items
   }"

section \<open>Waiting for nodes\<close>

fun count_ready :: "nat \<Rightarrow> Condition list \<Rightarrow> nat" where
  "count_ready readyCount [] = readyCount"
| "count_ready readyCount (cond # conds) =
     count_ready (if condType cond = ''Ready'' \<and> condStatus cond = ''True'' then Suc readyCount else readyCount) conds"

fun count_ready_nodes :: "nat \<Rightarrow> Node list \<Rightarrow> nat" where
  "count_ready_nodes readyCount [] = readyCount"
| "count_ready_nodes readyCount (node # nodes) =
     count_ready_nodes (count_ready readyCount (nodeConditions node)) nodes"

text \<open>
  The loop, with the time that is left until the deadline: what a tick and a listing take is gone from
  it, so the loop ends whatever the cluster does.
\<close>

function poll_nodes ::
    "('w, 'c, 'k, 'e) host_env \<Rightarrow> 'k \<Rightarrow> nat \<Rightarrow> int \<Rightarrow> ('w, 'k, 'e, 'e prov_err option) hprog" where
  "poll_nodes H client expectedNodeCount remaining = do {
     lt \<leftarrow> callWait H;
     case select_outcome remaining (5 * Second) lt of (woken, tick) \<Rightarrow>
       if \<not> tick then ret (Some NodesTimeout)
       else do {
         nodes \<leftarrow> callNodes H client '''';
         case nodes of (items, err, took) \<Rightarrow>
           if err \<noteq> None then poll_nodes H client expectedNodeCount (remaining - woken - int took)
           else if expectedNodeCount \<le> count_ready_nodes 0 items then simulateNvidiaLabels H client
           else poll_nodes H client expectedNodeCount (remaining - woken - int took)
       }
   }"
  by pat_completeness auto
termination
  by (relation "measure (\<lambda>(H, client, expectedNodeCount, remaining). nat remaining)")
    (auto dest!: sym [of "(_, True)"] select_outcome_tick simp: Second_def)

declare poll_nodes.simps [simp del]

definition waitForNodes ::
    "('w, 'c, 'k, 'e) host_env \<Rightarrow> KindProvider \<Rightarrow> ('w, 'k, 'e, 'e prov_err option) hprog" where
  "waitForNodes H p = do {
     client \<leftarrow> getKubernetesClient H p;
     case client of
       Inl err \<Rightarrow> ret (Some (GetClientErr err))
     | Inr client \<Rightarrow>
         (case getExpectedNodeCount H of
            Inl err \<Rightarrow> ret (Some (NodeCountErr err))
          | Inr expectedNodeCount \<Rightarrow> poll_nodes H client expectedNodeCount (7 * Minute))
   }"

definition Provision ::
    "('w, 'c, 'k, 'e) host_env \<Rightarrow> KindProvider \<Rightarrow> ('w, 'k, 'e, 'e prov_err option) hprog" where
  "Provision H p = do {
     err \<leftarrow> createCluster H p;
     case err of Some e \<Rightarrow> ret (Some (CreateClusterErr e)) | None \<Rightarrow> waitForNodes H p
   }"

section \<open>Charts\<close>

definition isChartInstalled ::
    "('w, 'c, 'k, 'e) host_env \<Rightarrow> string \<Rightarrow> string \<Rightarrow> ('w, 'k, 'e, bool) hprog" where
  "isChartInstalled H namespace releaseName = do {
     err \<leftarrow> callInitHelm H namespace;
     if err \<noteq> None then ret False
     else do {
       err \<leftarrow> callHistory H namespace 1 releaseName;
       ret (err = None)
     }
   }"

definition chart_ref :: "string \<Rightarrow> string \<Rightarrow> string \<Rightarrow> string" where
  "chart_ref repoName repoUrl chartName =
     (if \<not> HasPrefix repoUrl ''oci://'' then repoName @ ''/'' @ chartName else repoUrl)"

definition helm_args :: "string \<Rightarrow> string \<Rightarrow> string \<Rightarrow> string \<Rightarrow> string \<Rightarrow> string list" where
  "helm_args chartName chartRef namespace valsFile version =
     [''upgrade'', ''--install'', chartName, chartRef, ''--namespace'', namespace, ''--create-namespace'',
      ''--values'', valsFile, ''--wait'', ''--timeout'', ''15m''] @
     (if version \<noteq> '''' \<and> version \<noteq> ''latest'' then [''--version'', version] else [])"

definition add_repo :: "('w, 'c, 'k, 'e) host_env \<Rightarrow> string \<Rightarrow> string \<Rightarrow> ('w, 'k, 'e, unit) hprog" where
  "add_repo H repoName repoUrl =
     (if \<not> HasPrefix repoUrl ''oci://'' then do {
        _ \<leftarrow> callRun H (Command [''helm'', ''repo'', ''add'', repoName, repoUrl]);
        _ \<leftarrow> callRun H (Command [''helm'', ''repo'', ''update'']);
        ret ()
      } else ret ())"

text \<open>
  The part after the test whether the release exists. The deferred removal of the values file runs on
  both returns.
\<close>

definition upgrade_chart ::
    "('w, 'c, 'k, 'e) host_env \<Rightarrow> KindProvider \<Rightarrow> string \<Rightarrow> string \<Rightarrow> string \<Rightarrow> string \<Rightarrow> string \<Rightarrow> yaml \<Rightarrow>
     ('w, 'k, 'e, 'e prov_err option) hprog" where
  "upgrade_chart H p repoName repoUrl chartName namespace version vals = do {
     let valsFile = filepath_Join [TempDir H, chartName @ ''-values.yaml''];
     let valsYaml = fst (YamlMarshal H vals);
     _ \<leftarrow> callWriteFile H valsFile valsYaml 420;
     let chartRef = chart_ref repoName repoUrl chartName;
     let args = helm_args chartName chartRef namespace valsFile version;
     _ \<leftarrow> add_repo H repoName repoUrl;
     environ \<leftarrow> callEnviron H;
     let cmd = \<lparr>cmdArgs = ''helm'' # args,
                cmdEnv = Some (environ @ [''KUBECONFIG='' @ kubeconfig_path H p])\<rparr>;
     (out, err) \<leftarrow> callRun H cmd;
     let r = map_option (HelmErr out) err;
     _ \<leftarrow> callRemove H valsFile;
     ret r
   }"

definition installChart ::
    "('w, 'c, 'k, 'e) host_env \<Rightarrow> KindProvider \<Rightarrow> string \<Rightarrow> string \<Rightarrow> string \<Rightarrow> string \<Rightarrow> string \<Rightarrow> yaml \<Rightarrow>
     ('w, 'k, 'e, 'e prov_err option) hprog" where
  "installChart H p repoName repoUrl chartName namespace version vals = do {
     installed \<leftarrow> isChartInstalled H namespace chartName;
     if installed then ret None
     else upgrade_chart H p repoName repoUrl chartName namespace version vals
   }"

fun node_pools :: "(string \<times> GPUInfo) list \<Rightarrow> (string, yaml) gomap \<Rightarrow> (string, yaml) gomap" where
  "node_pools [] nodePools = nodePools"
| "node_pools ((poolName, info) # entries) nodePools =
     node_pools entries
       (go_put poolName
         (YMap [(''gpuCount'', YInt 8), (''gpuProduct'', YString (gpuProduct info)), (''gpuMemory'', YInt 81920)])
         nodePools)"

definition installFakeGpuOperator ::
    "('w, 'c, 'k, 'e) host_env \<Rightarrow> KindProvider \<Rightarrow> ('w, 'k, 'e, 'e prov_err option) hprog" where
  "installFakeGpuOperator H p = do {
     entries \<leftarrow> callRange H hwCatalog;
     let nodePools = node_pools entries [];
     installChart H p ''run-ai'' ''oci://ghcr.io/run-ai/fake-gpu-operator/fake-gpu-operator''
       ''fake-gpu-operator'' GPU_OPERATOR_NS ''0.0.68''
       (YMap [(''nodeSelector'', YMap [(''nvidia.com/gpu.present'', YString ''true'')]),
              (''privileged'', YBool True),
              (''tolerations'', YList [YMap [(''key'', YString ''nvidia.com/gpu''), (''operator'', YString ''Equal''),
                                             (''value'', YString ''true''), (''effect'', YString ''NoSchedule'')]]),
              (''topology'', YMap [(''nodePools'', YMap nodePools)]),
              (''metrics'', YMap [(''enabled'', YBool True)])])
   }"

definition observability_placement :: "(string \<times> yaml) list" where
  "observability_placement =
     [(''nodeSelector'', YMap [(''hpc-sentinel/node-type'', YString ''observability'')]),
      (''tolerations'', YList [YMap [(''key'', YString ''node-role.kubernetes.io/observability''),
                                     (''operator'', YString ''Exists''), (''effect'', YString ''NoSchedule'')]])]"

definition promValues :: yaml where
  "promValues = YMap
     [(''prometheus'', YMap observability_placement),
      (''grafana'', YMap (observability_placement @
         [(''sidecar'', YMap [(''enabled'', YBool True), (''label'', YString ''grafana_dashboard''),
                              (''labelValue'', YString ''1''), (''searchNamespace'', YString ''ALL'')])])),
      (''kubeEtcd'', YMap [(''enabled'', YBool False)]),
      (''kubeProxy'', YMap [(''enabled'', YBool False)]),
      (''kubeControllerManager'', YMap
         [(''enabled'', YBool True),
          (''endpoints'', YList []),
          (''service'', YMap [(''enabled'', YBool True), (''port'', YInt 10257), (''targetPort'', YInt 10257)]),
          (''serviceMonitor'', YMap [(''https'', YBool True), (''insecuritySkipVerify'', YBool True)])]),
      (''kubeScheduler'', YMap
         [(''enabled'', YBool True),
          (''service'', YMap [(''enabled'', YBool True), (''port'', YInt 10259), (''targetPort'', YInt 10259)]),
          (''serviceMonitor'', YMap [(''https'', YBool True), (''insecureSkipVerify'', YBool True)])])]"

definition installKubePrometheusStack ::
    "('w, 'c, 'k, 'e) host_env \<Rightarrow> KindProvider \<Rightarrow> ('w, 'k, 'e, 'e prov_err option) hprog" where
  "installKubePrometheusStack H p =
     installChart H p ''prometheus-community'' ''https://prometheus-community.github.io/helm-charts''
       ''kube-prometheus-stack'' ''monitoring'' '''' promValues"

section \<open>GPU capacity\<close>

fun restart_nodes ::
    "('w, 'c, 'k, 'e) host_env \<Rightarrow> Node list \<Rightarrow> ('w, 'k, 'e, 'e prov_err option) hprog" where
  "restart_nodes H [] = ret None"
| "restart_nodes H (node # nodes) =
     (if 0 < sint (quantity_at (nodeCapacity node) ''nvidia.com/gpu'') then restart_nodes H nodes
      else do {
        (out, err) \<leftarrow> callRun H (Command [''docker'', ''restart'', nodeName node]);
        if err \<noteq> None then ret (Some (RestartErr (nodeName node) out))
        else do { _ \<leftarrow> callSleep H (3 * Second); restart_nodes H nodes }
      })"

definition restartGPUNodes ::
    "('w, 'c, 'k, 'e) host_env \<Rightarrow> KindProvider \<Rightarrow> 'k \<Rightarrow> ('w, 'k, 'e, 'e prov_err option) hprog" where
  "restartGPUNodes H p client = do {
     (items, err, _) \<leftarrow> callNodes H client gpu_worker_selector;
     case err of
       Some e \<Rightarrow> ret (Some (RestartListErr e))
     | None \<Rightarrow> do {
         r \<leftarrow> restart_nodes H items;
         case r of Some e \<Rightarrow> ret (Some e) | None \<Rightarrow> waitForNodes H p
       }
   }"

fun all_capacity :: "Node list \<Rightarrow> bool" where
  "all_capacity [] \<longleftrightarrow> True"
| "all_capacity (node # nodes) \<longleftrightarrow>
     (if quantity_at (nodeCapacity node) ''nvidia.com/gpu'' = 0 then False else all_capacity nodes)"

text \<open>The error of the listing is dropped; the items are used whatever it is.\<close>

function poll_capacity ::
    "('w, 'c, 'k, 'e) host_env \<Rightarrow> 'k \<Rightarrow> int \<Rightarrow> ('w, 'k, 'e, 'e prov_err option) hprog" where
  "poll_capacity H client remaining = do {
     lt \<leftarrow> callWait H;
     case select_outcome remaining (10 * Second) lt of (woken, tick) \<Rightarrow>
       if \<not> tick then ret (Some GpuTimeout)
       else do {
         nodes \<leftarrow> callNodes H client gpu_worker_selector;
         case nodes of (items, _, took) \<Rightarrow>
           if all_capacity items \<and> 0 < length items then ret None
           else poll_capacity H client (remaining - woken - int took)
       }
   }"
  by pat_completeness auto
termination
  by (relation "measure (\<lambda>(H, client, remaining). nat remaining)")
    (auto dest!: sym [of "(_, True)"] select_outcome_tick simp: Second_def)

declare poll_capacity.simps [simp del]

definition waitForGpuCapacity ::
    "('w, 'c, 'k, 'e) host_env \<Rightarrow> 'k \<Rightarrow> ('w, 'k, 'e, 'e prov_err option) hprog" where
  "waitForGpuCapacity H client = poll_capacity H client (3 * Minute)"

section \<open>The add-ons and the program\<close>

definition MakeInstallCRDs :: "('w, 'c, 'k, 'e) host_env \<Rightarrow> ('w, 'k, 'e, 'e prov_err option) hprog" where
  "MakeInstallCRDs H = do {
     (output, err) \<leftarrow> callRun H (Command [''make'', ''install'']);
     case err of Some e \<Rightarrow> ret (Some (MakeErr e output)) | None \<Rightarrow> ret None
   }"

definition launchMockEnvironment ::
    "('w, 'c, 'k, 'e) host_env \<Rightarrow> KindProvider \<Rightarrow> ('w, 'k, 'e, 'e prov_err option) hprog" where
  "launchMockEnvironment H p = do {
     _ \<leftarrow> callRun H (Command [''pkill'', ''-f'', ''skaffold'']);
     environ \<leftarrow> callEnviron H;
     err \<leftarrow> callStart H
       \<lparr>cmdArgs = [''skaffold'', ''dev'', ''--cache-artifacts=false'', ''--force'', ''--trigger=polling'', ''--port-forward=user''],
        cmdEnv = Some (environ @ [''KUBECONFIG='' @ kubeconfig_path H p])\<rparr>;
     ret (map_option ProvErr err)
   }"

text \<open>The steps of \<open>InstallAddons\<close> once it has a client.\<close>

definition install_steps ::
    "('w, 'c, 'k, 'e) host_env \<Rightarrow> KindProvider \<Rightarrow> 'k \<Rightarrow> ('w, 'k, 'e, 'e prov_err option) hprog" where
  "install_steps H p client = do {
     err \<leftarrow> installFakeGpuOperator H p;
     if err \<noteq> None then ret err
     else do {
       err \<leftarrow> restartGPUNodes H p client;
       if err \<noteq> None then ret err
       else do {
         err \<leftarrow> waitForGpuCapacity H client;
         if err \<noteq> None then ret err
         else do {
           err \<leftarrow> installKubePrometheusStack H p;
           if err \<noteq> None then ret err
           else do {
             _ \<leftarrow> MakeInstallCRDs H;
             launchMockEnvironment H p
           }
         }
       }
     }
   }"

definition InstallAddons ::
    "('w, 'c, 'k, 'e) host_env \<Rightarrow> KindProvider \<Rightarrow> ('w, 'k, 'e, 'e prov_err option) hprog" where
  "InstallAddons H p = do {
     kubeconfig \<leftarrow> callGetKubeConfig H (ClusterName p) False;
     case kubeconfig of
       Inl err \<Rightarrow> ret (Some (ProvErr err))
     | Inr kubeconfig \<Rightarrow> do {
         let kubeconfigPath = kubeconfig_path H p;
         err \<leftarrow> callWriteFile H kubeconfigPath kubeconfig 420;
         case err of
           Some e \<Rightarrow> ret (Some (ProvErr e))
         | None \<Rightarrow> do {
             _ \<leftarrow> callSetenv H KUBECONFIG kubeconfigPath;
             client \<leftarrow> getKubernetesClient H p;
             case client of
               Inl err \<Rightarrow> ret (Some (GetClientErr err))
             | Inr client \<Rightarrow> install_steps H p client
           }
       }
   }"

text \<open>
  \<open>main\<close>: \<open>log.Fatalf\<close> prints its message and exits with status 1; a return is the status 0. Both
  branches of the switch on the variable \<open>ENV\<close> make the same provider.
\<close>

datatype 'e main_exit = Fatal string "'e prov_err" | Returned

definition provisioner_main :: "('w, 'c, 'k, 'e) host_env \<Rightarrow> ('w, 'k, 'e, 'e main_exit) hprog" where
  "provisioner_main H = do {
     env \<leftarrow> callGetenv H ''ENV'';
     let p = (if env = ''LOCAL'' then NewKindProvider ''hpc-sentinel-local''
              else NewKindProvider ''hpc-sentinel-local'');
     err \<leftarrow> CheckSystemRequirements H p;
     case err of
       Some e \<Rightarrow> ret (Fatal ''pre flight checks failed'' e)
     | None \<Rightarrow> do {
         err \<leftarrow> Provision H p;
         case err of
           Some e \<Rightarrow> ret (Fatal ''setup failed'' e)
         | None \<Rightarrow> do {
             err \<leftarrow> InstallAddons H p;
             case err of
               Some e \<Rightarrow> ret (Fatal ''post setup addons installation failed'' e)
             | None \<Rightarrow> ret Returned
           }
       }
   }"

end
