(* ===== verification/Provisioner_Laws.thy ===== *)
theory Provisioner_Laws
  imports Provisioner Node_Discovery
begin

text \<open>
  The runs of the provisioner: how long it polls, what a timeout means, what a chart leaves behind, and
  the order of the add-ons.
\<close>

section \<open>Readiness\<close>

definition is_ready :: "Condition \<Rightarrow> bool" where
  "is_ready cond \<longleftrightarrow> condType cond = ''Ready'' \<and> condStatus cond = ''True''"

lemma count_ready_filter: "count_ready n conds = n + length (filter is_ready conds)"
  by (induction n conds rule: count_ready.induct) (auto simp: is_ready_def)

lemma count_ready_nodes_filter:
  "count_ready_nodes n nodes = n + length (filter is_ready (concat (map nodeConditions nodes)))"
  by (induction n nodes rule: count_ready_nodes.induct) (simp_all add: count_ready_filter)

lemma all_capacity_iff:
  "all_capacity nodes \<longleftrightarrow> (\<forall>node \<in> set nodes. quantity_at (nodeCapacity node) ''nvidia.com/gpu'' \<noteq> 0)"
  by (induction nodes) auto

section \<open>The polls of a waiting loop\<close>

definition listing_of :: "string \<Rightarrow> ('k, 'e) host_event \<Rightarrow> bool" where
  "listing_of sel e \<longleftrightarrow> (case e of ListedNodes s _ \<Rightarrow> s = sel | _ \<Rightarrow> False)"

text \<open>A successful listing of all nodes that shows at least \<open>n\<close> Ready conditions.\<close>

definition shows_ready :: "nat \<Rightarrow> ('k, 'e) host_event \<Rightarrow> bool" where
  "shows_ready n e \<longleftrightarrow> (case e of
     ListedNodes sel (items, err, took) \<Rightarrow> sel = '''' \<and> err = None \<and> n \<le> count_ready_nodes 0 items | _ \<Rightarrow> False)"

lemma gpu_selector_not_all [simp]: "gpu_worker_selector \<noteq> ''''"
  by (simp add: gpu_worker_selector_def)

lemma nvidiaLabels_emits:
  "(\<And>is. P (Ordered is)) \<Longrightarrow> (\<And>n i. P (DrewIntN n i)) \<Longrightarrow> emits P (nvidiaLabels H)"
  unfolding nvidiaLabels_def callRange_def callIntN_def by (intro emit) auto

lemma label_nodes_emits:
  "(\<And>is. P (Ordered is)) \<Longrightarrow> (\<And>n i. P (DrewIntN n i)) \<Longrightarrow> (\<And>name lb r. P (MergedNode name lb r)) \<Longrightarrow>
   emits P (label_nodes H client nodes)"
  by (induction nodes) (auto intro!: emit nvidiaLabels_emits simp: callMergeNode_def)

lemma label_nodes_error:
  "satisfies (label_nodes H client nodes) (\<lambda>r es. r = None \<or> (\<exists>e. r = Some (ProvErr e)))"
proof (induction nodes)
  case (Cons node nodes)
  show ?case
    by (simp, rule sat_seq [where P = "\<lambda>_ _. True"], rule satisfies_mono [OF nvidiaLabels_emits [where P = "\<lambda>_. True", unfolded emits_def]])
      (auto simp: callMergeNode_def intro!: sat sat_bind satisfies_mono [OF Cons])
qed (auto intro!: sat)

definition quiet_run :: "('e prov_err option) \<Rightarrow> ('k, 'e) host_event list \<Rightarrow> bool" where
  "quiet_run r es \<longleftrightarrow> (r = None \<or> (\<exists>e. r = Some (ProvErr e))) \<and> (\<forall>e \<in> set es. \<not> listing_of '''' e)"

lemma simulateNvidiaLabels_runs: "satisfies (simulateNvidiaLabels H client) quiet_run"
proof -
  have L: "satisfies (label_nodes H client items) (\<lambda>r es. (r = None \<or> (\<exists>e. r = Some (ProvErr e))) \<and> (\<forall>e \<in> set es. \<not> listing_of '''' e))" for items
    by (rule satisfies_conj [OF label_nodes_error label_nodes_emits [unfolded emits_def]])
      (simp_all add: listing_of_def)
  show ?thesis
    unfolding simulateNvidiaLabels_def callNodes_def quiet_run_def
    by (auto intro!: sat_bind sat_invoke sat satisfies_mono [OF L] simp: listing_of_def split: option.splits)
qed

lemma listing_of_simps [simp]:
  "\<not> listing_of sel (Waited lt)" "listing_of sel (ListedNodes s nodes) \<longleftrightarrow> s = sel"
  by (simp_all add: listing_of_def)

lemma not_shows_ready [simp]: "\<not> shows_ready n (Waited lt)"
  "err \<noteq> None \<Longrightarrow> \<not> shows_ready n (ListedNodes sel (items, err, took))"
  "\<not> n \<le> count_ready_nodes 0 items \<Longrightarrow> \<not> shows_ready n (ListedNodes sel (items, err, took))"
  by (auto simp: shows_ready_def)

lemma quiet_run_listings: "quiet_run r es \<Longrightarrow> filter (listing_of '''') es = []"
  by (simp add: quiet_run_def filter_empty_conv)

lemma poll_nodes_runs:
  fixes H :: "('w, 'c, 'k, 'e) host_env"
  shows "satisfies (poll_nodes H client n remaining) (\<lambda>r es.
     turns_fit (5 * Second) remaining (length (filter (listing_of '''') es)) \<and>
     (r = Some NodesTimeout \<longleftrightarrow> (\<forall>e \<in> set es. \<not> shows_ready n e)) \<and>
     (\<forall>err. r \<noteq> Some (GetClientErr err)))"
    (is "satisfies _ (?Q n remaining)")
proof (induction H client n remaining rule: poll_nodes.induct)
  case (1 H client n remaining)
  show ?case
    unfolding poll_nodes.simps [of H client n remaining]
  proof (rule sat_tick, simp, unfold callNodes_def, rule sat_bind, rule sat_invoke, rule sat_prod, rule sat_prod, rule sat_if)
    fix lt woken and nodes :: "Node list \<times> 'e option \<times> nat" and items rest err took
    assume sel: "select_outcome remaining (5 * Second) lt = (woken, True)"
      and t: "0 < remaining" "5 * Second \<le> woken" and n: "nodes = (items, rest)" "rest = (err, took)"
    let ?again = "poll_nodes H client n (remaining - woken - int took)"
    let ?log = "\<lambda>es. Waited lt # [ListedNodes '''' nodes] @ es"
    have again: "satisfies ?again (\<lambda>r es. ?Q n remaining r (?log es))"
      if "satisfies ?again (?Q n (remaining - woken - int took))" "\<not> shows_ready n (ListedNodes '''' nodes :: ('k, 'e) host_event)"
      using t that(2) turns_fit_Suc by (intro satisfies_mono [OF that(1)]) auto
    show "satisfies ?again (\<lambda>r es. ?Q n remaining r (?log es))" if "err \<noteq> None"
      by (rule again [OF 1(1) [OF sel [symmetric] _ that]]) (use n that in simp_all)
    show "satisfies (if n \<le> count_ready_nodes 0 items then simulateNvidiaLabels H client else ?again)
        (\<lambda>r es. ?Q n remaining r (?log es))" if e: "\<not> err \<noteq> None"
    proof (rule sat_if)
      show "satisfies (simulateNvidiaLabels H client) (\<lambda>r es. ?Q n remaining r (?log es))"
        if "n \<le> count_ready_nodes 0 items"
        using t n that e by (intro satisfies_mono [OF simulateNvidiaLabels_runs])
          (auto simp: quiet_run_listings turns_fit_Suc_0, auto simp: quiet_run_def shows_ready_def)
      show "satisfies ?again (\<lambda>r es. ?Q n remaining r (?log es))" if "\<not> n \<le> count_ready_nodes 0 items"
        by (rule again [OF 1(2) [OF sel [symmetric] _ e that]]) (use n that in simp_all)
    qed
  qed
qed

definition capacity_seen :: "('k, 'e) host_event list \<Rightarrow> bool" where
  "capacity_seen es \<longleftrightarrow> (\<exists>items err took. ListedNodes gpu_worker_selector (items, err, took) \<in> set es \<and>
     items \<noteq> [] \<and> (\<forall>node \<in> set items. quantity_at (nodeCapacity node) ''nvidia.com/gpu'' \<noteq> 0))"

text \<open>A wait for capacity succeeds exactly if some listing shows capacity on every GPU worker.\<close>

lemma poll_capacity_runs:
  fixes H :: "('w, 'c, 'k, 'e) host_env"
  shows "satisfies (poll_capacity H client remaining) (\<lambda>r es.
     turns_fit (10 * Second) remaining (length (filter (listing_of gpu_worker_selector) es)) \<and>
     (r = None \<longleftrightarrow> capacity_seen es) \<and> (r = None \<or> r = Some GpuTimeout) \<and> (\<forall>c x. Started c x \<notin> set es))"
    (is "satisfies _ (?Q remaining)")
proof (induction H client remaining rule: poll_capacity.induct)
  case (1 H client remaining)
  show ?case
    unfolding poll_capacity.simps [of H client remaining]
  proof (rule sat_tick, simp add: capacity_seen_def, unfold callNodes_def, rule sat_bind, rule sat_invoke, rule sat_prod, rule sat_prod, rule sat_if)
    fix lt woken and nodes :: "Node list \<times> 'e option \<times> nat" and items rest err took
    assume sel: "select_outcome remaining (10 * Second) lt = (woken, True)"
      and t: "0 < remaining" "10 * Second \<le> woken" and n: "nodes = (items, rest)" "rest = (err, took)"
    let ?again = "poll_capacity H client (remaining - woken - int took)"
    let ?log = "\<lambda>es. Waited lt # [ListedNodes gpu_worker_selector nodes] @ es"
    show "satisfies (ret None) (\<lambda>r es. ?Q remaining r (?log es))" if "all_capacity items \<and> 0 < length items"
      using that t n by (intro sat_return) (auto simp: all_capacity_iff capacity_seen_def turns_fit_Suc_0)
    show "satisfies ?again (\<lambda>r es. ?Q remaining r (?log es))" if few: "\<not> (all_capacity items \<and> 0 < length items)"
    proof (rule satisfies_mono [OF 1 [OF sel [symmetric] _ few]])
      show "\<not> \<not> True" by simp
      fix r and es :: "('k, 'e) host_event list"
      assume Q: "?Q (remaining - woken - int took) r es"
      have "capacity_seen (?log es) \<longleftrightarrow> capacity_seen es"
        using few n by (auto simp: capacity_seen_def all_capacity_iff)
      then show "?Q remaining r (?log es)" using Q t turns_fit_Suc by auto
    qed
  qed
qed

section \<open>A cluster that settles\<close>

text \<open>
  Timers fire in time, listings take no time, and from a world in \<open>settles k\<close> it takes at most \<open>k\<close> more
  listings until the cluster shows \<open>n\<close> Ready conditions.
\<close>

definition settling :: "('w, 'c, 'k, 'e) host_env \<Rightarrow> 'k \<Rightarrow> nat \<Rightarrow> (nat \<Rightarrow> 'w \<Rightarrow> bool) \<Rightarrow> bool" where
  "settling H client n settles \<longleftrightarrow>
     (\<forall>w k. settles k w \<longrightarrow> fst (fst (hostWait H w)) = 0 \<and> settles k (snd (hostWait H w))) \<and>
     (\<forall>w k items err took w'. settles k w \<longrightarrow> apiListNodes H client '''' w = ((items, err, took), w') \<longrightarrow>
        took = 0 \<and> (err = None \<and> n \<le> count_ready_nodes 0 items \<or> 0 < k \<and> settles (k - 1) w'))"

lemma simulateNvidiaLabels_error: "result (simulateNvidiaLabels H client) s \<noteq> Some NodesTimeout"
  using satisfiesD [OF simulateNvidiaLabels_runs [of H client], of s] by (auto simp: quiet_run_def)

lemma poll_nodes_settles:
  assumes "settling H client n settles" and "settles k (world s)" and "int (Suc k) * (5 * Second) < remaining"
  shows "result (poll_nodes H client n remaining) s \<noteq> Some NodesTimeout"
  using assms
proof (induction H client n remaining arbitrary: s k rule: poll_nodes.induct)
  case (1 H client n remaining)
  obtain lt w1 where w: "hostWait H (world s) = (lt, w1)" by (cases "hostWait H (world s)")
  obtain items err took w2 where l: "apiListNodes H client '''' w1 = ((items, err, took), w2)"
    by (metis prod.collapse)
  have lt: "fst lt = 0" "settles k w1"
    using 1(3,4) w unfolding settling_def by (metis fst_conv, metis snd_conv)
  have list: "took = 0" "err = None \<and> n \<le> count_ready_nodes 0 items \<or> 0 < k \<and> settles (k - 1) w2"
    using 1(3) lt(2) l unfolding settling_def by blast+
  let ?s = "\<lparr>world = w2, log = sys.log s @ [Waited lt, ListedNodes '''' (items, err, took)]\<rparr>"
  have "5 * Second < remaining" using 1(5) by (auto simp: Second_def)
  then have sel: "select_outcome remaining (5 * Second) lt = (5 * Second, True)"
    using lt(1) by (intro select_outcome_punctual) (simp_all add: Second_def)
  have bound: "int (Suc (k - 1)) * (5 * Second) < remaining - 5 * Second - int took" if "0 < k"
    using that 1(5) list(1) by (cases k) (simp_all add: Second_def)
  consider "err \<noteq> None" | "err = None" "n \<le> count_ready_nodes 0 items" | "err = None" "\<not> n \<le> count_ready_nodes 0 items"
    by blast
  then have "result (if err \<noteq> None then poll_nodes H client n (remaining - 5 * Second - int took)
      else if n \<le> count_ready_nodes 0 items then simulateNvidiaLabels H client
      else poll_nodes H client n (remaining - 5 * Second - int took)) ?s \<noteq> Some NodesTimeout"
  proof cases
    case 1
    then have k: "0 < k" "settles (k - 1) (world ?s)" using list(2) by auto
    then show ?thesis using 1 "1.IH"(1) [OF sel [symmetric] _ 1 "1.prems"(1) k(2) bound] by simp
  next
    case 2
    then show ?thesis using simulateNvidiaLabels_error by simp
  next
    case 3
    then have k: "0 < k" "settles (k - 1) (world ?s)" using list(2) by auto
    then show ?thesis using 3 "1.IH"(2) [OF sel [symmetric] _ _ 3(2) "1.prems"(1) k(2) bound, of None] by simp
  qed
  then show ?case using w l sel
    by (simp add: poll_nodes.simps [of H client n remaining] callWait_def callNodes_def)
qed

lemma getKubernetesClient_world:
  "world (final (getKubernetesClient H p) s) = snd (kindKubeConfig H (ClusterName p) False (world s))"
  by (simp add: getKubernetesClient_def callGetKubeConfig_def callRawClient_def callLoad_def callKubeClient_def
      split: sum.splits)

section \<open>Labels\<close>

text \<open>The labels written to a GPU worker, for a pool of the catalogue and a number of GPUs.\<close>

definition worker_labels :: "string \<Rightarrow> GPUInfo \<Rightarrow> int64 \<Rightarrow> labels" where
  "worker_labels pool info gpus =
     [(''hpc-sentinel/node-type'', ''gpu-worker''), (''nvidia.com/gpu.count'', Itoa gpus),
      (''nvidia.com/gpu.product'', gpuProduct info), (''nvidia.com/gpu.machine'', ''kind-worker-mock''),
      (''nvidia.com/gpu.present'', ''true''), (''run.ai/simulated-gpu-node-pool'', pool), (''run.ai/fake.gpu'', ''true'')]"

lemma nvidiaLabels_runs:
  "satisfies (nvidiaLabels H) (\<lambda>lb es. \<exists>pool info. \<exists>gpus \<in> {1, 2, 4, 8}.
     go_get hwCatalog pool = Some info \<and> lb = worker_labels pool info gpus)"
  unfolding nvidiaLabels_def Let_def
proof (rule sat_seq [OF callRange_runs], rule sat_seq [OF callIntN_runs])
  fix entries :: "(string \<times> GPUInfo) list" and es
  assume "\<exists>order. es = [Ordered order] \<and> mset entries = mset hwCatalog"
  then have m: "mset entries = mset hwCatalog" by blast
  from mset_eq_length [OF this] show "0 < length (map fst entries)" by (simp add: hwCatalog_def)
  fix i and es' :: "('b, 'c) host_event list"
  assume "es' = [DrewIntN (length (map fst entries)) i] \<and> i < length (map fst entries)"
  then have "map fst entries ! i \<in> fst ` set hwCatalog"
    using mset_eq_setD [OF m] nth_mem [of i "map fst entries"] by simp
  then obtain info where info: "go_get hwCatalog (map fst entries ! i) = Some info"
    using map_of_eq_None_iff [of hwCatalog] by (metis not_Some_eq)
  show "satisfies (do { j \<leftarrow> callIntN H (length [1, 2, 4, 8 :: int64]);
      ret [(''hpc-sentinel/node-type'', ''gpu-worker''), (''nvidia.com/gpu.count'', Itoa ([1, 2, 4, 8] ! j)),
        (''nvidia.com/gpu.product'', gpuProduct (case go_get hwCatalog (map fst entries ! i) of
           Some info \<Rightarrow> info | None \<Rightarrow> \<lparr>gpuProduct = '''', gpuFamily = ''''\<rparr>)),
        (''nvidia.com/gpu.machine'', ''kind-worker-mock''), (''nvidia.com/gpu.present'', ''true''),
        (''run.ai/simulated-gpu-node-pool'', map fst entries ! i), (''run.ai/fake.gpu'', ''true'')] })
    (\<lambda>lb _. \<exists>pool info. \<exists>gpus \<in> {1, 2, 4, 8}. go_get hwCatalog pool = Some info \<and> lb = worker_labels pool info gpus)"
    (is "satisfies (do { j \<leftarrow> _; ret (?lb i j) }) _")
  proof (rule sat_seq [OF callIntN_runs], simp, rule sat_return)
    fix j and es'' :: "('b, 'c) host_event list"
    assume "es'' = [DrewIntN (length [1, 2, 4, 8 :: int64]) j] \<and> j < length [1, 2, 4, 8 :: int64]"
    then have "[1, 2, 4, 8 :: int64] ! j \<in> set [1, 2, 4, 8]" by (intro nth_mem) simp
    then have "[1, 2, 4, 8 :: int64] ! j \<in> {1, 2, 4, 8}" by simp
    then show "\<exists>pool info. \<exists>gpus \<in> {1, 2, 4, 8}. go_get hwCatalog pool = Some info \<and> ?lb i j = worker_labels pool info gpus"
      using info by (simp only: worker_labels_def option.case) blast
  qed
qed

definition drawn_labels :: "labels \<Rightarrow> bool" where
  "drawn_labels lb \<longleftrightarrow> (\<exists>pool info. \<exists>gpus \<in> {1, 2, 4, 8}.
     go_get hwCatalog pool = Some info \<and> lb = worker_labels pool info gpus)"

lemma nvidiaLabels_drawn:
  "satisfies (nvidiaLabels H) (\<lambda>lb es. drawn_labels lb \<and> (\<forall>e \<in> set es. \<forall>name lb x. e \<noteq> MergedNode name lb x))"
  unfolding drawn_labels_def
  by (rule satisfies_conj [OF nvidiaLabels_runs nvidiaLabels_emits [unfolded emits_def]]) simp_all

text \<open>Each node gets labels drawn for it; without an error, every node of the list has accepted them.\<close>

lemma label_nodes_runs:
  "satisfies (label_nodes H client nodes) (\<lambda>r es.
     (\<forall>name lb x. MergedNode name lb x \<in> set es \<longrightarrow> name \<in> nodeName ` set nodes \<and> drawn_labels lb) \<and>
     (r = None \<longrightarrow> (\<forall>n \<in> set nodes. \<exists>lb. MergedNode (nodeName n) lb None \<in> set es)))"
proof (induction nodes)
  case (Cons node nodes)
  show ?case
    unfolding label_nodes.simps callMergeNode_def
    by (rule sat_seq [OF nvidiaLabels_drawn], rule sat_bind, rule sat_invoke, rule sat_option,
        rule satisfies_mono [OF Cons.IH]) (auto intro!: sat_return)
qed (auto intro!: sat_return)

lemma simulateNvidiaLabels_labels:
  "satisfies (simulateNvidiaLabels H client) (\<lambda>r es. \<exists>items err took rest.
     es = ListedNodes gpu_worker_selector (items, err, took) # rest \<and>
     (\<forall>name lb x. MergedNode name lb x \<in> set es \<longrightarrow> name \<in> nodeName ` set items \<and> drawn_labels lb) \<and>
     (r = None \<longrightarrow> (\<forall>n \<in> set items. \<exists>lb. MergedNode (nodeName n) lb None \<in> set es)))"
  unfolding simulateNvidiaLabels_def callNodes_def
  by (rule sat_bind, rule sat_invoke, rule sat_prod, rule sat_prod, rule sat_option)
    (rule satisfies_mono [OF label_nodes_runs], fastforce, fastforce intro!: sat_return)

section \<open>Charts\<close>

text \<open>
  A chart is in place if helm knows a release of its name, or an \<open>upgrade --install\<close> of it succeeded.
\<close>

definition chart_ready :: "string \<Rightarrow> string \<Rightarrow> ('k, 'e) host_event list \<Rightarrow> bool" where
  "chart_ready namespace chart es \<longleftrightarrow> (\<exists>n. GotHistory namespace n chart None \<in> set es) \<or>
     (\<exists>args env out. Ran \<lparr>cmdArgs = ''helm'' # ''upgrade'' # ''--install'' # chart # args, cmdEnv = env\<rparr> (out, None) \<in> set es)"

definition values_file :: "('w, 'c, 'k, 'e) host_env \<Rightarrow> string \<Rightarrow> string" where
  "values_file H chart = filepath_Join [TempDir H, chart @ ''-values.yaml'']"

definition no_skaffold :: "('k, 'e) host_event list \<Rightarrow> bool" where
  "no_skaffold es \<longleftrightarrow> (\<forall>c x. Started c x \<notin> set es)"

definition files_cleaned :: "('w, 'c, 'k, 'e) host_env \<Rightarrow> string \<Rightarrow> ('k, 'e) host_event list \<Rightarrow> bool" where
  "files_cleaned H chart es \<longleftrightarrow> (\<forall>path data perm x. WroteFile path data perm x \<in> set es \<longrightarrow>
     path = values_file H chart \<and> (\<exists>x'. last es = RemovedFile path x'))"

definition chart_run where
  "chart_run H namespace chart r es \<longleftrightarrow>
     (r = None \<longrightarrow> chart_ready namespace chart es) \<and> no_skaffold es \<and> files_cleaned H chart es"

lemma chart_ready_appendR: "chart_ready namespace chart es \<Longrightarrow> chart_ready namespace chart (es1 @ es)"
  by (auto simp: chart_ready_def)

lemma no_skaffold_append [simp]: "no_skaffold (es1 @ es) \<longleftrightarrow> no_skaffold es1 \<and> no_skaffold es"
  by (auto simp: no_skaffold_def)

lemma no_skaffold_simps [simp]:
  "no_skaffold []" "no_skaffold (e # es) \<longleftrightarrow> (\<forall>c x. e \<noteq> Started c x) \<and> no_skaffold es"
  by (auto simp: no_skaffold_def)

lemma files_cleaned_appendR:
  "files_cleaned H chart es \<Longrightarrow> (\<And>path data perm x. WroteFile path data perm x \<notin> set es1) \<Longrightarrow>
   files_cleaned H chart (es1 @ es)"
  by (cases "es = []") (auto simp: files_cleaned_def)

lemma isChartInstalled_runs:
  "satisfies (isChartInstalled H namespace chart) (\<lambda>installed es.
     (installed \<longrightarrow> chart_ready namespace chart es) \<and> no_skaffold es \<and> (\<forall>path data perm x. WroteFile path data perm x \<notin> set es))"
  unfolding isChartInstalled_def callInitHelm_def callHistory_def
  by (auto intro!: sat_bind sat_invoke sat_return sat_if simp: chart_ready_def no_skaffold_def)

lemma add_repo_runs: "satisfies (add_repo H repoName repoUrl) (\<lambda>_ es. \<forall>e \<in> set es. \<exists>c x. e = Ran c x)"
  unfolding add_repo_def callRun_def by (rule sat_if; (rule sat_bind sat_invoke sat_return)+; simp)

lemma chart_runI:
  assumes "\<forall>e \<in> set es. \<exists>c x. e = Ran c x" and "path = values_file H chart"
    and args: "cmdArgs cmd = ''helm'' # ''upgrade'' # ''--install'' # chart # args"
  shows "chart_run H namespace chart (map_option f err)
    (WroteFile path d m x # es @ [Environ env, Ran cmd (out, err), RemovedFile path y])"
proof -
  have cmd: "\<lparr>cmdArgs = ''helm'' # ''upgrade'' # ''--install'' # chart # args, cmdEnv = cmdEnv cmd\<rparr> = cmd"
    using args by (cases cmd) simp
  have "chart_ready namespace chart (WroteFile path d m x # es @ [Environ env, Ran cmd (out, None), RemovedFile path y])"
    unfolding chart_ready_def
    by (intro disjI2 exI [of _ args] exI [of _ "cmdEnv cmd"] exI [of _ out]) (simp only: cmd, simp)
  then show ?thesis using assms(1,2) by (auto simp: chart_run_def no_skaffold_def files_cleaned_def)
qed

lemma upgrade_chart_runs:
  "satisfies (upgrade_chart H p repoName repoUrl chart namespace version vals) (chart_run H namespace chart)"
  unfolding upgrade_chart_def Let_def callWriteFile_def callEnviron_def callRemove_def callRun_def
  apply (rule sat_bind, rule sat_invoke, rule sat_seq [OF add_repo_runs])
  apply (rule sat_bind, rule sat_invoke, rule sat_bind, rule sat_invoke, rule sat_prod)
  apply (rule sat_bind, rule sat_invoke, rule sat_return)
  apply simp
  apply (rule chart_runI)
    apply (simp_all add: values_file_def helm_args_def)
  done

lemma installChart_runs:
  fixes H :: "('w, 'c, 'k, 'e) host_env"
  shows "satisfies (installChart H p repoName repoUrl chart namespace version vals) (chart_run H namespace chart)"
  unfolding installChart_def
proof (rule sat_seq [OF isChartInstalled_runs], rule sat_if)
  fix installed and es1 :: "('k, 'e) host_event list"
  assume 1: "(installed \<longrightarrow> chart_ready namespace chart es1) \<and> no_skaffold es1 \<and>
    (\<forall>path data perm x. WroteFile path data perm x \<notin> set es1)"
  show "satisfies (ret None) (\<lambda>r es. chart_run H namespace chart r (es1 @ es))" if installed
    using 1 that by (intro sat_return) (simp add: chart_run_def files_cleaned_def)
  show "satisfies (upgrade_chart H p repoName repoUrl chart namespace version vals)
      (\<lambda>r es. chart_run H namespace chart r (es1 @ es))"
    using 1 by (intro satisfies_mono [OF upgrade_chart_runs])
      (simp add: chart_run_def chart_ready_appendR files_cleaned_appendR)
qed

section \<open>The order of the add-ons\<close>

text \<open>A step whose error ends the function, then the rest.\<close>

lemma sat_guard:
  assumes "satisfies m P" and "\<And>e es. P (Some e) es \<Longrightarrow> Q (Some e) es"
    and "\<And>es. P None es \<Longrightarrow> satisfies rest (\<lambda>r es'. Q r (es @ es'))"
  shows "satisfies (do { err \<leftarrow> m; if err \<noteq> None then ret err else rest }) Q"
proof (rule sat_seq [OF assms(1)])
  fix err es
  assume "P err es"
  then show "satisfies (if err \<noteq> None then ret err else rest) (\<lambda>y es'. Q y (es @ es'))"
    using assms(2,3) by (cases err) (auto intro: sat_return)
qed

lemma no_skaffold_emits:
  "emits (\<lambda>e. \<forall>c x. e \<noteq> Started c x) m \<Longrightarrow> satisfies m (\<lambda>_ es. no_skaffold es)"
  unfolding emits_def no_skaffold_def by (erule satisfies_mono) blast

lemma simulateNvidiaLabels_quiet: "emits (\<lambda>e. \<forall>c x. e \<noteq> Started c x) (simulateNvidiaLabels H client)"
  unfolding simulateNvidiaLabels_def callNodes_def
  by (intro emit label_nodes_emits) simp_all

lemma poll_nodes_quiet: "emits (\<lambda>e. \<forall>c x. e \<noteq> Started c x) (poll_nodes H client n remaining)"
proof (induction H client n remaining rule: poll_nodes.induct)
  case (1 H client n remaining)
  show ?case
    unfolding poll_nodes.simps [of H client n remaining] callWait_def callNodes_def
    by (intro emit simulateNvidiaLabels_quiet; (rule 1(1) [OF sym] 1(2) [OF sym], assumption+)?) simp_all
qed

lemma getKubernetesClient_quiet: "emits (\<lambda>e. \<forall>c x. e \<noteq> Started c x) (getKubernetesClient H p)"
  unfolding getKubernetesClient_def callGetKubeConfig_def callRawClient_def callLoad_def callKubeClient_def
  by (intro emit) simp_all

lemma waitForNodes_quiet: "emits (\<lambda>e. \<forall>c x. e \<noteq> Started c x) (waitForNodes H p)"
  unfolding waitForNodes_def
  by (intro emit getKubernetesClient_quiet poll_nodes_quiet)

lemma restart_nodes_quiet: "emits (\<lambda>e. \<forall>c x. e \<noteq> Started c x) (restart_nodes H nodes)"
  by (induction nodes) (auto intro!: emit simp: callRun_def callSleep_def)

lemma restartGPUNodes_quiet: "emits (\<lambda>e. \<forall>c x. e \<noteq> Started c x) (restartGPUNodes H p client)"
  unfolding restartGPUNodes_def callNodes_def
  by (intro emit restart_nodes_quiet waitForNodes_quiet) simp_all

lemma MakeInstallCRDs_quiet: "emits (\<lambda>e. \<forall>c x. e \<noteq> Started c x) (MakeInstallCRDs H)"
  unfolding MakeInstallCRDs_def callRun_def by (intro emit) simp_all

text \<open>\<open>skaffold dev\<close> in the environment of the program, with the kubeconfig of the new cluster.\<close>

definition skaffold_dev :: "('w, 'c, 'k, 'e) host_env \<Rightarrow> KindProvider \<Rightarrow> string list \<Rightarrow> command" where
  "skaffold_dev H p environ =
     \<lparr>cmdArgs = [''skaffold'', ''dev'', ''--cache-artifacts=false'', ''--force'', ''--trigger=polling'', ''--port-forward=user''],
      cmdEnv = Some (environ @ [''KUBECONFIG='' @ kubeconfig_path H p])\<rparr>"

definition launched ::
    "('w, 'c, 'k, 'e) host_env \<Rightarrow> KindProvider \<Rightarrow> 'e option \<Rightarrow> ('k, 'e) host_event list \<Rightarrow> bool" where
  "launched H p x es \<longleftrightarrow> (\<exists>config environ es1 es2 es3 es4.
     es = es1 @ es2 @ es3 @ es4 @ [Environ environ, Started (skaffold_dev H p environ) x] \<and>
     no_skaffold (es1 @ es2 @ es3 @ es4) \<and>
     WroteFile (kubeconfig_path H p) config 420 None \<in> set es1 \<and>
     chart_ready GPU_OPERATOR_NS ''fake-gpu-operator'' es1 \<and> capacity_seen es2 \<and>
     chart_ready ''monitoring'' ''kube-prometheus-stack'' es3)"

lemma launchMockEnvironment_runs:
  "satisfies (launchMockEnvironment H p) (\<lambda>r es. \<exists>es4 environ x.
     es = es4 @ [Environ environ, Started (skaffold_dev H p environ) x] \<and> no_skaffold es4 \<and> r = map_option ProvErr x)"
  unfolding launchMockEnvironment_def callRun_def callEnviron_def callStart_def no_skaffold_def skaffold_dev_def [symmetric]
  by (rule sat_bind sat_invoke sat_return)+ (fastforce intro: exI [of _ "[_]"])

lemma launchedI:
  assumes "WroteFile (kubeconfig_path H p) config 420 None \<in> set es1"
    and "chart_ready GPU_OPERATOR_NS ''fake-gpu-operator'' es1" and "capacity_seen es2"
    and "chart_ready ''monitoring'' ''kube-prometheus-stack'' es3"
    and "no_skaffold es1" and "no_skaffold es2" and "no_skaffold es3" and "no_skaffold es4"
  shows "launched H p x (es1 @ es2 @ es3 @ es4 @ [Environ environ, Started (skaffold_dev H p environ) x])"
  unfolding launched_def using assms
  by (intro exI [of _ config] exI [of _ environ] exI [of _ es1] exI [of _ es2] exI [of _ es3] exI [of _ es4]) simp

lemma waitForGpuCapacity_runs:
  "satisfies (waitForGpuCapacity H client) (\<lambda>r es. (r = None \<longrightarrow> capacity_seen es) \<and> no_skaffold es)"
  unfolding waitForGpuCapacity_def
  by (rule satisfies_mono [OF poll_capacity_runs]) (simp add: no_skaffold_def)

lemma installFakeGpuOperator_runs:
  "satisfies (installFakeGpuOperator H p) (\<lambda>r es.
     (r = None \<longrightarrow> chart_ready GPU_OPERATOR_NS ''fake-gpu-operator'' es) \<and> no_skaffold es)"
  unfolding installFakeGpuOperator_def
  by (rule sat_seq [OF callRange_runs], simp only: Let_def, rule satisfies_mono [OF installChart_runs])
    (auto simp: chart_run_def no_skaffold_def intro!: chart_ready_appendR)

lemma installKubePrometheusStack_runs:
  "satisfies (installKubePrometheusStack H p) (\<lambda>r es.
     (r = None \<longrightarrow> chart_ready ''monitoring'' ''kube-prometheus-stack'' es) \<and> no_skaffold es)"
  unfolding installKubePrometheusStack_def
  by (rule satisfies_mono [OF installChart_runs]) (simp add: chart_run_def)

definition addons_run where
  "addons_run H p es0 r es \<longleftrightarrow> (if no_skaffold es then r \<noteq> None
     else \<exists>x. launched H p x (es0 @ es) \<and> r = map_option ProvErr x)"

text \<open>The installation steps, after a prefix that has written the kubeconfig.\<close>

lemma install_steps_runs:
  fixes H :: "('w, 'c, 'k, 'e) host_env" and es0 :: "('k, 'e) host_event list"
  assumes "WroteFile (kubeconfig_path H p) config 420 None \<in> set es0" and "no_skaffold es0"
  shows "satisfies (install_steps H p client) (addons_run H p es0)"
  unfolding install_steps_def addons_run_def
proof (rule sat_guard [OF installFakeGpuOperator_runs], simp,
    rule sat_guard [OF no_skaffold_emits [OF restartGPUNodes_quiet]], simp,
    rule sat_guard [OF waitForGpuCapacity_runs], simp,
    rule sat_guard [OF installKubePrometheusStack_runs], simp,
    rule sat_seq [OF no_skaffold_emits [OF MakeInstallCRDs_quiet]], rule satisfies_mono [OF launchMockEnvironment_runs])
  fix r and es1 es2 es3 es4 es5 es6 :: "('k, 'e) host_event list"
  assume q: "(None = None \<longrightarrow> chart_ready GPU_OPERATOR_NS ''fake-gpu-operator'' es1) \<and> no_skaffold es1"
    "no_skaffold es2" "(None = None \<longrightarrow> capacity_seen es3) \<and> no_skaffold es3"
    "(None = None \<longrightarrow> chart_ready ''monitoring'' ''kube-prometheus-stack'' es4) \<and> no_skaffold es4" "no_skaffold es5"
    and "\<exists>es environ x. es6 = es @ [Environ environ, Started (skaffold_dev H p environ) x] \<and> no_skaffold es \<and>
      r = map_option ProvErr x"
  then obtain es environ x where es6: "es6 = es @ [Environ environ, Started (skaffold_dev H p environ) x]" "no_skaffold es"
    and r: "r = map_option ProvErr x" by blast
  have "launched H p x ((es0 @ es1 @ es2) @ es3 @ es4 @ (es5 @ es) @ [Environ environ, Started (skaffold_dev H p environ) x])"
    by (rule launchedI [where config = config]) (use assms q es6 in \<open>simp_all add: chart_ready_def, blast?\<close>)
  then show "if no_skaffold (es1 @ es2 @ es3 @ es4 @ es5 @ es6) then r \<noteq> None
      else \<exists>x. launched H p x (es0 @ es1 @ es2 @ es3 @ es4 @ es5 @ es6) \<and> r = map_option ProvErr x"
    using es6 r by auto
qed

lemma install_steps_after:
  assumes "no_skaffold es"
  shows "satisfies (install_steps H p client) (\<lambda>r es'. addons_run H p [] r
    ([GotKubeConfig n k] @ [WroteFile (kubeconfig_path H p) config 420 None] @ [Setenv key v] @ es @ es'))"
  by (rule satisfies_mono [OF install_steps_runs [where config = config
        and ?es0.0 = "GotKubeConfig n k # WroteFile (kubeconfig_path H p) config 420 None # Setenv key v # es"]])
    (simp_all add: addons_run_def assms split: if_splits)

lemma InstallAddons_runs: "satisfies (InstallAddons H p) (addons_run H p [])"
  unfolding InstallAddons_def callGetKubeConfig_def callWriteFile_def callSetenv_def Let_def
  apply (rule sat_bind, rule sat_invoke, rule sat_sum)
   apply (rule sat_return, simp add: addons_run_def)
  apply (rule sat_bind, rule sat_invoke, rule sat_option)
   prefer 2 apply (rule sat_return, simp add: addons_run_def)
  apply (rule sat_bind, rule sat_invoke, rule sat_seq [OF no_skaffold_emits [OF getKubernetesClient_quiet]], rule sat_sum)
   apply (rule sat_return, simp add: addons_run_def)
  apply (clarify, rule install_steps_after, assumption)
  done

section \<open>The checks before everything else\<close>

definition check_passed :: "string \<times> command \<Rightarrow> ('k, 'e) host_event \<Rightarrow> bool" where
  "check_passed check e \<longleftrightarrow> (\<exists>out. e = Ran (snd check) (out, None))"

lemma run_checks_runs:
  "satisfies (run_checks H checks) (\<lambda>r es.
     (\<forall>e \<in> set es. \<exists>check \<in> set checks. \<exists>x. e = Ran (snd check) x) \<and>
     (r = None \<longrightarrow> list_all2 check_passed checks es))"
proof (induction checks)
  case (Cons check checks)
  obtain name cmd where check: "check = (name, cmd)" by (cases check)
  show ?case
    unfolding check run_checks.simps callRun_def
    apply (rule sat_bind, rule sat_invoke, rule sat_prod, rule sat_if)
     apply (rule sat_return, simp)
    apply (rule satisfies_mono [OF Cons])
    apply (auto simp: check_passed_def)
    done
qed (auto intro!: sat_return)

lemma Provision_quiet: "emits (\<lambda>e. \<forall>c x. e \<noteq> Started c x) (Provision H p)"
  unfolding Provision_def createCluster_def callListClusters_def callCreateCluster_def
  by (intro emit waitForNodes_quiet) simp_all

definition main_run :: "('w, 'c, 'k, 'e) host_env \<Rightarrow> 'e main_exit \<Rightarrow> ('k, 'e) host_event list \<Rightarrow> bool" where
  "main_run H r es \<longleftrightarrow> (\<exists>env es1 es2. es = Getenv ''ENV'' env # es1 @ es2 \<and>
     (\<forall>e \<in> set es1. \<exists>check \<in> set system_checks. \<exists>x. e = Ran (snd check) x) \<and>
     (es2 \<noteq> [] \<or> r = Returned \<longrightarrow> list_all2 check_passed system_checks es1) \<and>
     (r = Returned \<longrightarrow> (\<exists>es3 es4. es2 = es3 @ es4 \<and> launched H (NewKindProvider ''hpc-sentinel-local'') None es4)))"

lemma main_run_failed_check:
  "\<forall>e \<in> set es1. \<exists>check \<in> set system_checks. \<exists>x. e = Ran (snd check) x \<Longrightarrow> r \<noteq> Returned \<Longrightarrow>
   main_run H r (Getenv ''ENV'' env # es1)"
  unfolding main_run_def by (intro exI [of _ env] exI [of _ es1] exI [of _ "[]"]) simp

lemma main_run_setup:
  assumes "\<forall>e \<in> set es1. \<exists>check \<in> set system_checks. \<exists>x. e = Ran (snd check) x"
    and "list_all2 check_passed system_checks es1" and "r \<noteq> Returned"
  shows "main_run H r (Getenv ''ENV'' env # es1 @ es2)"
  unfolding main_run_def using assms by (intro exI [of _ env] exI [of _ es1] exI [of _ es2]) simp

lemma main_run_addons:
  assumes "\<forall>e \<in> set es1. \<exists>check \<in> set system_checks. \<exists>x. e = Ran (snd check) x"
    and "list_all2 check_passed system_checks es1"
    and "addons_run H (NewKindProvider ''hpc-sentinel-local'') [] None es4"
  shows "main_run H Returned (Getenv ''ENV'' env # es1 @ es3 @ es4)"
proof -
  have "launched H (NewKindProvider ''hpc-sentinel-local'') None es4"
    using assms(3) by (auto simp: addons_run_def split: if_splits)
  then have "\<exists>es3' es4'. es3 @ es4 = es3' @ es4' \<and> launched H (NewKindProvider ''hpc-sentinel-local'') None es4'" by blast
  then show ?thesis
    unfolding main_run_def using assms(1,2) by (intro exI [of _ env] exI [of _ es1] exI [of _ "es3 @ es4"]) simp
qed

lemma provisioner_main_runs: "satisfies (provisioner_main H) (main_run H)"
  unfolding provisioner_main_def callGetenv_def callLookupEnv_def CheckSystemRequirements_def Let_def if_cancel
  apply (rule sat_bind, rule sat_bind, rule sat_invoke, rule sat_return)
  apply (rule sat_seq [OF run_checks_runs], rule sat_option)
   prefer 2 apply (rule sat_return, simp add: main_run_failed_check)
  apply (rule sat_seq [OF no_skaffold_emits [OF Provision_quiet]], rule sat_option)
   prefer 2 apply (rule sat_return, simp add: main_run_setup)
  apply (rule sat_seq [OF InstallAddons_runs], rule sat_option; rule sat_return)
   apply (simp add: main_run_addons)
  apply (simp add: main_run_setup)
  done

lemma getKubernetesClient_calls:
  "satisfies (getKubernetesClient H p) (\<lambda>r es. \<forall>e \<in> set es. \<forall>sel x. e \<noteq> ListedNodes sel x)"
proof -
  have "emits (\<lambda>e. \<forall>sel x. e \<noteq> ListedNodes sel x) (getKubernetesClient H p)"
    unfolding getKubernetesClient_def callGetKubeConfig_def callRawClient_def callLoad_def callKubeClient_def
    by (intro emit) simp_all
  then show ?thesis by (simp add: emits_def)
qed

lemma waitForNodes_runs:
  fixes H :: "('w, 'c, 'k, 'e) host_env"
  shows "satisfies (waitForNodes H p) (\<lambda>r es.
     length (filter (listing_of '''') es) \<le> 84 \<and>
     (\<forall>n. getExpectedNodeCount H = Inr n \<longrightarrow>
        (r \<noteq> Some NodesTimeout \<and> (\<forall>err. r \<noteq> Some (GetClientErr err)) \<longleftrightarrow> (\<exists>e \<in> set es. shows_ready n e))))"
  unfolding waitForNodes_def
proof (rule sat_seq [OF getKubernetesClient_calls], rule sat_sum)
  fix client and es1 :: "('k, 'e) host_event list"
  assume "\<forall>e \<in> set es1. \<forall>sel x. e \<noteq> ListedNodes sel x"
  then have none: "filter (listing_of '''') es1 = []" "\<And>n e. e \<in> set es1 \<Longrightarrow> \<not> shows_ready n e"
    by (auto simp: filter_empty_conv listing_of_def shows_ready_def split: host_event.splits)
  let ?Q = "\<lambda>r es. length (filter (listing_of '''') (es1 @ es)) \<le> 84 \<and>
     (\<forall>n. getExpectedNodeCount H = Inr n \<longrightarrow>
        (r \<noteq> Some NodesTimeout \<and> (\<forall>err. r \<noteq> Some (GetClientErr err)) \<longleftrightarrow> (\<exists>e \<in> set (es1 @ es). shows_ready n e)))"
  show "satisfies (ret (Some (GetClientErr err))) ?Q" for err
    using none by (intro sat_return) auto
  show "satisfies (case getExpectedNodeCount H of Inl err \<Rightarrow> ret (Some (NodeCountErr err))
      | Inr expectedNodeCount \<Rightarrow> poll_nodes H k expectedNodeCount (7 * Minute)) ?Q" for k
  proof (rule sat_sum)
    show "satisfies (ret (Some (NodeCountErr err))) ?Q" if "getExpectedNodeCount H = Inl err" for err
      using none that by (intro sat_return) auto
    show "satisfies (poll_nodes H k n (7 * Minute)) ?Q" if "getExpectedNodeCount H = Inr n" for n
      using none that by (intro satisfies_mono [OF poll_nodes_runs])
        (auto simp: turns_fit_def Minute_def Second_def)
  qed
qed

lemma restart_nodes_runs:
  "satisfies (restart_nodes H nodes) (\<lambda>r es.
     \<forall>cmd x. Ran cmd x \<in> set es \<longrightarrow> (\<exists>node \<in> set nodes. cmd = Command [''docker'', ''restart'', nodeName node] \<and>
       sint (quantity_at (nodeCapacity node) ''nvidia.com/gpu'') \<le> 0))"
proof (induction nodes)
  case (Cons node nodes)
  show ?case
  proof (cases "0 < sint (quantity_at (nodeCapacity node) ''nvidia.com/gpu'')")
    case True
    then show ?thesis by (simp, intro satisfies_mono [OF Cons]) blast
  next
    case False
    then show ?thesis
      unfolding restart_nodes.simps callRun_def callSleep_def
      apply (simp only: if_False)
      apply (rule sat_bind, rule sat_invoke, rule sat_prod, rule sat_if)
       apply (rule sat_return, simp)
      apply (rule sat_bind, rule sat_invoke, rule satisfies_mono [OF Cons])
      apply auto
      done
  qed
qed (auto intro!: sat_return)

end
