(* ===== verification/Sample_Host.thy ===== *)
theory Sample_Host
  imports Host_Env
begin

text \<open>
  A small host with a cluster, in memory: the environment the theorems on the tools are instantiated
  with where one shows that their hypotheses can hold. Commands succeed, timers are punctual, helm knows
  no release; the API server refuses a listing of all nodes as often as \<open>hwPending\<close> says, then shows the
  nodes; config maps are stored as they are written.
\<close>

record host_world =
  hwVars :: "(string, string) gomap"
  hwNodes :: "Node list"
  hwPending :: nat
  hwMaps :: "ConfigMap list"
  hwDraws :: nat
  hwClock :: int

definition is_map :: "string \<Rightarrow> string \<Rightarrow> ConfigMap \<Rightarrow> bool" where
  "is_map ns name cm \<longleftrightarrow> (cmNamespace cm, cmName cm) = (ns, name)"

definition map_got :: "string \<Rightarrow> string \<Rightarrow> host_world \<Rightarrow> (string + ConfigMap) \<times> host_world" where
  "map_got ns name w = ((case find (is_map ns name) (hwMaps w) of None \<Rightarrow> Inl ''notfound'' | Some cm \<Rightarrow> Inr cm), w)"

definition map_created :: "string \<Rightarrow> ConfigMap \<Rightarrow> host_world \<Rightarrow> string option \<times> host_world" where
  "map_created ns cm w =
     (if find (is_map ns (cmName cm)) (hwMaps w) \<noteq> None then (Some ''exists'', w)
      else (None, w\<lparr>hwMaps := cm\<lparr>cmNamespace := ns, cmResourceVersion := ''1''\<rparr> # hwMaps w\<rparr>))"

definition map_updated :: "string \<Rightarrow> ConfigMap \<Rightarrow> host_world \<Rightarrow> string option \<times> host_world" where
  "map_updated ns cm w =
     (case find (is_map ns (cmName cm)) (hwMaps w) of
        None \<Rightarrow> (Some ''notfound'', w)
      | Some old \<Rightarrow>
          if cmResourceVersion old \<noteq> cmResourceVersion cm then (Some ''conflict'', w)
          else (None, w\<lparr>hwMaps := map (\<lambda>c. if is_map ns (cmName cm) c
                  then cm\<lparr>cmNamespace := ns, cmResourceVersion := cmResourceVersion old @ ''+''\<rparr> else c) (hwMaps w)\<rparr>))"

definition nodes_listed :: "string \<Rightarrow> host_world \<Rightarrow> (Node list \<times> string option \<times> nat) \<times> host_world" where
  "nodes_listed sel w =
     (if sel = '''' then
        (if hwPending w = 0 then ((hwNodes w, None, 0), w) else (([], Some ''refused'', 0), w\<lparr>hwPending := hwPending w - 1\<rparr>))
      else ((filter (\<lambda>n. sel = ''hpc-sentinel/node-type='' @ or_empty (node_label n ''hpc-sentinel/node-type'')) (hwNodes w), None, 0), w))"

definition node_merged :: "string \<Rightarrow> labels \<Rightarrow> host_world \<Rightarrow> string option \<times> host_world" where
  "node_merged name lb w =
     (None, w\<lparr>hwNodes := map (\<lambda>n. if nodeName n = name
        then n\<lparr>nodeLabels := Some (foldl (\<lambda>m (k, v). go_put k v m)
               (case nodeLabels n of None \<Rightarrow> [] | Some m \<Rightarrow> m) lb)\<rparr> else n) (hwNodes w)\<rparr>)"

definition sample_client_lib :: "(unit, unit, string) client_lib" where
  "sample_client_lib =
     \<lparr>InClusterConfig = Inl ''outside'', BuildConfigFromFlags = (\<lambda>url path. Inr ()), NewForConfig = (\<lambda>c. Inr ()),
      RESTConfigFromKubeConfig = (\<lambda>raw. Inr ()), StatIsNotExist = (\<lambda>path. False), HomeDir = ''/root''\<rparr>"

definition sample_host :: "(host_world, unit, unit, string) host_env" where
  "sample_host =
     \<lparr>HostNotFound = (\<lambda>e. e = ''notfound''),
      KindConfig = ''nodes'',
      UnmarshalNodes = (\<lambda>raw. Inr [''control-plane'', ''worker'']),
      YamlMarshal = (\<lambda>v. (''values'', None)),
      TempDir = ''/tmp'',
      hostLookupEnv = (\<lambda>w. go_get (hwVars w)),
      hostEnviron = (\<lambda>w. map (\<lambda>(k, v). k @ ''='' @ v) (hwVars w)),
      hostClientLib = (\<lambda>w. sample_client_lib),
      hostSetenv = (\<lambda>k v w. w\<lparr>hwVars := go_put k v (hwVars w)\<rparr>),
      hostWriteFile = (\<lambda>path data perm w. (None, w)),
      hostRemove = (\<lambda>path w. (None, w)),
      hostRun = (\<lambda>c w. (('''', None), w)),
      hostStart = (\<lambda>c w. (None, w)),
      hostDraw = (\<lambda>w. (hwDraws w, w\<lparr>hwDraws := Suc (hwDraws w)\<rparr>)),
      hostOrder = (\<lambda>w. ([], w)),
      hostWait = (\<lambda>w. ((0, False), w)),
      hostSleep = (\<lambda>d w. w\<lparr>hwClock := hwClock w + d\<rparr>),
      hostClock = hwClock,
      hostPrint = (\<lambda>t w. w),
      kindList = (\<lambda>w. (Inr [], w)),
      kindCreate = (\<lambda>name raw w. (None, w)),
      kindKubeConfig = (\<lambda>name internal w. (Inr ''kubeconfig'', w)),
      helmInit = (\<lambda>ns w. (None, w)),
      helmHistory = (\<lambda>ns n release w. (Some ''notfound'', w)),
      apiListNodes = (\<lambda>client. nodes_listed),
      apiMergeNode = (\<lambda>client. node_merged),
      apiGetMap = (\<lambda>client. map_got),
      apiCreateMap = (\<lambda>client. map_created),
      apiUpdateMap = (\<lambda>client. map_updated),
      httpListenAndServe = (\<lambda>addr w. (''closed'', w))\<rparr>"

text \<open>A control plane and a GPU worker, both ready; listings are refused \<open>pending\<close> times first.\<close>

definition host_node :: "string \<Rightarrow> labels \<Rightarrow> int64 \<Rightarrow> Node" where
  "host_node name lb gpus =
     \<lparr>nodeName = name, nodeLabels = Some lb, nodeTaints = [], nodeAllocatable = [(''nvidia.com/gpu'', gpus)],
      nodeCapacity = [(''nvidia.com/gpu'', gpus)],
      nodeConditions = [\<lparr>condType = ''DiskPressure'', condStatus = ''False''\<rparr>, \<lparr>condType = ''Ready'', condStatus = ''True''\<rparr>]\<rparr>"

definition sample_host_world :: "nat \<Rightarrow> (host_world, (unit, string) host_event) sys" where
  "sample_host_world pending =
     \<lparr>world = \<lparr>hwVars = [(''MAP_NAME'', ''metrics''), (''MAP_NAMESPACE'', ''lab''), (''PORT'', ''9400'')],
        hwNodes = [host_node ''cp'' [] 0,
          host_node ''gpu1'' [(''hpc-sentinel/node-type'', ''gpu-worker''), (''nvidia.com/gpu.count'', ''2'')] 8],
        hwPending = pending, hwMaps = [], hwDraws = 0, hwClock = 0\<rparr>,
      log = []\<rparr>"

end
