(* ===== verification/Tool_Properties.thy ===== *)
theory Tool_Properties
  imports Provisioner_Laws Sample_Host
begin

text \<open>The properties of the provisioner of test clusters.\<close>

section \<open>Waiting\<close>

text \<open>
C27: Waiting ends: whatever the cluster answers and however late the timers are, \<open>waitForNodes\<close> lists all
nodes at most 84 times before it returns, and \<open>waitForGpuCapacity\<close> the GPU workers at most 18 times.
\<close>

theorem waits_end:
  "length (filter (listing_of '''') (emitted (waitForNodes H p) s)) \<le> 84 \<and>
   length (filter (listing_of gpu_worker_selector) (emitted (waitForGpuCapacity H client) s')) \<le> 18"
  using satisfiesD [OF waitForNodes_runs [of H p], of s]
    satisfiesD [OF poll_capacity_runs [of H client "3 * Minute"], of s']
  by (auto simp: waitForGpuCapacity_def turns_fit_def Minute_def Second_def)

text \<open>
C28: The wait for nodes gives up for time or for want of a client exactly if no listing it got succeeded
and showed as many Ready conditions as nodes are expected; listings that fail are retried.
\<close>

theorem node_wait_outcome:
  assumes "getExpectedNodeCount H = Inr n"
  shows "(\<exists>e \<in> set (emitted (waitForNodes H p) s). shows_ready n e) \<longleftrightarrow>
    result (waitForNodes H p) s \<noteq> Some NodesTimeout \<and>
    (\<forall>err. result (waitForNodes H p) s \<noteq> Some (GetClientErr err))"
  using satisfiesD [OF waitForNodes_runs [of H p], of s] assms by blast

theorem node_wait_outcome_witness:
  "\<exists>e \<in> set (emitted (waitForNodes sample_host (NewKindProvider ''c'')) (sample_host_world 3)). shows_ready 2 e"
proof -
  have "getExpectedNodeCount sample_host = Inr 2" by code_simp
  moreover have "result (waitForNodes sample_host (NewKindProvider ''c'')) (sample_host_world 3) = None" by code_simp
  ultimately show ?thesis
    using node_wait_outcome [of sample_host 2 "NewKindProvider ''c''" "sample_host_world 3"] by simp
qed

text \<open>
C26: A cluster that comes up in time is never given up: if timers fire in time, listings take no time,
and the cluster shows the expected Ready conditions after at most 82 more listings, the wait does not end
by the timeout.
\<close>

theorem settling_cluster_found:
  assumes "getExpectedNodeCount H = Inr n" and "\<And>client. settling H client n settles"
    and "\<And>w. settles k w \<Longrightarrow> settles k (snd (kindKubeConfig H (ClusterName p) False w))"
    and "settles k (world s)" and "k \<le> 82"
  shows "result (waitForNodes H p) s \<noteq> Some NodesTimeout"
proof -
  let ?s = "final (getKubernetesClient H p) s"
  have "settles k (world ?s)"
    using assms(3,4) by (simp add: getKubernetesClient_world)
  moreover have "int (Suc k) * (5 * Second) < 7 * Minute" using assms(5) by (simp add: Minute_def Second_def)
  ultimately have "result (poll_nodes H client n (7 * Minute)) ?s \<noteq> Some NodesTimeout" for client
    using poll_nodes_settles [OF assms(2)] by blast
  then show ?thesis using assms(1) by (simp add: waitForNodes_def split: sum.splits)
qed

definition host_settles :: "nat \<Rightarrow> host_world \<Rightarrow> bool" where
  "host_settles k w \<longleftrightarrow> hwPending w \<le> k \<and> 2 \<le> count_ready_nodes 0 (hwNodes w)"

lemma sample_host_settling: "settling sample_host client 2 host_settles"
  by (auto simp: settling_def sample_host_def host_settles_def nodes_listed_def)

theorem settling_cluster_found_witness:
  "result (waitForNodes sample_host (NewKindProvider ''c'')) (sample_host_world 80) \<noteq> Some NodesTimeout"
proof (rule settling_cluster_found [OF _ sample_host_settling, where k = 80])
  show "getExpectedNodeCount sample_host = Inr 2" by code_simp
  show "host_settles 80 (snd (kindKubeConfig sample_host (ClusterName (NewKindProvider ''c'')) False w))"
    if "host_settles 80 w" for w using that by (simp add: sample_host_def)
  show "host_settles 80 (world (sample_host_world 80))" by (simp add: host_settles_def sample_host_world_def host_node_def)
qed simp

section \<open>The labels of the GPU workers\<close>

text \<open>
C31: Provisioner and controller agree. Every patch of \<open>simulateNvidiaLabels\<close> is for a node of its listing, and
if it ends without an error every listed node has accepted one. A node with the labels of such a patch merged
into those it had, whatever was drawn, is one the controller selects as a GPU node, with a pool and a product
of the catalogue; and its NVLink capability is what it was before, even when its product is a Hopper or an
Ampere: the provisioner writes none of the labels the controller asks for that.
\<close>

theorem provisioned_node_selected:
  assumes "emitted (simulateNvidiaLabels H client) s = es"
  shows "\<exists>items err took. hd es = ListedNodes gpu_worker_selector (items, err, took) \<and>
    (result (simulateNvidiaLabels H client) s = None \<longrightarrow>
       (\<forall>n \<in> set items. \<exists>lb. MergedNode (nodeName n) lb None \<in> set es)) \<and>
    (\<forall>name lb answer. MergedNode name lb answer \<in> set es \<longrightarrow> name \<in> nodeName ` set items \<and>
       (\<forall>old node.
          (\<forall>key. node_label node key = (case go_get lb key of Some v \<Rightarrow> Some v | None \<Rightarrow> node_label old key)) \<longrightarrow>
          valid_nodes [node] = [node] \<and>
          (\<exists>pool info. go_get hwCatalog pool = Some info \<and>
             node_label node ''run.ai/simulated-gpu-node-pool'' = Some pool \<and>
             node_label node ''nvidia.com/gpu.product'' = Some (gpuProduct info)) \<and>
          (IsNvlinkCapable node \<longleftrightarrow> IsNvlinkCapable old)))"
proof -
  have node: "valid_nodes [node] = [node] \<and>
      (\<exists>pool info. go_get hwCatalog pool = Some info \<and>
         node_label node ''run.ai/simulated-gpu-node-pool'' = Some pool \<and>
         node_label node ''nvidia.com/gpu.product'' = Some (gpuProduct info)) \<and>
      (IsNvlinkCapable node \<longleftrightarrow> IsNvlinkCapable old)"
    if d: "drawn_labels lb"
      and merged: "\<forall>key. node_label node key = (case go_get lb key of Some v \<Rightarrow> Some v | None \<Rightarrow> node_label old key)"
    for lb node old
  proof -
    obtain pool info gpus where g: "gpus \<in> {1, 2, 4, 8}" "go_get hwCatalog pool = Some info" "lb = worker_labels pool info gpus"
      using d unfolding drawn_labels_def by blast
    note label = merged [rule_format, unfolded g(3)]
    have "node_label node GPU_NODE_LABEL_INDICATOR = Some (Itoa gpus)"
      "node_label node ''run.ai/simulated-gpu-node-pool'' = Some pool"
      "node_label node ''nvidia.com/gpu.product'' = Some (gpuProduct info)"
      "node_label node MULTI_NODE_NVLINK_INDICATOR = node_label old MULTI_NODE_NVLINK_INDICATOR"
      "node_label node GPU_NODE_FAMILY_INDICATOR = node_label old GPU_NODE_FAMILY_INDICATOR"
      by (subst label, simp add: worker_labels_def GPU_NODE_LABEL_INDICATOR_def MULTI_NODE_NVLINK_INDICATOR_def
          GPU_NODE_FAMILY_INDICATOR_def)+
    moreover have "0 < sint gpus" using g(1) by auto
    ultimately show ?thesis
      using g(2) by (auto simp: or_empty_def IsNvlinkCapable_def split: if_splits)
  qed
  obtain items err took rest where log: "es = ListedNodes gpu_worker_selector (items, err, took) # rest"
    and drawn: "\<And>name lb x. MergedNode name lb x \<in> set es \<Longrightarrow> name \<in> nodeName ` set items \<and> drawn_labels lb"
    and all: "result (simulateNvidiaLabels H client) s = None \<Longrightarrow> \<forall>n \<in> set items. \<exists>lb. MergedNode (nodeName n) lb None \<in> set es"
    using satisfiesD [OF simulateNvidiaLabels_labels [of H client], of s] unfolding assms
    by (elim exE conjE) (rule that; assumption?; blast)
  from log have "hd es = ListedNodes gpu_worker_selector (items, err, took)" by simp
  then show ?thesis
    apply (intro exI [of _ items] exI [of _ err] exI [of _ took] conjI allI impI)
         apply assumption
        apply (rule all, assumption)
       apply (drule drawn, erule conjunct1)
      apply ((drule drawn, rule node [OF conjunct2, THEN conjunct1], assumption, assumption) |
        (drule drawn, rule node [OF conjunct2, THEN conjunct2, THEN conjunct1], assumption, assumption) |
        (drule drawn, rule node [OF conjunct2, THEN conjunct2, THEN conjunct2], assumption, assumption))+
    done
qed

theorem provisioned_node_selected_witness:
  "\<exists>lb. MergedNode ''gpu1'' lb None \<in> set (emitted (simulateNvidiaLabels sample_host ()) (sample_host_world 0)) \<and>
    valid_nodes [host_node ''gpu1'' lb 8] = [host_node ''gpu1'' lb 8] \<and> \<not> IsNvlinkCapable (host_node ''gpu1'' lb 8)"
proof -
  let ?run = "simulateNvidiaLabels sample_host ()" and ?s = "sample_host_world 0"
  have none: "result ?run ?s = None" by code_simp
  have hd: "hd (emitted ?run ?s) = ListedNodes ''hpc-sentinel/node-type=gpu-worker''
      ([host_node ''gpu1'' [(''hpc-sentinel/node-type'', ''gpu-worker''), (''nvidia.com/gpu.count'', ''2'')] 8], None, 0)"
    by code_simp
  obtain items err took where r: "hd (emitted ?run ?s) = ListedNodes gpu_worker_selector (items, err, took)"
    "\<forall>n \<in> set items. \<exists>lb. MergedNode (nodeName n) lb None \<in> set (emitted ?run ?s)"
    "\<And>name lb answer old node. MergedNode name lb answer \<in> set (emitted ?run ?s) \<Longrightarrow>
       \<forall>key. node_label node key = (case go_get lb key of Some v \<Rightarrow> Some v | None \<Rightarrow> node_label old key) \<Longrightarrow>
       valid_nodes [node] = [node] \<and> (IsNvlinkCapable node \<longleftrightarrow> IsNvlinkCapable old)"
    using provisioned_node_selected [of sample_host "()" ?s, OF refl] none by blast
  obtain lb where lb: "MergedNode ''gpu1'' lb None \<in> set (emitted ?run ?s)"
    using r(1,2) hd by (auto simp: host_node_def)
  have "\<not> IsNvlinkCapable (host_node ''gpu1'' [] 8)" by code_simp
  moreover have "\<forall>key. node_label (host_node ''gpu1'' lb 8) key =
      (case go_get lb key of Some v \<Rightarrow> Some v | None \<Rightarrow> node_label (host_node ''gpu1'' [] 8) key)"
    by (simp add: host_node_def node_label_def split: option.split)
  ultimately show ?thesis using lb r(3) by blast
qed

section \<open>Charts and add-ons\<close>

text \<open>
C30: Installing a chart succeeds only if helm knew a release of its name or its \<open>upgrade --install\<close>
succeeded, and every values file it writes is removed before it returns, also when helm fails.
\<close>

theorem chart_installed_and_cleaned:
  assumes "emitted (installChart H p repoName repoUrl chart namespace version vals) s = es"
  shows "(result (installChart H p repoName repoUrl chart namespace version vals) s = None \<longrightarrow>
      chart_ready namespace chart es) \<and>
    (WroteFile path d perm x \<in> set es \<longrightarrow> path = values_file H chart \<and> (\<exists>y. last es = RemovedFile path y))"
  using satisfiesD [OF installChart_runs [of H p repoName repoUrl chart namespace version vals], of s]
  unfolding assms chart_run_def files_cleaned_def by blast

theorem chart_installed_and_cleaned_witness:
  "chart_ready ''ns'' ''web'' (emitted (installChart sample_host (NewKindProvider ''c'') ''r'' ''https://r'' ''web'' ''ns'' '''' (YMap []))
     (sample_host_world 0))"
proof -
  let ?run = "installChart sample_host (NewKindProvider ''c'') ''r'' ''https://r'' ''web'' ''ns'' '''' (YMap [])"
  have "result ?run (sample_host_world 0) = None" by code_simp
  then show ?thesis
    using chart_installed_and_cleaned [of sample_host "NewKindProvider ''c''" "''r''" "''https://r''" "''web''" "''ns''"
        "''''" "YMap []" "sample_host_world 0", OF refl] by blast
qed

text \<open>
C29: The add-ons go up in order: if \<open>InstallAddons\<close> returns without an error then its last call has started
\<open>skaffold dev\<close>, in the program's environment with the kubeconfig of the cluster, after the kubeconfig was
written and the operator's chart was in place, then every GPU worker had shown capacity, and then the
Prometheus stack was in place.
\<close>

theorem addons_in_order:
  assumes "result (InstallAddons H p) s = None"
  shows "\<exists>config environ es1 es2 es3 es4. emitted (InstallAddons H p) s = es1 @ es2 @ es3 @ es4 @
      [Environ environ, Started
         \<lparr>cmdArgs = [''skaffold'', ''dev'', ''--cache-artifacts=false'', ''--force'', ''--trigger=polling'', ''--port-forward=user''],
          cmdEnv = Some (environ @ [''KUBECONFIG='' @ kubeconfig_path H p])\<rparr> None] \<and>
    WroteFile (kubeconfig_path H p) config 420 None \<in> set es1 \<and>
    chart_ready GPU_OPERATOR_NS ''fake-gpu-operator'' es1 \<and> capacity_seen es2 \<and>
    chart_ready ''monitoring'' ''kube-prometheus-stack'' es3"
proof -
  have "launched H p None (emitted (InstallAddons H p) s)"
    using satisfiesD [OF InstallAddons_runs [of H p], of s] assms by (auto simp: addons_run_def split: if_splits)
  then show ?thesis unfolding launched_def skaffold_dev_def by blast
qed

theorem addons_in_order_witness:
  "\<exists>config environ es1 es2 es3 es4.
    emitted (InstallAddons sample_host (NewKindProvider ''c'')) (sample_host_world 0) = es1 @ es2 @ es3 @ es4 @
      [Environ environ, Started
         \<lparr>cmdArgs = [''skaffold'', ''dev'', ''--cache-artifacts=false'', ''--force'', ''--trigger=polling'', ''--port-forward=user''],
          cmdEnv = Some (environ @ [''KUBECONFIG='' @ kubeconfig_path sample_host (NewKindProvider ''c'')])\<rparr> None] \<and>
    WroteFile (kubeconfig_path sample_host (NewKindProvider ''c'')) config 420 None \<in> set es1 \<and>
    chart_ready GPU_OPERATOR_NS ''fake-gpu-operator'' es1 \<and> capacity_seen es2 \<and>
    chart_ready ''monitoring'' ''kube-prometheus-stack'' es3"
  by (rule addons_in_order) code_simp

text \<open>
Nothing is done before the checks: the provisioner's main makes no call but the three checks unless
docker, kind and skaffold, in this order, all answered without an error.
\<close>

theorem nothing_before_checks:
  assumes "e \<in> set (tl (emitted (provisioner_main H) s))" and "\<And>check x. check \<in> set system_checks \<Longrightarrow> e \<noteq> Ran (snd check) x"
  shows "list_all2 check_passed system_checks (take 3 (tl (emitted (provisioner_main H) s)))"
proof -
  obtain env es1 es2 where es: "emitted (provisioner_main H) s = Getenv ''ENV'' env # es1 @ es2"
    and es1: "\<forall>e \<in> set es1. \<exists>check \<in> set system_checks. \<exists>x. e = Ran (snd check) x"
    and passed: "es2 \<noteq> [] \<or> result (provisioner_main H) s = Returned \<longrightarrow> list_all2 check_passed system_checks es1"
    using satisfiesD [OF provisioner_main_runs [of H], of s] unfolding main_run_def by blast
  have "e \<notin> set es1" using es1 assms(2) by blast
  then have "es2 \<noteq> []" using assms(1) es by auto
  then have "list_all2 check_passed system_checks es1" using passed by blast
  moreover from this have "length es1 = 3" by (simp add: list_all2_lengthD [symmetric] system_checks_def)
  ultimately show ?thesis by (simp add: es)
qed

theorem nothing_before_checks_witness:
  "list_all2 check_passed system_checks (take 3 (tl (emitted (provisioner_main sample_host) (sample_host_world 0))))"
proof (rule nothing_before_checks)
  show "ListedClusters (Inr []) \<in> set (tl (emitted (provisioner_main sample_host) (sample_host_world 0)))" by code_simp
qed simp

end
