(* ===== verification/Scenario.thy ===== *)
theory Scenario
  imports Host_Env Go_Float
begin

text \<open>
  The scenario manager, \<open>internal/provisioner/fake-scenario/scenario-manager.go\<close> and
  \<open>cmd/scenario-manager/main.go\<close>: it registers the GPUs of the labelled nodes and, at every tick,
  writes a text of random metrics for each node into a config map. Log output is left out. Random
  floats, float64 arithmetic and the formatting of floats are modelled exactly.
\<close>

section \<open>Floats\<close>

text \<open>
  Rounding to \<open>float64\<close> and \<open>float32\<close> of values far from overflow. A multiplication and an addition
  round each, as on a platform that does not fuse them.
\<close>

definition f64 :: "rat \<Rightarrow> rat" where "f64 = round_to 53 (-1074)"
definition f32 :: "rat \<Rightarrow> rat" where "f32 = round_to 24 (-149)"

text \<open>\<open>rand.Float32()\<close> has 24 random bits, \<open>rand.Float64()\<close> 53.\<close>

definition callFloat32 :: "('w, 'c, 'k, 'e) host_env \<Rightarrow> ('w, 'k, 'e, rat) hprog" where
  "callFloat32 H = do { n \<leftarrow> callBits H 24; ret (of_int (int n) / 2 ^ 24) }"

definition callFloat64 :: "('w, 'c, 'k, 'e) host_env \<Rightarrow> ('w, 'k, 'e, rat) hprog" where
  "callFloat64 H = do { n \<leftarrow> callBits H 53; ret (of_int (int n) / 2 ^ 53) }"

text \<open>
  The verb \<open>%.<prec>f\<close>: the nearest decimal with that many places, ties to even, as digits around a
  point.
\<close>

definition fmt_digits :: "nat \<Rightarrow> nat \<Rightarrow> string" where
  "fmt_digits prec n =
     (let ds = show_nat n; padded = replicate (Suc prec - length ds) (CHR ''0'') @ ds;
          k = length padded - prec
      in if prec = 0 then padded else take k padded @ CHR ''.'' # drop k padded)"

definition fmt_fixed :: "nat \<Rightarrow> rat \<Rightarrow> string" where
  "fmt_fixed prec x =
     (if x < 0 then CHR ''-'' # fmt_digits prec (nat (rne (- x * 10 ^ prec)))
      else fmt_digits prec (nat (rne (x * 10 ^ prec))))"

section \<open>Names\<close>

definition ENV_MAP_NAME :: string where "ENV_MAP_NAME = ''MAP_NAME''"
definition ENV_MAP_NAMESPACE :: string where "ENV_MAP_NAMESPACE = ''MAP_NAMESPACE''"
definition GPU_COUNT_LABEL :: string where "GPU_COUNT_LABEL = ''nvidia.com/gpu.count''"

definition newline :: string where "newline = [CHR 0x0A]"

type_synonym cluster_map = "(string, string list) gomap"

record 'k ScenarioManager =
  smClient :: 'k

datatype 'e scenario_err =
    ClientErr "'e client_err"
  | ListGpuNodesErr 'e
  | NoGpuNodes
  | EnvMissing string
  | MapErr 'e

definition NewScenarioManager ::
    "('w, 'c, 'k, 'e) host_env \<Rightarrow> ('w, 'k, 'e, 'e scenario_err + 'k ScenarioManager) hprog" where
  "NewScenarioManager H = do {
     cfg \<leftarrow> callLoad H;
     kClient \<leftarrow> callKubeClient H cfg;
     case kClient of
       Inl err \<Rightarrow> ret (Inl (ClientErr err))
     | Inr kClient \<Rightarrow> ret (Inr \<lparr>smClient = kClient\<rparr>)
   }"

section \<open>The map of the cluster\<close>

text \<open>
  \<open>fmt.Sscanf(s, "%d", &n)\<close> for an \<open>int\<close>: spaces are skipped, then a sign and as many digits as there
  are; what follows the digits is ignored. A line break among the spaces, no digit, and a number out of
  range are errors.
\<close>

definition scan_space :: "char \<Rightarrow> bool" where
  "scan_space c \<longleftrightarrow> (of_char c :: nat) \<in> {9, 11, 12, 13, 32}"

definition Sscanf_d :: "string \<Rightarrow> int64 option" where
  "Sscanf_d s = (case strip_sign (dropWhile scan_space s) of (neg, t) \<Rightarrow>
     let ds = takeWhile (\<lambda>c. char_digit c \<noteq> None) t
     in if ds = [] then None
        else case read_digits 0 ds of None \<Rightarrow> None
          | Some n \<Rightarrow> let v = (if neg then - int n else int n)
                    in if fits64 v then Some (word_of_int v) else None)"

fun gpu_ids :: "nat \<Rightarrow> nat \<Rightarrow> string list \<Rightarrow> string list" where
  "gpu_ids i 0 gpuIDs = gpuIDs"
| "gpu_ids i (Suc left) gpuIDs = gpu_ids (Suc i) left (gpuIDs @ [show_nat i])"

fun register_nodes :: "cluster_map \<Rightarrow> Node list \<Rightarrow> cluster_map" where
  "register_nodes m [] = m"
| "register_nodes m (node # nodes) =
     (case node_label node GPU_COUNT_LABEL of
        None \<Rightarrow> register_nodes m nodes
      | Some countStr \<Rightarrow>
          (case Sscanf_d countStr of
             None \<Rightarrow> register_nodes m nodes
           | Some n \<Rightarrow> register_nodes (go_put (nodeName node) (gpu_ids 0 (nat (sint n)) []) m) nodes))"

text \<open>The global map \<open>nodeNamesToGPUs\<close> is passed in and returned.\<close>

definition InitializeClusterMap ::
    "('w, 'c, 'k, 'e) host_env \<Rightarrow> 'k ScenarioManager \<Rightarrow> cluster_map \<Rightarrow>
     ('w, 'k, 'e, 'e scenario_err option \<times> cluster_map) hprog" where
  "InitializeClusterMap H s nodeNamesToGPUs = do {
     (items, err, _) \<leftarrow> callNodes H (smClient s) ''hpc-sentinel/node-type=gpu-worker'';
     case err of
       Some e \<Rightarrow> ret (Some (ListGpuNodesErr e), nodeNamesToGPUs)
     | None \<Rightarrow> do {
         let nodeNamesToGPUs = register_nodes nodeNamesToGPUs items;
         if length nodeNamesToGPUs = 0 then ret (Some NoGpuNodes, nodeNamesToGPUs)
         else ret (None, nodeNamesToGPUs)
       }
   }"

section \<open>Random metrics\<close>

definition weightedRand ::
    "('w, 'c, 'k, 'e) host_env \<Rightarrow> rat \<Rightarrow> rat \<Rightarrow> rat \<Rightarrow> rat \<Rightarrow> rat \<Rightarrow> ('w, 'k, 'e, rat) hprog" where
  "weightedRand H minH maxH minC maxC chaosWeight = do {
     r \<leftarrow> callFloat32 H;
     if chaosWeight < r then do {
       u \<leftarrow> callFloat64 H;
       ret (f64 (minH + f64 (u * f64 (maxH - minH))))
     }
     else do {
       u \<leftarrow> callFloat64 H;
       ret (f64 (minC + f64 (u * f64 (maxC - minC))))
     }
   }"

definition metric_line :: "string \<Rightarrow> string \<Rightarrow> string \<Rightarrow> string \<Rightarrow> string" where
  "metric_line metric node gpuId v =
     metric @ ''{node=\"'' @ node @ ''\", gpu=\"'' @ gpuId @ ''\"} '' @ v"

text \<open>The constants are rounded to the type of the parameter they are passed for.\<close>

definition chaos :: rat where "chaos = f32 (5 / 1000)"

definition generateMetrics ::
    "('w, 'c, 'k, 'e) host_env \<Rightarrow> string \<Rightarrow> string \<Rightarrow> ('w, 'k, 'e, string) hprog" where
  "generateMetrics H node gpuId = do {
     v1 \<leftarrow> weightedRand H 35 70 85 110 chaos;
     v2 \<leftarrow> weightedRand H (f64 (1/10)) (f64 (6/10)) (f64 (8/10)) 1 chaos;
     v3 \<leftarrow> weightedRand H (f64 (2/10)) (f64 (7/10)) (f64 (9/10)) (f64 (99/100)) chaos;
     v4 \<leftarrow> weightedRand H 0 0 0 3 chaos;
     v5 \<leftarrow> weightedRand H 100 250 350 500 chaos;
     v6 \<leftarrow> weightedRand H (f64 (3/10)) (f64 (8/10)) 0 1 chaos;
     v7 \<leftarrow> weightedRand H 250 400 0 80 chaos;
     ret (Join
       [metric_line ''dcgm_gpu_temp'' node gpuId (fmt_fixed 0 v1),
        metric_line ''dcgm_mem_copy_util'' node gpuId (fmt_fixed 2 v2),
        metric_line ''dcgm_fb_usage_gpu'' node gpuId (fmt_fixed 2 v3),
        metric_line ''dcgm_ecc_sbe_aggregate_total'' node gpuId (fmt_fixed 0 v4),
        metric_line ''dcgm_power_usage'' node gpuId (fmt_fixed 0 v5),
        metric_line ''dcgm_gpu_util'' node gpuId (fmt_fixed 2 v6),
        metric_line ''dcgm_nvlink_bandwidth_total'' node gpuId (fmt_fixed 0 v7)] newline)
   }"

section \<open>The loop\<close>

definition syncMetrics ::
    "('w, 'c, 'k, 'e) host_env \<Rightarrow> 'k ScenarioManager \<Rightarrow> (string, string) gomap \<Rightarrow>
     ('w, 'k, 'e, 'e scenario_err option) hprog" where
  "syncMetrics H s data = do {
     name \<leftarrow> callGetenv H ENV_MAP_NAME;
     if length name = 0 then ret (Some (EnvMissing ENV_MAP_NAME))
     else do {
       ns \<leftarrow> callGetenv H ENV_MAP_NAMESPACE;
       if length ns = 0 then ret (Some (EnvMissing ENV_MAP_NAMESPACE))
       else do {
         cm \<leftarrow> callGetMap H (smClient s) ns name;
         case cm of
           Inl err \<Rightarrow>
             if HostNotFound H err then do {
               let newCM = \<lparr>cmName = name, cmNamespace = ns, cmResourceVersion = '''', cmData = data\<rparr>;
               err \<leftarrow> callCreateMap H (smClient s) ns newCM;
               ret (map_option MapErr err)
             }
             else ret (Some (MapErr err))
         | Inr cm \<Rightarrow> do {
             err \<leftarrow> callUpdateMap H (smClient s) ns (cm\<lparr>cmData := data\<rparr>);
             ret (map_option MapErr err)
           }
       }
     }
   }"

fun node_metrics ::
    "('w, 'c, 'k, 'e) host_env \<Rightarrow> string \<Rightarrow> string list \<Rightarrow> string list \<Rightarrow> ('w, 'k, 'e, string list) hprog" where
  "node_metrics H node [] nodeMetrics = ret nodeMetrics"
| "node_metrics H node (gpu # gpus) nodeMetrics = do {
     m \<leftarrow> generateMetrics H node gpu;
     node_metrics H node gpus (nodeMetrics @ [m])
   }"

fun gather_data ::
    "('w, 'c, 'k, 'e) host_env \<Rightarrow> (string \<times> string list) list \<Rightarrow> (string, string) gomap \<Rightarrow>
     ('w, 'k, 'e, (string, string) gomap) hprog" where
  "gather_data H [] newData = ret newData"
| "gather_data H ((node, gpus) # entries) newData = do {
     nodeMetrics \<leftarrow> node_metrics H node gpus [];
     gather_data H entries (go_put node (Join nodeMetrics newline @ newline) newData)
   }"

text \<open>
  One turn of \<open>RunScenarioLoop\<close>, from the receive of a tick; the loop never ends, so what it does is
  what it does in any number of turns.
\<close>

definition scenario_turn ::
    "('w, 'c, 'k, 'e) host_env \<Rightarrow> 'k ScenarioManager \<Rightarrow> cluster_map \<Rightarrow> ticker \<Rightarrow> ('w, 'k, 'e, ticker) hprog" where
  "scenario_turn H s nodeNamesToGPUs ticker = do {
     ticker \<leftarrow> callTick H ticker;
     entries \<leftarrow> callRange H nodeNamesToGPUs;
     newData \<leftarrow> gather_data H entries [];
     _ \<leftarrow> syncMetrics H s newData;
     ret ticker
   }"

fun scenario_turns ::
    "('w, 'c, 'k, 'e) host_env \<Rightarrow> 'k ScenarioManager \<Rightarrow> cluster_map \<Rightarrow> nat \<Rightarrow> ticker \<Rightarrow> ('w, 'k, 'e, unit) hprog" where
  "scenario_turns H s m 0 ticker = ret ()"
| "scenario_turns H s m (Suc turns) ticker = do {
     ticker \<leftarrow> scenario_turn H s m ticker;
     scenario_turns H s m turns ticker
   }"

definition RunScenarioLoop ::
    "('w, 'c, 'k, 'e) host_env \<Rightarrow> 'k ScenarioManager \<Rightarrow> cluster_map \<Rightarrow> nat \<Rightarrow> ('w, 'k, 'e, unit) hprog" where
  "RunScenarioLoop H s m turns = do {
     now \<leftarrow> callNow H;
     scenario_turns H s m turns (NewTicker now (10 * Second))
   }"

text \<open>\<open>main\<close>, up to a number of turns: the error of a fatal exit, or \<open>None\<close> while the loop runs.\<close>

definition scenario_main ::
    "('w, 'c, 'k, 'e) host_env \<Rightarrow> nat \<Rightarrow> ('w, 'k, 'e, 'e scenario_err option) hprog" where
  "scenario_main H turns = do {
     scenarioManager \<leftarrow> NewScenarioManager H;
     case scenarioManager of
       Inl err \<Rightarrow> ret (Some err)
     | Inr scenarioManager \<Rightarrow> do {
         (err, m) \<leftarrow> InitializeClusterMap H scenarioManager [];
         case err of
           Some e \<Rightarrow> ret (Some e)
         | None \<Rightarrow> do { _ \<leftarrow> RunScenarioLoop H scenarioManager m turns; ret None }
       }
   }"

end
