(* ===== verification/Mock_Tools.thy ===== *)
theory Mock_Tools
  imports Scenario
begin

text \<open>
  The mock exporter (\<open>internal/provisioner/fake-scenario/dcgm-mock-exporter.go\<close>) and the fake job
  (\<open>fake-hpc-job.go\<close>), which the mains under \<open>cmd/\<close> only call. The exporter reads the config map the scenario manager writes.
  The exporter's log output is left out; what the fake job prints is all it does, and is kept.
\<close>

section \<open>The exporter\<close>

text \<open>\<open>ENV_PORT\<close> of the exporter has the value of the one of the configuration.\<close>

datatype 'e export_err =
    ExportEnvEmpty string
  | ExportClientErr "'e client_err"
  | ServeErr 'e

definition exporter_up :: string where
  "exporter_up = ''dcgm_exporter_up 1'' @ newline"

definition exporter_up_help :: string where
  "exporter_up_help =
     ''# HELP dcgm_exporter_up Status of the mock exporter itself'' @ newline @
     ''# TYPE dcgm_exporter_up gauge'' @ newline @ exporter_up"

fun write_metrics :: "(string \<times> string) list \<Rightarrow> string \<Rightarrow> bool \<Rightarrow> string \<times> bool" where
  "write_metrics [] sb foundMetrics = (sb, foundMetrics)"
| "write_metrics ((node, metricsData) # entries) sb foundMetrics =
     (if HasPrefix node ''.'' then write_metrics entries sb foundMetrics
      else write_metrics entries (sb @ metricsData @ newline) True)"

text \<open>The handler of \<open>/metrics\<close>: the body it writes.\<close>

definition metrics_handler ::
    "('w, 'c, 'k, 'e) host_env \<Rightarrow> 'k \<Rightarrow> string \<Rightarrow> string \<Rightarrow> ('w, 'k, 'e, string) hprog" where
  "metrics_handler H client mapNamespace mapName = do {
     cm \<leftarrow> callGetMap H client mapNamespace mapName;
     case cm of
       Inl err \<Rightarrow> ret exporter_up_help
     | Inr cm \<Rightarrow>
         if length (cmData cm) = 0 then ret exporter_up
         else do {
           entries \<leftarrow> callRange H (cmData cm);
           case write_metrics entries [] False of (sb, foundMetrics) \<Rightarrow>
             ret (if \<not> foundMetrics then sb @ exporter_up else sb)
         }
   }"

text \<open>
  The exporter registers the handler and listens; what is returned is the error and, once listening,
  the handler that serves the requests.
\<close>

definition ExportMockDCGMMetrics ::
    "('w, 'c, 'k, 'e) host_env \<Rightarrow> ('w, 'k, 'e, 'e export_err \<times> ('w, 'k, 'e, string) hprog option) hprog" where
  "ExportMockDCGMMetrics H = do {
     cfg \<leftarrow> callLoad H;
     mapName \<leftarrow> callGetenv H ENV_MAP_NAME;
     if length mapName = 0 then ret (ExportEnvEmpty ENV_MAP_NAME, None)
     else do {
       mapNamespace \<leftarrow> callGetenv H ENV_MAP_NAMESPACE;
       if length mapNamespace = 0 then ret (ExportEnvEmpty ENV_MAP_NAMESPACE, None)
       else do {
         port \<leftarrow> callGetenv H ENV_PORT;
         if length port = 0 then ret (ExportEnvEmpty ENV_PORT, None)
         else do {
           kubeClient \<leftarrow> callKubeClient H cfg;
           case kubeClient of
             Inl err \<Rightarrow> ret (ExportClientErr err, None)
           | Inr kubeClient \<Rightarrow> do {
               err \<leftarrow> callListen H ('':'' @ port);
               ret (ServeErr err, Some (metrics_handler H kubeClient mapNamespace mapName))
             }
         }
       }
     }
   }"

text \<open>\<open>main\<close>: the error it ends with, since \<open>ExportMockDCGMMetrics\<close> returns only with one.\<close>

definition exporter_main :: "('w, 'c, 'k, 'e) host_env \<Rightarrow> ('w, 'k, 'e, 'e export_err) hprog" where
  "exporter_main H = do { (err, _) \<leftarrow> ExportMockDCGMMetrics H; ret err }"

section \<open>The fake job\<close>

text \<open>The verb \<open>%X\<close>; the emoji of the lines are their bytes in UTF-8.\<close>

definition hex_char :: "nat \<Rightarrow> char" where
  "hex_char n = (if n < 10 then digit_char n else char_of (55 + n))"

fun show_hex :: "nat \<Rightarrow> string" where
  "show_hex n = (if n < 16 then [hex_char n] else show_hex (n div 16) @ [hex_char (n mod 16)])"

declare show_hex.simps [simp del]

definition starting_line :: "string \<Rightarrow> string" where
  "starting_line job =
     [CHR 0xF0, CHR 0x9F, CHR 0x9A, CHR 0x80] @ '' Starting HPC Simulation for: '' @ job @ newline"

definition gpu_line :: string where
  "gpu_line = [CHR 0xF0, CHR 0x9F, CHR 0x93, CHR 0xA6] @ '' Initializing GPU context (simulated)...'' @ newline"

definition iteration_line :: "nat \<Rightarrow> nat \<Rightarrow> nat \<Rightarrow> string" where
  "iteration_line i iterations x =
     [CHR 0xF0, CHR 0x9F, CHR 0x94, CHR 0x84] @ '' [Iteration '' @ show_nat i @ ''/'' @ show_nat iterations @
     ''] Computing fast Fourier transform on matrix 0x'' @ show_hex x @ ''...'' @ newline"

definition sleeping_line :: "nat \<Rightarrow> string" where
  "sleeping_line ms =
     [CHR 0xE2, CHR 0x8F, CHR 0xB3] @ '' Sleeping to let the '' @ CHR 0x27 # ''GPU'' @ CHR 0x27 # '' cool down... ('' @
     show_nat ms @ ''ms)'' @ newline"

definition complete_line :: string where
  "complete_line =
     [CHR 0xE2, CHR 0x9C, CHR 0x85] @ '' Calculation complete. Synchronizing results across nodes...'' @ newline"

definition finished_line :: string where
  "finished_line = [CHR 0xF0, CHR 0x9F, CHR 0x8E, CHR 0x89] @ '' Job finished successfully. Exiting 0.'' @ newline"

function fake_iterations :: "('w, 'c, 'k, 'e) host_env \<Rightarrow> nat \<Rightarrow> nat \<Rightarrow> ('w, 'k, 'e, unit) hprog" where
  "fake_iterations H iterations i =
     (if i \<le> iterations then do {
        x \<leftarrow> callIntN H 1000000;
        _ \<leftarrow> callPrint H (iteration_line i iterations x);
        let nonsenseSum = foldl (\<lambda>nonsenseSum j. nonsenseSum + j) 0 [0..<3];
        ms \<leftarrow> callIntN H 1000;
        _ \<leftarrow> callPrint H (sleeping_line (ms + 500));
        _ \<leftarrow> callSleep H (5 * Minute);
        fake_iterations H iterations (i + 1)
      }
      else ret ())"
  by pat_completeness auto

termination by (relation "measure (\<lambda>(H, iterations, i). Suc iterations - i)") auto

declare fake_iterations.simps [simp del]

text \<open>The result is the status the process exits with.\<close>

definition FakeHpcProcess :: "('w, 'c, 'k, 'e) host_env \<Rightarrow> ('w, 'k, 'e, int) hprog" where
  "FakeHpcProcess H = do {
     job \<leftarrow> callGetenv H ''JOB_NAME'';
     let job = (if job = '''' then ''hpc-task'' else job);
     _ \<leftarrow> callPrint H (starting_line job);
     _ \<leftarrow> callPrint H gpu_line;
     _ \<leftarrow> callSleep H (2 * Second);
     _ \<leftarrow> fake_iterations H 5 1;
     _ \<leftarrow> callPrint H complete_line;
     _ \<leftarrow> callSleep H (5 * Second);
     _ \<leftarrow> callPrint H finished_line;
     ret 0
   }"

end
