(* ===== verification/Scenario_Laws.thy ===== *)
theory Scenario_Laws
  imports Mock_Tools Node_Discovery
begin

text \<open>
  What the scenario manager and the mock exporter do. A number printed by \<open>generateMetrics\<close> is followed
  through the text, its reading as a decimal and the conversions to \<open>float64\<close> and \<open>float32\<close> to the verdict
  of the controller's node discovery: since every rounding on the way is monotone, a draw from an interval
  is judged like the ends of the interval.
\<close>

section \<open>Printing and reading decimals\<close>

definition read_decimal :: "string \<Rightarrow> rat option" where
  "read_decimal s =
     (let whole = takeWhile (\<lambda>c. c \<noteq> CHR ''.'') s; fraction = drop 1 (dropWhile (\<lambda>c. c \<noteq> CHR ''.'') s)
      in if whole = [] then None
         else map_option (\<lambda>n. of_int (int n) / 10 ^ length fraction) (read_digits 0 (whole @ fraction)))"

lemma read_digits_zeros [simp]: "read_digits 0 (replicate k (CHR ''0'') @ ds) = read_digits 0 ds"
  by (induction k) (simp_all add: char_digit_def)

lemma read_digits_char: "read_digits acc ds = Some n \<Longrightarrow> c \<in> set ds \<Longrightarrow> c \<noteq> CHR ''.''"
  by (induction acc ds rule: read_digits.induct) (auto simp: char_digit_def split: option.splits)

lemma read_fmt_digits: "read_decimal (fmt_digits prec n) = Some (of_nat n / 10 ^ prec)"
proof -
  define padded where "padded = replicate (Suc prec - length (show_nat n)) (CHR ''0'') @ show_nat n"
  have len: "prec < length padded" by (simp add: padded_def)
  have read: "read_digits 0 padded = Some n" by (simp add: padded_def read_digits_show_nat)
  then have point: "c \<noteq> CHR ''.''" if "c \<in> set padded" for c
    using read_digits_char that by blast
  let ?k = "length padded - prec"
  have fmt: "fmt_digits prec n = (if prec = 0 then padded else take ?k padded @ CHR ''.'' # drop ?k padded)"
    by (simp add: fmt_digits_def padded_def Let_def)
  have "\<forall>c \<in> set (take ?k padded). c \<noteq> CHR ''.''" using point by (meson in_set_takeD)
  moreover have "take ?k padded \<noteq> []" "padded \<noteq> []" "length (drop ?k padded) = prec" using len by auto
  ultimately show ?thesis
    using read point unfolding fmt read_decimal_def
    by (auto simp: takeWhile_append2 dropWhile_append2 takeWhile_eq_all_conv [THEN iffD2] dropWhile_eq_Nil_conv [THEN iffD2])
qed

lemma read_fmt_fixed:
  "0 \<le> x \<Longrightarrow> read_decimal (fmt_fixed prec x) = Some (of_int (rne (x * 10 ^ prec)) / 10 ^ prec)"
  using rne_mono [of 0 "x * 10 ^ prec"] rne_of_int [of 0]
  by (simp add: fmt_fixed_def read_fmt_digits)

section \<open>From a draw to a verdict\<close>

text \<open>
  The value the controller compares with the range of a metric when the exporter serves the text, and
  whether it is one that the controller takes for healthy.
\<close>

definition value_read :: "string \<Rightarrow> go_float" where
  "value_read text = float32_of (case read_decimal text of None \<Rightarrow> NaN | Some q \<Rightarrow> Fin (f64 q))"

definition judged_healthy :: "string \<Rightarrow> string \<Rightarrow> bool" where
  "judged_healthy metric text \<longleftrightarrow> read_decimal text \<noteq> None \<and> \<not> out_of_range metric (value_read text)"

lemma value_read_Fin: "value_read text = Fin r \<Longrightarrow> \<exists>q. read_decimal text = Some q"
  by (simp add: value_read_def split: option.splits)

lemma f64_mono: "x \<le> y \<Longrightarrow> f64 x \<le> f64 y"
  unfolding f64_def by (rule round_to_mono) simp_all

lemma value_read_between:
  assumes "value_read (fmt_fixed prec lo) = Fin a" and "value_read (fmt_fixed prec hi) = Fin b"
    and "0 \<le> lo" and "lo \<le> x" and "x \<le> hi"
  shows "\<exists>r. value_read (fmt_fixed prec x) = Fin r \<and> a \<le> r \<and> r \<le> b"
proof -
  let ?q = "\<lambda>x. f64 (of_int (rne (x * 10 ^ prec)) / 10 ^ prec)"
  have read: "value_read (fmt_fixed prec y) = float32_of (Fin (?q y))" if "0 \<le> y" for y
    using that by (simp add: value_read_def read_fmt_fixed)
  have mono: "?q y \<le> ?q z" if "y \<le> z" for y z
    using that by (intro f64_mono divide_right_mono, unfold of_int_le_iff) (auto intro: rne_mono)
  show ?thesis
    using assms float32_of_between [of "?q lo" a "?q hi" b "?q x"] by (simp add: read mono)
qed

text \<open>The ends of an interval are judged, and so everything between them.\<close>

definition interval_healthy :: "string \<Rightarrow> nat \<Rightarrow> rat \<Rightarrow> rat \<Rightarrow> bool" where
  "interval_healthy metric prec lo hi \<longleftrightarrow>
     (case (value_read (fmt_fixed prec lo), value_read (fmt_fixed prec hi), rangeMin (range_of metric), rangeMax (range_of metric)) of
        (Fin a, Fin b, Fin mn, Fin mx) \<Rightarrow> 0 \<le> lo \<and> mn \<le> a \<and> b \<le> mx | _ \<Rightarrow> False)"

definition interval_unhealthy :: "string \<Rightarrow> nat \<Rightarrow> rat \<Rightarrow> rat \<Rightarrow> bool" where
  "interval_unhealthy metric prec lo hi \<longleftrightarrow>
     (case (value_read (fmt_fixed prec lo), value_read (fmt_fixed prec hi), rangeMin (range_of metric), rangeMax (range_of metric)) of
        (Fin a, Fin b, Fin mn, Fin mx) \<Rightarrow> 0 \<le> lo \<and> (b < mn \<or> mx < a) | _ \<Rightarrow> False)"

lemma judged_in_interval:
  assumes "lo \<le> x" and "x \<le> hi"
  shows "interval_healthy metric prec lo hi \<Longrightarrow> judged_healthy metric (fmt_fixed prec x)"
    and "interval_unhealthy metric prec lo hi \<Longrightarrow> \<not> judged_healthy metric (fmt_fixed prec x)"
  using value_read_between [OF _ _ _ assms, of prec]
  by (fastforce simp: interval_healthy_def interval_unhealthy_def judged_healthy_def out_of_range_def
      split: go_float.splits dest: value_read_Fin)+


section \<open>The metrics of a GPU\<close>

text \<open>The weight of a draw is what decides for chaos.\<close>

definition chaotic :: "nat \<Rightarrow> bool" where
  "chaotic r \<longleftrightarrow> of_int (int r) / 2 ^ 24 \<le> chaos"

lemma draw_bounds:
  fixes u w :: rat
  assumes "0 \<le> u" and "u \<le> 1" and "0 \<le> w"
  shows "f64 (a + 0) \<le> f64 (a + f64 (u * w))" and "f64 (a + f64 (u * w)) \<le> f64 (a + f64 w)"
proof -
  have "f64 0 \<le> f64 (u * w)" "f64 (u * w) \<le> f64 w"
    using assms mult_right_mono [of u 1 w] by (auto intro!: f64_mono)
  moreover have "f64 0 = 0" by (simp add: f64_def round_to_def rne_def)
  ultimately show "f64 (a + 0) \<le> f64 (a + f64 (u * w))" "f64 (a + f64 (u * w)) \<le> f64 (a + f64 w)"
    by (auto intro!: f64_mono)
qed

text \<open>The interval between two bounds, as the draws of \<open>weightedRand\<close> fill it.\<close>

definition drawn_between :: "rat \<Rightarrow> rat \<Rightarrow> rat \<Rightarrow> bool" where
  "drawn_between a b v \<longleftrightarrow> f64 a \<le> v \<and> v \<le> f64 (a + f64 (f64 (b - a)))"

lemma weightedRand_runs:
  assumes "a \<le> b" and "c \<le> d"
  shows "satisfies (weightedRand H a b c d chaos) (\<lambda>v es. \<exists>r u. es = [DrewBits 24 r, DrewBits 53 u] \<and>
    (if chaotic r then drawn_between c d v else drawn_between a b v))"
proof -
  have f64_nonneg: "0 \<le> f64 x" if "0 \<le> x" for x using that by (simp add: f64_def round_to_nonneg)
  have between: "drawn_between lo hi (f64 (lo + f64 (of_nat u / 2 ^ 53 * f64 (hi - lo))))"
    if "lo \<le> hi" "u < 2 ^ 53" for lo hi :: rat and u :: nat
  proof -
    have "(of_nat u :: rat) \<le> 2 ^ 53" using that(2) of_nat_mono [of u "2 ^ 53"] by simp
    then show ?thesis
      using draw_bounds [of "of_nat u / 2 ^ 53" "f64 (hi - lo)" lo] f64_nonneg that(1)
      by (simp add: drawn_between_def)
  qed
  show ?thesis
    unfolding weightedRand_def callFloat32_def callFloat64_def
    by (intro sat_bind satisfies_mono [OF callBits_runs] sat_return sat_if)
      (use between assms in \<open>auto simp: chaotic_def\<close>)
qed

text \<open>The metrics in the order of the text; and those whose chaos is outside the healthy range.\<close>

definition metric_order :: "string list" where
  "metric_order =
     [''dcgm_gpu_temp'', ''dcgm_mem_copy_util'', ''dcgm_fb_usage_gpu'', ''dcgm_ecc_sbe_aggregate_total'',
      ''dcgm_power_usage'', ''dcgm_gpu_util'', ''dcgm_nvlink_bandwidth_total'']"

definition chaos_shows :: "string \<Rightarrow> bool" where
  "chaos_shows metric \<longleftrightarrow>
     metric \<in> {''dcgm_mem_copy_util'', ''dcgm_fb_usage_gpu'', ''dcgm_power_usage'', ''dcgm_nvlink_bandwidth_total''}"

text \<open>The verdict on a metric, given the weight that was drawn for it.\<close>

definition verdict_follows :: "string \<Rightarrow> nat \<Rightarrow> string \<Rightarrow> bool" where
  "verdict_follows metric r text \<longleftrightarrow>
     (if chaotic r then chaos_shows metric \<longrightarrow> \<not> judged_healthy metric text else judged_healthy metric text)"


text \<open>The intervals of a metric from the ends that \<open>weightedRand\<close> is called with.\<close>

definition healthy_span :: "string \<Rightarrow> nat \<Rightarrow> rat \<Rightarrow> rat \<Rightarrow> bool" where
  "healthy_span metric prec a b \<longleftrightarrow> interval_healthy metric prec (f64 a) (f64 (a + f64 (f64 (b - a))))"

definition unhealthy_span :: "string \<Rightarrow> nat \<Rightarrow> rat \<Rightarrow> rat \<Rightarrow> bool" where
  "unhealthy_span metric prec a b \<longleftrightarrow> interval_unhealthy metric prec (f64 a) (f64 (a + f64 (f64 (b - a))))"

lemma verdict_from_spans:
  assumes "healthy_span metric prec a b"
    and "\<not> chaos_shows metric \<or> unhealthy_span metric prec c d"
    and "if chaotic r then drawn_between c d v else drawn_between a b v"
  shows "verdict_follows metric r (fmt_fixed prec v)"
  using assms judged_in_interval [of _ v _ metric prec]
  by (auto simp: verdict_follows_def drawn_between_def healthy_span_def unhealthy_span_def split: if_splits)

lemma calm_temp: "healthy_span ''dcgm_gpu_temp'' 0 35 70"
  by code_simp

lemma calm_copy: "healthy_span ''dcgm_mem_copy_util'' 2 (f64 (1/10)) (f64 (6/10))"
  by code_simp

lemma calm_fb: "healthy_span ''dcgm_fb_usage_gpu'' 2 (f64 (2/10)) (f64 (7/10))"
  by code_simp

lemma calm_ecc: "healthy_span ''dcgm_ecc_sbe_aggregate_total'' 0 0 0"
  by code_simp

lemma calm_power: "healthy_span ''dcgm_power_usage'' 0 100 250"
  by code_simp

lemma calm_util: "healthy_span ''dcgm_gpu_util'' 2 (f64 (3/10)) (f64 (8/10))"
  by code_simp

lemma calm_nvlink: "healthy_span ''dcgm_nvlink_bandwidth_total'' 0 250 400"
  by code_simp

lemma chaos_copy: "unhealthy_span ''dcgm_mem_copy_util'' 2 (f64 (8/10)) 1"
  by code_simp

lemma chaos_fb: "unhealthy_span ''dcgm_fb_usage_gpu'' 2 (f64 (9/10)) (f64 (99/100))"
  by code_simp

lemma chaos_power: "unhealthy_span ''dcgm_power_usage'' 0 350 500"
  by code_simp

lemma chaos_nvlink: "unhealthy_span ''dcgm_nvlink_bandwidth_total'' 0 0 80"
  by code_simp

lemma not_chaos_shows:
  "\<not> chaos_shows ''dcgm_gpu_temp''" "\<not> chaos_shows ''dcgm_ecc_sbe_aggregate_total''" "\<not> chaos_shows ''dcgm_gpu_util''"
  by code_simp+

lemmas metric_verdicts =
  verdict_from_spans [OF calm_temp disjI1 [OF not_chaos_shows(1)]]
  verdict_from_spans [OF calm_copy disjI2 [OF chaos_copy]]
  verdict_from_spans [OF calm_fb disjI2 [OF chaos_fb]]
  verdict_from_spans [OF calm_ecc disjI1 [OF not_chaos_shows(2)]]
  verdict_from_spans [OF calm_power disjI2 [OF chaos_power]]
  verdict_from_spans [OF calm_util disjI1 [OF not_chaos_shows(3)]]
  verdict_from_spans [OF calm_nvlink disjI2 [OF chaos_nvlink]]

text \<open>
  A draw for a metric: the weight, the fraction and the text printed. The run of \<open>generateMetrics\<close> in
  these terms.
\<close>

type_synonym draw = "nat \<times> nat \<times> string"

fun draw_events :: "draw list \<Rightarrow> ('k, 'e) host_event list" where
  "draw_events [] = []"
| "draw_events ((r, u, v) # ds) = DrewBits 24 r # DrewBits 53 u # draw_events ds"

fun draw_lines :: "string \<Rightarrow> string \<Rightarrow> string list \<Rightarrow> draw list \<Rightarrow> string list" where
  "draw_lines node gpu (metric # ms) ((r, u, v) # ds) = metric_line metric node gpu v # draw_lines node gpu ms ds"
| "draw_lines node gpu _ _ = []"

lemma generateMetrics_runs:
  "satisfies (generateMetrics H node gpu) (\<lambda>text es. \<exists>ds.
     es = draw_events ds \<and> text = Join (draw_lines node gpu metric_order ds) newline \<and>
     list_all2 (\<lambda>metric (r, u, v). verdict_follows metric r v) metric_order ds)"
proof -
  have le: "(35::rat) \<le> 70" "(85::rat) \<le> 110" "f64 (1/10) \<le> f64 (6/10)" "f64 (8/10) \<le> 1" "f64 (2/10) \<le> f64 (7/10)"
    "f64 (9/10) \<le> f64 (99/100)" "(0::rat) \<le> 0" "(0::rat) \<le> 3" "(100::rat) \<le> 250" "(350::rat) \<le> 500"
    "f64 (3/10) \<le> f64 (8/10)" "(0::rat) \<le> 1" "(250::rat) \<le> 400" "(0::rat) \<le> 80"
    by code_simp+
  show ?thesis
    unfolding generateMetrics_def
    apply (rule sat_seq [OF weightedRand_runs], (rule le)+, elim exE conjE)+
    apply (rule sat_return)
    subgoal for v1 es1 r1 u1 v2 es2 r2 u2 v3 es3 r3 u3 v4 es4 r4 u4 v5 es5 r5 u5 v6 es6 r6 u6 v7 es7 r7 u7
      by (rule exI [of _ "[(r1, u1, fmt_fixed 0 v1), (r2, u2, fmt_fixed 2 v2), (r3, u3, fmt_fixed 2 v3),
        (r4, u4, fmt_fixed 0 v4), (r5, u5, fmt_fixed 0 v5), (r6, u6, fmt_fixed 2 v6), (r7, u7, fmt_fixed 0 v7)]"])
        (simp add: metric_order_def metric_verdicts del: if_split)
    done
qed

end
