(* ===== verification/Cluster_Map.thy ===== *)
theory Cluster_Map
  imports Scenario_Laws
begin

text \<open>
  The map of the cluster the scenario manager keeps, the data it gathers at every turn, and what the
  exporter serves of it.
\<close>

section \<open>Registration\<close>

text \<open>Every node is registered under one key, with the numbers of its GPUs from zero.\<close>

definition cluster_map_ok :: "cluster_map \<Rightarrow> bool" where
  "cluster_map_ok m \<longleftrightarrow> go_keys_distinct m \<and>
     (\<forall>(node, gpuIDs) \<in> set m. gpuIDs = map show_nat [0..<length gpuIDs] \<and> length gpuIDs < 2 ^ 63)"

lemma cluster_map_ok_Nil [simp]: "cluster_map_ok []"
  by (simp add: cluster_map_ok_def)

lemma gpu_ids_upt: "gpu_ids i n gpuIDs = gpuIDs @ map show_nat [i..<i + n]"
proof (induction i n gpuIDs rule: gpu_ids.induct)
  case (2 i left gpuIDs)
  have "[i..<i + Suc left] = i # [Suc i..<Suc i + left]" by (subst upt_conv_Cons) simp_all
  then show ?case using 2 by simp
qed simp

lemma nat_sint_bound: "nat (sint (w :: int64)) < 2 ^ 63"
  using sint_range_size [of w] by (auto simp: word_size)

lemma cluster_map_ok_put:
  assumes "cluster_map_ok m"
  shows "cluster_map_ok (go_put node (gpu_ids 0 (nat (sint (n :: int64))) []) m)"
  unfolding cluster_map_ok_def
proof
  show "go_keys_distinct (go_put node (gpu_ids 0 (nat (sint n)) []) m)"
    using assms by (simp add: cluster_map_ok_def)
  show "\<forall>(node, gpuIDs) \<in> set (go_put node (gpu_ids 0 (nat (sint n)) []) m).
      gpuIDs = map show_nat [0..<length gpuIDs] \<and> length gpuIDs < 2 ^ 63"
    using assms nat_sint_bound [of n] by (intro go_put_all) (simp_all add: cluster_map_ok_def gpu_ids_upt)
qed

lemma cluster_map_ok_register: "cluster_map_ok m \<Longrightarrow> cluster_map_ok (register_nodes m nodes)"
  by (induction m nodes rule: register_nodes.induct) (auto simp: cluster_map_ok_put split: option.split)

text \<open>The two readers of the count label: what \<open>Atoi\<close> accepts, \<open>Sscanf\<close> reads as the same number.\<close>

lemma read_digits_all: "read_digits acc ds = Some n \<Longrightarrow> takeWhile (\<lambda>c. char_digit c \<noteq> None) ds = ds"
  by (induction acc ds rule: read_digits.induct) (auto split: option.splits)

lemma scan_space_not_number: "scan_space c \<Longrightarrow> char_digit c = None \<and> c \<noteq> CHR ''-'' \<and> c \<noteq> CHR ''+''"
  by (auto simp: scan_space_def char_digit_def)

lemma Atoi_Sscanf:
  assumes "Atoi s = Some w"
  shows "Sscanf_d s = Some w"
proof -
  obtain neg ds where ds: "strip_sign s = (neg, ds)" by (cases "strip_sign s")
  then obtain n where n: "ds \<noteq> []" "read_digits 0 ds = Some n"
    using assms by (auto simp: Atoi_def split: if_splits option.splits)
  have "dropWhile scan_space s = s"
  proof (cases s)
    case (Cons c cs)
    have "\<not> scan_space c"
      using scan_space_not_number [of c] ds n Cons by (cases ds) (auto simp: strip_sign_def split: if_splits option.splits)
    then show ?thesis using Cons by simp
  qed simp
  then show ?thesis
    using assms n unfolding Sscanf_d_def ds prod.case read_digits_all [OF n(2)] \<open>dropWhile scan_space s = s\<close>
    by (simp add: Atoi_def ds)
qed

lemma register_get:
  "go_get (register_nodes m nodes) name =
     (case filter (\<lambda>n. nodeName n = name \<and> (\<exists>v w. node_label n GPU_COUNT_LABEL = Some v \<and> Sscanf_d v = Some w)) nodes of
        [] \<Rightarrow> go_get m name
      | n # ns \<Rightarrow> Some (map show_nat [0..<nat (sint (the (Sscanf_d (the (node_label (last (n # ns)) GPU_COUNT_LABEL)))))]))"
  by (induction m nodes rule: register_nodes.induct)
    (auto simp: gpu_ids_upt split: option.splits list.splits)

lemma register_others: "name \<notin> nodeName ` set nodes \<Longrightarrow> go_get (register_nodes m nodes) name = go_get m name"
  by (subst register_get, subst filter_False) auto

lemma filter_eq_distinct: "distinct xs \<Longrightarrow> x \<in> set xs \<Longrightarrow> filter (\<lambda>y. y = x) xs = [x]"
  by (induction xs) (auto intro: filter_False)

lemma register_selected:
  assumes "distinct (map nodeName nodes)" and "node \<in> set nodes"
    and "node_label node GPU_COUNT_LABEL = Some v" and "Atoi v = Some cnt"
  shows "go_get (register_nodes m nodes) (nodeName node) = Some (map show_nat [0..<nat (sint cnt)])"
proof -
  have "filter (\<lambda>n. nodeName n = nodeName node \<and> (\<exists>v w. node_label n GPU_COUNT_LABEL = Some v \<and> Sscanf_d v = Some w)) nodes =
      filter (\<lambda>n. n = node) nodes"
    using assms Atoi_Sscanf by (intro filter_cong refl) (auto dest: inj_onD simp: distinct_map)
  also have "\<dots> = [node]"
    using assms(1,2) by (intro filter_eq_distinct) (simp_all add: distinct_map)
  finally show ?thesis by (simp add: register_get assms Atoi_Sscanf)
qed

lemma InitializeClusterMap_runs:
  fixes H :: "('w, 'c, 'k, 'd) host_env"
  shows "satisfies (InitializeClusterMap H s m) (\<lambda>(err, m') es. \<exists>items e took.
     es = [ListedNodes ''hpc-sentinel/node-type=gpu-worker'' (items, e, took)] \<and>
     m' = (if e = None then register_nodes m items else m) \<and>
     err = (case e of Some e \<Rightarrow> Some (ListGpuNodesErr e) | None \<Rightarrow> if m' = [] then Some NoGpuNodes else None))"
  unfolding InitializeClusterMap_def callNodes_def
  apply (rule sat_bind, rule sat_invoke)
  subgoal for r by (cases r rule: prod_cases3; cases "fst (snd r)") (simp_all add: satisfies_def Let_def)
  done

section \<open>The data of a turn\<close>

text \<open>Runs without a chaotic weight.\<close>

definition chaos_draw :: "('k, 'e) host_event \<Rightarrow> bool" where
  "chaos_draw e \<longleftrightarrow> (case e of DrewBits bits r \<Rightarrow> bits = 24 \<and> chaotic r | _ \<Rightarrow> False)"

definition calm :: "('k, 'e) host_event list \<Rightarrow> bool" where
  "calm es \<longleftrightarrow> (\<forall>e \<in> set es. \<not> chaos_draw e)"

lemma calm_simps [simp]: "calm []" "calm (es @ es') \<longleftrightarrow> calm es \<and> calm es'"
  by (auto simp: calm_def)

text \<open>
  The text of a node: for each GPU the metrics \<open>drawn_text\<close> describes, a line break after each. The flag
  says that no draw of the text was chaotic.
\<close>

definition drawn_text :: "bool \<Rightarrow> string \<Rightarrow> string \<Rightarrow> string \<Rightarrow> bool" where
  "drawn_text c node gpu text \<longleftrightarrow>
     (\<exists>ds. text = Join (draw_lines node gpu metric_order ds) newline \<and>
        list_all2 (\<lambda>metric (r, u, v). verdict_follows metric r v \<and> (c \<longrightarrow> \<not> chaotic r)) metric_order ds)"

definition node_text :: "bool \<Rightarrow> string \<Rightarrow> string list \<Rightarrow> string \<Rightarrow> bool" where
  "node_text c node gpus text \<longleftrightarrow>
     (\<exists>texts. list_all2 (drawn_text c node) gpus texts \<and> text = Join texts newline @ newline)"

lemma drawn_text_mono: "drawn_text c node gpu text \<Longrightarrow> (c' \<Longrightarrow> c) \<Longrightarrow> drawn_text c' node gpu text"
  unfolding drawn_text_def by (auto elim!: list_all2_mono)

lemma node_text_mono: "node_text c node gpus text \<Longrightarrow> (c' \<Longrightarrow> c) \<Longrightarrow> node_text c' node gpus text"
  unfolding node_text_def by (blast intro: list_all2_mono drawn_text_mono)

lemma node_text_ex_mono:
  "\<exists>text. v = Some text \<and> node_text c node gpus text \<Longrightarrow> (c' \<Longrightarrow> c) \<Longrightarrow>
   \<exists>text. v = Some text \<and> node_text c' node gpus text"
  by (blast intro: node_text_mono)

definition is_draw :: "('k, 'e) host_event \<Rightarrow> bool" where
  "is_draw e \<longleftrightarrow> (case e of DrewBits _ _ \<Rightarrow> True | _ \<Rightarrow> False)"

lemma draw_events_draws: "list_all is_draw (draw_events ds)"
  by (induction ds rule: draw_events.induct) (simp_all add: is_draw_def)

lemma calm_draws: "calm (draw_events ds) \<Longrightarrow> (r, u, v) \<in> set ds \<Longrightarrow> \<not> chaotic r"
  by (induction ds rule: draw_events.induct) (auto simp: calm_def chaos_draw_def)

lemma generateMetrics_text:
  fixes H :: "('w, 'c, 'k, 'e) host_env"
  shows "satisfies (generateMetrics H node gpu)
    (\<lambda>text es. list_all is_draw es \<and> drawn_text (calm es) node gpu text)"
proof (rule satisfies_mono [OF generateMetrics_runs], elim exE conjE)
  fix t and es :: "('k, 'e) host_event list" and ds
  assume es: "es = draw_events ds" and t: "t = Join (draw_lines node gpu metric_order ds) newline"
    and verdicts: "list_all2 (\<lambda>metric (r, u, v). verdict_follows metric r v) metric_order ds"
  have "list_all2 (\<lambda>metric (r, u, v). verdict_follows metric r v \<and> (calm es \<longrightarrow> \<not> chaotic r)) metric_order ds"
    using calm_draws [of ds] by (auto intro: list.rel_mono_strong [OF verdicts] simp: es)
  then show "list_all is_draw es \<and> drawn_text (calm es) node gpu t"
    using t by (auto simp: es draw_events_draws drawn_text_def)
qed

lemma node_metrics_runs:
  "satisfies (node_metrics H node gpus acc) (\<lambda>texts es. list_all is_draw es \<and>
     (\<exists>new. texts = acc @ new \<and> list_all2 (drawn_text (calm es) node) gpus new))"
proof (induction gpus arbitrary: acc)
  case (Cons gpu gpus)
  show ?case
  proof (simp, rule sat_seq [OF generateMetrics_text], elim conjE, rule satisfies_mono [OF Cons.IH], elim conjE exE)
    fix t texts new and es es' :: "('b, 'c) host_event list"
    assume "list_all is_draw es" "drawn_text (calm es) node gpu t" "list_all is_draw es'"
      and "texts = (acc @ [t]) @ new" "list_all2 (drawn_text (calm es') node) gpus new"
    then show "list_all is_draw (es @ es') \<and>
        (\<exists>new. texts = acc @ new \<and> list_all2 (drawn_text (calm (es @ es')) node) (gpu # gpus) new)"
      by (auto intro!: exI [of _ "t # new"] elim: drawn_text_mono list_all2_mono)
  qed
qed (auto intro!: sat)

text \<open>The data of a turn has one entry per node.\<close>

definition turn_data :: "bool \<Rightarrow> cluster_map \<Rightarrow> (string, string) gomap \<Rightarrow> bool" where
  "turn_data c m data \<longleftrightarrow> go_keys_distinct data \<and> fst ` set data = fst ` set m \<and>
     (\<forall>(node, gpus) \<in> set m. \<exists>text. go_get data node = Some text \<and> node_text c node gpus text)"

lemma turn_data_mono: "turn_data c m data \<Longrightarrow> (c' \<Longrightarrow> c) \<Longrightarrow> turn_data c' m data"
  unfolding turn_data_def by (fast intro: node_text_mono)

lemma gather_data_runs:
  fixes H :: "('w, 'c, 'k, 'e) host_env"
  assumes "distinct (map fst entries)" and "go_keys_distinct acc"
  shows "satisfies (gather_data H entries acc) (\<lambda>data es. list_all is_draw es \<and> go_keys_distinct data \<and>
     fst ` set data = fst ` set acc \<union> fst ` set entries \<and>
     (\<forall>(node, gpus) \<in> set entries. \<exists>text. go_get data node = Some text \<and> node_text (calm es) node gpus text) \<and>
     (\<forall>node. node \<notin> fst ` set entries \<longrightarrow> go_get data node = go_get acc node))"
  using assms
proof (induction entries arbitrary: acc)
  case (Cons entry entries)
  obtain node gpus where entry: "entry = (node, gpus)" by (cases entry)
  show ?case
    unfolding entry gather_data.simps
  proof (rule sat_seq [OF node_metrics_runs], elim conjE exE)
    fix texts new and es :: "('k, 'e) host_event list"
    assume texts: "texts = [] @ new" "list_all2 (drawn_text (calm es) node) gpus new" and es: "list_all is_draw es"
    let ?acc = "go_put node (Join texts newline @ newline) acc"
    have new: "node_text (calm es) node gpus (Join texts newline @ newline)" using texts by (auto simp: node_text_def)
    show "satisfies (gather_data H entries ?acc) (\<lambda>data es'. list_all is_draw (es @ es') \<and> go_keys_distinct data \<and>
        fst ` set data = fst ` set acc \<union> fst ` set ((node, gpus) # entries) \<and>
        (\<forall>(node, gpus) \<in> set ((node, gpus) # entries).
           \<exists>text. go_get data node = Some text \<and> node_text (calm (es @ es')) node gpus text) \<and>
        (\<forall>name. name \<notin> fst ` set ((node, gpus) # entries) \<longrightarrow> go_get data name = go_get acc name))"
      using Cons.prems es entry
      by (intro satisfies_mono [OF Cons.IH])
        (auto simp: dom_update intro: node_text_mono [OF new],
          rule node_text_ex_mono, drule (1) bspec, unfold prod.case, assumption, blast)
  qed
qed (auto intro!: sat)

section \<open>Storing and serving\<close>

text \<open>
  Laws of the API server for config maps, over a view of the data it stores: reading a map shows the
  stored data, and a write that is not refused stores what it is given.
\<close>

definition map_server ::
    "('w, 'c, 'k, 'e) host_env \<Rightarrow> 'k \<Rightarrow> ('w \<Rightarrow> string \<Rightarrow> string \<Rightarrow> (string, string) gomap option) \<Rightarrow> bool" where
  "map_server H client view \<longleftrightarrow>
     (\<forall>ns name w. view (snd (apiGetMap H client ns name w)) = view w) \<and>
     (\<forall>ns name w cm. fst (apiGetMap H client ns name w) = Inr cm \<longrightarrow>
        cmName cm = name \<and> cmNamespace cm = ns \<and> view w ns name = Some (cmData cm)) \<and>
     (\<forall>ns cm w. fst (apiCreateMap H client ns cm w) = None \<longrightarrow>
        view (snd (apiCreateMap H client ns cm w)) ns (cmName cm) = Some (cmData cm)) \<and>
     (\<forall>ns cm w. fst (apiUpdateMap H client ns cm w) = None \<longrightarrow>
        view (snd (apiUpdateMap H client ns cm w)) ns (cmName cm) = Some (cmData cm))"

lemma map_serverD:
  assumes "map_server H client view"
  shows "view (snd (apiGetMap H client ns name w)) = view w"
    and "fst (apiGetMap H client ns name w) = Inr cm \<Longrightarrow> cmName cm = name \<and> view w ns name = Some (cmData cm)"
    and "fst (apiCreateMap H client ns cm w) = None \<Longrightarrow> cmName cm = name \<Longrightarrow>
      view (snd (apiCreateMap H client ns cm w)) ns name = Some (cmData cm)"
    and "fst (apiUpdateMap H client ns cm w) = None \<Longrightarrow> cmName cm = name \<Longrightarrow>
      view (snd (apiUpdateMap H client ns cm w)) ns name = Some (cmData cm)"
  using assms unfolding map_server_def by blast+

definition env_text :: "('w, 'c, 'k, 'e) host_env \<Rightarrow> 'w \<Rightarrow> string \<Rightarrow> string" where
  "env_text H w key = or_empty (hostLookupEnv H w key)"

lemma result_callGetenv [simp]: "result (callGetenv H key) st = env_text H (world st) key"
  and world_callGetenv [simp]: "world (final (callGetenv H key) st) = world st"
  by (simp_all add: callGetenv_def callLookupEnv_def env_text_def)

lemma sync_stores:
  assumes "map_server H (smClient s) view" and "result (syncMetrics H s data) st = None"
  shows "view (world (final (syncMetrics H s data) st))
      (env_text H (world st) ENV_MAP_NAMESPACE) (env_text H (world st) ENV_MAP_NAME) = Some data"
  using assms(2) unfolding syncMetrics_def
  by (auto simp: callGetMap_def callCreateMap_def callUpdateMap_def Let_def map_serverD [OF assms(1)]
      split: if_splits sum.splits)

definition served_entries :: "(string \<times> string) list \<Rightarrow> (string \<times> string) list" where
  "served_entries entries = filter (\<lambda>(node, _). \<not> HasPrefix node ''.'') entries"

definition served_body :: "(string, string) gomap \<Rightarrow> string \<Rightarrow> bool" where
  "served_body data body \<longleftrightarrow>
     (\<exists>entries. mset entries = mset (served_entries data) \<and>
        body = concat (map (\<lambda>(_, text). text @ newline) entries) @ (if entries = [] then exporter_up else ''''))"

lemma write_metrics_served:
  "write_metrics entries sb found =
     (sb @ concat (map (\<lambda>(_, text). text @ newline) (served_entries entries)), found \<or> served_entries entries \<noteq> [])"
  by (induction entries sb found rule: write_metrics.induct) (auto simp: served_entries_def)

lemma metrics_handler_serves:
  assumes "map_server H client view" and "view (world st) ns name = Some data"
  shows "served_body data (result (metrics_handler H client ns name) st) \<or>
    (\<exists>err. fst (apiGetMap H client ns name (world st)) = Inl err \<and>
       result (metrics_handler H client ns name) st = exporter_up_help)"
proof (cases "fst (apiGetMap H client ns name (world st))")
  case (Inl err)
  then show ?thesis by (simp add: metrics_handler_def callGetMap_def)
next
  case (Inr cm)
  with assms have data: "cmData cm = data" unfolding map_server_def by fastforce
  have "\<exists>entries. mset entries = mset (served_entries data) \<and>
      result (metrics_handler H client ns name) st =
        concat (map (\<lambda>(_, text). text @ newline) entries) @ (if entries = [] then exporter_up else '''')"
  proof (cases "data = []")
    case True
    then show ?thesis using Inr data
      by (intro exI [of _ "[]"]) (simp add: metrics_handler_def callGetMap_def served_entries_def)
  next
    case False
    let ?order = "fst (hostOrder H (world (final (callGetMap H client ns name) st)))"
    have "mset (served_entries (arrange ?order data)) = mset (served_entries data)"
      by (simp add: served_entries_def)
    then show ?thesis using Inr data False
      by (intro exI [of _ "served_entries (arrange ?order data)"])
        (simp add: metrics_handler_def callGetMap_def callRange_def write_metrics_served)
  qed
  then show ?thesis by (simp add: served_body_def)
qed

section \<open>The loop\<close>

text \<open>
  What a synchronisation of \<open>data\<close> does: both variables, the read of the config map, then the data is written
  to the map that was read, or to a new one if there is none; any other error of the read ends the turn.
\<close>

definition sync_log :: "('w, 'c, 'k, 'e) host_env \<Rightarrow> (string, string) gomap \<Rightarrow> ('k, 'e) host_event list \<Rightarrow> bool" where
  "sync_log H data es \<longleftrightarrow> (\<exists>name ns answer writes.
     es = [Getenv ENV_MAP_NAME (Some name), Getenv ENV_MAP_NAMESPACE (Some ns), GotMap ns name answer] @ writes \<and>
     (case answer of
        Inr cm \<Rightarrow> \<exists>x. writes = [UpdatedMap ns (cm\<lparr>cmData := data\<rparr>) x]
      | Inl e \<Rightarrow>
          if HostNotFound H e
          then \<exists>x. writes = [CreatedMap ns \<lparr>cmName = name, cmNamespace = ns, cmResourceVersion = '''', cmData = data\<rparr> x]
          else writes = []))"

text \<open>
  What one turn does, from a state of the ticker to the next: it waits for the tick that is due next, draws
  the readings, and synchronises data with one entry per registered node, with the lines of each of its GPUs.
\<close>

definition turn_log ::
    "('w, 'c, 'k, 'e) host_env \<Rightarrow> cluster_map \<Rightarrow> ticker \<Rightarrow> ('k, 'e) host_event list \<Rightarrow> ticker \<Rightarrow> bool" where
  "turn_log H m t es t' \<longleftrightarrow> (\<exists>now order draws synced data.
     es = [Clock now, Slept (max 0 (next_tick t - now)), Ordered order] @ draws @ synced \<and>
     t' = t\<lparr>tickerEmptied := max now (next_tick t)\<rparr> \<and>
     list_all is_draw draws \<and> turn_data (calm draws) m data \<and> sync_log H data synced)"

fun turns_log ::
    "('w, 'c, 'k, 'e) host_env \<Rightarrow> cluster_map \<Rightarrow> nat \<Rightarrow> ticker \<Rightarrow> ('k, 'e) host_event list \<Rightarrow> bool" where
  "turns_log H m 0 t es \<longleftrightarrow> es = []"
| "turns_log H m (Suc turns) t es \<longleftrightarrow>
     (\<exists>es1 t' es2. es = es1 @ es2 \<and> turn_log H m t es1 t' \<and> turns_log H m turns t' es2)"

lemma syncMetrics_runs:
  fixes H :: "('w, 'c, 'k, 'e) host_env"
  assumes "\<And>w. env_text H w ENV_MAP_NAME \<noteq> ''''" and "\<And>w. env_text H w ENV_MAP_NAMESPACE \<noteq> ''''"
  shows "satisfies (syncMetrics H s data) (\<lambda>_ es. sync_log H data es)"
proof -
  have name: "satisfies (callGetenv H key) (\<lambda>v es. es = [Getenv key (Some v)] \<and> v \<noteq> '''')"
    if given: "\<And>w. env_text H w key \<noteq> ''''" for key
  proof (rule satisfiesI)
    fix st :: "('w, ('k, 'e) host_event) sys"
    obtain v where "hostLookupEnv H (world st) key = Some v" "v \<noteq> ''''"
      using given [of "world st"] by (auto simp: env_text_def or_empty_def split: option.splits)
    then show "\<exists>es. sys.log (final (callGetenv H key) st) = sys.log st @ es \<and>
        es = [Getenv key (Some (result (callGetenv H key) st))] \<and> result (callGetenv H key) st \<noteq> ''''"
      by (auto simp: callGetenv_def callLookupEnv_def or_empty_def final_def result_def)
  qed
  show ?thesis
    unfolding syncMetrics_def callGetMap_def callCreateMap_def callUpdateMap_def
    by (rule sat_seq [OF name [OF assms(1)]], elim conjE, rule sat_if, simp,
        rule sat_seq [OF name [OF assms(2)]], elim conjE, rule sat_if, simp)
      (auto intro!: sat sat_bind simp: sync_log_def)
qed

lemma scenario_turn_runs:
  fixes H :: "('w, 'c, 'k, 'e) host_env"
  assumes "\<And>w. env_text H w ENV_MAP_NAME \<noteq> ''''" and "\<And>w. env_text H w ENV_MAP_NAMESPACE \<noteq> ''''"
    and "go_keys_distinct m"
  shows "satisfies (scenario_turn H s m t) (\<lambda>t' es. turn_log H m t es t')"
  unfolding scenario_turn_def
proof (rule sat_seq [OF callTick_runs], elim exE conjE, rule sat_seq [OF callRange_runs], elim exE conjE)
  fix t' now entries order and es1 es2 :: "('k, 'e) host_event list"
  assume es: "es1 = [Clock now, Slept (max 0 (next_tick t - now))]" "es2 = [Ordered order]"
    and t': "t' = t\<lparr>tickerEmptied := max now (next_tick t)\<rparr>" and entries: "mset entries = mset m"
  have "distinct (map fst entries)"
    using assms(3) entries unfolding go_keys_distinct_def by (metis mset_eq_imp_distinct_iff mset_map)
  moreover have "set entries = set m" using entries by (rule mset_eq_setD)
  ultimately show "satisfies (do {
      newData \<leftarrow> gather_data H entries [];
      _ \<leftarrow> syncMetrics H s newData;
      ret t'
    }) (\<lambda>t'' es'. turn_log H m t (es1 @ es2 @ es') t'')"
    apply (intro sat_seq [OF gather_data_runs], simp, simp)
    apply (rule sat_seq [OF syncMetrics_runs [OF assms(1,2)]])
    apply (rule sat_return)
    apply (unfold turn_log_def es t')
    subgoal for data draws r synced
      by (rule exI [of _ now], rule exI [of _ order], rule exI [of _ draws], rule exI [of _ synced], rule exI [of _ data])
        (simp add: turn_data_def)
    done
qed

lemma scenario_turns_runs:
  assumes "\<And>w. env_text H w ENV_MAP_NAME \<noteq> ''''" and "\<And>w. env_text H w ENV_MAP_NAMESPACE \<noteq> ''''"
    and "go_keys_distinct m"
  shows "satisfies (scenario_turns H s m turns t) (\<lambda>_ es. turns_log H m turns t es)"
proof (induction turns arbitrary: t)
  case (Suc turns)
  show ?case
    by (simp, rule sat_seq [OF scenario_turn_runs [OF assms]], rule satisfies_mono [OF Suc.IH]) blast
qed (auto intro!: sat)

lemma RunScenarioLoop_runs:
  assumes "\<And>w. env_text H w ENV_MAP_NAME \<noteq> ''''" and "\<And>w. env_text H w ENV_MAP_NAMESPACE \<noteq> ''''"
    and "go_keys_distinct m"
  shows "satisfies (RunScenarioLoop H s m turns) (\<lambda>_ es. \<exists>start rest. es = Clock start # rest \<and>
    turns_log H m turns (NewTicker start (10 * Second)) rest)"
  unfolding RunScenarioLoop_def callNow_def
  by (rule sat_bind, rule sat_invoke, rule satisfies_mono [OF scenario_turns_runs [OF assms]]) simp

text \<open>While the clock does not run backwards, no turn waits for longer than the period.\<close>

lemma turn_waits:
  assumes "0 < tickerPeriod t" and "tickerEmptied t \<le> now"
  shows "max 0 (next_tick t - now) \<le> tickerPeriod t"
  using next_tick_after [OF assms(1)] assms by simp

end
