(* ===== verification/Pipeline.thy ===== *)
theory Pipeline
  imports Cluster_Map
begin

text \<open>
  From the scenario manager to the controller: the texts of a turn, stored and served, are read by
  Prometheus, and its answer to the query of the discovery is judged. Prometheus is a parameter; what is
  needed of it is how it reads the text format of metrics.
\<close>

section \<open>The text format of metrics\<close>

text \<open>A line: blank, or a metric with the labels \<open>node\<close> and \<open>gpu\<close> and a number.\<close>

datatype exposition_line = Blank | Series string string string string

text \<open>
  What the text format takes for the name of a metric, \<open>[a-zA-Z_:][a-zA-Z0-9_:]*\<close>, and the values of labels
  that need no escape: printable ASCII without quotes and backslashes. (An empty label is no label.)
\<close>

definition name_char :: "char \<Rightarrow> bool" where
  "name_char c \<longleftrightarrow> (let n = of_char c :: nat in 97 \<le> n \<and> n \<le> 122 \<or> 65 \<le> n \<and> n \<le> 90 \<or> n = 95 \<or> n = 58)"

definition metric_name :: "string \<Rightarrow> bool" where
  "metric_name s \<longleftrightarrow> s \<noteq> [] \<and> name_char (hd s) \<and> list_all (\<lambda>c. name_char c \<or> char_digit c \<noteq> None) s"

definition label_value :: "string \<Rightarrow> bool" where
  "label_value s \<longleftrightarrow> s \<noteq> [] \<and>
     (\<forall>c \<in> set s. 32 \<le> (of_char c :: nat) \<and> (of_char c :: nat) \<le> 126 \<and> c \<noteq> CHR 0x22 \<and> c \<noteq> CHR 0x5C)"

fun line_text :: "exposition_line \<Rightarrow> string" where
  "line_text Blank = []"
| "line_text (Series metric node gpu v) = metric_line metric node gpu v"

fun line_ok :: "exposition_line \<Rightarrow> bool" where
  "line_ok Blank \<longleftrightarrow> True"
| "line_ok (Series metric node gpu v) \<longleftrightarrow> metric_name metric \<and> label_value node \<and> label_value gpu \<and>
     (\<exists>q. read_decimal v = Some q \<and> q < 10 ^ 15)"

text \<open>What a line says: the three labels and the value, as a \<open>float64\<close>.\<close>

fun line_series :: "exposition_line \<Rightarrow> ((string \<times> string \<times> string) \<times> go_float) list" where
  "line_series Blank = []"
| "line_series (Series metric node gpu v) = [((node, gpu, metric), Fin (f64 (the (read_decimal v))))]"

definition keyed :: "Sample \<Rightarrow> (string \<times> string \<times> string) \<times> go_float" where
  "keyed sample = (sample_key sample, sampleValue sample)"

definition renders :: "string \<Rightarrow> exposition_line list \<Rightarrow> bool" where
  "renders t lines \<longleftrightarrow> t = concat (map (\<lambda>l. line_text l @ newline) lines)"

text \<open>
  How Prometheus reads such a text: its parser takes every line for itself, blank lines for nothing. It keeps
  one sample at least for every series the lines name, and none that is not on a line; of two lines for
  the same series it may keep either. (The format asks for the lines of a metric in one group, which the
  exporter does not do; the parser of Prometheus does not depend on it.)
\<close>

definition reads_exposition :: "(string \<Rightarrow> Sample list) \<Rightarrow> bool" where
  "reads_exposition scrape \<longleftrightarrow>
     (\<forall>t lines. renders t lines \<longrightarrow> (\<forall>l \<in> set lines. line_ok l) \<longrightarrow>
        set (map keyed (scrape t)) \<subseteq> set (concat (map line_series lines)) \<and>
        fst ` set (map keyed (scrape t)) = fst ` set (concat (map line_series lines)))"

lemma renders_append: "renders t lines \<Longrightarrow> renders t' lines' \<Longrightarrow> renders (t @ t') (lines @ lines')"
  by (simp add: renders_def)

lemma renders_Blank [simp]: "renders newline [Blank]"
  by (simp add: renders_def)

section \<open>The lines of a calm turn\<close>

definition healthy_line :: "string \<Rightarrow> string \<Rightarrow> exposition_line \<Rightarrow> bool" where
  "healthy_line node gpu l \<longleftrightarrow>
     (\<exists>metric v. l = Series metric node gpu v \<and> metric \<in> set metric_order \<and> judged_healthy metric v)"

lemma Join_lines: "xs \<noteq> [] \<Longrightarrow> Join xs newline @ newline = concat (map (\<lambda>x. x @ newline) xs)"
  by (induction xs newline rule: Join.induct) simp_all

lemma healthy_draw_lines:
  "list_all2 (\<lambda>metric (r, u, v). verdict_follows metric r v \<and> (True \<longrightarrow> \<not> chaotic r)) ms ds \<Longrightarrow> set ms \<subseteq> set metric_order \<Longrightarrow>
   \<exists>lines. draw_lines node gpu ms ds = map line_text lines \<and> length lines = length ms \<and>
     (\<forall>l \<in> set lines. healthy_line node gpu l)"
proof (induction rule: list_all2_induct)
  case (Cons metric ms d ds)
  obtain r u v where d: "d = (r, u, v)" by (cases d)
  obtain lines where "draw_lines node gpu ms ds = map line_text lines" "length lines = length ms"
    "\<forall>l \<in> set lines. healthy_line node gpu l"
    using Cons by auto
  moreover have "healthy_line node gpu (Series metric node gpu v)"
    using Cons(1,4) d by (auto simp: healthy_line_def verdict_follows_def)
  ultimately show ?case
    by (intro exI [of _ "Series metric node gpu v # lines"]) (simp add: d)
qed simp

lemma drawn_text_lines:
  assumes "drawn_text True node gpu t"
  shows "\<exists>lines. lines \<noteq> [] \<and> renders (t @ newline) lines \<and> (\<forall>l \<in> set lines. healthy_line node gpu l)"
proof -
  obtain ds where t: "t = Join (draw_lines node gpu metric_order ds) newline"
    and ds: "list_all2 (\<lambda>metric (r, u, v). verdict_follows metric r v \<and> (True \<longrightarrow> \<not> chaotic r)) metric_order ds"
    using assms unfolding drawn_text_def by blast
  obtain lines where lines: "draw_lines node gpu metric_order ds = map line_text lines"
    "length lines = length metric_order" "\<forall>l \<in> set lines. healthy_line node gpu l"
    using healthy_draw_lines [OF ds] by blast
  then have "lines \<noteq> []" by (auto simp: metric_order_def)
  with lines show ?thesis
    by (intro exI [of _ lines]) (simp add: t Join_lines renders_def comp_def)
qed

lemma drawn_texts_lines:
  "list_all2 (drawn_text True node) gpus texts \<Longrightarrow>
   \<exists>lines. renders (concat (map (\<lambda>t. t @ newline) texts)) lines \<and> (gpus \<noteq> [] \<longrightarrow> lines \<noteq> []) \<and>
     (\<forall>l \<in> set lines. \<exists>gpu \<in> set gpus. healthy_line node gpu l)"
proof (induction rule: list_all2_induct)
  case (Cons gpu gpus t texts)
  then obtain lines where "renders (concat (map (\<lambda>t. t @ newline) texts)) lines"
    "\<forall>l \<in> set lines. \<exists>gpu \<in> set gpus. healthy_line node gpu l" by blast
  moreover obtain lines' where "lines' \<noteq> []" "renders (t @ newline) lines'" "\<forall>l \<in> set lines'. healthy_line node gpu l"
    using drawn_text_lines [OF Cons(1)] by blast
  ultimately show ?case
    by (intro exI [of _ "lines' @ lines"]) (use renders_append [of "t @ newline" lines'] in auto)
qed (simp add: renders_def)

lemma node_text_lines:
  assumes "node_text True node gpus t"
  shows "\<exists>lines. renders (t @ newline) lines \<and> (gpus \<noteq> [] \<longrightarrow> (\<exists>l \<in> set lines. l \<noteq> Blank)) \<and>
    (\<forall>l \<in> set lines. l = Blank \<or> (\<exists>gpu \<in> set gpus. healthy_line node gpu l))"
proof -
  obtain texts where texts: "list_all2 (drawn_text True node) gpus texts" "t = Join texts newline @ newline"
    using assms unfolding node_text_def by blast
  show ?thesis
  proof (cases "texts = []")
    case True
    with texts show ?thesis by (intro exI [of _ "[Blank, Blank]"]) (simp add: renders_def)
  next
    case False
    obtain lines where "renders (concat (map (\<lambda>t. t @ newline) texts)) lines" "gpus \<noteq> [] \<longrightarrow> lines \<noteq> []"
      "\<forall>l \<in> set lines. \<exists>gpu \<in> set gpus. healthy_line node gpu l"
      using drawn_texts_lines [OF texts(1)] by blast
    then show ?thesis
      using texts(2) False renders_append [OF _ renders_Blank]
      by (intro exI [of _ "lines @ [Blank]"]) (auto simp: Join_lines healthy_line_def neq_Nil_conv)
  qed
qed

text \<open>The lines of a body: blank, or a healthy line of a GPU of the map, one at least per node with GPUs.\<close>

definition lines_of_map :: "cluster_map \<Rightarrow> exposition_line list \<Rightarrow> bool" where
  "lines_of_map m lines \<longleftrightarrow>
     (\<forall>l \<in> set lines. l = Blank \<or> (\<exists>node gpus gpu. go_get m node = Some gpus \<and> gpu \<in> set gpus \<and> healthy_line node gpu l))"

lemma entries_lines:
  "(\<And>node t. (node, t) \<in> set entries \<Longrightarrow> \<exists>gpus. go_get m node = Some gpus \<and> node_text True node gpus t) \<Longrightarrow>
   \<exists>lines. renders (concat (map (\<lambda>(_, t). t @ newline) entries)) lines \<and> lines_of_map m lines \<and>
     (\<forall>node \<in> fst ` set entries. go_get m node \<noteq> Some [] \<longrightarrow> (\<exists>l \<in> set lines. \<exists>gpu. healthy_line node gpu l))"
proof (induction entries)
  case (Cons entry entries)
  obtain node t where entry: "entry = (node, t)" by (cases entry)
  obtain lines where rest: "renders (concat (map (\<lambda>(_, t). t @ newline) entries)) lines" "lines_of_map m lines"
    "\<forall>node \<in> fst ` set entries. go_get m node \<noteq> Some [] \<longrightarrow> (\<exists>l \<in> set lines. \<exists>gpu. healthy_line node gpu l)"
    using Cons.IH Cons.prems by auto
  obtain gpus where gpus: "go_get m node = Some gpus" "node_text True node gpus t"
    using Cons.prems [of node t] entry by auto
  obtain lines' where first: "renders (t @ newline) lines'" "gpus \<noteq> [] \<longrightarrow> (\<exists>l \<in> set lines'. l \<noteq> Blank)"
    "\<forall>l \<in> set lines'. l = Blank \<or> (\<exists>gpu \<in> set gpus. healthy_line node gpu l)"
    using node_text_lines [OF gpus(2)] by blast
  have "renders (concat (map (\<lambda>(_, t). t @ newline) (entry # entries))) (lines' @ lines)"
    using renders_append [OF first(1) rest(1)] by (simp add: entry)
  moreover have "lines_of_map m (lines' @ lines)" using first(3) rest(2) gpus(1) unfolding lines_of_map_def by fastforce
  moreover have "go_get m node \<noteq> Some [] \<Longrightarrow> \<exists>l \<in> set (lines' @ lines). \<exists>gpu. healthy_line node gpu l"
    using first(2,3) gpus(1) by (metis UnCI set_append)
  moreover have "\<exists>l \<in> set (lines' @ lines). \<exists>gpu. healthy_line n gpu l"
    if "n \<in> fst ` set (entry # entries)" "go_get m n \<noteq> Some []" for n
  proof -
    from that(1) consider "n = node" | "n \<in> fst ` set entries" by (auto simp: entry)
    then show ?thesis using calculation(3) rest(3) that(2) by cases (blast, fastforce)
  qed
  ultimately show ?case by (intro exI [of _ "lines' @ lines"]) blast
qed (simp add: renders_def lines_of_map_def exI [of _ "[]"])

lemma body_lines:
  assumes "turn_data True m data" and "go_keys_distinct m" and "m \<noteq> []"
    and "\<And>node. node \<in> fst ` set m \<Longrightarrow> \<not> HasPrefix node ''.''" and "served_body data body"
  shows "\<exists>lines. renders body lines \<and> lines_of_map m lines \<and>
     (\<forall>node \<in> fst ` set m. go_get m node \<noteq> Some [] \<longrightarrow> (\<exists>l \<in> set lines. \<exists>gpu. healthy_line node gpu l))"
proof -
  have data: "go_keys_distinct data" "fst ` set data = fst ` set m"
    "\<And>node gpus. (node, gpus) \<in> set m \<Longrightarrow> \<exists>t. go_get data node = Some t \<and> node_text True node gpus t"
    using assms(1) unfolding turn_data_def by (blast, blast, fast)
  have "served_entries data = data"
    unfolding served_entries_def filter_id_conv
  proof
    fix entry
    assume "entry \<in> set data"
    then have "fst entry \<in> fst ` set m" using data(2) by blast
    then show "case entry of (node, _) \<Rightarrow> \<not> HasPrefix node ''.''" using assms(4) by (simp add: case_prod_unfold)
  qed
  with assms(5) obtain entries where entries: "mset entries = mset data"
    and body: "body = concat (map (\<lambda>(_, t). t @ newline) entries) @ (if entries = [] then exporter_up else '''')"
    unfolding served_body_def by metis
  have "data \<noteq> []" using data(2) assms(3) by auto
  then have "entries \<noteq> []" using entries by auto
  moreover have set_entries: "set entries = set data" using entries by (rule mset_eq_setD)
  moreover have "\<exists>gpus. go_get m node = Some gpus \<and> node_text True node gpus t" if "(node, t) \<in> set entries" for node t
  proof -
    have "go_get data node = Some t" using that data(1) by (simp add: set_entries go_get_iff_mem)
    moreover have "node \<in> fst ` set m"
      using imageI [OF that, of fst] by (simp add: set_entries data(2))
    then obtain gpus where "(node, gpus) \<in> set m" by auto
    ultimately show ?thesis using data(3) [of node gpus] assms(2) by (auto simp: go_get_iff_mem)
  qed
  ultimately show ?thesis using entries_lines [of entries m] body data(2) by simp
qed

section \<open>The verdict\<close>

lemma last_value_mem:
  "last_value vec key = Some v \<Longrightarrow> \<exists>x. (key, x) \<in> set (map keyed vec) \<and> v = float32_of x"
  by (induction vec key rule: last_value.induct) (auto simp: keyed_def split: option.splits if_splits)

lemma exports_keyed: "exports_metrics vec node \<longleftrightarrow> (\<exists>gpu metric x. ((node, gpu, metric), x) \<in> set (map keyed vec))"
proof
  assume "exports_metrics vec node"
  then obtain sample where "sample \<in> set vec" "fst (sample_key sample) = node" by (auto simp: exports_metrics_def)
  moreover from this(2) obtain gpu metric where "sample_key sample = (node, gpu, metric)"
    by (cases "sample_key sample") auto
  ultimately have "((node, gpu, metric), sampleValue sample) \<in> set (map keyed vec)" by (force simp: keyed_def)
  then show "\<exists>gpu metric x. ((node, gpu, metric), x) \<in> set (map keyed vec)" by blast
next
  assume "\<exists>gpu metric x. ((node, gpu, metric), x) \<in> set (map keyed vec)"
  then obtain gpu metric sample where "sample \<in> set vec" "(node, gpu, metric) = sample_key sample"
    by (auto simp: keyed_def)
  then show "exports_metrics vec node" unfolding exports_metrics_def by (metis fst_conv)
qed

text \<open>A value in a healthy range is small: a parser reads it without overflow.\<close>

lemma judged_healthy_small:
  assumes "judged_healthy metric v" and "metric \<in> set metric_order"
  shows "\<exists>q. read_decimal v = Some q \<and> q < 10 ^ 15"
proof -
  obtain q where q: "read_decimal v = Some q" and r: "\<not> out_of_range metric (float32_of (Fin (f64 q)))"
    using assms(1) by (auto simp: judged_healthy_def value_read_def)
  have "list_all (\<lambda>metric. case rangeMax (range_of metric) of Fin mx \<Rightarrow> mx < 1000 | _ \<Rightarrow> False) metric_order" by code_simp
  then have "case rangeMax (range_of metric) of Fin mx \<Rightarrow> mx < 1000 | _ \<Rightarrow> False"
    using assms(2) by (simp add: list_all_iff)
  then obtain mx where mx: "rangeMax (range_of metric) = Fin mx" "mx < 1000"
    by (cases "rangeMax (range_of metric)") simp_all
  have thousand: "float32_of (Fin 1000) = Fin 1000" "f64 1000 = 1000" "(1000 :: rat) \<le> 10 ^ 15" by code_simp+
  have "q < 1000"
  proof (rule ccontr)
    assume "\<not> q < 1000"
    then have "1000 \<le> f64 q" using f64_mono [of 1000 q] thousand(2) by simp
    moreover obtain x where x: "float32_of (Fin (f64 q)) = Fin x" "x \<le> mx"
    proof -
      have "float32_of (Fin (f64 q)) \<noteq> NaN" by (simp add: round_float_def Let_def)
      then show thesis
        using r mx(1) infinite_out_of_range [of metric] that
        by (cases "float32_of (Fin (f64 q))") (auto simp: out_of_range_def simp del: float32_of.simps)
    qed
    ultimately have "1000 \<le> x" using float32_of_between [OF thousand(1) x(1), of "f64 q"] x(1) by (simp del: float32_of.simps)
    then show False using x(2) mx(2) by simp
  qed
  then show ?thesis using q thousand(3) by (intro exI [of _ q]) simp
qed

lemma healthy_line_ok:
  assumes "healthy_line node gpu l" and "label_value node" and "label_value gpu"
  shows "line_ok l"
proof -
  obtain metric v where l: "l = Series metric node gpu v" "metric \<in> set metric_order" "judged_healthy metric v"
    using assms(1) by (auto simp: healthy_line_def)
  have "list_all metric_name metric_order" by code_simp
  then show ?thesis using l assms(2,3) judged_healthy_small [OF l(3,2)] by (simp add: list_all_iff)
qed

lemma lines_judged:
  assumes lines: "lines_of_map m lines" and vec: "set (map keyed vec) \<subseteq> set (concat (map line_series lines))"
    and all: "fst ` set (map keyed vec) = fst ` set (concat (map line_series lines))"
  shows "in_ranges vec node"
    and "exports_metrics vec node \<longleftrightarrow> (\<exists>l \<in> set lines. \<exists>gpu. healthy_line node gpu l)"
proof -
  have line: "\<exists>v. healthy_line node gpu (Series metric node gpu v) \<and> Series metric node gpu v \<in> set lines \<and>
      judged_healthy metric v \<and> x = Fin (f64 (the (read_decimal v)))"
    if "((node, gpu, metric), x) \<in> set (map keyed vec)" for gpu metric x
  proof -
    from vec that have "((node, gpu, metric), x) \<in> set (concat (map line_series lines))" by (rule subsetD)
    then obtain l where "l \<in> set lines" "((node, gpu, metric), x) \<in> set (line_series l)" by auto
    moreover from this(1) lines have "l = Blank \<or> (\<exists>node gpu. healthy_line node gpu l)"
      unfolding lines_of_map_def by blast
    ultimately show ?thesis by (auto simp: healthy_line_def)
  qed
  show "in_ranges vec node"
    unfolding in_ranges_def
  proof (intro allI impI)
    fix gpu metric v
    assume "last_value vec (node, gpu, metric) = Some v"
    then obtain x where "((node, gpu, metric), x) \<in> set (map keyed vec)" "v = float32_of x"
      using last_value_mem by blast
    then show "\<not> out_of_range metric v"
      using line [of gpu metric x] by (auto simp: judged_healthy_def value_read_def)
  qed
  show "exports_metrics vec node \<longleftrightarrow> (\<exists>l \<in> set lines. \<exists>gpu. healthy_line node gpu l)"
  proof
    assume "exports_metrics vec node"
    then show "\<exists>l \<in> set lines. \<exists>gpu. healthy_line node gpu l" using line unfolding exports_keyed by blast
  next
    assume "\<exists>l \<in> set lines. \<exists>gpu. healthy_line node gpu l"
    then obtain metric gpu v where "Series metric node gpu v \<in> set lines" by (auto simp: healthy_line_def)
    then have "((node, gpu, metric), Fin (f64 (the (read_decimal v)))) \<in> set (concat (map line_series lines))" by force
    then have "(node, gpu, metric) \<in> fst ` set (map keyed vec)" unfolding all by (rule image_eqI [rotated]) simp
    then show "exports_metrics vec node" unfolding exports_keyed by (metis (no_types) imageE prod.collapse)
  qed
qed

lemma show_nat_label: "label_value (show_nat n)"
proof -
  have "char_digit c \<noteq> None" if "c \<in> set (show_nat n)" for c
    using that read_digits_all [OF read_digits_show_nat [of n]] by (metis set_takeWhileD)
  then show ?thesis unfolding label_value_def by (fastforce simp: char_digit_def Let_def split: if_splits)
qed

text \<open>The chain as a whole: the data of a calm turn, served, scraped and queried, isolates nobody.\<close>

lemma calm_chain:
  assumes "cluster_map_ok m" and "m \<noteq> []"
    and names: "\<forall>(node, gpus) \<in> set m. label_value node \<and> \<not> HasPrefix node ''.''"
    and "turn_data True m data" and "served_body data body"
    and "reads_exposition scrape" and "set (map keyed vec) = set (map keyed (scrape body))"
  shows "split_nodes (build_scan [] vec) [] [] nodes =
    (filter (\<lambda>n. \<exists>gpus. go_get m (nodeName n) = Some gpus \<and> gpus \<noteq> []) nodes, [])"
proof -
  have m: "go_keys_distinct m" using assms(1) by (simp add: cluster_map_ok_def)
  obtain lines where lines: "renders body lines" "lines_of_map m lines"
    "\<forall>node \<in> fst ` set m. go_get m node \<noteq> Some [] \<longrightarrow> (\<exists>l \<in> set lines. \<exists>gpu. healthy_line node gpu l)"
    using body_lines [OF assms(4) m assms(2) _ assms(5)] names by fastforce
  have gpu: "label_value gpu" if "go_get m node = Some gpus" "gpu \<in> set gpus" for node gpus gpu
  proof -
    have "gpus = map show_nat [0..<length gpus]"
      using assms(1) map_of_SomeD [OF that(1)] unfolding cluster_map_ok_def by fast
    then show ?thesis using that(2) show_nat_label by (metis image_iff list.set_map)
  qed
  have "line_ok l" if "l \<in> set lines" for l
    using lines(2) that names gpu healthy_line_ok map_of_SomeD unfolding lines_of_map_def by fastforce
  then have vec: "set (map keyed vec) \<subseteq> set (concat (map line_series lines))"
    "fst ` set (map keyed vec) = fst ` set (concat (map line_series lines))"
    using assms(6) lines(1) unfolding reads_exposition_def assms(7) by blast+
  have "exports_metrics vec node \<longleftrightarrow> (\<exists>gpus. go_get m node = Some gpus \<and> gpus \<noteq> [])" for node
  proof -
    have "(\<exists>l \<in> set lines. \<exists>gpu. healthy_line node gpu l) \<longleftrightarrow> (\<exists>gpus. go_get m node = Some gpus \<and> gpus \<noteq> [])"
    proof
      assume "\<exists>l \<in> set lines. \<exists>gpu. healthy_line node gpu l"
      then show "\<exists>gpus. go_get m node = Some gpus \<and> gpus \<noteq> []"
        using lines(2) unfolding lines_of_map_def healthy_line_def by fastforce
    next
      assume "\<exists>gpus. go_get m node = Some gpus \<and> gpus \<noteq> []"
      then show "\<exists>l \<in> set lines. \<exists>gpu. healthy_line node gpu l"
        using lines(3) by (metis fst_conv imageI map_of_SomeD option.inject)
    qed
    then show ?thesis using lines_judged(2) [OF lines(2) vec] by simp
  qed
  then show ?thesis using lines_judged(1) [OF lines(2) vec] by (simp add: split_nodes_verdicts)
qed

lemma gather_turn_data:
  assumes "go_keys_distinct m" and "mset entries = mset m"
  shows "turn_data (calm (emitted (gather_data H entries []) st)) m (result (gather_data H entries []) st)"
proof -
  have "distinct (map fst entries)"
    using assms unfolding go_keys_distinct_def by (metis mset_eq_imp_distinct_iff mset_map)
  moreover have "set entries = set m" using assms(2) by (rule mset_eq_setD)
  ultimately show ?thesis
    using satisfiesD [OF gather_data_runs [of entries "[]" H], of st] by (simp add: turn_data_def)
qed

end
