(* ===== verification/Scenario_Properties.thy ===== *)
theory Scenario_Properties
  imports Pipeline Sample_Host
begin

text \<open>The properties of the scenario manager, the mock exporter and the fake job.\<close>

section \<open>The metrics that are drawn\<close>

text \<open>
C33: Whatever is drawn, \<open>generateMetrics\<close> prints the seven metrics of the controller's table, and the
controller judges each as the draw meant it: a metric drawn without chaos is printed in its healthy range,
whatever the roundings on the way; one drawn with chaos is printed outside it for the memory copy
utilisation, the frame buffer usage, the power and the NVLink bandwidth.
\<close>

theorem drawn_metrics_judged:
  "\<exists>ds. emitted (generateMetrics H node gpu) s = draw_events ds \<and>
     result (generateMetrics H node gpu) s = Join (draw_lines node gpu metric_order ds) newline \<and>
     list_all2 (\<lambda>metric (r, u, v). verdict_follows metric r v) metric_order ds"
  using satisfiesD [OF generateMetrics_runs] by blast

text \<open>
Chaos does not always show: a chaotic temperature can be printed as 85 and a chaotic error count as 0,
which are healthy.
\<close>

lemma sample_chaos_draw:
  "result (weightedRand sample_host a b c d chaos) (sample_host_world 0) = f64 (c + f64 (1 / 2 ^ 53 * f64 (d - c)))"
proof -
  have "\<not> chaos < 0" by code_simp
  then show ?thesis
    by (simp add: weightedRand_def callFloat32_def callFloat64_def callBits_def sample_host_def sample_host_world_def)
qed

theorem chaos_within_range:
  "chaotic 0 \<and>
   judged_healthy ''dcgm_gpu_temp''
     (fmt_fixed 0 (result (weightedRand sample_host 35 70 85 110 chaos) (sample_host_world 0))) \<and>
   judged_healthy ''dcgm_ecc_sbe_aggregate_total''
     (fmt_fixed 0 (result (weightedRand sample_host 0 0 0 3 chaos) (sample_host_world 0)))"
  unfolding sample_chaos_draw by code_simp

section \<open>The cluster map\<close>

text \<open>
C37: The cluster map keeps its shape through \<open>InitializeClusterMap\<close>, whatever nodes and labels the
cluster has: one key per node, and the GPUs of a node numbered in decimal from zero without gaps.
\<close>

theorem cluster_map_typed:
  assumes "cluster_map_ok m"
  shows "cluster_map_ok (snd (result (InitializeClusterMap H s m) st))"
  using satisfiesD [OF InitializeClusterMap_runs [of H s m], of st] assms cluster_map_ok_register [OF assms]
  by (auto split: prod.splits if_splits)

theorem cluster_map_typed_witness:
  "cluster_map_ok (snd (result (InitializeClusterMap sample_host \<lparr>smClient = ()\<rparr> [(''old'', [''0''])]) (sample_host_world 0)))"
proof (rule cluster_map_typed)
  have "show_nat 0 = ''0''" by code_simp
  then show "cluster_map_ok [(''old'', [''0''])]"
    by (simp add: cluster_map_ok_def go_keys_distinct_def)
qed

text \<open>
C34: The two readers of the GPU count label agree. The scenario manager lists the nodes labelled
\<open>hpc-sentinel/node-type=gpu-worker\<close>; every node of this listing that the controller would select as a GPU
node is registered, if names are distinct, with as many GPUs as the controller reads from its label, and the
scenario manager starts. A node outside the listing is not registered, also where the controller, which asks
for the GPU count label, selects it: what the map says of it does not change.
\<close>

theorem controller_nodes_registered:
  assumes "emitted (InitializeClusterMap H s m) st = [ListedNodes sel (items, None, took)]"
    and "distinct (map nodeName items)"
  shows "sel = ''hpc-sentinel/node-type=gpu-worker'' \<and>
    (\<forall>node \<in> set items. is_gpu_node node \<longrightarrow>
       (\<exists>cnt. Atoi (or_empty (node_label node GPU_NODE_LABEL_INDICATOR)) = Some cnt \<and> 0 < sint cnt \<and>
          fst (result (InitializeClusterMap H s m) st) = None \<and>
          go_get (snd (result (InitializeClusterMap H s m) st)) (nodeName node) = Some (map show_nat [0..<nat (sint cnt)]))) \<and>
    (\<forall>name. name \<notin> nodeName ` set items \<longrightarrow>
       go_get (snd (result (InitializeClusterMap H s m) st)) name = go_get m name)"
proof (intro conjI ballI allI impI)
  show "sel = ''hpc-sentinel/node-type=gpu-worker''"
    using satisfiesD [OF InitializeClusterMap_runs [of H s m], of st] assms(1) by (auto split: prod.splits)
next
  fix node
  assume node: "node \<in> set items" "is_gpu_node node"
  obtain cnt where cnt: "Atoi (or_empty (node_label node GPU_NODE_LABEL_INDICATOR)) = Some cnt" "0 < sint cnt"
    using node(2) by (auto simp: is_gpu_node_def split: option.splits)
  then obtain v where v: "node_label node GPU_COUNT_LABEL = Some v" "Atoi v = Some cnt"
    by (cases "node_label node GPU_COUNT_LABEL") (auto simp: GPU_NODE_LABEL_INDICATOR_def GPU_COUNT_LABEL_def or_empty_def)
  have "go_get (register_nodes m items) (nodeName node) = Some (map show_nat [0..<nat (sint cnt)])"
    using register_selected [OF assms(2) node(1) v] .
  moreover from this have "register_nodes m items \<noteq> []" by auto
  ultimately show "\<exists>cnt. Atoi (or_empty (node_label node GPU_NODE_LABEL_INDICATOR)) = Some cnt \<and> 0 < sint cnt \<and>
      fst (result (InitializeClusterMap H s m) st) = None \<and>
      go_get (snd (result (InitializeClusterMap H s m) st)) (nodeName node) = Some (map show_nat [0..<nat (sint cnt)])"
    using satisfiesD [OF InitializeClusterMap_runs [of H s m], of st] assms(1) cnt by (auto split: prod.splits)
next
  fix name
  assume "name \<notin> nodeName ` set items"
  then have "go_get (register_nodes m items) name = go_get m name" by (rule register_others)
  then show "go_get (snd (result (InitializeClusterMap H s m) st)) name = go_get m name"
    using satisfiesD [OF InitializeClusterMap_runs [of H s m], of st] assms(1) by (auto split: prod.splits if_splits)
qed

theorem controller_nodes_registered_witness:
  "go_get (snd (result (InitializeClusterMap sample_host \<lparr>smClient = ()\<rparr> []) (sample_host_world 0))) ''gpu1'' \<noteq> None \<and>
   go_get (snd (result (InitializeClusterMap sample_host \<lparr>smClient = ()\<rparr> []) (sample_host_world 0))) ''cp'' = None"
proof -
  let ?node = "host_node ''gpu1'' [(''hpc-sentinel/node-type'', ''gpu-worker''), (''nvidia.com/gpu.count'', ''2'')] 8"
  have "emitted (InitializeClusterMap sample_host \<lparr>smClient = ()\<rparr> []) (sample_host_world 0) =
      [ListedNodes ''hpc-sentinel/node-type=gpu-worker'' ([?node], None, 0)]" by code_simp
  moreover have "is_gpu_node ?node" by code_simp
  ultimately show ?thesis
    using controller_nodes_registered [of sample_host "\<lparr>smClient = ()\<rparr>" "[]" "sample_host_world 0" _ "[?node]" 0]
    by (auto simp: host_node_def)
qed

section \<open>From the config map to the exporter\<close>

text \<open>The view of the sample host.\<close>

definition sample_maps :: "host_world \<Rightarrow> string \<Rightarrow> string \<Rightarrow> (string, string) gomap option" where
  "sample_maps w ns name = map_option cmData (find (is_map ns name) (hwMaps w))"

lemma find_is_map: "find (is_map ns name) cms = Some cm \<Longrightarrow> cmNamespace cm = ns \<and> cmName cm = name"
  by (induction cms) (auto simp: is_map_def split: if_splits)

lemma find_updated:
  "find (is_map ns name) cms = Some old \<Longrightarrow> is_map ns name new \<Longrightarrow>
   find (is_map ns name) (map (\<lambda>c. if is_map ns name c then new else c) cms) = Some new"
  by (induction cms) (auto split: if_splits)

lemma sample_host_maps: "map_server sample_host client sample_maps"
  unfolding map_server_def
proof (intro conjI allI impI)
  show "sample_maps (snd (apiUpdateMap sample_host client ns cm w)) ns (cmName cm) = Some (cmData cm)"
    if "fst (apiUpdateMap sample_host client ns cm w) = None" for ns cm w
    using that find_updated [of ns "cmName cm" "hwMaps w"]
    by (auto simp: sample_host_def map_updated_def sample_maps_def is_map_def split: option.splits if_splits)
qed (auto simp: sample_host_def map_got_def map_created_def sample_maps_def is_map_def dest: find_is_map split: option.splits if_splits)

text \<open>
C35: What the scenario manager has synced is what the exporter serves: after \<open>syncMetrics\<close> without an error,
a scrape of the same config map gets the text of every entry followed by a line break, in some order,
except for entries whose name begins with a dot, or the exporter's own metric if no entry is left; or the
read fails and it gets the fallback.
\<close>

theorem synced_metrics_served:
  assumes "map_server H (smClient s) view" and "result (syncMetrics H s data) st = None"
  shows "served_body data (result (metrics_handler H (smClient s) (env_text H (world st) ENV_MAP_NAMESPACE)
      (env_text H (world st) ENV_MAP_NAME)) (final (syncMetrics H s data) st)) \<or>
    (\<exists>err. fst (apiGetMap H (smClient s) (env_text H (world st) ENV_MAP_NAMESPACE) (env_text H (world st) ENV_MAP_NAME)
        (world (final (syncMetrics H s data) st))) = Inl err \<and>
     result (metrics_handler H (smClient s) (env_text H (world st) ENV_MAP_NAMESPACE)
      (env_text H (world st) ENV_MAP_NAME)) (final (syncMetrics H s data) st) = exporter_up_help)"
  by (rule metrics_handler_serves [OF assms(1) sync_stores [OF assms]])

theorem synced_metrics_served_witness:
  "served_body [(''gpu1'', ''up 1''), (''.hidden'', ''no'')] (result (metrics_handler sample_host () ''lab'' ''metrics'')
     (final (syncMetrics sample_host \<lparr>smClient = ()\<rparr> [(''gpu1'', ''up 1''), (''.hidden'', ''no'')]) (sample_host_world 0)))"
proof -
  let ?data = "[(''gpu1'', ''up 1''), (''.hidden'', ''no'')]"
  let ?st = "final (syncMetrics sample_host \<lparr>smClient = ()\<rparr> ?data) (sample_host_world 0)"
  have "result (syncMetrics sample_host \<lparr>smClient = ()\<rparr> ?data) (sample_host_world 0) = None" by code_simp
  moreover have "env_text sample_host (world (sample_host_world 0)) ENV_MAP_NAME = ''metrics''"
    "env_text sample_host (world (sample_host_world 0)) ENV_MAP_NAMESPACE = ''lab''" by code_simp+
  moreover have "\<not> isl (fst (apiGetMap sample_host () ''lab'' ''metrics'' (world ?st)))" by code_simp
  ultimately show ?thesis
    using synced_metrics_served [of sample_host "\<lparr>smClient = ()\<rparr>" sample_maps ?data "sample_host_world 0"] sample_host_maps
    by auto
qed

section \<open>From the draws to the controller\<close>

text \<open>A reader of the text format, and a host whose weights are never chaotic, for the witness.\<close>

definition parse_line :: "string \<Rightarrow> Sample list" where
  "parse_line l =
     (if l = [] then []
      else let metric = takeWhile (\<lambda>c. c \<noteq> CHR 0x7B) l;
               l = drop 7 (dropWhile (\<lambda>c. c \<noteq> CHR 0x7B) l);
               node = takeWhile (\<lambda>c. c \<noteq> CHR 0x22) l;
               l = drop 8 (dropWhile (\<lambda>c. c \<noteq> CHR 0x22) l);
               gpu = takeWhile (\<lambda>c. c \<noteq> CHR 0x22) l;
               v = drop 3 (dropWhile (\<lambda>c. c \<noteq> CHR 0x22) l)
           in [\<lparr>sampleMetric = [(''__name__'', metric), (''node'', node), (''gpu'', gpu)],
                sampleValue = Fin (f64 (the (read_decimal v)))\<rparr>])"

definition sample_scrape :: "string \<Rightarrow> Sample list" where
  "sample_scrape t = concat (map parse_line (Split (CHR 0x0A) t))"

lemma takeWhile_to: "\<forall>c \<in> set xs. c \<noteq> y \<Longrightarrow> takeWhile (\<lambda>c. c \<noteq> y) (xs @ y # ys) = xs"
  and dropWhile_to: "\<forall>c \<in> set xs. c \<noteq> y \<Longrightarrow> dropWhile (\<lambda>c. c \<noteq> y) (xs @ y # ys) = y # ys"
  by (induction xs) auto

lemma metric_name_chars: "metric_name s \<Longrightarrow> c \<in> set s \<Longrightarrow> c \<noteq> CHR 0x7B \<and> c \<noteq> CHR 0x0A"
proof -
  assume "metric_name s" "c \<in> set s"
  then have "name_char c \<or> char_digit c \<noteq> None" by (auto simp: metric_name_def list_all_iff)
  moreover have "\<not> (name_char d \<or> char_digit d \<noteq> None)" if "d = CHR 0x7B \<or> d = CHR 0x0A" for d
    using that by (elim disjE; hypsubst; code_simp)
  ultimately show ?thesis by blast
qed

lemma parse_line_text:
  assumes "line_ok l"
  shows "map keyed (parse_line (line_text l)) = line_series l"
proof (cases l)
  case Blank
  then show ?thesis by (simp add: parse_line_def)
next
  case (Series metric node gpu v)
  have quote: "\<forall>c \<in> set l. c \<noteq> CHR 0x22" if "label_value l" for l using that unfolding label_value_def by blast
  have "metric_name metric" "label_value node" "label_value gpu" using assms unfolding Series by simp_all
  then have chars: "\<forall>c \<in> set metric. c \<noteq> CHR 0x7B" "\<forall>c \<in> set node. c \<noteq> CHR 0x22" "\<forall>c \<in> set gpu. c \<noteq> CHR 0x22"
    using quote metric_name_chars by blast+
  then show ?thesis
    by (simp add: Series parse_line_def metric_line_def takeWhile_to dropWhile_to Let_def keyed_def sample_key_def or_empty_def)
qed

lemma Split_lines:
  "\<forall>l \<in> set ls. CHR 0x0A \<notin> set l \<Longrightarrow> Split (CHR 0x0A) (concat (map (\<lambda>l. l @ newline) ls)) = ls @ [[]]"
proof (induction ls)
  case (Cons l ls)
  have "Split (CHR 0x0A) (x @ newline @ rest) = x # Split (CHR 0x0A) rest" if "CHR 0x0A \<notin> set x" for x rest
    using that by (induction x) (simp_all add: newline_def, blast)
  then show ?case using Cons by simp
qed simp

lemma set_around: "set v \<subseteq> insert y (set (takeWhile (\<lambda>c. c \<noteq> y) v @ drop 1 (dropWhile (\<lambda>c. c \<noteq> y) v)))"
  by (induction v) auto

lemma read_decimal_chars:
  assumes "read_decimal v \<noteq> None"
  shows "CHR 0x0A \<notin> set v"
proof
  let ?p = "\<lambda>c. c \<noteq> CHR ''.''"
  let ?ds = "takeWhile ?p v @ drop 1 (dropWhile ?p v)"
  obtain n where n: "read_digits 0 ?ds = Some n"
    using assms by (auto simp: read_decimal_def Let_def split: if_splits)
  assume "CHR 0x0A \<in> set v"
  with set_around [of v "CHR ''.''"] have "CHR 0x0A \<in> insert CHR ''.'' (set ?ds)" by (rule subsetD)
  then have "CHR 0x0A \<in> set ?ds" by (rule insertE) simp_all
  then have "CHR 0x0A \<in> set (takeWhile (\<lambda>c. char_digit c \<noteq> None) ?ds)" by (simp only: read_digits_all [OF n])
  then have "char_digit CHR 0x0A \<noteq> None" by (blast dest: set_takeWhileD)
  moreover have "char_digit CHR 0x0A = None" by code_simp
  ultimately show False by blast
qed

lemma line_text_newline:
  assumes "line_ok l"
  shows "CHR 0x0A \<notin> set (line_text l)"
proof (cases l)
  case (Series metric node gpu v)
  then have ok: "metric_name metric" "label_value node" "label_value gpu" "CHR 0x0A \<notin> set v"
    using assms read_decimal_chars by auto
  have "CHR 0x0A \<notin> set s" if "label_value s" for s
    using that unfolding label_value_def by fastforce
  then have "CHR 0x0A \<notin> set metric" "CHR 0x0A \<notin> set node" "CHR 0x0A \<notin> set gpu" "CHR 0x0A \<notin> set v"
    using ok metric_name_chars by blast+
  then show ?thesis unfolding Series by (simp add: metric_line_def)
qed simp

lemma sample_scrape_reads: "reads_exposition sample_scrape"
  unfolding reads_exposition_def renders_def sample_scrape_def
proof (intro allI impI conjI)
  fix t and lines :: "exposition_line list"
  assume t: "t = concat (map (\<lambda>l. line_text l @ newline) lines)" and ok: "\<forall>l \<in> set lines. line_ok l"
  have "Split (CHR 0x0A) t = map line_text lines @ [[]]"
    using Split_lines [of "map line_text lines"] ok line_text_newline by (simp add: t comp_def)
  moreover have "map keyed (concat (map parse_line (map line_text lines))) = concat (map line_series lines)"
    using ok by (induction lines) (simp_all add: parse_line_text)
  ultimately have "map keyed (concat (map parse_line (Split (CHR 0x0A) t))) = concat (map line_series lines)"
    by (simp add: parse_line_def)
  then show "set (map keyed (concat (map parse_line (Split (CHR 0x0A) t)))) \<subseteq> set (concat (map line_series lines))"
    "fst ` set (map keyed (concat (map parse_line (Split (CHR 0x0A) t)))) = fst ` set (concat (map line_series lines))"
    by simp_all
qed

definition steady_host :: "(host_world, unit, unit, string) host_env" where
  "steady_host = sample_host\<lparr>hostDraw := \<lambda>w. (2 ^ 24 - 1, w)\<rparr>"

definition steady_body :: string where
  "steady_body = concat (map (\<lambda>(_, t). t @ newline)
     (result (gather_data steady_host [(''gpu1'', [''0''])] []) (sample_host_world 0)))"

lemma steady_calm: "calm (emitted (gather_data steady_host entries acc) st)"
proof -
  have "chaos < 1 / 2" by code_simp
  then have weight: "\<not> chaotic (2 ^ 24 - 1)" by (simp add: chaotic_def)
  have bits: "emits (\<lambda>e. \<not> chaos_draw e) (callBits steady_host bits)" for bits
    using weight by (auto simp: callBits_def emits_def satisfies_def steady_host_def chaos_draw_def)
  have m: "emits (\<lambda>e. \<not> chaos_draw e) (generateMetrics steady_host node gpu)" for node gpu
    unfolding generateMetrics_def weightedRand_def callFloat32_def callFloat64_def
    by (intro emit bits)
  have "emits (\<lambda>e. \<not> chaos_draw e) (node_metrics steady_host node gpus acc)" for node gpus acc
    by (induction gpus arbitrary: acc) (auto intro!: emit m)
  then have "emits (\<lambda>e. \<not> chaos_draw e) (gather_data steady_host entries acc)"
    by (induction entries arbitrary: acc) (auto intro!: emit)
  then show ?thesis unfolding calm_def by (blast dest: emitsD)
qed

text \<open>
A calm cluster stays whole, through the whole chain: if no weight of a turn is chaotic, then whatever
else is drawn and in whatever order the maps are visited, the texts of the turn, served by the exporter and
read by Prometheus, make the discovery judge every registered node with GPUs healthy and none unhealthy.
Prometheus is assumed to read the lines of the text format one by one and to answer with what it read.
\<close>

theorem calm_cluster_healthy:
  assumes "cluster_map_ok m" and "m \<noteq> []" and "\<forall>(node, gpus) \<in> set m. label_value node \<and> \<not> HasPrefix node ''.''"
    and "mset entries = mset m" and "calm (emitted (gather_data H entries []) st)"
    and "served_body (result (gather_data H entries []) st) body"
    and "reads_exposition scrape" and "set (map keyed vec) = set (map keyed (scrape body))"
  shows "split_nodes (build_scan [] vec) [] [] nodes =
    (filter (\<lambda>n. \<exists>gpus. go_get m (nodeName n) = Some gpus \<and> gpus \<noteq> []) nodes, [])"
proof -
  have "go_keys_distinct m" using assms(1) by (simp add: cluster_map_ok_def)
  then have "turn_data True m (result (gather_data H entries []) st)"
    using gather_turn_data [of m entries H st] assms(4,5) by simp
  then show ?thesis using calm_chain [OF assms(1,2,3) _ assms(6,7,8)] by simp
qed

theorem calm_cluster_healthy_witness:
  "split_nodes (build_scan [] (sample_scrape steady_body)) [] [] [host_node ''gpu1'' [] 1, host_node ''cp'' [] 0] =
     ([host_node ''gpu1'' [] 1], [])"
proof -
  let ?m = "[(''gpu1'', [''0''])]"
  let ?data = "result (gather_data steady_host ?m []) (sample_host_world 0)"
  have "show_nat 0 = ''0''" by code_simp
  then have m: "cluster_map_ok ?m" by (simp add: cluster_map_ok_def go_keys_distinct_def)
  have names: "\<forall>(node, gpus) \<in> set ?m. label_value node \<and> \<not> HasPrefix node ''.''" by (simp add: label_value_def HasPrefix_def)
  have "go_keys_distinct ?m" using m unfolding cluster_map_ok_def by (rule conjunct1)
  from gather_turn_data [OF this refl, of steady_host "sample_host_world 0"] have "turn_data True ?m ?data"
    by (simp only: steady_calm)
  then have keys: "fst ` set ?data = {''gpu1''}" by (simp add: turn_data_def)
  have "\<not> HasPrefix (fst entry) ''.''" if "entry \<in> set ?data" for entry
    using imageI [OF that, of fst] unfolding keys by (simp add: HasPrefix_def)
  then have "served_entries ?data = ?data"
    unfolding served_entries_def filter_id_conv by (simp add: case_prod_unfold)
  moreover have "?data \<noteq> []" using keys by auto
  ultimately have served: "served_body ?data steady_body"
    unfolding served_body_def steady_body_def by (intro exI [of _ ?data]) simp
  have "split_nodes (build_scan [] (sample_scrape steady_body)) [] [] nodes =
      (filter (\<lambda>n. \<exists>gpus. go_get ?m (nodeName n) = Some gpus \<and> gpus \<noteq> []) nodes, [])" for nodes
    by (rule calm_cluster_healthy [OF m _ names refl steady_calm served sample_scrape_reads refl]) simp
  then show ?thesis by (simp only:) (simp add: host_node_def)
qed

section \<open>The loop\<close>

text \<open>
C36: The scenario never stalls and never skips a turn: with both variables set, every turn of the loop waits
for the next tick of its ten-second ticker, not at all if that is due, then draws the readings and publishes
them, whatever failed in earlier turns. It reads the config map named by the variables and writes to it, or
creates it if there is none, data with exactly one entry per registered node, with the lines of each of its
GPUs; only another error of that read keeps a turn from writing.
\<close>

theorem every_turn_publishes:
  assumes "\<And>w. env_text H w ENV_MAP_NAME \<noteq> ''''" and "\<And>w. env_text H w ENV_MAP_NAMESPACE \<noteq> ''''"
    and "go_keys_distinct m"
  shows "\<exists>start rest. emitted (RunScenarioLoop H s m turns) st = Clock start # rest \<and>
    turns_log H m turns (NewTicker start (10 * Second)) rest"
  by (rule satisfiesD [OF RunScenarioLoop_runs [OF assms]])

theorem every_turn_publishes_witness:
  "\<exists>start rest. emitted (RunScenarioLoop (sample_host\<lparr>hostLookupEnv := \<lambda>w key. Some key\<rparr>) \<lparr>smClient = ()\<rparr> [(''gpu1'', [''0'', ''1''])] 7)
       (sample_host_world 0) = Clock start # rest \<and>
     turns_log (sample_host\<lparr>hostLookupEnv := \<lambda>w key. Some key\<rparr>) [(''gpu1'', [''0'', ''1''])] 7
       (NewTicker start (10 * Second)) rest"
  by (rule every_turn_publishes)
    (simp_all add: env_text_def or_empty_def ENV_MAP_NAME_def ENV_MAP_NAMESPACE_def go_keys_distinct_def)

section \<open>The fake job\<close>

definition slept :: "('k, 'e) host_event \<Rightarrow> int" where
  "slept e = (case e of Slept d \<Rightarrow> d | _ \<Rightarrow> 0)"

definition prints :: "('k, 'e) host_event \<Rightarrow> bool" where
  "prints e \<longleftrightarrow> (case e of Printed _ \<Rightarrow> True | _ \<Rightarrow> False)"

definition iteration_log :: "nat \<Rightarrow> ('k, 'e) host_event list \<Rightarrow> bool" where
  "iteration_log n es \<longleftrightarrow> sum_list (map slept es) = int n * (5 * Minute) \<and> length (filter prints es) = 2 * n"

lemma iteration_log_Suc:
  "iteration_log k es \<Longrightarrow>
   iteration_log (Suc k) (DrewIntN a x # Printed t # DrewIntN b y # Printed t' # Slept (5 * Minute) # es)"
  by (simp add: iteration_log_def slept_def prints_def algebra_simps)

lemma fake_iterations_runs:
  "Suc n - i = k \<Longrightarrow> satisfies (fake_iterations H n i) (\<lambda>_ es. iteration_log k es)"
proof (induction k arbitrary: i)
  case 0
  then show ?case by (subst fake_iterations.simps) (auto intro!: sat simp: iteration_log_def)
next
  case (Suc k)
  then have "i \<le> n" "Suc n - (i + 1) = k" by simp_all
  then show ?case
    by (subst fake_iterations.simps, simp only: if_True Let_def callPrint_def callSleep_def)
      (rule sat_seq [OF callIntN_runs], simp, rule sat_bind, rule sat_invoke,
        rule sat_seq [OF callIntN_runs], simp, rule sat_bind, rule sat_invoke, rule sat_bind, rule sat_invoke,
        rule satisfies_mono [OF Suc.IH], assumption, auto intro: iteration_log_Suc)
qed

text \<open>
The fake job ends: whatever is drawn, it prints its fourteen lines, sleeps 1507 seconds in all, and
exits with status 0.
\<close>

theorem fake_job_ends:
  "result (FakeHpcProcess H) s = 0 \<and> sum_list (map slept (emitted (FakeHpcProcess H) s)) = 1507 * Second \<and>
   length (filter prints (emitted (FakeHpcProcess H) s)) = 14"
proof -
  have "satisfies (FakeHpcProcess H) (\<lambda>r es. r = 0 \<and> sum_list (map slept es) = 1507 * Second \<and> length (filter prints es) = 14)"
    unfolding FakeHpcProcess_def callGetenv_def callLookupEnv_def callPrint_def callSleep_def
    by (auto intro!: sat_bind sat_invoke sat_return satisfies_mono [OF fake_iterations_runs]
      simp: Let_def slept_def prints_def iteration_log_def Minute_def Second_def)
  then show ?thesis by (rule satisfiesD)
qed

end
