(* ===== verification/Lab.thy ===== *)
theory Lab
  imports Scenario_Properties Provisioner_Laws Sample_Cluster
begin

text \<open>
  The test cluster as a whole: the provisioner labels the nodes, the scenario manager registers them and
  publishes a turn of metrics, the exporter serves the turn, Prometheus reads it, and the controller's
  discovery judges the nodes. Each part runs in its own environment.
\<close>

section \<open>The parts put together\<close>

text \<open>The node has every label that one draw of the provisioner holds.\<close>

definition carries_labels :: "('w, 'c, 'k, 'e) host_env \<Rightarrow> Node \<Rightarrow> bool" where
  "carries_labels P n \<longleftrightarrow>
     (\<exists>st. \<forall>key v. go_get (result (nvidiaLabels P) st) key = Some v \<longrightarrow> node_label n key = Some v)"

lemma carries_labels_count:
  assumes "carries_labels P n"
  shows "\<exists>v cnt. node_label n GPU_COUNT_LABEL = Some v \<and> Atoi v = Some cnt \<and> 0 < sint cnt"
proof -
  obtain st where st: "\<And>key v. go_get (result (nvidiaLabels P) st) key = Some v \<Longrightarrow> node_label n key = Some v"
    using assms by (auto simp: carries_labels_def)
  obtain pool info gpus where g: "gpus \<in> {1, 2, 4, 8 :: int64}" "result (nvidiaLabels P) st = worker_labels pool info gpus"
    using satisfiesD [OF nvidiaLabels_runs [of P], of st] by blast
  have "node_label n GPU_COUNT_LABEL = Some (Itoa gpus)"
    by (rule st) (simp add: g(2) worker_labels_def GPU_COUNT_LABEL_def)
  moreover have "0 < sint gpus" using g(1) by auto
  ultimately show ?thesis by auto
qed

lemma carries_labels_gpu_node: "carries_labels P n \<Longrightarrow> is_gpu_node n"
  using carries_labels_count [of P n]
  by (auto simp: is_gpu_node_def or_empty_def GPU_NODE_LABEL_INDICATOR_def GPU_COUNT_LABEL_def)

text \<open>Names come into the cluster map from the listing only.\<close>

lemma register_names: "fst ` set (register_nodes m nodes) \<subseteq> fst ` set m \<union> nodeName ` set nodes"
proof (induction m nodes rule: register_nodes.induct)
  case (2 m node nodes)
  then show ?case by (auto simp: dom_update split: option.splits)
qed simp

lemma carries_labels_registered:
  assumes "distinct (map nodeName nodes)" and "n \<in> set nodes" and "carries_labels P n"
  shows "\<exists>gpus. go_get (register_nodes m nodes) (nodeName n) = Some gpus \<and> gpus \<noteq> []"
proof -
  obtain v cnt where "node_label n GPU_COUNT_LABEL = Some v" "Atoi v = Some cnt" "0 < sint cnt"
    using carries_labels_count [OF assms(3)] by blast
  from register_selected [OF assms(1,2) this(1,2), of m] this(3) show ?thesis by auto
qed

section \<open>The end of a turn\<close>

lemma emitted_bind:
  assumes "satisfies m P" and "\<And>x. satisfies (f x) (Q x)"
  shows "emitted (State_Monad.bind m f) s = emitted m s @ emitted (f (result m s)) (final m s)"
proof -
  obtain es where "sys.log (final m s) = sys.log s @ es" using assms(1) unfolding satisfies_def by blast
  moreover obtain es' where "sys.log (final (f (result m s)) (final m s)) = sys.log (final m s) @ es'"
    using assms(2) [of "result m s"] unfolding satisfies_def by blast
  ultimately show ?thesis by (simp add: emitted_def)
qed

text \<open>A write of a config map that was accepted.\<close>

definition stores :: "string \<Rightarrow> ConfigMap \<Rightarrow> ('k, 'e) host_event list \<Rightarrow> bool" where
  "stores ns cm es \<longleftrightarrow> CreatedMap ns cm None \<in> set es \<or> UpdatedMap ns cm None \<in> set es"

lemma stores_append: "stores ns cm (es @ es') \<longleftrightarrow> stores ns cm es \<or> stores ns cm es'"
  by (auto simp: stores_def)

lemma draws_store_nothing: "list_all is_draw es \<Longrightarrow> \<not> stores ns cm es"
  by (induction es) (auto simp: stores_def is_draw_def split: host_event.splits)

lemma sync_stored:
  assumes "map_server H (smClient s) view" and "stores ns cm (emitted (syncMetrics H s data) st)"
  shows "cmData cm = data \<and> view (world (final (syncMetrics H s data) st)) ns (cmName cm) = Some data"
  using assms(2) unfolding syncMetrics_def stores_def emitted_def
  by (auto simp: callGetMap_def callCreateMap_def callUpdateMap_def callGetenv_def callLookupEnv_def Let_def
      map_serverD [OF assms(1)] split: if_splits sum.splits)

lemma syncMetrics_sat: "satisfies (syncMetrics H s data) (\<lambda>_ _. True)"
  unfolding syncMetrics_def host_calls by (auto intro!: sat sat_bind)

lemma gather_data_sat: "satisfies (gather_data H entries acc) (\<lambda>_ _. True)"
proof (induction entries arbitrary: acc)
  case (Cons entry entries)
  then show ?case by (cases entry) (simp, rule sat_seq [OF node_metrics_runs], simp)
qed (auto intro!: sat)

lemma turn_parts:
  fixes H :: "('w, 'c, 'k, 'e) host_env" and t :: ticker
  defines "st1 \<equiv> \<lambda>st. final (callTick H t) st"
  defines "st2 \<equiv> \<lambda>m st. final (callRange H m) (st1 st)"
  shows "\<exists>entries. mset entries = mset m \<and>
    emitted (scenario_turn H s m t) st =
      emitted (callTick H t) st @ emitted (callRange H m) (st1 st) @
      emitted (gather_data H entries []) (st2 m st) @
      emitted (syncMetrics H s (result (gather_data H entries []) (st2 m st)))
        (final (gather_data H entries []) (st2 m st)) \<and>
    final (scenario_turn H s m t) st =
      final (syncMetrics H s (result (gather_data H entries []) (st2 m st))) (final (gather_data H entries []) (st2 m st))"
proof (intro exI conjI)
  let ?entries = "result (callRange H m) (st1 st)"
  show "mset ?entries = mset m" using satisfiesD [OF callRange_runs [of H m], of "st1 st"] by blast
  have sync: "satisfies (do { _ \<leftarrow> syncMetrics H s d; ret t' }) (\<lambda>_ _. True)" for d t'
    by (rule sat_seq [OF syncMetrics_sat]) (auto intro!: sat)
  have gather: "satisfies (do { d \<leftarrow> gather_data H es []; _ \<leftarrow> syncMetrics H s d; ret t' }) (\<lambda>_ _. True)" for es t'
    by (rule sat_seq [OF gather_data_sat]) (rule sync)
  have range: "satisfies (do { es \<leftarrow> callRange H m; d \<leftarrow> gather_data H es []; _ \<leftarrow> syncMetrics H s d; ret t' }) (\<lambda>_ _. True)" for t'
    by (rule sat_seq [OF callRange_runs]) (rule gather)
  have ret: "satisfies (ret t' :: ('w, 'k, 'e, ticker) hprog) (\<lambda>_ _. True)" for t' by (auto intro!: sat)
  show "emitted (scenario_turn H s m t) st =
      emitted (callTick H t) st @ emitted (callRange H m) (st1 st) @
      emitted (gather_data H ?entries []) (st2 m st) @
      emitted (syncMetrics H s (result (gather_data H ?entries []) (st2 m st)))
        (final (gather_data H ?entries []) (st2 m st))"
    unfolding scenario_turn_def st2_def st1_def
    by (simp add: emitted_bind [OF callTick_runs range] emitted_bind [OF callRange_runs gather]
        emitted_bind [OF gather_data_sat sync] emitted_bind [OF syncMetrics_sat ret])
      (simp add: emitted_def)
  show "final (scenario_turn H s m t) st =
      final (syncMetrics H s (result (gather_data H ?entries []) (st2 m st))) (final (gather_data H ?entries []) (st2 m st))"
    by (simp add: scenario_turn_def st2_def st1_def)
qed

text \<open>What an accepted write of a turn leaves behind: the data of the turn, calm if the turn was.\<close>

lemma turn_stored:
  fixes H :: "('w, 'c, 'k, 'e) host_env"
  assumes "map_server H (smClient s) view" and "go_keys_distinct m"
    and "stores ns cm (emitted (scenario_turn H s m t) st)"
  shows "view (world (final (scenario_turn H s m t) st)) ns (cmName cm) = Some (cmData cm) \<and>
    turn_data (calm (emitted (scenario_turn H s m t) st)) m (cmData cm)"
proof -
  let ?st2 = "final (callRange H m) (final (callTick H t) st)"
  obtain entries where entries: "mset entries = mset m"
    and turn: "emitted (scenario_turn H s m t) st =
      emitted (callTick H t) st @ emitted (callRange H m) (final (callTick H t) st) @
      emitted (gather_data H entries []) ?st2 @
      emitted (syncMetrics H s (result (gather_data H entries []) ?st2)) (final (gather_data H entries []) ?st2)"
    and end_of_turn: "final (scenario_turn H s m t) st =
      final (syncMetrics H s (result (gather_data H entries []) ?st2)) (final (gather_data H entries []) ?st2)"
    using turn_parts [of m H s t st] by blast
  let ?data = "result (gather_data H entries []) ?st2"
  have "distinct (map fst entries)"
    using assms(2) entries unfolding go_keys_distinct_def by (metis mset_eq_imp_distinct_iff mset_map)
  then have "satisfies (gather_data H entries []) (\<lambda>_ es. list_all is_draw es)"
    by (rule satisfies_mono [OF gather_data_runs]) simp_all
  from draws_store_nothing [OF satisfiesD [OF this]]
  have "\<not> stores ns cm (emitted (gather_data H entries []) ?st2)" .
  moreover have "\<not> stores ns cm (emitted (callTick H t) st)"
    "\<not> stores ns cm (emitted (callRange H m) (final (callTick H t) st))"
    by (simp_all add: stores_def emitted_def callTick_def callNow_def callSleep_def callRange_def)
  ultimately have "stores ns cm (emitted (syncMetrics H s ?data) (final (gather_data H entries []) ?st2))"
    using assms(3) unfolding turn stores_append by blast
  from sync_stored [OF assms(1) this]
  have stored: "cmData cm = ?data" "view (world (final (scenario_turn H s m t) st)) ns (cmName cm) = Some ?data"
    unfolding end_of_turn by blast+
  have "turn_data (calm (emitted (scenario_turn H s m t) st)) m ?data"
    by (rule turn_data_mono [OF gather_turn_data [OF assms(2) entries]]) (simp add: turn)
  then show ?thesis using stored by simp
qed

section \<open>The listing of the discovery\<close>

lemma ListGPUNodes_result:
  assumes "emitted (ListGPUNodes E) s = [ListNodes sel (Inr nodes), Query q (Inr (Vector vec))]"
  shows "result (ListGPUNodes E) s = Inr (split_nodes (build_scan [] vec) [] [] (filter is_gpu_node nodes))"
  using assms unfolding emitted_def ListGPUNodes_def GetClusterGPUNodes_def GetFullGPUClusterHealthCheck_def
  by (auto simp: callListNodes_def callQuery_def valid_nodes_filter split: sum.splits prom_value.splits)

section \<open>A calm test cluster is healthy\<close>

text \<open>
C32: The test cluster works as a whole. Let nodes carry labels the provisioner has drawn, let the scenario
manager register them, take a turn without a chaotic weight and store it, let the exporter read what was
stored and Prometheus read the exporter: then the controller's discovery takes every node it lists for a
healthy GPU node, whatever else was drawn and in whatever order the maps were visited. The API server
keeps the laws of config maps; Prometheus reads the lines of the text format one by one, as long as metrics
have valid names, label values need no escape and numbers do not overflow, and answers the query with what it
read; the names of nodes are distinct and such label values.
\<close>

theorem calm_lab_healthy:
  fixes P :: "('pw, 'pc, 'pk, 'pe) host_env" and H :: "('w, 'c, 'k, 'e) host_env" and E :: "('v, 'x) kube_env"
  assumes labelled: "\<forall>n \<in> set nodes. carries_labels P n \<and> label_value (nodeName n) \<and> \<not> HasPrefix (nodeName n) ''.''"
    and names: "distinct (map nodeName nodes)" and "nodes \<noteq> []"
    and registered: "emitted (InitializeClusterMap H s []) st0 = [ListedNodes sel (nodes, None, took)]"
    and m: "snd (result (InitializeClusterMap H s []) st0) = m"
    and server: "map_server H (smClient s) view"
    and calm: "calm (emitted (scenario_turn H s m t) st)" and stored: "stores ns cm (emitted (scenario_turn H s m t) st)"
    and served: "result (metrics_handler H (smClient s) ns (cmName cm)) (final (scenario_turn H s m t) st) = body"
    and found: "\<not> isl (fst (apiGetMap H (smClient s) ns (cmName cm) (world (final (scenario_turn H s m t) st))))"
    and scraped: "reads_exposition scrape" "set (map keyed vec) = set (map keyed (scrape body))"
    and listed: "emitted (ListGPUNodes E) st' = [ListNodes sel' (Inr nodes'), Query q (Inr (Vector vec))]"
    and still: "\<forall>n \<in> set nodes'. carries_labels P n \<and> nodeName n \<in> nodeName ` set nodes"
  shows "result (ListGPUNodes E) st' = Inr (nodes', [])"
proof -
  have m_def: "m = register_nodes [] nodes"
    using satisfiesD [OF InitializeClusterMap_runs [of H s "[]"], of st0] registered m by (auto split: prod.splits)
  then have ok: "cluster_map_ok m" by (simp add: cluster_map_ok_register)
  have gpus: "\<exists>gpus. go_get m (nodeName n) = Some gpus \<and> gpus \<noteq> []" if "n \<in> set nodes" for n
    using carries_labels_registered [OF names that] labelled that unfolding m_def by blast
  have "m \<noteq> []" using gpus [of "hd nodes"] \<open>nodes \<noteq> []\<close> by auto
  have labels: "\<forall>(node, gpus) \<in> set m. label_value node \<and> \<not> HasPrefix node ''.''"
    using register_names [of "[]" nodes] labelled unfolding m_def by fastforce
  have "view (world (final (scenario_turn H s m t) st)) ns (cmName cm) = Some (cmData cm)"
    and data: "turn_data True m (cmData cm)"
    using turn_stored [OF server _ stored] ok calm by (auto simp: cluster_map_ok_def)
  from metrics_handler_serves [OF server this(1)] have "served_body (cmData cm) body" using served found by auto
  from calm_chain [OF ok \<open>m \<noteq> []\<close> labels data this scraped]
  have "split_nodes (build_scan [] vec) [] [] (filter is_gpu_node nodes') =
      (filter (\<lambda>n. \<exists>gpus. go_get m (nodeName n) = Some gpus \<and> gpus \<noteq> []) (filter is_gpu_node nodes'), [])" .
  moreover have "\<forall>n \<in> set nodes'. is_gpu_node n \<and> (\<exists>gpus. go_get m (nodeName n) = Some gpus \<and> gpus \<noteq> [])"
    using still carries_labels_gpu_node gpus by (metis imageE)
  ultimately show ?thesis using ListGPUNodes_result [OF listed] by (simp add: filter_id_conv)
qed

text \<open>A test cluster with one worker, on a host whose weights are never chaotic.\<close>

definition lab_worker :: Node where
  "lab_worker = host_node ''gpu1'' (result (nvidiaLabels sample_host) (sample_host_world 0)) 8"

definition lab_manager :: "unit ScenarioManager" where "lab_manager = \<lparr>smClient = ()\<rparr>"

definition lab_host :: "(host_world, (unit, string) host_event) sys" where
  "lab_host = \<lparr>world = (world (sample_host_world 0))\<lparr>hwNodes := [lab_worker]\<rparr>, log = []\<rparr>"

definition lab_map :: cluster_map where "lab_map = register_nodes [] [lab_worker]"

definition lab_ticker :: ticker where "lab_ticker = NewTicker 0 (10 * Second)"

definition lab_body :: string where
  "lab_body = result (metrics_handler steady_host () ''lab'' ''metrics'')
     (final (scenario_turn steady_host lab_manager lab_map lab_ticker) lab_host)"

definition lab_cluster :: "(cluster, string event) sys" where
  "lab_cluster = \<lparr>world = \<lparr>clJobs = [], clPast = [], clPods = [], clNodes = [lab_worker], clSamples = sample_scrape lab_body\<rparr>, log = []\<rparr>"

lemma lab_worker_labels:
  "nodeName lab_worker = ''gpu1''" "node_label lab_worker key = go_get (result (nvidiaLabels sample_host) (sample_host_world 0)) key"
  "carries_labels sample_host lab_worker"
  by (auto simp: lab_worker_def host_node_def node_label_def carries_labels_def)

lemma lab_worker_type: "node_label lab_worker ''hpc-sentinel/node-type'' = Some ''gpu-worker''"
  and lab_worker_count: "node_label lab_worker GPU_NODE_LABEL_INDICATOR \<noteq> None"
  unfolding lab_worker_labels(2) by code_simp+

lemma steady_maps: "map_server steady_host client sample_maps"
  using sample_host_maps [of client] by (simp add: map_server_def steady_host_def)

lemma steady_draws [simp]: "world (final (callBits steady_host bits) st) = world st"
  by (simp add: callBits_def steady_host_def)

lemma steady_generate: "world (final (generateMetrics steady_host node gpu) st) = world st"
  by (simp add: generateMetrics_def weightedRand_def callFloat32_def callFloat64_def)

lemma steady_node: "world (final (node_metrics steady_host node gpus acc) st) = world st"
  by (induction gpus arbitrary: acc st) (simp_all add: steady_generate)

lemma steady_gather: "world (final (gather_data steady_host entries acc) st) = world st"
proof (induction entries arbitrary: acc st)
  case (Cons entry entries)
  then show ?case by (cases entry) (simp add: steady_node)
qed simp

lemma steady_turn_calm: "calm (emitted (scenario_turn steady_host s m t) st)"
proof -
  obtain entries where turn: "emitted (scenario_turn steady_host s m t) st =
      emitted (callTick steady_host t) st @ emitted (callRange steady_host m) (final (callTick steady_host t) st) @
      emitted (gather_data steady_host entries []) (final (callRange steady_host m) (final (callTick steady_host t) st)) @
      emitted (syncMetrics steady_host s (result (gather_data steady_host entries []) (final (callRange steady_host m) (final (callTick steady_host t) st))))
        (final (gather_data steady_host entries []) (final (callRange steady_host m) (final (callTick steady_host t) st)))"
    using turn_parts [of m steady_host s t st] by blast
  have "emits (\<lambda>e. \<not> chaos_draw e) (syncMetrics steady_host s data)" for data
    unfolding syncMetrics_def callGetenv_def callLookupEnv_def callGetMap_def callCreateMap_def callUpdateMap_def
    by (intro emit) (simp_all add: chaos_draw_def)
  then have "calm (emitted (syncMetrics steady_host s data) st')" for data st'
    unfolding calm_def by (blast dest: emitsD)
  moreover have "calm (emitted (callTick steady_host t) st')" "calm (emitted (callRange steady_host m) st')" for st'
    by (simp_all add: emitted_def callTick_def callNow_def callSleep_def callRange_def calm_def chaos_draw_def)
  ultimately show ?thesis unfolding turn calm_simps using steady_calm by blast
qed

lemma steady_sync_stores:
  assumes "hwMaps (world st) = []" and "go_get (hwVars (world st)) ENV_MAP_NAME = Some name" and "name \<noteq> []"
    and "go_get (hwVars (world st)) ENV_MAP_NAMESPACE = Some ns" and "ns \<noteq> []"
  shows "stores ns \<lparr>cmName = name, cmNamespace = ns, cmResourceVersion = '''', cmData = data\<rparr>
    (emitted (syncMetrics steady_host \<lparr>smClient = ()\<rparr> data) st)"
  using assms
  by (simp add: stores_def emitted_def syncMetrics_def callGetenv_def callLookupEnv_def callGetMap_def callCreateMap_def
      steady_host_def sample_host_def map_got_def map_created_def or_empty_def Let_def)

lemma lab_turn_stores:
  "\<exists>data. stores ''lab'' \<lparr>cmName = ''metrics'', cmNamespace = ''lab'', cmResourceVersion = '''', cmData = data\<rparr>
     (emitted (scenario_turn steady_host lab_manager lab_map lab_ticker) lab_host)"
proof -
  let ?st2 = "final (callRange steady_host lab_map) (final (callTick steady_host lab_ticker) lab_host)"
  obtain entries where turn: "emitted (scenario_turn steady_host lab_manager lab_map lab_ticker) lab_host =
      emitted (callTick steady_host lab_ticker) lab_host @
      emitted (callRange steady_host lab_map) (final (callTick steady_host lab_ticker) lab_host) @
      emitted (gather_data steady_host entries []) ?st2 @
      emitted (syncMetrics steady_host lab_manager (result (gather_data steady_host entries []) ?st2))
        (final (gather_data steady_host entries []) ?st2)"
    using turn_parts [of lab_map steady_host lab_manager lab_ticker lab_host] by blast
  have "hwMaps (world (final (gather_data steady_host entries []) ?st2)) = hwMaps (world lab_host)"
    "hwVars (world (final (gather_data steady_host entries []) ?st2)) = hwVars (world lab_host)"
    by (simp_all add: steady_gather callRange_def callTick_def callNow_def callSleep_def)
      (simp_all add: steady_host_def sample_host_def)
  then have "stores ''lab'' \<lparr>cmName = ''metrics'', cmNamespace = ''lab'', cmResourceVersion = '''',
      cmData = result (gather_data steady_host entries []) ?st2\<rparr>
    (emitted (syncMetrics steady_host lab_manager (result (gather_data steady_host entries []) ?st2))
        (final (gather_data steady_host entries []) ?st2))"
    unfolding lab_manager_def
    by (intro steady_sync_stores) (simp_all add: lab_host_def sample_host_world_def ENV_MAP_NAME_def ENV_MAP_NAMESPACE_def)
  then show ?thesis unfolding turn stores_append by blast
qed

theorem calm_lab_healthy_witness:
  "result (ListGPUNodes sample_env) lab_cluster = Inr ([lab_worker], [])"
proof -
  let ?turn = "scenario_turn steady_host lab_manager lab_map lab_ticker"
  obtain cm where cm: "stores ''lab'' cm (emitted ?turn lab_host)" "cmName cm = ''metrics''"
    using lab_turn_stores by fastforce
  have listed: "emitted (InitializeClusterMap steady_host lab_manager []) lab_host =
      [ListedNodes ''hpc-sentinel/node-type=gpu-worker'' ([lab_worker], None, 0)]"
    "snd (result (InitializeClusterMap steady_host lab_manager []) lab_host) = lab_map"
    by (simp_all add: emitted_def InitializeClusterMap_def callNodes_def lab_host_def steady_host_def sample_host_def
        nodes_listed_def lab_worker_type or_empty_def lab_map_def lab_manager_def Let_def del: register_nodes.simps)
  have map: "map_server steady_host (smClient lab_manager) sample_maps" by (rule steady_maps)
  have "go_keys_distinct lab_map" using cluster_map_ok_register [of "[]" "[lab_worker]"] by (simp add: lab_map_def cluster_map_ok_def)
  with turn_stored [OF map _ cm(1)] have "sample_maps (world (final ?turn lab_host)) ''lab'' ''metrics'' = Some (cmData cm)"
    by (simp add: cm(2))
  then have found: "\<not> isl (fst (apiGetMap steady_host (smClient lab_manager) ''lab'' (cmName cm) (world (final ?turn lab_host))))"
    by (auto simp: sample_maps_def steady_host_def sample_host_def map_got_def cm(2))
  have body: "result (metrics_handler steady_host (smClient lab_manager) ''lab'' (cmName cm)) (final ?turn lab_host) = lab_body"
    by (simp add: cm(2) lab_body_def lab_manager_def)
  have discovery: "emitted (ListGPUNodes sample_env) lab_cluster =
      [ListNodes GPU_NODE_LABEL_INDICATOR (Inr [lab_worker]),
       Query GpuClusterHealthScanPrmQuery (Inr (Vector (sample_scrape lab_body)))]"
    using lab_worker_count
    by (simp add: emitted_def ListGPUNodes_def GetClusterGPUNodes_def GetFullGPUClusterHealthCheck_def callListNodes_def
        callQuery_def lab_cluster_def sample_env_def)
  show ?thesis
    by (rule calm_lab_healthy [OF _ _ _ listed map steady_turn_calm cm(1) body found sample_scrape_reads refl discovery,
          where P = sample_host])
      (simp_all add: lab_worker_labels label_value_def HasPrefix_def)
qed

end
