(* ===== verification/Manager.thy ===== *)
theory Manager
  imports Effects Kube_Client
begin

text \<open>
  The entry point of the controller manager, \<open>cmd/manager/main.go\<close>, with \<open>SetupWithManager\<close>, the
  constructor of the Prometheus client and the logger of \<open>pkg/logger\<close>. The command line is read as the
  package \<open>flag\<close> does; controller-runtime, which builds and runs the manager, is a parameter whose calls
  are logged. Log output is left out.
\<close>

section \<open>The command line\<close>

record flags =
  metricsAddr :: string
  probeAddr :: string
  enableLeaderElection :: bool
  secureMetrics :: bool
  webhookCertPath :: string
  webhookCertName :: string
  webhookCertKey :: string
  metricsCertPath :: string
  metricsCertName :: string
  metricsCertKey :: string
  enableHTTP2 :: bool

definition default_flags :: flags where
  "default_flags =
     \<lparr>metricsAddr = ''0'', probeAddr = '':8081'', enableLeaderElection = False, secureMetrics = True,
      webhookCertPath = '''', webhookCertName = ''tls.crt'', webhookCertKey = ''tls.key'',
      metricsCertPath = '''', metricsCertName = ''tls.crt'', metricsCertKey = ''tls.key'',
      enableHTTP2 = False\<rparr>"

text \<open>The flags by their names, and how each is set.\<close>

definition string_flags :: "(string \<times> (string \<Rightarrow> flags \<Rightarrow> flags)) list" where
  "string_flags =
     [(''metrics-bind-address'', \<lambda>v. metricsAddr_update (\<lambda>_. v)),
      (''health-probe-bind-address'', \<lambda>v. probeAddr_update (\<lambda>_. v)),
      (''webhook-cert-path'', \<lambda>v. webhookCertPath_update (\<lambda>_. v)),
      (''webhook-cert-name'', \<lambda>v. webhookCertName_update (\<lambda>_. v)),
      (''webhook-cert-key'', \<lambda>v. webhookCertKey_update (\<lambda>_. v)),
      (''metrics-cert-path'', \<lambda>v. metricsCertPath_update (\<lambda>_. v)),
      (''metrics-cert-name'', \<lambda>v. metricsCertName_update (\<lambda>_. v)),
      (''metrics-cert-key'', \<lambda>v. metricsCertKey_update (\<lambda>_. v))]"

definition bool_flags :: "(string \<times> (bool \<Rightarrow> flags \<Rightarrow> flags)) list" where
  "bool_flags =
     [(''leader-elect'', \<lambda>v. enableLeaderElection_update (\<lambda>_. v)),
      (''metrics-secure'', \<lambda>v. secureMetrics_update (\<lambda>_. v)),
      (''enable-http2'', \<lambda>v. enableHTTP2_update (\<lambda>_. v))]"

text \<open>\<open>strconv.ParseBool\<close>\<close>

definition ParseBool :: "string \<Rightarrow> bool option" where
  "ParseBool s =
     (if s \<in> {''1'', ''t'', ''T'', ''TRUE'', ''true'', ''True''} then Some True
      else if s \<in> {''0'', ''f'', ''F'', ''FALSE'', ''false'', ''False''} then Some False
      else None)"

text \<open>
  The flags the libraries define (those of zap and \<open>kubeconfig\<close>) are a parameter: whether a name is one
  of them, whether that is a boolean flag, and which values it accepts. Their values are not modelled.
\<close>

type_synonym lib_flags = "string \<Rightarrow> (bool \<times> (string \<Rightarrow> bool)) option"

definition is_bool_flag :: "lib_flags \<Rightarrow> string \<Rightarrow> bool option" where
  "is_bool_flag lib name =
     (if map_of bool_flags name \<noteq> None then Some True
      else if map_of string_flags name \<noteq> None then Some False
      else map_option fst (lib name))"

definition set_flag :: "lib_flags \<Rightarrow> string \<Rightarrow> string \<Rightarrow> flags \<Rightarrow> flags option" where
  "set_flag lib name v f =
     (case map_of bool_flags name of
        Some upd \<Rightarrow> map_option (\<lambda>b. upd b f) (ParseBool v)
      | None \<Rightarrow>
          (case map_of string_flags name of
             Some upd \<Rightarrow> Some (upd v f)
           | None \<Rightarrow> (case lib name of Some (_, accepts) \<Rightarrow> if accepts v then Some f else None | None \<Rightarrow> None)))"

text \<open>
  \<open>flag.Parse\<close>: flags up to the first argument that is none, or a double dash. \<open>split_value\<close> cuts a flag
  at the first equals sign that is not its first character; \<open>parse_one\<close> finds the next flag and its value.
\<close>

definition split_value :: "string \<Rightarrow> string \<times> string option" where
  "split_value name =
     (case name of [] \<Rightarrow> ([], None)
      | c # cs \<Rightarrow> (c # takeWhile (\<lambda>d. d \<noteq> CHR ''='') cs,
          case dropWhile (\<lambda>d. d \<noteq> CHR ''='') cs of [] \<Rightarrow> None | _ # v \<Rightarrow> Some v))"

datatype one_flag = NoMore "string list" | BadSyntax | AskHelp | Setting string string "string list"

definition parse_one :: "lib_flags \<Rightarrow> string list \<Rightarrow> one_flag" where
  "parse_one lib args =
     (case args of [] \<Rightarrow> NoMore []
      | s # args' \<Rightarrow>
          if length s < 2 \<or> hd s \<noteq> CHR ''-'' then NoMore args
          else if s = ''--'' then NoMore args'
          else
            let name = (if s ! 1 = CHR ''-'' then drop 2 s else drop 1 s)
            in if hd name = CHR ''-'' \<or> hd name = CHR ''='' then BadSyntax
               else case split_value name of (name, v) \<Rightarrow>
                 (case is_bool_flag lib name of
                    None \<Rightarrow> if name = ''help'' \<or> name = ''h'' then AskHelp else BadSyntax
                  | Some b \<Rightarrow>
                      (case v of
                         Some v \<Rightarrow> Setting name v args'
                       | None \<Rightarrow>
                           if b then Setting name ''true'' args'
                           else (case args' of [] \<Rightarrow> BadSyntax | v # args'' \<Rightarrow> Setting name v args''))))"

lemma parse_one_rest:
  assumes "parse_one lib args = Setting name v rest"
  shows "length rest < length args" and "set rest \<subseteq> set args"
  using assms by (auto simp: parse_one_def Let_def split: list.splits if_splits prod.splits option.splits)

datatype parsed = Parsed flags "string list" | BadFlag | HelpWanted

function parse_flags :: "lib_flags \<Rightarrow> string list \<Rightarrow> flags \<Rightarrow> parsed" where
  "parse_flags lib args f =
     (case parse_one lib args of
        NoMore rest \<Rightarrow> Parsed f rest
      | BadSyntax \<Rightarrow> BadFlag
      | AskHelp \<Rightarrow> HelpWanted
      | Setting name v rest \<Rightarrow>
          (case set_flag lib name v f of None \<Rightarrow> BadFlag | Some f \<Rightarrow> parse_flags lib rest f))"
  by pat_completeness auto

termination
  by (relation "measure (\<lambda>(lib, args, f). length args)") (simp_all add: parse_one_rest)

declare parse_flags.simps [simp del]

section \<open>The options of the servers\<close>

record tls_config =
  NextProtos :: "string list"

type_synonym tls_opts = "(tls_config \<Rightarrow> tls_config) list"

definition disableHTTP2 :: "tls_config \<Rightarrow> tls_config" where
  "disableHTTP2 c = c\<lparr>NextProtos := [''http/1.1'']\<rparr>"

record webhook_options =
  whTLSOpts :: tls_opts
  whCertDir :: string
  whCertName :: string
  whKeyName :: string

datatype filter_provider = WithAuthenticationAndAuthorization

record metrics_options =
  moBindAddress :: string
  moSecureServing :: bool
  moTLSOpts :: tls_opts
  moFilterProvider :: "filter_provider option"
  moCertDir :: string
  moCertName :: string
  moKeyName :: string

definition server_tls_opts :: "flags \<Rightarrow> tls_opts" where
  "server_tls_opts f = (if \<not> enableHTTP2 f then [disableHTTP2] else [])"

definition webhookServerOptions :: "flags \<Rightarrow> webhook_options" where
  "webhookServerOptions f =
     (let opts = \<lparr>whTLSOpts = server_tls_opts f, whCertDir = '''', whCertName = '''', whKeyName = ''''\<rparr>
      in if 0 < length (webhookCertPath f)
         then opts\<lparr>whCertDir := webhookCertPath f, whCertName := webhookCertName f, whKeyName := webhookCertKey f\<rparr>
         else opts)"

definition metricsServerOptions :: "flags \<Rightarrow> metrics_options" where
  "metricsServerOptions f =
     (let opts = \<lparr>moBindAddress = metricsAddr f, moSecureServing = secureMetrics f, moTLSOpts = server_tls_opts f,
               moFilterProvider = None, moCertDir = '''', moCertName = '''', moKeyName = ''''\<rparr>;
          opts = (if secureMetrics f then opts\<lparr>moFilterProvider := Some WithAuthenticationAndAuthorization\<rparr> else opts)
      in if 0 < length (metricsCertPath f)
         then opts\<lparr>moCertDir := metricsCertPath f, moCertName := metricsCertName f, moKeyName := metricsCertKey f\<rparr>
         else opts)"

text \<open>The scheme is the program's own; the webhook server is built from its options.\<close>

record manager_options =
  Metrics :: metrics_options
  WebhookServer :: webhook_options
  HealthProbeBindAddress :: string
  LeaderElection :: bool
  LeaderElectionID :: string
  LeaderElectionReleaseOnCancel :: bool

definition managerOptions :: "flags \<Rightarrow> manager_options" where
  "managerOptions f =
     \<lparr>Metrics = metricsServerOptions f, WebhookServer = webhookServerOptions f,
      HealthProbeBindAddress = probeAddr f, LeaderElection = enableLeaderElection f,
      LeaderElectionID = ''66166b0b.nvidia.com'', LeaderElectionReleaseOnCancel = True\<rparr>"

section \<open>The libraries\<close>

text \<open>The client and the scheme of a manager, which the reconciler is given.\<close>

datatype 'm managed = ClientOf 'm | SchemeOf 'm

record ('m, 'k, 'c, 'p) HPCJobReconciler =
  Client :: "'m managed"
  Scheme :: "'m managed"
  Cfg :: Config
  ReconcilerKubeClient :: "('k, 'c) KubeClient"
  PromAPIClient :: "'p option"

record controller_spec =
  ctlFor :: string
  ctlNamed :: string

record ('w, 'c, 'k, 'r, 'm, 'p, 'e) manager_env =
  libFlags :: lib_flags
  osArgs :: "'w \<Rightarrow> string list"
  osLookupEnv :: "'w \<Rightarrow> environ"
  osClientLib :: "'w \<Rightarrow> ('c, 'k, 'e) client_lib"
  promNewClient :: "string \<Rightarrow> 'e + 'p"
  ctrlGetConfig :: "'w \<Rightarrow> 'r option \<times> 'w"
  ctrlNewManager :: "'r \<Rightarrow> manager_options \<Rightarrow> 'w \<Rightarrow> ('e + 'm) \<times> 'w"
  ctrlComplete :: "'m \<Rightarrow> controller_spec \<Rightarrow> ('m, 'k, 'c, 'p) HPCJobReconciler \<Rightarrow> 'w \<Rightarrow> 'e option \<times> 'w"
  ctrlAddHealthz :: "'m \<Rightarrow> string \<Rightarrow> 'w \<Rightarrow> 'e option \<times> 'w"
  ctrlAddReadyz :: "'m \<Rightarrow> string \<Rightarrow> 'w \<Rightarrow> 'e option \<times> 'w"
  ctrlStart :: "'m \<Rightarrow> 'w \<Rightarrow> 'e option \<times> 'w"

datatype ('c, 'k, 'm, 'p, 'e) setup_event =
    GotArgs "string list"
  | GotRestConfig bool
  | BuiltManager manager_options "'e + 'm"
  | LoadedCfg Config
  | BuiltClient "'e client_err + ('k, 'c) KubeClient"
  | BuiltProvider string "'e option"
  | BuiltController controller_spec "('m, 'k, 'c, 'p) HPCJobReconciler" "'e option"
  | AddedHealthz string "'e option"
  | AddedReadyz string "'e option"
  | RanManager "'e option"

type_synonym ('w, 'c, 'k, 'm, 'p, 'e, 'a) mprog = "('w, ('c, 'k, 'm, 'p, 'e) setup_event, 'a) prog"

section \<open>Start-up\<close>

text \<open>\<open>NewMetricsProvider\<close> of \<open>pkg/prometheus/client.go\<close>: a pointer and an error.\<close>

definition NewMetricsProvider ::
    "('w, 'c, 'k, 'r, 'm, 'p, 'e) manager_env \<Rightarrow> string \<Rightarrow> 'p option \<times> 'e option" where
  "NewMetricsProvider H address =
     (case promNewClient H address of Inl err \<Rightarrow> (None, Some err) | Inr client \<Rightarrow> (Some client, None))"

definition SetupWithManager ::
    "('w, 'c, 'k, 'r, 'm, 'p, 'e) manager_env \<Rightarrow> ('m, 'k, 'c, 'p) HPCJobReconciler \<Rightarrow> 'm \<Rightarrow>
     ('w, 'c, 'k, 'm, 'p, 'e, 'e option) mprog" where
  "SetupWithManager H r mgr =
     (let spec = \<lparr>ctlFor = ''HPCJob'', ctlNamed = ''hpcjob''\<rparr>
      in invoke (ctrlComplete H mgr spec r) (BuiltController spec r))"

text \<open>From the manager to its end, the part after \<open>NewManager\<close>; the result is the exit status.\<close>

definition run_manager ::
    "('w, 'c, 'k, 'r, 'm, 'p, 'e) manager_env \<Rightarrow> 'm \<Rightarrow> ('w, 'c, 'k, 'm, 'p, 'e, int) mprog" where
  "run_manager H mgr = do {
     cfg \<leftarrow> invoke (\<lambda>w. (Load (osLookupEnv H w) (HomeDir (osClientLib H w)), w)) LoadedCfg;
     (kubeClient, cfg) \<leftarrow> invoke (\<lambda>w. (NewKubeClient (osClientLib H w) cfg, w)) (\<lambda>r. BuiltClient (fst r));
     case kubeClient of
       Inl err \<Rightarrow> ret 1
     | Inr kubeClient \<Rightarrow> do {
         (metricsProvider, err) \<leftarrow> invoke (\<lambda>w. (NewMetricsProvider H (PrometheusAddress cfg), w))
           (\<lambda>r. BuiltProvider (PrometheusAddress cfg) (snd r));
         err \<leftarrow> SetupWithManager H
           \<lparr>Client = ClientOf mgr, Scheme = SchemeOf mgr, Cfg = cfg, ReconcilerKubeClient = kubeClient,
            PromAPIClient = metricsProvider\<rparr> mgr;
         if err \<noteq> None then ret 1
         else do {
           err \<leftarrow> invoke (ctrlAddHealthz H mgr ''healthz'') (AddedHealthz ''healthz'');
           if err \<noteq> None then ret 1
           else do {
             err \<leftarrow> invoke (ctrlAddReadyz H mgr ''readyz'') (AddedReadyz ''readyz'');
             if err \<noteq> None then ret 1
             else do {
               err \<leftarrow> invoke (ctrlStart H mgr) RanManager;
               ret (if err \<noteq> None then 1 else 0)
             }
           }
         }
       }
   }"

definition manager_main ::
    "('w, 'c, 'k, 'r, 'm, 'p, 'e) manager_env \<Rightarrow> ('w, 'c, 'k, 'm, 'p, 'e, int) mprog" where
  "manager_main H = do {
     args \<leftarrow> invoke (\<lambda>w. (osArgs H w, w)) GotArgs;
     case parse_flags (libFlags H) args default_flags of
       BadFlag \<Rightarrow> ret 2
     | HelpWanted \<Rightarrow> ret 0
     | Parsed f _ \<Rightarrow> do {
         config \<leftarrow> invoke (ctrlGetConfig H) (\<lambda>r. GotRestConfig (r \<noteq> None));
         case config of
           None \<Rightarrow> ret 1
         | Some config \<Rightarrow> do {
             mgr \<leftarrow> invoke (ctrlNewManager H config (managerOptions f)) (BuiltManager (managerOptions f));
             case mgr of Inl err \<Rightarrow> ret 1 | Inr mgr \<Rightarrow> run_manager H mgr
           }
       }
   }"

section \<open>The logger\<close>

text \<open>
  \<open>Init\<close> of \<open>pkg/logger/logger.go\<close> on the global state of the logging library, whose levels, parser of
  levels and time format are parameters.
\<close>

datatype log_output = LibraryDefault | Console

record 'l log_state =
  TimeFieldFormat :: string
  GlobalLevel :: 'l
  Output :: log_output
  Fields :: "(string \<times> string) list"
  WithCaller :: bool

definition Init ::
    "(string \<Rightarrow> 'e + 'l) \<Rightarrow> 'l \<Rightarrow> string \<Rightarrow> string \<Rightarrow> 'l log_state \<Rightarrow> 'l log_state" where
  "Init ParseLevel InfoLevel TimeFormatUnix level st =
     (let st = st\<lparr>TimeFieldFormat := TimeFormatUnix\<rparr>;
          lvl = (case ParseLevel level of Inl _ \<Rightarrow> InfoLevel | Inr lvl \<Rightarrow> lvl);
          st = st\<lparr>GlobalLevel := lvl\<rparr>;
          st = (if level = ''debug'' then st\<lparr>Output := Console\<rparr> else st)
      in st\<lparr>Fields := Fields st @ [(''service'', ''hpc-sentinel'')], WithCaller := True\<rparr>)"

end
