(* ===== verification/Manager_Properties.thy ===== *)
theory Manager_Properties
  imports Manager
begin

text \<open>The properties of the start-up of the manager.\<close>

section \<open>The order of the steps\<close>

fun step_no :: "('c, 'k, 'm, 'p, 'e) setup_event \<Rightarrow> nat" where
  "step_no (GotArgs _) = 0"
| "step_no (GotRestConfig _) = 1"
| "step_no (BuiltManager _ _) = 2"
| "step_no (LoadedCfg _) = 3"
| "step_no (BuiltClient _) = 4"
| "step_no (BuiltProvider _ _) = 5"
| "step_no (BuiltController _ _ _) = 6"
| "step_no (AddedHealthz _ _) = 7"
| "step_no (AddedReadyz _ _) = 8"
| "step_no (RanManager _) = 9"

text \<open>The steps that stop the start-up. The error of the Prometheus client is not among them: \<open>main\<close> drops it.\<close>

fun step_failed :: "lib_flags \<Rightarrow> ('c, 'k, 'm, 'p, 'e) setup_event \<Rightarrow> bool" where
  "step_failed lib (GotArgs args) \<longleftrightarrow> \<not> (\<exists>f rest. parse_flags lib args default_flags = Parsed f rest)"
| "step_failed lib (GotRestConfig found) \<longleftrightarrow> \<not> found"
| "step_failed lib (BuiltManager _ r) \<longleftrightarrow> isl r"
| "step_failed lib (LoadedCfg _) \<longleftrightarrow> False"
| "step_failed lib (BuiltClient r) \<longleftrightarrow> isl r"
| "step_failed lib (BuiltProvider _ _) \<longleftrightarrow> False"
| "step_failed lib (BuiltController _ _ err) \<longleftrightarrow> err \<noteq> None"
| "step_failed lib (AddedHealthz _ err) \<longleftrightarrow> err \<noteq> None"
| "step_failed lib (AddedReadyz _ err) \<longleftrightarrow> err \<noteq> None"
| "step_failed lib (RanManager err) \<longleftrightarrow> err \<noteq> None"

text \<open>The steps in their order, none of them but the last with a failure that stops, up to such a failure or the end.\<close>

definition orderly :: "lib_flags \<Rightarrow> ('c, 'k, 'm, 'p, 'e) setup_event list \<Rightarrow> bool" where
  "orderly lib es \<longleftrightarrow> es \<noteq> [] \<and> map step_no es = [0..<length es] \<and>
     (\<forall>e \<in> set (butlast es). \<not> step_failed lib e) \<and> (length es = 10 \<or> step_failed lib (last es))"

definition exit_status :: "lib_flags \<Rightarrow> ('c, 'k, 'm, 'p, 'e) setup_event list \<Rightarrow> int" where
  "exit_status lib es =
     (case last es of
        GotArgs args \<Rightarrow> if parse_flags lib args default_flags = HelpWanted then 0 else 2
      | e \<Rightarrow> if step_failed lib e then 1 else 0)"

lemmas startup_defs = orderly_def exit_status_def upt_rec

lemma manager_main_runs:
  "satisfies (manager_main H) (\<lambda>r es. orderly (libFlags H) es \<and> r = exit_status (libFlags H) es)"
  unfolding manager_main_def run_manager_def SetupWithManager_def
  apply (rule sat_bind, rule sat_invoke)
  subgoal for args
    apply (cases "parse_flags (libFlags H) args default_flags")
      apply (simp, rule sat_bind, rule sat_invoke)
    subgoal for f rest config
      apply (rule sat_option)
       apply (rule sat_return, simp add: startup_defs)
      apply (rule sat_bind, rule sat_invoke, rule sat_sum)
       apply (rule sat_return, simp add: startup_defs)
      apply (rule sat_bind, rule sat_invoke, rule sat_bind, rule sat_invoke, rule sat_prod, rule sat_sum)
       apply (rule sat_return, simp add: startup_defs)
      apply (rule sat_bind, rule sat_invoke, rule sat_prod, unfold Let_def)
      by (intro sat_bind sat_invoke sat_if sat_return; simp add: startup_defs)
    by (auto intro!: sat simp: startup_defs)
  done

text \<open>
C39: The manager is started only when every step before it but one has succeeded: \<open>main\<close> takes its steps in
order, the command line, the REST config, the manager, the configuration, the Kubernetes client, the
Prometheus client, the controller, the two checks, the run. It stops at the first that fails, and exits with 1
then, with 2 for a command line it does not accept, and with 0 for a request for help or a run that ends
without an error. The exception is the Prometheus client, whose error is dropped: it never stops the start-up.
\<close>

theorem setup_in_order:
  "orderly (libFlags H) (emitted (manager_main H) s) \<and>
   result (manager_main H) s = exit_status (libFlags H) (emitted (manager_main H) s)"
  by (rule satisfiesD [OF manager_main_runs])

section \<open>The options follow the flags\<close>

text \<open>The events of a start-up, as far as the options and the reconciler are concerned.\<close>

definition wired :: "('w, 'c, 'k, 'r, 'm, 'p, 'e) manager_env \<Rightarrow> ('c, 'k, 'm, 'p, 'e) setup_event list \<Rightarrow> bool" where
  "wired H es \<longleftrightarrow>
     (\<forall>opts r args. BuiltManager opts r \<in> set es \<longrightarrow> GotArgs args \<in> set es \<longrightarrow>
        (\<exists>f rest. parse_flags (libFlags H) args default_flags = Parsed f rest \<and> opts = managerOptions f)) \<and>
     (\<forall>spec r err. BuiltController spec r err \<in> set es \<longrightarrow>
        (\<exists>mgr opts cfg. BuiltManager opts (Inr mgr) \<in> set es \<and> Client r = ClientOf mgr \<and> Scheme r = SchemeOf mgr \<and>
           BuiltClient (Inr (ReconcilerKubeClient r)) \<in> set es \<and> LoadedCfg cfg \<in> set es \<and>
           PrometheusAddress (Cfg r) = PrometheusAddress cfg \<and>
           PromAPIClient r = fst (NewMetricsProvider H (PrometheusAddress cfg))))"

lemma NewKubeClient_address:
  "NewKubeClient L cfg = (r, cfg') \<Longrightarrow> fst (NewKubeClient L cfg) = r \<and> PrometheusAddress cfg' = PrometheusAddress cfg"
  by (auto simp: NewKubeClient_def GetClientConfig_def Let_def split: sum.splits if_splits prod.splits)

text \<open>The part after the manager is built.\<close>

definition run_wired ::
    "('w, 'c, 'k, 'r, 'm, 'p, 'e) manager_env \<Rightarrow> 'm \<Rightarrow> ('c, 'k, 'm, 'p, 'e) setup_event list \<Rightarrow> bool" where
  "run_wired H mgr es \<longleftrightarrow>
     (\<forall>e \<in> set es. 3 \<le> step_no e) \<and>
     (\<forall>spec r err. BuiltController spec r err \<in> set es \<longrightarrow>
        (\<exists>cfg. Client r = ClientOf mgr \<and> Scheme r = SchemeOf mgr \<and>
           BuiltClient (Inr (ReconcilerKubeClient r)) \<in> set es \<and> LoadedCfg cfg \<in> set es \<and>
           PrometheusAddress (Cfg r) = PrometheusAddress cfg \<and>
           PromAPIClient r = fst (NewMetricsProvider H (PrometheusAddress cfg))))"

lemma sat_invoke_pure: "(\<And>w. Q (g w) [ev (g w)]) \<Longrightarrow> satisfies (invoke (\<lambda>w. (g w, w)) ev) Q"
  by (simp add: satisfies_def)

lemma run_manager_wired: "satisfies (run_manager H mgr) (\<lambda>_ es. run_wired H mgr es)"
  unfolding run_manager_def SetupWithManager_def
  apply (rule sat_bind, rule sat_invoke, rule sat_bind, rule sat_invoke_pure, rule sat_prod, rule sat_sum)
   apply (rule sat_return, simp add: run_wired_def)
  apply (drule NewKubeClient_address)
  apply (unfold Let_def case_prod_unfold)
  apply (rule sat_bind, rule sat_invoke_pure)
  by (intro sat_bind sat_invoke sat_if sat_return; simp add: run_wired_def)

lemma manager_main_wired: "satisfies (manager_main H) (\<lambda>_ es. wired H es)"
  unfolding manager_main_def
  apply (rule sat_bind, rule sat_invoke)
  subgoal for args
    apply (cases "parse_flags (libFlags H) args default_flags")
      apply (simp, rule sat_bind, rule sat_invoke)
    subgoal for f rest config
      apply (rule sat_option)
       apply (rule sat_return, simp add: wired_def)
      apply (rule sat_bind, rule sat_invoke, rule sat_sum)
       apply (rule sat_return, simp add: wired_def)
      by (rule satisfies_mono [OF run_manager_wired]) (fastforce simp: wired_def run_wired_def)
    by (auto intro!: sat simp: wired_def)
  done

text \<open>Arguments that do not name the flag leave HTTP/2 as it is.\<close>

lemma split_value_prefix: "HasPrefix name (fst (split_value name))"
  unfolding HasPrefix_iff by (cases name) (auto simp: split_value_def, metis takeWhile_dropWhile_id)

lemma Contains_drop: "Contains (drop k s) t \<Longrightarrow> Contains s t"
  unfolding Contains_iff by (metis append.assoc append_take_drop_id)

lemma set_flag_http2:
  "set_flag lib name v f = Some f' \<Longrightarrow> name \<noteq> ''enable-http2'' \<Longrightarrow> enableHTTP2 f' = enableHTTP2 f"
  by (auto simp: set_flag_def bool_flags_def string_flags_def split: option.splits if_splits)

lemma parse_one_named:
  assumes "parse_one lib args = Setting name v rest"
  shows "\<exists>a \<in> set args. Contains a name"
proof (cases args)
  case Nil
  then show ?thesis using assms by (simp add: parse_one_def)
next
  case (Cons s args')
  have "Contains s (fst (split_value (drop k s)))" for k
    using split_value_prefix [of "drop k s"] Contains_drop unfolding Contains_iff HasPrefix_iff
    by (metis append.assoc append_Nil append_take_drop_id)
  from this [of 1] this [of 2] show ?thesis
    using assms Cons by (auto simp: parse_one_def Let_def split: list.splits if_splits prod.splits option.splits)
qed

lemma parse_keeps_http2:
  "parse_flags lib args f = Parsed f' rest \<Longrightarrow> (\<forall>a \<in> set args. \<not> Contains a ''enable-http2'') \<Longrightarrow>
   enableHTTP2 f' = enableHTTP2 f"
proof (induction lib args f rule: parse_flags.induct)
  case (1 lib args f)
  show ?case
  proof (cases "parse_one lib args")
    case (Setting name v args')
    with 1(2) obtain f1 where f1: "set_flag lib name v f = Some f1" "parse_flags lib args' f1 = Parsed f' rest"
      by (subst (asm) parse_flags.simps) (auto split: option.splits)
    then show ?thesis
      using 1(1) [OF Setting f1] 1(3) set_flag_http2 [OF f1(1)] parse_one_named [OF Setting] parse_one_rest(2) [OF Setting]
      by blast
  qed (use 1(2) in \<open>simp_all add: parse_flags.simps\<close>)
qed

text \<open>
  A start-up in which everything works but the Prometheus client, whose error the code drops: the run goes
  on with a reconciler that has none.
\<close>

definition sample_manager :: "(unit, unit, unit, unit, unit, unit, string) manager_env" where
  "sample_manager =
     \<lparr>libFlags = (\<lambda>_. None), osArgs = (\<lambda>_. [''--leader-elect'']), osLookupEnv = (\<lambda>_ _. Some ''value''),
      osClientLib = (\<lambda>_. \<lparr>InClusterConfig = Inr (), BuildConfigFromFlags = (\<lambda>_ _. Inr ()), NewForConfig = (\<lambda>_. Inr ()),
        RESTConfigFromKubeConfig = (\<lambda>_. Inr ()), StatIsNotExist = (\<lambda>_. False), HomeDir = ''/root''\<rparr>),
      promNewClient = (\<lambda>_. Inl ''bad address''), ctrlGetConfig = (\<lambda>w. (Some (), w)),
      ctrlNewManager = (\<lambda>_ _ w. (Inr (), w)), ctrlComplete = (\<lambda>_ _ _ w. (None, w)),
      ctrlAddHealthz = (\<lambda>_ _ w. (None, w)), ctrlAddReadyz = (\<lambda>_ _ w. (None, w)), ctrlStart = (\<lambda>_ w. (None, w))\<rparr>"

definition sample_cfg :: Config where
  "sample_cfg = \<lparr>Port = ''value'', LogLevel = ''value'', KubeConfig = ''value'', PrometheusAddress = ''value''\<rparr>"

definition sample_reconciler :: "(unit, unit, unit, unit) HPCJobReconciler" where
  "sample_reconciler = \<lparr>Client = ClientOf (), Scheme = SchemeOf (), Cfg = sample_cfg,
     ReconcilerKubeClient = \<lparr>Kube = (), RestConfig = ()\<rparr>, PromAPIClient = None\<rparr>"

definition sample_startup :: "(unit, (unit, unit, unit, unit, string) setup_event) sys" where
  "sample_startup = \<lparr>world = (), log = []\<rparr>"

lemma sample_flags:
  "parse_flags (\<lambda>_. None) [''--leader-elect''] default_flags = Parsed (default_flags\<lparr>enableLeaderElection := True\<rparr>) []"
proof -
  have "parse_one (\<lambda>_. None) [''--leader-elect''] = Setting ''leader-elect'' ''true'' []" by code_simp
  moreover have "parse_one (\<lambda>_. None) [] = NoMore []" by code_simp
  ultimately show ?thesis
    by (simp add: parse_flags.simps set_flag_def bool_flags_def ParseBool_def)
qed

lemma sample_startup_log:
  "emitted (manager_main sample_manager) sample_startup =
     [GotArgs [''--leader-elect''], GotRestConfig True,
      BuiltManager (managerOptions (default_flags\<lparr>enableLeaderElection := True\<rparr>)) (Inr ()), LoadedCfg sample_cfg,
      BuiltClient (Inr \<lparr>Kube = (), RestConfig = ()\<rparr>),
      BuiltProvider ''value'' (Some ''bad address''),
      BuiltController \<lparr>ctlFor = ''HPCJob'', ctlNamed = ''hpcjob''\<rparr> sample_reconciler None,
      AddedHealthz ''healthz'' None, AddedReadyz ''readyz'' None, RanManager None]"
  by (simp add: emitted_def manager_main_def run_manager_def SetupWithManager_def sample_manager_def sample_startup_def
      sample_flags Let_def NewMetricsProvider_def NewKubeClient_def GetClientConfig_def Load_def getEnv_def
      sample_cfg_def sample_reconciler_def)

theorem runs_without_prometheus:
  "result (manager_main sample_manager) sample_startup = 0 \<and>
   (\<exists>spec r. BuiltController spec r None \<in> set (emitted (manager_main sample_manager) sample_startup) \<and> PromAPIClient r = None)"
proof -
  have "result (manager_main sample_manager) sample_startup = 0"
    using satisfiesD [OF manager_main_runs, of sample_manager sample_startup] sample_startup_log
    by (simp add: exit_status_def)
  moreover have "BuiltController \<lparr>ctlFor = ''HPCJob'', ctlNamed = ''hpcjob''\<rparr> sample_reconciler None
      \<in> set (emitted (manager_main sample_manager) sample_startup)"
    by (simp add: sample_startup_log)
  moreover have "PromAPIClient sample_reconciler = None" by (simp add: sample_reconciler_def)
  ultimately show ?thesis by blast
qed

text \<open>
C40: HTTP/2 is off unless the command line asks for it: if no argument names the flag \<open>enable-http2\<close>, the
manager is built with TLS options that leave HTTP/1.1 as the only protocol of the metrics server and of the
webhook server, whatever their TLS configuration was before.
\<close>

theorem http2_off_by_default:
  assumes "BuiltManager opts r \<in> set (emitted (manager_main H) s)"
    and "GotArgs args \<in> set (emitted (manager_main H) s)" and "\<forall>a \<in> set args. \<not> Contains a ''enable-http2''"
  shows "NextProtos (fold (\<lambda>opt c. opt c) (moTLSOpts (Metrics opts)) c) = [''http/1.1''] \<and>
    NextProtos (fold (\<lambda>opt c. opt c) (whTLSOpts (WebhookServer opts)) c) = [''http/1.1'']"
proof -
  obtain f rest where f: "parse_flags (libFlags H) args default_flags = Parsed f rest" "opts = managerOptions f"
    using satisfiesD [OF manager_main_wired [of H], of s] assms(1,2) unfolding wired_def by blast
  then have "\<not> enableHTTP2 f" using parse_keeps_http2 assms(3) by (fastforce simp: default_flags_def)
  then show ?thesis
    by (simp add: f(2) managerOptions_def metricsServerOptions_def webhookServerOptions_def server_tls_opts_def
        disableHTTP2_def Let_def)
qed

theorem http2_off_by_default_witness:
  "NextProtos (fold (\<lambda>opt c. opt c)
     (moTLSOpts (Metrics (managerOptions (default_flags\<lparr>enableLeaderElection := True\<rparr>)))) \<lparr>NextProtos = [''h2'']\<rparr>) = [''http/1.1'']"
proof -
  have "\<not> Contains ''--leader-elect'' ''enable-http2''" by code_simp
  then show ?thesis
    using http2_off_by_default [of "managerOptions (default_flags\<lparr>enableLeaderElection := True\<rparr>)" "Inr ()" sample_manager
        sample_startup "[''--leader-elect'']" "\<lparr>NextProtos = [''h2'']\<rparr>"]
    by (simp add: sample_startup_log)
qed

text \<open>
The reconciler is wired to what was built before it: it gets the client and the scheme of the manager
that was built, the Kubernetes client that was made, and the Prometheus client for the address of the
configuration that was loaded, or none when that client could not be made.
\<close>

theorem reconciler_wired:
  assumes "BuiltController spec r err \<in> set (emitted (manager_main H) s)"
  shows "\<exists>mgr opts cfg. BuiltManager opts (Inr mgr) \<in> set (emitted (manager_main H) s) \<and>
    Client r = ClientOf mgr \<and> Scheme r = SchemeOf mgr \<and>
    BuiltClient (Inr (ReconcilerKubeClient r)) \<in> set (emitted (manager_main H) s) \<and>
    LoadedCfg cfg \<in> set (emitted (manager_main H) s) \<and> PrometheusAddress (Cfg r) = PrometheusAddress cfg \<and>
    PromAPIClient r = fst (NewMetricsProvider H (PrometheusAddress cfg))"
  using satisfiesD [OF manager_main_wired [of H], of s] assms unfolding wired_def by blast

theorem reconciler_wired_witness:
  "\<exists>cfg. LoadedCfg cfg \<in> set (emitted (manager_main sample_manager) sample_startup) \<and>
     fst (NewMetricsProvider sample_manager (PrometheusAddress cfg)) = None"
proof -
  have "BuiltController \<lparr>ctlFor = ''HPCJob'', ctlNamed = ''hpcjob''\<rparr> sample_reconciler None
      \<in> set (emitted (manager_main sample_manager) sample_startup)"
    by (simp add: sample_startup_log)
  from reconciler_wired [OF this] show ?thesis by (auto simp: sample_reconciler_def)
qed

section \<open>The command line\<close>

text \<open>The arguments that set every flag to its value.\<close>

definition show_bool :: "bool \<Rightarrow> string" where
  "show_bool b = (if b then ''true'' else ''false'')"

definition flag_arg :: "string \<Rightarrow> string \<Rightarrow> string" where
  "flag_arg name v = ''--'' @ name @ ''='' @ v"

definition show_flags :: "flags \<Rightarrow> string list" where
  "show_flags f =
     [flag_arg ''metrics-bind-address'' (metricsAddr f), flag_arg ''health-probe-bind-address'' (probeAddr f),
      flag_arg ''leader-elect'' (show_bool (enableLeaderElection f)), flag_arg ''metrics-secure'' (show_bool (secureMetrics f)),
      flag_arg ''webhook-cert-path'' (webhookCertPath f), flag_arg ''webhook-cert-name'' (webhookCertName f),
      flag_arg ''webhook-cert-key'' (webhookCertKey f), flag_arg ''metrics-cert-path'' (metricsCertPath f),
      flag_arg ''metrics-cert-name'' (metricsCertName f), flag_arg ''metrics-cert-key'' (metricsCertKey f),
      flag_arg ''enable-http2'' (show_bool (enableHTTP2 f))]"

lemma parse_flag_arg:
  assumes "is_bool_flag lib name \<noteq> None" and "set_flag lib name v f \<noteq> None"
    and "name \<noteq> []" and "hd name \<noteq> CHR ''-''" and "CHR ''='' \<notin> set name"
  shows "parse_flags lib (flag_arg name v # args) f = parse_flags lib args (the (set_flag lib name v f))"
proof -
  from assms(3) obtain c cs where name: "name = c # cs" by (meson neq_Nil_conv)
  have drop: "dropWhile (\<lambda>d. d \<noteq> CHR ''='') (cs @ CHR ''='' # v) = CHR ''='' # v"
    using assms(5) by (subst dropWhile_append2) (auto simp: name)
  have "split_value (name @ ''='' @ v) = (name, Some v)"
    using assms(5) drop by (auto simp: split_value_def name takeWhile_tail)
  then have "parse_one lib (flag_arg name v # args) = Setting name v args"
    using assms by (auto simp: parse_one_def flag_arg_def name Let_def)
  then show ?thesis using assms(2) by (subst parse_flags.simps) auto
qed

lemma parse_double_dash: "parse_flags lib (''--'' # args) f = Parsed f args"
  by (subst parse_flags.simps) (simp add: parse_one_def)

lemma ParseBool_show [simp]: "ParseBool (show_bool b) = Some b"
  by (simp add: ParseBool_def show_bool_def)

text \<open>
Flags can be written out and read back: parsing the arguments that set every flag gives the flags,
whatever values they had before and whatever follows the arguments.
\<close>

theorem flags_round_trip:
  "parse_flags lib (show_flags f @ ''--'' # args) f0 = Parsed f args"
  unfolding show_flags_def
  by (simp add: parse_flag_arg is_bool_flag_def set_flag_def bool_flags_def string_flags_def parse_double_dash)

end
