(* ===== verification/Scheme_Setup.thy ===== *)
theory Scheme_Setup
  imports Manager_Properties
begin

text \<open>
  What happens before \<open>main\<close>: the package variables and the \<open>init\<close> functions of \<open>api/v1alpha1\<close> and of
  \<open>cmd/manager\<close>, which fill the scheme the manager is built with. The builder of controller-runtime, the
  scheme of apimachinery and the registration of client-go are a parameter.
\<close>

section \<open>The package variables\<close>

text \<open>The types handed to the builder, by their Go names.\<close>

datatype api_type = HPCJob_type | HPCJobList_type

record ('b, 's, 'e) scheme_lib =
  libNewScheme :: 's
  libBuilder :: "GroupVersionKey \<Rightarrow> 'b"
  libRegister :: "api_type list \<Rightarrow> 'b \<Rightarrow> 'b"
  libAddToScheme :: "'b \<Rightarrow> 's \<Rightarrow> 'e option \<times> 's"
  clientgoAddToScheme :: "'s \<Rightarrow> 'e option \<times> 's"

record ('b, 's) globals =
  SchemeBuilder :: 'b
  scheme :: 's

definition package_variables :: "('b, 's, 'e) scheme_lib \<Rightarrow> ('b, 's) globals" where
  "package_variables lib = \<lparr>SchemeBuilder = libBuilder lib GroupVersion, scheme = libNewScheme lib\<rparr>"

text \<open>
  \<open>AddToScheme\<close> is a method value of the pointer \<open>SchemeBuilder\<close>: a call reads the builder as it is then,
  with what was registered after the variable was set.
\<close>

definition AddToScheme :: "('b, 's, 'e) scheme_lib \<Rightarrow> ('b, 's) globals \<Rightarrow> 's \<Rightarrow> 'e option \<times> 's" where
  "AddToScheme lib g = libAddToScheme lib (SchemeBuilder g)"

section \<open>The init functions\<close>

definition init_types :: "('b, 's, 'e) scheme_lib \<Rightarrow> ('b, 's) globals \<Rightarrow> ('b, 's) globals" where
  "init_types lib g = g\<lparr>SchemeBuilder := libRegister lib [HPCJob_type, HPCJobList_type] (SchemeBuilder g)\<rparr>"

text \<open>\<open>utilruntime.Must\<close> panics on an error; the panic is the left value.\<close>

definition init_main :: "('b, 's, 'e) scheme_lib \<Rightarrow> ('b, 's) globals \<Rightarrow> 'e + ('b, 's) globals" where
  "init_main lib g =
     (case clientgoAddToScheme lib (scheme g) of
        (Some err, _) \<Rightarrow> Inl err
      | (None, s) \<Rightarrow>
          (case AddToScheme lib g s of
             (Some err, _) \<Rightarrow> Inl err
           | (None, s) \<Rightarrow> Inr (g\<lparr>scheme := s\<rparr>)))"

text \<open>
  The start of the process: an imported package is initialised before the one that imports it, and \<open>main\<close>
  runs last. A panic in an \<open>init\<close> function ends the process with status 2.
\<close>

definition manager_process ::
    "('b, 's, 'e) scheme_lib \<Rightarrow> ('s \<Rightarrow> ('w, 'c, 'k, 'r, 'm, 'p, 'e) manager_env) \<Rightarrow>
     ('w, 'c, 'k, 'm, 'p, 'e, int) mprog" where
  "manager_process lib H =
     (case init_main lib (init_types lib (package_variables lib)) of
        Inl err \<Rightarrow> ret 2
      | Inr g \<Rightarrow> manager_main (H (scheme g)))"

section \<open>What the scheme holds\<close>

text \<open>
  What the libraries document, for a reading \<open>kinds\<close> of the kinds a scheme knows: adding keeps what is
  there; the builder adds every registered type under its group and version; client-go adds the core types.
\<close>

definition go_name :: "api_type \<Rightarrow> string" where
  "go_name t = (case t of HPCJob_type \<Rightarrow> ''HPCJob'' | HPCJobList_type \<Rightarrow> ''HPCJobList'')"

definition adds_kinds :: "('b, 's, 'e) scheme_lib \<Rightarrow> ('s \<Rightarrow> (string \<times> string \<times> string) set) \<Rightarrow> bool" where
  "adds_kinds lib kinds \<longleftrightarrow>
     (\<forall>gv ts s s'. libAddToScheme lib (libRegister lib ts (libBuilder lib gv)) s = (None, s') \<longrightarrow>
        kinds s \<union> (\<lambda>t. (apiGroup gv, apiVersion gv, go_name t)) ` set ts \<subseteq> kinds s') \<and>
     (\<forall>s s'. clientgoAddToScheme lib s = (None, s') \<longrightarrow>
        kinds s \<union> {('''', ''v1'', ''Pod''), ('''', ''v1'', ''Node'')} \<subseteq> kinds s')"

text \<open>
  Whenever \<open>main\<close> runs at all, the scheme of its manager knows the kinds the controller works on, its own
  under their group and version and the core ones; a failed registration ends the process before that,
  without a single step of the start-up.
\<close>

theorem main_knows_its_kinds:
  assumes "adds_kinds lib kinds"
  shows "(manager_process lib H = ret 2 \<and> emitted (manager_process lib H) st = []) \<or>
    (\<exists>s. manager_process lib H = manager_main (H s) \<and>
       {(''hpc.nvidia.com'', ''v1alpha1'', ''HPCJob''), (''hpc.nvidia.com'', ''v1alpha1'', ''HPCJobList''),
        ('''', ''v1'', ''Pod''), ('''', ''v1'', ''Node'')} \<subseteq> kinds s)"
proof (cases "init_main lib (init_types lib (package_variables lib))")
  case (Inl err)
  then have "manager_process lib H = ret 2" by (simp add: manager_process_def)
  then show ?thesis by (simp add: emitted_def)
next
  case (Inr g)
  then obtain s1 where s1: "clientgoAddToScheme lib (libNewScheme lib) = (None, s1)"
    and s2: "libAddToScheme lib (libRegister lib [HPCJob_type, HPCJobList_type] (libBuilder lib GroupVersion)) s1 =
      (None, scheme g)"
    by (auto simp: init_main_def init_types_def package_variables_def AddToScheme_def
        split: prod.splits option.splits)
  have "{('''', ''v1'', ''Pod''), ('''', ''v1'', ''Node'')} \<subseteq> kinds s1"
    using assms s1 unfolding adds_kinds_def by blast
  moreover have "kinds s1 \<union> (\<lambda>t. (apiGroup GroupVersion, apiVersion GroupVersion, go_name t)) ` set [HPCJob_type, HPCJobList_type]
      \<subseteq> kinds (scheme g)"
    using assms s2 unfolding adds_kinds_def by blast
  ultimately have "{(''hpc.nvidia.com'', ''v1alpha1'', ''HPCJob''), (''hpc.nvidia.com'', ''v1alpha1'', ''HPCJobList''),
      ('''', ''v1'', ''Pod''), ('''', ''v1'', ''Node'')} \<subseteq> kinds (scheme g)"
    by (auto simp: GroupVersion_def go_name_def)
  moreover have "manager_process lib H = manager_main (H (scheme g))" using Inr by (simp add: manager_process_def)
  ultimately show ?thesis by blast
qed

text \<open>A library in which a scheme is the list of its kinds, for the witness.\<close>

definition sample_scheme_lib :: "(GroupVersionKey \<times> api_type list, (string \<times> string \<times> string) list, string) scheme_lib" where
  "sample_scheme_lib =
     \<lparr>libNewScheme = [], libBuilder = (\<lambda>gv. (gv, [])), libRegister = (\<lambda>ts (gv, old). (gv, old @ ts)),
      libAddToScheme = (\<lambda>(gv, ts) s. (None, s @ map (\<lambda>t. (apiGroup gv, apiVersion gv, go_name t)) ts)),
      clientgoAddToScheme = (\<lambda>s. (None, s @ [('''', ''v1'', ''Pod''), ('''', ''v1'', ''Node'')]))\<rparr>"

lemma sample_scheme_adds: "adds_kinds sample_scheme_lib set"
  by (auto simp: adds_kinds_def sample_scheme_lib_def)

theorem main_knows_its_kinds_witness:
  "\<exists>s. manager_process sample_scheme_lib (\<lambda>_. sample_manager) = manager_main sample_manager \<and>
     (''hpc.nvidia.com'', ''v1alpha1'', ''HPCJob'') \<in> set s"
proof -
  have "emitted (manager_process sample_scheme_lib (\<lambda>_. sample_manager)) sample_startup \<noteq> []"
    by (simp add: manager_process_def init_main_def init_types_def package_variables_def AddToScheme_def
        sample_scheme_lib_def sample_startup_log)
  then show ?thesis
    using main_knows_its_kinds [OF sample_scheme_adds, of "\<lambda>_. sample_manager" sample_startup] by auto
qed

end
