(* ===== verification/Spec2Isabelle.thy ===== *)
theory Spec2Isabelle
  imports Env_Config Job_Properties Placement Node_Properties Sample_Laws Copy_Laws Tool_Properties
    Scenario_Properties Lab Scheme_Setup
begin

text \<open>
  A verification library for kube-hpc-sentinel, the operator that runs GPU jobs (the custom resource
  HPCJob) on the healthy nodes of a Kubernetes cluster.

  The program. For every HPCJob the reconciler (internal/controller/hpcjob_controller.go) reads the job,
  dispatches on the phase of its status, looks at the pod that bears the job's name, and writes a new
  phase. A job without a pod gets one if a healthy GPU node has room: the discovery
  (internal/controller/gpu_node_discovery.go) lists the GPU nodes through the Kubernetes client
  (pkg/kube/client.go), reads the metrics of all GPUs through the Prometheus client
  (pkg/prometheus/client.go), splits the nodes by the table of healthy ranges, and has two goroutines
  write the verdicts back to the nodes as a taint and a density label, which the capacity check of
  later reconciles reads.

  Around it: the manager (cmd/manager) reads the command line, builds the clients and starts the
  reconciler. The provisioner (cmd/provisioner, internal/provisioner/kind.go) makes a test cluster with
  kind, labels its GPU workers and installs the add-ons. On such a cluster the scenario manager
  (internal/provisioner/fake-scenario/scenario-manager.go) draws the metrics of every GPU at each tick and
  stores them in a config map, which the mock exporter (dcgm-mock-exporter.go) serves to Prometheus, from
  where the discovery reads them; the fake job (fake-hpc-job.go) is what the pods run.

  The model. A function that calls another system is a state-monad program (Effects) over an arbitrary
  state of the outside world and a log of the calls with their answers. The API server, the
  metrics server and the error classifiers of the client library are the fields of a record that
  every operation takes (Kube_Env); the tools take the operating system, kind, helm and the parts of the
  client library they call (Host_Env), and the manager controller-runtime (Manager). Nothing is assumed of
  them unless a theorem says so. Since the world may change at every call, a theorem over all environments
  covers other actors, failures and conflicts. Pure functions are HOL functions; Go's int32 and int64 are
  words, its maps association lists with distinct keys, its float32 and float64 rationals rounded as
  IEEE 754 does (Go_Float), its errors are sums, a slice or map that may be nil is an option; where sharing
  matters, slices and pointers refer to a memory of arrays (Deep_Copy). Log output is left out. Every
  definition evaluates.

  Loops are structural recursions. The two waiting loops of the provisioner (poll_nodes, poll_capacity) are
  recursions on the time that is left before their deadline, which each turn shortens by its interval at
  least, so no fuel is needed and they return in every environment. The endless loop of the scenario
  manager (RunScenarioLoop) takes the number of its turns, and its theorems hold for every number; its ticker
  is a value that knows when its channel was last emptied (Host_Env).

  The theories, each with the source it models:
    Prelude: integers, maps, strings, strconv (locale text_codec, Itoa and Atoi);
    Effects, Simulation, Goroutines: runs, their rules, abstract servers, and two goroutines under a
      schedule (locales goroutine and goroutine_pair);
    Go_Float: rounding to float32 and float64, and its monotonicity;
    Api_Types: api/v1alpha1 and the Kubernetes objects used;
    Deep_Copy: api/v1alpha1/zz_generated.deepcopy.go; Copy_Laws: copies show what the original shows and
      share nothing with it (locale copier, interpreted for the status and for the job);
    Env_Config: pkg/config; Kube_Env: the environment; Kube_Client: pkg/kube;
    Prom_Client: pkg/prometheus; Node_Discovery: gpu_node_discovery.go;
    Reconciler: hpcjob_controller.go;
    Handler_Runs: every run of every handler as a table of its branches, and the contract of the handlers
      (locale job_handler, interpreted for handlePending, handleRunning and handleFailed);
    Reconcile_Facts: the log of a reconcile taken apart;
    Server_Laws: what the API server promises of the versions of a job and of its pod, as abstract servers
      that a reconcile follows step by step, other actors' writes included;
    Placement: two reconciles in a row, with the node the first one labels;
    Sample_Cluster, Sample_Laws: a cluster in memory that keeps those laws, for the witnesses;
    Host_Env: the environment of the tools, random numbers, map order and timers;
    Provisioner: internal/provisioner/kind.go and cmd/provisioner; Provisioner_Laws: its runs;
    Scenario: scenario-manager.go and cmd/scenario-manager; Mock_Tools: dcgm-mock-exporter.go,
      fake-hpc-job.go and their entry points;
    Scenario_Laws: a drawn number from its draw to the controller's verdict; Cluster_Map: the map of the
      cluster, the data of a turn, the config map and the loop; Pipeline: the texts of a turn from the exporter
      through Prometheus to the verdict of the discovery; Lab: provisioner, scenario manager, exporter and
      discovery put together;
    Sample_Host: a host in memory, for the witnesses;
    Manager: cmd/manager, SetupWithManager, NewMetricsProvider and pkg/logger; Scheme_Setup: the package
      variables and the init functions that fill the scheme of the manager;
    Job_Properties, Node_Properties, Tool_Properties, Scenario_Properties, Manager_Properties and this
      theory: the properties.

  What is shown. A pod is created only for a valid new job without a pod, on the strength of a healthy
  node with room seen in the same run, and always then (C1, C2); on a fresh cluster the second reconcile
  creates it, by the labels the first one left (C3); statuses follow a state machine and the pod (C4, C5),
  over any sequence of runs for as long as the job is one object (C6, C7); a job that is gone or failed leaves no pod (C8, C9); nodes are split
  by the last value of every metric and the verdicts are written back under every schedule (C10, C11);
  capacity, the content of the pod, the patches and the labels agree with each other (C12 to C17); the
  bounds of a run, its errors and deletions, finalizers, counting and the report on a GPU (C18 to C25). The
  provisioner's waits end, and find a cluster that settles in time; its add-ons are installed in order and
  its nodes are ones the controller selects (C26 to C31). The parts of the test cluster work together, from
  the provisioner's labels to the verdict of the discovery; the drawn metrics are judged by the controller
  as they were meant, every node of the scenario manager's listing that it selects is registered, what is
  stored is what is served, and no failure stops the loop or makes it skip a tick's turn (C32 to C37). Deep
  copies share no memory (C38). The manager starts only after all its steps but that of the Prometheus client
  have succeeded, with HTTP/2 off unless it is asked for (C39, C40). Some theorems state behaviour that the comments
  or the contributor guide do not lead one to expect; the manifest lists these as findings.

  Not modelled. The test utilities (test/utils) and the tests are not part of the program. The contents of
  error messages are kept as constructors, not as text. A reconcile has a metrics provider: the panic of one
  that was started without (Manager_Properties, runs_without_prometheus) is a finding, not a branch of the
  model. A multiplication and an addition of float64 values round each, as on platforms where the compiler
  does not fuse them.
\<close>

section \<open>What persists in the cluster\<close>

text \<open>
C6: As long as a job is the same object in the API server, its phase changes, over any sequence of reconciles
of any jobs, only along the phase state machine. This needs that the server writes a status only from the
stored resource version, that a resource version stands for one state of the job, and that nobody but the
program writes its status. Anyone may write the job otherwise, delete it, and create it anew; the program reads
it through a cache that may be stale; and an update that failed may have been done.
\<close>

theorem persisted_phase_path:
  assumes "serves E view (phase_server ns name)"
    and "stored (view (world s)) = Some (uid, p)"
    and "stored (view (world (final (serve_requests E requests) s))) = Some (uid, q)"
  shows "q = p \<or> phase_step\<^sup>+\<^sup>+ (effective_phase p) q"
  by (rule serve_requests_phase [OF assms])

theorem persisted_phase_path_witness:
  "phase_step\<^sup>+\<^sup>+ Running Complete \<and>
   stored (versions_of ''lab'' ''train'' (world (final (serve_requests sample_env [([], ''lab'', ''train'')])
     (sample_cluster [sample_job ''train'' ''Running'' 2] [(''n1'', sample_pod ''train'' ''Succeeded'')])))) = Some (''uid'', Complete)"
proof -
  let ?s = "sample_cluster [sample_job ''train'' ''Running'' 2] [(''n1'', sample_pod ''train'' ''Succeeded'')]"
  let ?t = "final (serve_requests sample_env [([], ''lab'', ''train'')]) ?s"
  have 1: "stored (versions_of ''lab'' ''train'' (world ?s)) = Some (''uid'', Running)"
    "stored (versions_of ''lab'' ''train'' (world ?t)) = Some (''uid'', Complete)"
    unfolding stored_versions_of by code_simp+
  then show ?thesis
    using persisted_phase_path [OF sample_serves_phase 1] by (simp add: effective_phase_def)
qed

text \<open>
C7: Failed and Complete are final: once stored, no sequence of reconciles leaves them while the job is the
same object. The laws of the server are those of C6: a status is written only from the stored resource
version, and by nobody but the program.
\<close>

theorem final_phases_persist:
  assumes "serves E view (phase_server ns name)"
    and "stored (view (world s)) = Some (uid, p)" and "p \<in> {Failed, Complete}"
    and "stored (view (world (final (serve_requests E requests) s))) = Some (uid, q)"
  shows "q = p"
  using serve_requests_phase [OF assms(1,2,4)] assms(3) phase_step_absorbing by (auto simp: effective_phase_def)

theorem final_phases_persist_witness:
  "stored (versions_of ''lab'' ''train'' (world (final (serve_requests sample_env
     [([], ''lab'', ''train''), ([True], ''lab'', ''other''), ([], ''lab'', ''train'')])
     (sample_cluster [sample_job ''train'' ''Failed'' 2] [(''n1'', sample_pod ''train'' ''Running'')])))) = Some (''uid'', Failed)"
proof -
  let ?s = "sample_cluster [sample_job ''train'' ''Failed'' 2] [(''n1'', sample_pod ''train'' ''Running'')]"
  let ?t = "final (serve_requests sample_env [([], ''lab'', ''train''), ([True], ''lab'', ''other''), ([], ''lab'', ''train'')]) ?s"
  have f: "stored (versions_of ''lab'' ''train'' (world ?s)) = Some (''uid'', Failed)"
    and "find_job ''lab'' ''train'' (world ?t) \<noteq> None"
    unfolding stored_versions_of by code_simp+
  then obtain q where q: "stored (versions_of ''lab'' ''train'' (world ?t)) = Some (''uid'', q)"
    by (auto simp: stored_versions_of)
  then show ?thesis using final_phases_persist [OF sample_serves_phase f _ q] by simp
qed

text \<open>
C8: Cleanup is complete. When a reconcile finds its job gone and ends without an error, no live pod
bears the job's name in its namespace. This needs that the server lists every live pod of a name,
takes the deletions it accepts for the end of the pod, and that nobody else creates that pod.
\<close>

theorem gone_job_leaves_no_pod:
  assumes "serves E view (pod_server E ns name)"
    and "fst (srvGetJob E ns name (world s)) = Inl e" and "IsNotFound E e"
    and "snd (result (Reconcile E sched ns name) s) = None"
  shows "\<not> view (world (final (Reconcile E sched ns name) s))"
proof -
  obtain rest where L: "emitted (Reconcile E sched ns name) s = GetJob ns name (Inl e) # rest"
    and c: "cleanup_run ns name (result (Reconcile E sched ns name) s) rest"
    using Reconcile_unfetched [OF assms(2), of sched] assms(3) by auto
  obtain b where "path (pod_server E ns name) b rest (view (world (final (Reconcile E sched ns name) s)))"
    using simulatesD [OF simulates_Reconcile [OF assms(1), where sched = sched and ns = ns and name = name], of s]
    unfolding L by auto
  then show ?thesis by (rule cleanup_run_pod [OF c assms(4)])
qed

theorem gone_job_leaves_no_pod_witness:
  "\<not> has_live_pod ''lab'' ''train'' (world (final (Reconcile sample_env [] ''lab'' ''train'')
     (sample_cluster [] [(''n1'', sample_pod ''train'' ''Running'')])))"
proof -
  let ?s = "sample_cluster [] [(''n1'', sample_pod ''train'' ''Running'')]"
  have "fst (srvGetJob sample_env ''lab'' ''train'' (world ?s)) = Inl ''notfound''"
    "IsNotFound sample_env ''notfound''"
    "snd (result (Reconcile sample_env [] ''lab'' ''train'') ?s) = None" by code_simp+
  from gone_job_leaves_no_pod [OF sample_serves_pod this] show ?thesis .
qed

text \<open>
C9: A Failed job holds no GPUs: when a reconcile of a job it fetched as Failed ends without an error,
the job has no live pod. The laws of the server are those of C8.
\<close>

theorem failed_job_leaves_no_pod:
  assumes "serves E view (pod_server E (jobNamespace job) (jobName job))"
    and "fst (srvGetJob E ns name (world s)) = Inr job" and "phase_of job = Failed"
    and "snd (result (Reconcile E sched ns name) s) = None"
  shows "\<not> view (world (final (Reconcile E sched ns name) s))"
proof -
  obtain rest where L: "emitted (Reconcile E sched ns name) s = GetJob ns name (Inr job) # rest"
    and f: "failed_run E job (result (Reconcile E sched ns name) s) rest"
    using Reconcile_failed [OF assms(2,3)] by blast
  obtain b where "path (pod_server E (jobNamespace job) (jobName job)) b rest
      (view (world (final (Reconcile E sched ns name) s)))"
    using simulatesD [OF simulates_Reconcile [OF assms(1), where sched = sched and ns = ns and name = name], of s]
    unfolding L by auto
  then show ?thesis by (rule failed_run_pod [OF f assms(4)])
qed

theorem failed_job_leaves_no_pod_witness:
  "\<not> has_live_pod ''lab'' ''train'' (world (final (Reconcile sample_env [] ''lab'' ''train'')
     (sample_cluster [sample_job ''train'' ''Failed'' 2] [(''n1'', sample_pod ''train'' ''Running'')])))"
proof -
  let ?j = "sample_job ''train'' ''Failed'' 2"
  let ?s = "sample_cluster [?j] [(''n1'', sample_pod ''train'' ''Running'')]"
  have 1: "fst (srvGetJob sample_env ''lab'' ''train'' (world ?s)) = Inr ?j" by code_simp
  have 2: "phase_of ?j = Failed" by code_simp
  have 3: "snd (result (Reconcile sample_env [] ''lab'' ''train'') ?s) = None" by code_simp
  have "jobNamespace ?j = ''lab''" "jobName ?j = ''train''" by code_simp+
  with failed_job_leaves_no_pod [OF sample_serves_pod 1 2 3] show ?thesis by simp
qed

end
